(* ===== verification/Prelude.thy ===== *)
theory Prelude
  imports Main "HOL-Library.AList" "HOL-Library.Sublist" "HOL-Library.Char_ord" "HOL-Library.List_Lexorder"
begin

text \<open>
  Shared vocabulary of the development: Python exceptions as values, a result type with its
  sequencing combinators, Python's insertion-ordered dictionaries (association lists updated
  with \<open>AList.update\<close>), the string operations the sources use (\<open>str.split\<close>,
  \<open>str.startswith\<close>, \<open>str.endswith\<close>, \<open>str.join\<close>) and the collections of facts
  the component theories rewrite with.

  Strings are HOL strings, so a character is one of 256 codes; the sources' strings are only
  compared, concatenated and split at ASCII separators.
\<close>

named_theorems result_simps \<open>equations of the result combinators\<close>
named_theorems row_simps \<open>what a row update does to the fields of a row\<close>
named_theorems inv_intros \<open>introduction rules for component invariants\<close>

section \<open>Exceptions and results\<close>

text \<open>
  One constructor for each exception class the modelled sources raise or catch; the argument is
  the message the source gives, without the parts it formats in where no caller reads them.
\<close>

datatype exn =
    ValueError string
  | KeyError string
  | IndexError string
  | StopIteration string
  | TypeError string
  | PermissionError string
  | FileNotFoundError string
  | RuntimeError string
  | NotImplementedError string
  | TimeoutError string
  | FloatingPointError string
  | IntegrityError string
  | AttributeError string
  | OSError string
  | SyntaxError string
  | ZeroDivisionError string
  | UnicodeDecodeError string
  | ImportError string
  | OverflowError string
  | ExperimentBlocked string
  | BackendProtocolError string
  | RegistryError string
  | SandboxSecurityError string
  | SandboxEvaluationError string

text \<open>\<open>type(e).__name__\<close> and \<open>str(e)\<close>.\<close>

fun exn_name :: "exn \<Rightarrow> string" where
  "exn_name (ValueError m) = ''ValueError''"
| "exn_name (KeyError m) = ''KeyError''"
| "exn_name (IndexError m) = ''IndexError''"
| "exn_name (StopIteration m) = ''StopIteration''"
| "exn_name (TypeError m) = ''TypeError''"
| "exn_name (PermissionError m) = ''PermissionError''"
| "exn_name (FileNotFoundError m) = ''FileNotFoundError''"
| "exn_name (RuntimeError m) = ''RuntimeError''"
| "exn_name (NotImplementedError m) = ''NotImplementedError''"
| "exn_name (TimeoutError m) = ''TimeoutError''"
| "exn_name (FloatingPointError m) = ''FloatingPointError''"
| "exn_name (IntegrityError m) = ''IntegrityError''"
| "exn_name (AttributeError m) = ''AttributeError''"
| "exn_name (OSError m) = ''OSError''"
| "exn_name (SyntaxError m) = ''SyntaxError''"
| "exn_name (ZeroDivisionError m) = ''ZeroDivisionError''"
| "exn_name (UnicodeDecodeError m) = ''UnicodeDecodeError''"
| "exn_name (ImportError m) = ''ImportError''"
| "exn_name (OverflowError m) = ''OverflowError''"
| "exn_name (ExperimentBlocked m) = ''ExperimentBlocked''"
| "exn_name (BackendProtocolError m) = ''BackendProtocolError''"
| "exn_name (RegistryError m) = ''RegistryError''"
| "exn_name (SandboxSecurityError m) = ''SandboxSecurityError''"
| "exn_name (SandboxEvaluationError m) = ''SandboxEvaluationError''"

fun exn_message :: "exn \<Rightarrow> string" where
  "exn_message (ValueError m) = m"
| "exn_message (KeyError m) = m"
| "exn_message (IndexError m) = m"
| "exn_message (StopIteration m) = m"
| "exn_message (TypeError m) = m"
| "exn_message (PermissionError m) = m"
| "exn_message (FileNotFoundError m) = m"
| "exn_message (RuntimeError m) = m"
| "exn_message (NotImplementedError m) = m"
| "exn_message (TimeoutError m) = m"
| "exn_message (FloatingPointError m) = m"
| "exn_message (IntegrityError m) = m"
| "exn_message (AttributeError m) = m"
| "exn_message (OSError m) = m"
| "exn_message (SyntaxError m) = m"
| "exn_message (ZeroDivisionError m) = m"
| "exn_message (UnicodeDecodeError m) = m"
| "exn_message (ImportError m) = m"
| "exn_message (OverflowError m) = m"
| "exn_message (ExperimentBlocked m) = m"
| "exn_message (BackendProtocolError m) = m"
| "exn_message (RegistryError m) = m"
| "exn_message (SandboxSecurityError m) = m"
| "exn_message (SandboxEvaluationError m) = m"

text \<open>\<open>f"{type(e).__name__}: {e}"\<close>.\<close>

definition exn_text :: "exn \<Rightarrow> string" where
  "exn_text e = exn_name e @ '': '' @ exn_message e"

type_synonym 'a result = "exn + 'a"

definition andThen :: "'a result \<Rightarrow> ('a \<Rightarrow> 'b result) \<Rightarrow> 'b result" where
  "andThen r f = (case r of Inl e \<Rightarrow> Inl e | Inr x \<Rightarrow> f x)"

lemma andThen_Inl [simp, result_simps]: "andThen (Inl e) f = Inl e"
  by (simp add: andThen_def)

lemma andThen_Inr [simp, result_simps]: "andThen (Inr x) f = f x"
  by (simp add: andThen_def)

lemma andThen_eq_Inr [result_simps]: "andThen r f = Inr y \<longleftrightarrow> (\<exists>x. r = Inr x \<and> f x = Inr y)"
  by (cases r) auto

lemma andThen_eq_Inl [result_simps]:
  "andThen r f = Inl e \<longleftrightarrow> r = Inl e \<or> (\<exists>x. r = Inr x \<and> f x = Inl e)"
  by (cases r) auto

lemma andThen_cong [fundef_cong]:
  "r = r' \<Longrightarrow> (\<And>x. r' = Inr x \<Longrightarrow> f x = f' x) \<Longrightarrow> andThen r f = andThen r' f'"
  by (cases r') auto

definition check :: "bool \<Rightarrow> exn \<Rightarrow> unit result" where
  "check ok e = (if ok then Inr () else Inl e)"

lemma check_eq_Inr [simp, result_simps]: "check ok e = Inr u \<longleftrightarrow> ok"
  by (simp add: check_def)

lemma check_eq_Inl [simp, result_simps]: "check ok e = Inl e' \<longleftrightarrow> \<not> ok \<and> e' = e"
  by (auto simp: check_def)

lemma check_True [simp]: "check True e = Inr ()"
  by (simp add: check_def)

lemma check_False [simp]: "check False e = Inl e"
  by (simp add: check_def)

lemma if_Inl_eq_Inr [simp, result_simps]: "(if ok then r else Inl e) = Inr y \<longleftrightarrow> ok \<and> r = Inr y"
  by simp

lemma if_not_Inl_eq_Inr [simp, result_simps]:
  "(if bad then Inl e else r) = Inr y \<longleftrightarrow> \<not> bad \<and> r = Inr y"
  by simp

text \<open>A value that must be present, as in \<open>if x is None: raise e\<close>.\<close>

definition require :: "'a option \<Rightarrow> exn \<Rightarrow> 'a result" where
  "require x e = (case x of None \<Rightarrow> Inl e | Some v \<Rightarrow> Inr v)"

lemma require_simps [simp, result_simps]:
  "require None e = Inl e" "require (Some v) e = Inr v"
  by (simp_all add: require_def)

lemma require_eq_Inr [result_simps]: "require x e = Inr v \<longleftrightarrow> x = Some v"
  by (cases x) auto

lemma require_eq_Inl [result_simps]: "require x e = Inl e' \<longleftrightarrow> x = None \<and> e' = e"
  by (cases x) auto

text \<open>A comprehension whose body may raise: the first exception ends it.\<close>

fun map_result :: "('a \<Rightarrow> 'b result) \<Rightarrow> 'a list \<Rightarrow> 'b list result" where
  "map_result f [] = Inr []"
| "map_result f (x # xs) =
     andThen (f x) (\<lambda>y. andThen (map_result f xs) (\<lambda>ys. Inr (y # ys)))"

text \<open>A loop over a list that threads a state and may raise.\<close>

fun fold_result :: "('a \<Rightarrow> 's \<Rightarrow> 's result) \<Rightarrow> 'a list \<Rightarrow> 's \<Rightarrow> 's result" where
  "fold_result f [] s = Inr s"
| "fold_result f (x # xs) s = andThen (f x s) (fold_result f xs)"

lemma fold_result_append:
  "fold_result f (xs @ ys) s = andThen (fold_result f xs s) (fold_result f ys)"
  by (induction xs arbitrary: s) (auto simp: andThen_def split: sum.splits)

lemma fold_result_invariant:
  assumes "fold_result f xs s = Inr s'" and "P s"
    and step: "\<And>x s s'. x \<in> set xs \<Longrightarrow> P s \<Longrightarrow> f x s = Inr s' \<Longrightarrow> P s'"
  shows "P s'"
  using assms
proof (induction xs arbitrary: s)
  case Nil
  then show ?case by simp
next
  case (Cons x xs)
  from Cons.prems(1) obtain t where t: "f x s = Inr t" "fold_result f xs t = Inr s'"
    by (auto simp: andThen_eq_Inr)
  from t(1) Cons.prems(2,3) have "P t" by (metis list.set_intros(1))
  with Cons.IH [OF t(2)] Cons.prems(3) show ?case by (metis list.set_intros(2))
qed

lemma map_result_eq_Inr:
  "map_result f xs = Inr ys \<longleftrightarrow> list_all2 (\<lambda>x y. f x = Inr y) xs ys"
proof (induction xs arbitrary: ys)
  case Nil
  then show ?case by auto
next
  case (Cons x xs)
  then show ?case by (cases ys) (auto simp: andThen_eq_Inr)
qed

text \<open>The first check of a list that fails, or success: a sequence of \<open>if ...: raise\<close>.\<close>

fun first_failure :: "(bool \<times> exn) list \<Rightarrow> unit result" where
  "first_failure [] = Inr ()"
| "first_failure ((ok, e) # cs) = (if ok then first_failure cs else Inl e)"

lemma first_failure_eq_Inr: "first_failure cs = Inr u \<longleftrightarrow> (\<forall>c \<in> set cs. fst c)"
  by (induction cs rule: first_failure.induct) (auto split: if_splits)

section \<open>Dictionaries\<close>

text \<open>
  A Python dictionary keeps insertion order, and assigning an existing key keeps its place:
  \<open>AList.update\<close> on an association list does the same.
\<close>

type_synonym ('k, 'v) dict = "('k \<times> 'v) list"

abbreviation dict_get :: "('k, 'v) dict \<Rightarrow> 'k \<Rightarrow> 'v option" where
  "dict_get d k \<equiv> map_of d k"

abbreviation dict_set :: "'k \<Rightarrow> 'v \<Rightarrow> ('k, 'v) dict \<Rightarrow> ('k, 'v) dict" where
  "dict_set k v d \<equiv> AList.update k v d"

abbreviation dict_del :: "'k \<Rightarrow> ('k, 'v) dict \<Rightarrow> ('k, 'v) dict" where
  "dict_del k d \<equiv> AList.delete k d"

abbreviation dict_keys :: "('k, 'v) dict \<Rightarrow> 'k list" where
  "dict_keys d \<equiv> map fst d"

lemma dict_get_set [simp]: "dict_get (dict_set k v d) = (dict_get d)(k \<mapsto> v)"
  by (rule ext) (simp add: update_conv')

lemma dict_get_del [simp]: "dict_get (dict_del k d) = (dict_get d)(k := None)"
  by (rule ext) (simp add: delete_conv')

text \<open>\<open>d.setdefault(k, []).append(v)\<close>.\<close>

definition dict_append :: "'k \<Rightarrow> 'v \<Rightarrow> ('k, 'v list) dict \<Rightarrow> ('k, 'v list) dict" where
  "dict_append k v d = dict_set k ((case dict_get d k of None \<Rightarrow> [] | Some vs \<Rightarrow> vs) @ [v]) d"

lemma dict_get_append:
  "dict_get (dict_append k v d) k' =
     (if k' = k then Some ((case dict_get d k of None \<Rightarrow> [] | Some vs \<Rightarrow> vs) @ [v])
      else dict_get d k')"
  by (simp add: dict_append_def)

text \<open>\<open>{**d, **e}\<close>, or \<open>d.update(e)\<close>.\<close>

definition dict_merge :: "('k, 'v) dict \<Rightarrow> ('k, 'v) dict \<Rightarrow> ('k, 'v) dict" where
  "dict_merge d e = fold (\<lambda>(k, v). dict_set k v) e d"

text \<open>A dictionary built by a comprehension: a later equal key overwrites the value.\<close>

definition dict_of :: "('k \<times> 'v) list \<Rightarrow> ('k, 'v) dict" where
  "dict_of kvs = dict_merge [] kvs"

lemma dict_get_merge: "dict_get (dict_merge d e) k = (dict_get d ++ map_of (rev e)) k"
proof (induction e arbitrary: d)
  case Nil
  then show ?case by (simp add: dict_merge_def)
next
  case (Cons kv e)
  have "dict_merge d (kv # e) = dict_merge (dict_set (fst kv) (snd kv) d) e"
    by (simp add: dict_merge_def split: prod.split)
  with Cons show ?case
    by (cases kv) (auto simp: map_add_def split: option.splits)
qed

lemma dict_get_of: "dict_get (dict_of kvs) = map_of (rev kvs)"
  by (rule ext) (simp add: dict_of_def dict_get_merge)

lemma distinct_dict_merge: "distinct (dict_keys d) \<Longrightarrow> distinct (dict_keys (dict_merge d e))"
  by (induction e arbitrary: d) (auto simp: dict_merge_def distinct_update split: prod.split)

lemma distinct_dict_of: "distinct (dict_keys (dict_of kvs))"
  by (simp add: dict_of_def distinct_dict_merge)

lemma dict_of_distinct: "distinct (map fst kvs) \<Longrightarrow> dict_get (dict_of kvs) = map_of kvs"
  by (simp add: dict_get_of map_of_inject_set rev_map [symmetric])

section \<open>Strings\<close>

text \<open>\<open>s.split(c)\<close> for a one-character separator.\<close>

fun split_on :: "char \<Rightarrow> string \<Rightarrow> string list" where
  "split_on c [] = [[]]"
| "split_on c (x # xs) =
     (if x = c then [] # split_on c xs
      else case split_on c xs of [] \<Rightarrow> [[x]] | y # ys \<Rightarrow> (x # y) # ys)"

text \<open>\<open>c.join(parts)\<close>.\<close>

fun join_with :: "string \<Rightarrow> string list \<Rightarrow> string" where
  "join_with sep [] = []"
| "join_with sep [x] = x"
| "join_with sep (x # y # ys) = x @ sep @ join_with sep (y # ys)"

lemma split_on_not_Nil [simp]: "split_on c s \<noteq> []"
  by (induction s) (auto split: list.splits)

lemma join_split: "join_with [c] (split_on c s) = s"
proof (induction s)
  case Nil
  then show ?case by simp
next
  case (Cons x xs)
  obtain y ys where ys: "split_on c xs = y # ys" by (cases "split_on c xs") auto
  with Cons show ?case by (cases ys) auto
qed

lemma split_on_free: "p \<in> set (split_on c s) \<Longrightarrow> c \<notin> set p"
proof (induction s arbitrary: p)
  case Nil
  then show ?case by simp
next
  case (Cons x xs)
  obtain y ys where ys: "split_on c xs = y # ys" by (cases "split_on c xs") auto
  with Cons show ?case by (auto split: if_splits)
qed

text \<open>\<open>s.split(c, 1)[0]\<close>, and \<open>s.split(c, 1)[1]\<close> where the separator occurs.\<close>

definition before_first :: "char \<Rightarrow> string \<Rightarrow> string" where
  "before_first c s = takeWhile (\<lambda>x. x \<noteq> c) s"

definition after_first :: "char \<Rightarrow> string \<Rightarrow> string option" where
  "after_first c s = (case dropWhile (\<lambda>x. x \<noteq> c) s of [] \<Rightarrow> None | _ # t \<Rightarrow> Some t)"

lemma before_first_append: "c \<notin> set a \<Longrightarrow> before_first c (a @ c # b) = a"
  by (simp add: before_first_def takeWhile_append)

lemma after_first_append: "c \<notin> set a \<Longrightarrow> after_first c (a @ c # b) = Some b"
  by (induction a) (auto simp: after_first_def)

text \<open>\<open>s.rsplit(c, 1)[-1]\<close>: what follows the last separator, the whole string if there is none.\<close>

definition after_last :: "char \<Rightarrow> string \<Rightarrow> string" where
  "after_last c s = last (split_on c s)"

lemma split_on_no_sep: "c \<notin> set s \<Longrightarrow> split_on c s = [s]"
  by (induction s) auto

lemma split_on_append: "split_on c (a @ c # b) = split_on c a @ split_on c b"
proof (induction a)
  case Nil
  then show ?case by simp
next
  case (Cons x xs)
  obtain y ys where ys: "split_on c xs = y # ys" by (cases "split_on c xs") auto
  with Cons show ?case by auto
qed

lemma after_last_append: "c \<notin> set b \<Longrightarrow> after_last c (a @ c # b) = b"
  by (simp add: after_last_def split_on_append split_on_no_sep)

abbreviation starts_with :: "string \<Rightarrow> string \<Rightarrow> bool" where
  "starts_with s p \<equiv> prefix p s"

abbreviation ends_with :: "string \<Rightarrow> string \<Rightarrow> bool" where
  "ends_with s p \<equiv> suffix p s"

text \<open>Character classes of the regular expressions in the sources.\<close>

definition is_alpha :: "char \<Rightarrow> bool" where
  "is_alpha c \<longleftrightarrow> (CHR ''a'' \<le> c \<and> c \<le> CHR ''z'') \<or> (CHR ''A'' \<le> c \<and> c \<le> CHR ''Z'')"

definition is_digit :: "char \<Rightarrow> bool" where
  "is_digit c \<longleftrightarrow> CHR ''0'' \<le> c \<and> c \<le> CHR ''9''"

definition is_alnum :: "char \<Rightarrow> bool" where
  "is_alnum c \<longleftrightarrow> is_alpha c \<or> is_digit c"

definition is_hex_lower :: "char \<Rightarrow> bool" where
  "is_hex_lower c \<longleftrightarrow> is_digit c \<or> (CHR ''a'' \<le> c \<and> c \<le> CHR ''f'')"

definition is_hex :: "char \<Rightarrow> bool" where
  "is_hex c \<longleftrightarrow> is_hex_lower c \<or> (CHR ''A'' \<le> c \<and> c \<le> CHR ''F'')"

text \<open>\<open>str.lower()\<close> on ASCII letters.\<close>

definition lower_char :: "char \<Rightarrow> char" where
  "lower_char c =
     (if CHR ''A'' \<le> c \<and> c \<le> CHR ''Z'' then char_of (of_char c + 32 :: nat) else c)"

abbreviation lower :: "string \<Rightarrow> string" where
  "lower \<equiv> map lower_char"

section \<open>Lists of rows\<close>

text \<open>
  The first row with a key, and the row update of an SQL \<open>UPDATE ... WHERE\<close>: rows that match
  are rewritten in place, and \<open>rowcount\<close> is their number.
\<close>

definition find_by :: "('r \<Rightarrow> 'k) \<Rightarrow> 'k \<Rightarrow> 'r list \<Rightarrow> 'r option" where
  "find_by key k rs = find (\<lambda>r. key r = k) rs"

definition update_where :: "('r \<Rightarrow> bool) \<Rightarrow> ('r \<Rightarrow> 'r) \<Rightarrow> 'r list \<Rightarrow> 'r list" where
  "update_where p f rs = map (\<lambda>r. if p r then f r else r) rs"

definition rowcount :: "('r \<Rightarrow> bool) \<Rightarrow> 'r list \<Rightarrow> nat" where
  "rowcount p rs = length (filter p rs)"

lemma find_by_simps [simp]:
  "find_by key k [] = None"
  "find_by key k (r # rs) = (if key r = k then Some r else find_by key k rs)"
  by (simp_all add: find_by_def)

lemma find_by_SomeD: "find_by key k rs = Some r \<Longrightarrow> r \<in> set rs \<and> key r = k"
  by (induction rs) (auto split: if_splits)

lemma find_by_None: "find_by key k rs = None \<longleftrightarrow> k \<notin> key ` set rs"
  by (induction rs) auto

lemma find_by_distinct:
  "distinct (map key rs) \<Longrightarrow> r \<in> set rs \<Longrightarrow> find_by key (key r) rs = Some r"
  by (induction rs) (auto simp: image_iff)

lemma find_by_append:
  "find_by key k (xs @ ys) = (case find_by key k xs of None \<Rightarrow> find_by key k ys | Some r \<Rightarrow> Some r)"
  by (induction xs) auto

lemma find_by_update_where:
  assumes "\<And>r. key (f r) = key r"
  shows "find_by key k (update_where p f rs) =
     map_option (\<lambda>r. if p r then f r else r) (find_by key k rs)"
  by (induction rs) (auto simp: update_where_def assms)

lemma keys_update_where:
  assumes "\<And>r. key (f r) = key r"
  shows "map key (update_where p f rs) = map key rs"
  by (induction rs) (auto simp: update_where_def assms)

lemma rowcount_key_unique:
  assumes "distinct (map key rs)"
  shows "rowcount (\<lambda>r. key r = k \<and> q r) rs =
     (case find_by key k rs of None \<Rightarrow> 0 | Some r \<Rightarrow> if q r then 1 else 0)"
  using assms
proof (induction rs)
  case Nil
  then show ?case by (simp add: rowcount_def)
next
  case (Cons a rs)
  show ?case
  proof (cases "key a = k")
    case True
    with Cons.prems have "\<forall>r \<in> set rs. key r \<noteq> k" by (auto simp: image_iff)
    then have "filter (\<lambda>r. key r = k \<and> q r) rs = []" by (auto simp: filter_empty_conv)
    with True show ?thesis by (simp add: rowcount_def)
  next
    case False
    with Cons show ?thesis by (auto simp: rowcount_def)
  qed
qed

text \<open>Rows sorted by a key, stably, as \<open>ORDER BY\<close> on a total key gives them.\<close>

lemma find_sort_key_in: "find p (sort_key f xs) = Some x \<Longrightarrow> x \<in> set xs \<and> p x"
  by (metis find_Some_iff nth_mem set_sort)

lemma find_sort_key_least:
  assumes "find p (sort_key f xs) = Some x" and "y \<in> set xs" and "p y"
  shows "f x \<le> f y"
proof -
  let ?s = "sort_key f xs"
  from assms(1) obtain i where i: "i < length ?s" "p (?s ! i)" "?s ! i = x"
    "\<forall>j < i. \<not> p (?s ! j)" by (auto simp: find_Some_iff)
  from assms(2) have "y \<in> set ?s" by simp
  then obtain j where j: "j < length ?s" "?s ! j = y" unfolding in_set_conv_nth by blast
  with i(4) assms(3) have "i \<le> j" by (metis not_le)
  moreover have "sorted (map f ?s)" by simp
  ultimately have "map f ?s ! i \<le> map f ?s ! j"
    using j(1) by (intro sorted_nth_mono) auto
  with i j show ?thesis by simp
qed

end
