(* ===== verification/Pyval.thy ===== *)
theory Pyval
  imports Complex_Main Prelude
begin

text \<open>
  The dynamic values of the sources: what JSON and YAML documents decode to, and what
  \<open>dict[str, Any]\<close> fields, metrics, stimuli and assertion operands hold, with Python's
  equality, ordering, membership and truth on them.

  A finite float is the rational number it denotes; the two infinities and the not-a-number
  value are separate. Comparison of floats is exact on these, as it is in Python. Float
  arithmetic, which rounds, is not defined here.
\<close>

datatype pyfloat = Fin rat | PosInf | NegInf | NaN

datatype pyval =
    PNone
  | PBool bool
  | PInt int
  | PFloat pyfloat
  | PStr string
  | PList "pyval list"
  | PDict "(string \<times> pyval) list"

section \<open>Numbers\<close>

text \<open>\<open>math.isfinite\<close>.\<close>

fun is_finite :: "pyfloat \<Rightarrow> bool" where
  "is_finite (Fin q) = True"
| "is_finite _ = False"

fun float_eq :: "pyfloat \<Rightarrow> pyfloat \<Rightarrow> bool" where
  "float_eq (Fin a) (Fin b) = (a = b)"
| "float_eq PosInf PosInf = True"
| "float_eq NegInf NegInf = True"
| "float_eq _ _ = False"

fun float_lt :: "pyfloat \<Rightarrow> pyfloat \<Rightarrow> bool" where
  "float_lt NaN _ = False"
| "float_lt _ NaN = False"
| "float_lt (Fin a) (Fin b) = (a < b)"
| "float_lt NegInf b = (b \<noteq> NegInf)"
| "float_lt a PosInf = (a \<noteq> PosInf)"
| "float_lt _ _ = False"

definition float_le :: "pyfloat \<Rightarrow> pyfloat \<Rightarrow> bool" where
  "float_le a b \<longleftrightarrow> float_lt a b \<or> float_eq a b"

text \<open>\<open>bool\<close> and \<open>int\<close> compare with \<open>float\<close> by value.\<close>

fun number :: "pyval \<Rightarrow> pyfloat option" where
  "number (PBool b) = Some (Fin (if b then 1 else 0))"
| "number (PInt i) = Some (Fin (of_int i))"
| "number (PFloat f) = Some f"
| "number _ = None"

section \<open>Equality\<close>

fun py_eq :: "pyval \<Rightarrow> pyval \<Rightarrow> bool"
  and py_eq_list :: "pyval list \<Rightarrow> pyval list \<Rightarrow> bool"
  and py_eq_items :: "(string \<times> pyval) list \<Rightarrow> (string \<times> pyval) list \<Rightarrow> bool"
where
  "py_eq PNone v = (v = PNone)"
| "py_eq (PStr s) v = (v = PStr s)"
| "py_eq (PList xs) v = (case v of PList ys \<Rightarrow> py_eq_list xs ys | _ \<Rightarrow> False)"
| "py_eq (PDict d) v =
     (case v of PDict e \<Rightarrow> length d = length e \<and> py_eq_items d e | _ \<Rightarrow> False)"
| "py_eq u v =
     (case (number u, number v) of (Some a, Some b) \<Rightarrow> float_eq a b | _ \<Rightarrow> False)"
| "py_eq_list [] ys = (ys = [])"
| "py_eq_list (x # xs) ys = (case ys of [] \<Rightarrow> False | y # zs \<Rightarrow> py_eq x y \<and> py_eq_list xs zs)"
| "py_eq_items [] e = True"
| "py_eq_items ((k, v) # d) e =
     ((case map_of e k of None \<Rightarrow> False | Some w \<Rightarrow> py_eq v w) \<and> py_eq_items d e)"

section \<open>Order\<close>

text \<open>
  \<open>a < b\<close>: numbers by value, strings by code points, lists at the first position where they
  differ; anything else raises \<open>TypeError\<close>. \<open>a <= b\<close> is \<open>a < b\<close> or \<open>a == b\<close> on these
  types, and \<open>a > b\<close>, \<open>a >= b\<close> are the same with the operands exchanged.
\<close>

fun py_lt :: "pyval \<Rightarrow> pyval \<Rightarrow> bool result"
  and py_lt_list :: "pyval list \<Rightarrow> pyval list \<Rightarrow> bool result"
where
  "py_lt (PStr s) v =
     (case v of PStr t \<Rightarrow> Inr (s < t) | _ \<Rightarrow> Inl (TypeError ''unorderable types''))"
| "py_lt (PList xs) v =
     (case v of PList ys \<Rightarrow> py_lt_list xs ys | _ \<Rightarrow> Inl (TypeError ''unorderable types''))"
| "py_lt u v =
     (case (number u, number v) of
        (Some a, Some b) \<Rightarrow> Inr (float_lt a b)
      | _ \<Rightarrow> Inl (TypeError ''unorderable types''))"
| "py_lt_list [] ys = Inr (ys \<noteq> [])"
| "py_lt_list (x # xs) ys =
     (case ys of [] \<Rightarrow> Inr False
      | y # zs \<Rightarrow> if py_eq x y then py_lt_list xs zs else py_lt x y)"

definition py_le :: "pyval \<Rightarrow> pyval \<Rightarrow> bool result" where
  "py_le a b = andThen (py_lt a b) (\<lambda>r. Inr (r \<or> py_eq a b))"

section \<open>Membership and truth\<close>

text \<open>\<open>needle in haystack\<close>; the keys of a dictionary are strings here.\<close>

fun py_in :: "pyval \<Rightarrow> pyval \<Rightarrow> bool result" where
  "py_in needle (PStr s) =
     (case needle of PStr t \<Rightarrow> Inr (sublist t s) | _ \<Rightarrow> Inl (TypeError ''requires string''))"
| "py_in needle (PList xs) = Inr (list_ex (py_eq needle) xs)"
| "py_in needle (PDict d) =
     (case needle of
        PStr k \<Rightarrow> Inr (k \<in> set (map fst d))
      | PList _ \<Rightarrow> Inl (TypeError ''unhashable type'')
      | PDict _ \<Rightarrow> Inl (TypeError ''unhashable type'')
      | _ \<Rightarrow> Inr False)"
| "py_in needle _ = Inl (TypeError ''argument is not iterable'')"

fun truthy :: "pyval \<Rightarrow> bool" where
  "truthy PNone = False"
| "truthy (PBool b) = b"
| "truthy (PInt i) = (i \<noteq> 0)"
| "truthy (PFloat f) = (f \<noteq> Fin 0)"
| "truthy (PStr s) = (s \<noteq> [])"
| "truthy (PList xs) = (xs \<noteq> [])"
| "truthy (PDict d) = (d \<noteq> [])"

section \<open>Facts\<close>

lemma float_eq_refl: "f \<noteq> NaN \<Longrightarrow> float_eq f f"
  by (cases f) auto

lemma float_eq_sym: "float_eq a b = float_eq b a"
  by (induction a b rule: float_eq.induct) auto

lemma float_lt_irrefl [simp]: "\<not> float_lt a a"
  by (cases a) auto

lemma float_lt_asym: "float_lt a b \<Longrightarrow> \<not> float_lt b a"
  by (cases a; cases b) auto

lemma float_lt_not_eq: "float_lt a b \<Longrightarrow> \<not> float_eq a b"
  by (cases a; cases b) auto

lemma float_lt_trans: "float_lt a b \<Longrightarrow> float_lt b c \<Longrightarrow> float_lt a c"
  by (cases a; cases b; cases c) auto

lemma float_le_Fin [simp]: "float_le (Fin a) (Fin b) \<longleftrightarrow> a \<le> b"
  by (auto simp: float_le_def)

text \<open>The trichotomy fails exactly at not-a-number.\<close>

lemma float_trichotomy:
  "a \<noteq> NaN \<Longrightarrow> b \<noteq> NaN \<Longrightarrow> float_lt a b \<or> float_eq a b \<or> float_lt b a"
  by (cases a; cases b) auto

lemma float_NaN [simp]: "\<not> float_le NaN b" "\<not> float_le a NaN"
  by (cases a; cases b; simp add: float_le_def)+

end
