(* ===== verification/Contracts.thy ===== *)
theory Contracts
  imports Pyval
begin

text \<open>
  The strict contracts of \<open>src/src/ael/contracts.py\<close>, first part: the enumerations, physical
  units, problems, systems and experiments. A contract class is a record; its declared field
  constraints and its validators are a \<open>validate\<close> function that returns the record or the
  exception the construction raises. Fields that admit one literal only (\<open>api_version\<close>,
  \<open>kind\<close>) are left out, a \<open>set\<close> field is the list of its members, and a
  \<open>datetime\<close> is its instant in microseconds.
\<close>

section \<open>Enumerations\<close>

datatype problem_category =
    PC_BUILD | PC_CONFIGURATION | PC_BOOT | PC_MEMORY | PC_DIGITAL_IO | PC_TIMING
  | PC_INTERRUPT | PC_DMA | PC_SERIAL_BUS | PC_RTOS | PC_UPDATE | PC_ANALOG | PC_POWER
  | PC_THERMAL | PC_NETWORK | PC_RF | PC_ELECTROMAGNETIC | PC_SECURITY | PC_HARDWARE_ONLY

datatype backend_name =
    BN_ZEPHYR_BUILD | BN_NATIVE | BN_RENODE | BN_NGSPICE | BN_MODELICA | BN_OMSIMULATOR
  | BN_NS3 | BN_OPENEMS | BN_HARDWARE | BN_SYNTHETIC

datatype model_state =
    MS_DRAFT | MS_GENERATED | MS_STATIC_VALIDATED | MS_CONFORMANCE_VALIDATED
  | MS_HARDWARE_VALIDATED | MS_PRODUCTION_APPROVED | MS_DEPRECATED

datatype claim_status =
    CS_UNVERIFIED | CS_MODEL_DEPENDENT | CS_SIMULATION_VALIDATED | CS_HARDWARE_VALIDATED
  | CS_PRODUCTION_APPROVED

datatype run_status =
    RS_QUEUED | RS_RUNNING | RS_PASSED | RS_FAILED | RS_BLOCKED | RS_CANCELLED

datatype worker_kind = WK_SIMULATION | WK_LAB

datatype task_status =
    TS_QUEUED | TS_LEASED | TS_RUNNING | TS_SUCCEEDED | TS_FAILED | TS_CANCELLED | TS_EXPIRED

datatype release_profile = RP_FOUNDATION | RP_SIMULATION | RP_SOFTWARE | RP_PRODUCTION

text \<open>The members in the order of their declaration, which iteration over the class follows.\<close>

definition backend_names :: "backend_name list" where
  "backend_names =
     [BN_ZEPHYR_BUILD, BN_NATIVE, BN_RENODE, BN_NGSPICE, BN_MODELICA, BN_OMSIMULATOR, BN_NS3,
      BN_OPENEMS, BN_HARDWARE, BN_SYNTHETIC]"

fun backend_value :: "backend_name \<Rightarrow> string" where
  "backend_value BN_ZEPHYR_BUILD = ''zephyr_build''"
| "backend_value BN_NATIVE = ''native''"
| "backend_value BN_RENODE = ''renode''"
| "backend_value BN_NGSPICE = ''ngspice''"
| "backend_value BN_MODELICA = ''openmodelica''"
| "backend_value BN_OMSIMULATOR = ''omsimulator''"
| "backend_value BN_NS3 = ''ns3''"
| "backend_value BN_OPENEMS = ''openems''"
| "backend_value BN_HARDWARE = ''hardware''"
| "backend_value BN_SYNTHETIC = ''synthetic''"

definition model_states :: "model_state list" where
  "model_states =
     [MS_DRAFT, MS_GENERATED, MS_STATIC_VALIDATED, MS_CONFORMANCE_VALIDATED,
      MS_HARDWARE_VALIDATED, MS_PRODUCTION_APPROVED, MS_DEPRECATED]"

fun model_state_value :: "model_state \<Rightarrow> string" where
  "model_state_value MS_DRAFT = ''draft''"
| "model_state_value MS_GENERATED = ''generated''"
| "model_state_value MS_STATIC_VALIDATED = ''static_validated''"
| "model_state_value MS_CONFORMANCE_VALIDATED = ''conformance_validated''"
| "model_state_value MS_HARDWARE_VALIDATED = ''hardware_validated''"
| "model_state_value MS_PRODUCTION_APPROVED = ''production_approved''"
| "model_state_value MS_DEPRECATED = ''deprecated''"

text \<open>\<open>ModelState(value)\<close>: the member with that value, or \<open>ValueError\<close>.\<close>

definition model_state_of :: "pyval \<Rightarrow> model_state result" where
  "model_state_of v =
     require (find (\<lambda>s. v = PStr (model_state_value s)) model_states)
       (ValueError ''not a valid ModelState'')"

fun run_status_value :: "run_status \<Rightarrow> string" where
  "run_status_value RS_QUEUED = ''queued''"
| "run_status_value RS_RUNNING = ''running''"
| "run_status_value RS_PASSED = ''passed''"
| "run_status_value RS_FAILED = ''failed''"
| "run_status_value RS_BLOCKED = ''blocked''"
| "run_status_value RS_CANCELLED = ''cancelled''"

section \<open>Units\<close>

record unit_value =
  uv_value :: pyfloat
  uv_unit :: string

definition unit_symbols :: "string list" where
  "unit_symbols =
     [''A'', ''V'', ''W'', ''J'', ''Ohm'', ''S'', ''F'', ''H'', ''Hz'', ''s'', ''min'', ''h'',
      ''m'', ''g'', ''K'', ''Cel'', ''rad'', ''deg'', ''N'', ''Pa'', ''bit'', ''By'', ''dB'',
      ''dBm'', ''%'', ''C'']"

definition unit_prefixes :: "string list" where
  "unit_prefixes = [''p'', ''n'', ''u'', ''m'', ''c'', ''d'', ''k'', ''M'', ''G'']"

text \<open>\<open>re.findall(r"[A-Za-z%]+", s)\<close>: the maximal runs of characters in a class.\<close>

function runs_of :: "(char \<Rightarrow> bool) \<Rightarrow> string \<Rightarrow> string list" where
  "runs_of p s =
     (case dropWhile (\<lambda>c. \<not> p c) s of
        [] \<Rightarrow> []
      | c # cs \<Rightarrow> takeWhile p (c # cs) # runs_of p (dropWhile p (c # cs)))"
  by pat_completeness auto
termination
proof (relation "measure (\<lambda>(p, s). length s)", goal_cases)
  case (2 p s c cs)
  have "p c" using 2 by (metis dropWhile_eq_Cons_conv)
  then have "length (dropWhile p (c # cs)) \<le> length cs"
    by (simp add: length_dropWhile_le)
  moreover have "length (c # cs) \<le> length s"
    using 2 by (metis length_dropWhile_le)
  ultimately show ?case by simp
qed simp

declare runs_of.simps [simp del]

definition unit_letter :: "char \<Rightarrow> bool" where
  "unit_letter c \<longleftrightarrow> is_alpha c \<or> c = CHR ''%''"

text \<open>The characters outside the class that \<open>re.search\<close> looks for.\<close>

definition unit_char :: "char \<Rightarrow> bool" where
  "unit_char c \<longleftrightarrow> is_alnum c \<or> c \<in> set ''./*^%()-''"

definition unit_token_ok :: "string \<Rightarrow> bool" where
  "unit_token_ok t \<longleftrightarrow>
     t \<in> set unit_symbols \<or>
     list_ex (\<lambda>p. list_ex (\<lambda>s. t = p @ s) unit_symbols) unit_prefixes"

definition validate_unit :: "string \<Rightarrow> string result" where
  "validate_unit value =
     (if value = ''1'' then Inr value
      else let tokens = runs_of unit_letter value in
        if tokens = [] \<or> \<not> list_all unit_token_ok tokens
        then Inl (ValueError ''unit must use supported UCUM symbols'')
        else if \<not> list_all unit_char value
        then Inl (ValueError ''unit must be a compact UCUM-compatible expression'')
        else Inr value)"

definition validate_unit_value :: "unit_value \<Rightarrow> unit_value result" where
  "validate_unit_value u =
     andThen (check (1 \<le> length (uv_unit u) \<and> length (uv_unit u) \<le> 32) (ValueError ''unit length''))
       (\<lambda>_. andThen (validate_unit (uv_unit u)) (\<lambda>s. Inr (u\<lparr>uv_unit := s\<rparr>)))"

section \<open>Problems\<close>

record problem_spec =
  ps_name :: string
  ps_title :: string
  ps_category :: problem_category
  ps_symptoms :: "string list"
  ps_target :: "string option"
  ps_constraints :: "(string, pyval) dict"
  ps_evidence :: "string list"
  ps_desired_claims :: "string list"

definition validate_problem_spec :: "problem_spec \<Rightarrow> problem_spec result" where
  "validate_problem_spec p =
     andThen (first_failure
       [(1 \<le> length (ps_name p) \<and> length (ps_name p) \<le> 128, ValueError ''name''),
        (1 \<le> length (ps_title p) \<and> length (ps_title p) \<le> 256, ValueError ''title''),
        (1 \<le> length (ps_symptoms p), ValueError ''symptoms'')])
       (\<lambda>_. Inr p)"

section \<open>Systems\<close>

datatype port_direction = DIR_input | DIR_output | DIR_bidirectional
datatype data_type = DT_real | DT_integer | DT_boolean | DT_string | DT_bytes

record port =
  port_name :: string
  port_direction :: port_direction
  port_data_type :: data_type
  port_unit :: "string option"

text \<open>\<open>validate_optional_unit\<close> builds a \<open>UnitValue\<close> for its checks and keeps the string.\<close>

definition validate_port :: "port \<Rightarrow> port result" where
  "validate_port p =
     (case port_unit p of
        None \<Rightarrow> Inr p
      | Some u \<Rightarrow>
          andThen (validate_unit_value \<lparr>uv_value = Fin 0, uv_unit = u\<rparr>) (\<lambda>_. Inr p))"

text \<open>The pattern \<open>^[A-Za-z][A-Za-z0-9_.-]*$\<close>.\<close>

definition ident_char :: "char \<Rightarrow> bool" where
  "ident_char c \<longleftrightarrow> is_alnum c \<or> c \<in> set ''_.-''"

fun is_identifier :: "string \<Rightarrow> bool" where
  "is_identifier [] = False"
| "is_identifier (c # cs) = (is_alpha c \<and> list_all ident_char cs)"

record system_component =
  cmp_id :: string
  cmp_type :: string
  cmp_backend :: backend_name
  cmp_model :: "string option"
  cmp_step_us :: "int option"
  cmp_event_driven :: bool
  cmp_direct_feedthrough :: bool
  cmp_ports :: "port list"
  cmp_properties :: "(string, pyval) dict"

definition validate_component :: "system_component \<Rightarrow> system_component result" where
  "validate_component c =
     andThen (map_result validate_port (cmp_ports c)) (\<lambda>_.
     andThen (first_failure
       [(is_identifier (cmp_id c), ValueError ''id''),
        ((case cmp_step_us c of None \<Rightarrow> True | Some s \<Rightarrow> 0 < s), ValueError ''step_us''),
        (cmp_event_driven c \<or> cmp_step_us c \<noteq> None,
         ValueError ''periodic components require step_us'')])
     (\<lambda>_. Inr c))"

record connection =
  con_source :: string
  con_target :: string
  con_unit :: "string option"

text \<open>The pattern of an endpoint: two identifiers with a dot between them.\<close>

definition is_endpoint :: "string \<Rightarrow> bool" where
  "is_endpoint s \<longleftrightarrow>
     list_ex (\<lambda>i. s ! i = CHR ''.'' \<and> is_identifier (take i s) \<and> is_identifier (drop (Suc i) s))
       [0..<length s]"

definition validate_connection :: "connection \<Rightarrow> connection result" where
  "validate_connection c =
     andThen (check (is_endpoint (con_source c) \<and> is_endpoint (con_target c)) (ValueError ''endpoint''))
       (\<lambda>_. Inr c)"

record system_manifest =
  sys_name :: string
  sys_description :: "string option"
  sys_components :: "system_component list"
  sys_connections :: "connection list"
  sys_fidelity :: "(string, string) dict"

definition endpoint_name :: "system_component \<Rightarrow> port \<Rightarrow> string" where
  "endpoint_name c p = cmp_id c @ ''.'' @ port_name p"

definition declared_endpoints :: "system_component list \<Rightarrow> string list" where
  "declared_endpoints cs = concat (map (\<lambda>c. map (endpoint_name c) (cmp_ports c)) cs)"

text \<open>
  \<open>split(".", 1)\<close> of an endpoint into two names (unpacking a single part is a
  \<open>ValueError\<close>), the component from the dictionary (\<open>KeyError\<close>), and \<open>next\<close> over its
  ports (\<open>StopIteration\<close>). A later component with the same id would shadow an earlier one;
  ids are unique at this point.
\<close>

definition endpoint_port :: "system_component list \<Rightarrow> string \<Rightarrow> port result" where
  "endpoint_port cs endpoint =
     andThen (require (after_first CHR ''.'' endpoint) (ValueError ''not enough values to unpack'')) (\<lambda>name.
     andThen (require (find_by cmp_id (before_first CHR ''.'' endpoint) cs) (KeyError endpoint)) (\<lambda>c.
     require (find_by port_name name (cmp_ports c)) (StopIteration endpoint)))"

definition distinct_units :: "string option list \<Rightarrow> string list" where
  "distinct_units us = remdups (map the (filter (\<lambda>u. u \<noteq> None) us))"

text \<open>The body of the loop over the connections in \<open>SystemManifest.validate_topology\<close>.\<close>

definition check_connection :: "system_component list \<Rightarrow> connection \<Rightarrow> unit result" where
  "check_connection cs con =
     andThen (check (con_source con \<in> set (declared_endpoints cs) \<and>
                     con_target con \<in> set (declared_endpoints cs))
               (ValueError ''connection references an unknown port'')) (\<lambda>_.
     andThen (endpoint_port cs (con_source con)) (\<lambda>source_port.
     andThen (endpoint_port cs (con_target con)) (\<lambda>target_port.
     first_failure
       [(\<not> (port_direction source_port = DIR_input \<or> port_direction target_port = DIR_output),
         ValueError ''connection has incompatible direction''),
        (length (distinct_units
           [port_unit source_port, port_unit target_port, con_unit con]) \<le> 1,
         ValueError ''connection has incompatible units''),
        (port_data_type source_port = port_data_type target_port,
         ValueError ''connection has incompatible data types'')])))"

definition validate_topology :: "system_manifest \<Rightarrow> system_manifest result" where
  "validate_topology m =
     andThen (check (distinct (map cmp_id (sys_components m)))
               (ValueError ''component ids must be unique'')) (\<lambda>_.
     andThen (fold_result (\<lambda>con _. check_connection (sys_components m) con) (sys_connections m) ())
     (\<lambda>_. Inr m))"

definition validate_system :: "system_manifest \<Rightarrow> system_manifest result" where
  "validate_system m =
     andThen (map_result validate_component (sys_components m)) (\<lambda>_.
     andThen (map_result validate_connection (sys_connections m)) (\<lambda>_.
     andThen (first_failure
       [(1 \<le> length (sys_name m) \<and> length (sys_name m) \<le> 128, ValueError ''name''),
        (1 \<le> length (sys_components m), ValueError ''components'')]) (\<lambda>_.
     validate_topology m)))"

section \<open>Experiments\<close>

record stimulus =
  stm_at_us :: int
  stm_target :: string
  stm_value :: pyval
  stm_unit :: "string option"

record fault =
  flt_at_us :: int
  flt_target :: string
  flt_type :: string
  flt_parameters :: "(string, pyval) dict"

datatype operator = OP_eq | OP_ne | OP_lt | OP_le | OP_gt | OP_ge | OP_contains

record assertion =
  asr_metric :: string
  asr_operator :: operator
  asr_expected :: pyval
  asr_unit :: "string option"
  asr_critical :: bool

record experiment_spec =
  exp_name :: string
  exp_system :: string
  exp_duration_us :: int
  exp_macro_step_us :: int
  exp_timeout_s :: int
  exp_requires_rollback :: bool
  exp_checkpoint_interval_us :: "int option"
  exp_seed :: int
  exp_stimuli :: "stimulus list"
  exp_faults :: "fault list"
  exp_assertions :: "assertion list"
  exp_observables :: "string list"
  exp_allowed_model_states :: "model_state list"
  exp_tags :: "string list"

text \<open>\<open>ExperimentSpec.validate_timeline\<close>.\<close>

definition validate_timeline :: "experiment_spec \<Rightarrow> experiment_spec result" where
  "validate_timeline e =
     andThen (first_failure
       [(list_all (\<lambda>t. t \<le> exp_duration_us e)
           (map stm_at_us (exp_stimuli e) @ map flt_at_us (exp_faults e)),
         ValueError ''stimulus/fault falls outside experiment duration''),
        (exp_duration_us e mod exp_macro_step_us e = 0,
         ValueError ''duration_us must be divisible by macro_step_us''),
        ((case exp_checkpoint_interval_us e of None \<Rightarrow> True
          | Some i \<Rightarrow> i = 0 \<or> i mod exp_macro_step_us e = 0),
         ValueError ''checkpoint_interval_us must align to macro_step_us'')])
       (\<lambda>_. Inr e)"

definition validate_experiment_spec :: "experiment_spec \<Rightarrow> experiment_spec result" where
  "validate_experiment_spec e =
     andThen (first_failure
       [(1 \<le> length (exp_name e) \<and> length (exp_name e) \<le> 128, ValueError ''name''),
        (0 < exp_duration_us e \<and> exp_duration_us e \<le> 86400000000, ValueError ''duration_us''),
        (0 < exp_macro_step_us e, ValueError ''macro_step_us''),
        (0 < exp_timeout_s e \<and> exp_timeout_s e \<le> 86400, ValueError ''timeout_s''),
        ((case exp_checkpoint_interval_us e of None \<Rightarrow> True | Some i \<Rightarrow> 0 < i),
         ValueError ''checkpoint_interval_us''),
        (0 \<le> exp_seed e, ValueError ''seed''),
        (list_all (\<lambda>s. 0 \<le> stm_at_us s) (exp_stimuli e), ValueError ''at_us''),
        (list_all (\<lambda>f. 0 \<le> flt_at_us f) (exp_faults e), ValueError ''at_us'')])
       (\<lambda>_. validate_timeline e)"

section \<open>What validation establishes\<close>

lemma model_state_of_value [simp]: "model_state_of (PStr (model_state_value s)) = Inr s"
  by (cases s) (simp_all add: model_state_of_def model_states_def)

text \<open>A validated experiment has a positive step that divides its duration, and its timeline fits.\<close>

lemma validated_experimentD:
  assumes "validate_experiment_spec e = Inr e'"
  shows "e' = e" "0 < exp_duration_us e" "0 < exp_macro_step_us e"
    "exp_macro_step_us e dvd exp_duration_us e"
    "\<And>s. s \<in> set (exp_stimuli e) \<Longrightarrow> 0 \<le> stm_at_us s \<and> stm_at_us s \<le> exp_duration_us e"
    "\<And>f. f \<in> set (exp_faults e) \<Longrightarrow> 0 \<le> flt_at_us f \<and> flt_at_us f \<le> exp_duration_us e"
  using assms
  by (auto simp: validate_experiment_spec_def validate_timeline_def andThen_eq_Inr list_all_iff
      mod_eq_0_iff_dvd)

lemma fold_unit_result:
  "fold_result (\<lambda>x _. f x) xs () = Inr u \<longleftrightarrow> (\<forall>x \<in> set xs. f x = Inr ())"
  by (induction xs) (auto simp: andThen_eq_Inr)

lemma validate_topologyD:
  assumes "validate_topology m = Inr m'"
  shows "m' = m" "distinct (map cmp_id (sys_components m))"
    "\<And>con. con \<in> set (sys_connections m) \<Longrightarrow> check_connection (sys_components m) con = Inr ()"
  using assms by (auto simp: validate_topology_def andThen_eq_Inr fold_unit_result)

lemma validate_systemD:
  assumes "validate_system m = Inr m'"
  shows "m' = m" "validate_topology m = Inr m" "sys_components m \<noteq> []"
    "\<And>c. c \<in> set (sys_components m) \<Longrightarrow> validate_component c = Inr c"
proof -
  from assms have top: "validate_topology m = Inr m'" and comps: "sys_components m \<noteq> []"
    and val: "\<exists>cs. map_result validate_component (sys_components m) = Inr cs"
    by (auto simp: validate_system_def andThen_eq_Inr)
  from validate_topologyD(1) [OF top] show "m' = m" .
  with top show "validate_topology m = Inr m" by simp
  from comps show "sys_components m \<noteq> []" .
  from val obtain cs where cs: "list_all2 (\<lambda>x y. validate_component x = Inr y) (sys_components m) cs"
    by (auto simp: map_result_eq_Inr)
  fix c assume "c \<in> set (sys_components m)"
  with cs obtain c' where "validate_component c = Inr c'"
    by (auto simp: list_all2_conv_all_nth in_set_conv_nth)
  then show "validate_component c = Inr c"
    by (auto simp: validate_component_def andThen_eq_Inr)
qed

lemma validated_component_step:
  assumes "validate_component c = Inr c'"
  shows "case cmp_step_us c of None \<Rightarrow> cmp_event_driven c | Some s \<Rightarrow> 0 < s"
  using assms by (auto simp: validate_component_def andThen_eq_Inr split: option.splits)

end
