(* ===== verification/Contracts_Models.thy ===== *)
theory Contracts_Models
  imports Contracts
begin

text \<open>
  The strict contracts of \<open>src/src/ael/contracts.py\<close>, second part: the hardware behaviour IR
  and its register layout check, model packages and their evidence, workers and their tasks,
  instruments, acceptance manifests, events, claims and evidence bundles.
\<close>

section \<open>Hardware behaviour\<close>

datatype access = AC_ro | AC_wo | AC_rw | AC_w1c | AC_w1s

record behavior_field =
  bf_name :: string
  bf_lsb :: int
  bf_width :: int
  bf_access :: access
  bf_reset :: int
  bf_side_effect :: "string option"

definition validate_bits :: "behavior_field \<Rightarrow> behavior_field result" where
  "validate_bits f =
     andThen (first_failure
       [(0 \<le> bf_lsb f \<and> bf_lsb f \<le> 63, ValueError ''lsb''),
        (0 < bf_width f \<and> bf_width f \<le> 64, ValueError ''width''),
        (0 \<le> bf_reset f, ValueError ''reset''),
        (bf_lsb f + bf_width f \<le> 64, ValueError ''field extends past 64 bits''),
        (bf_reset f < 2 ^ nat (bf_width f), ValueError ''reset value does not fit field width'')])
       (\<lambda>_. Inr f)"

record behavior_register =
  br_name :: string
  br_offset :: int
  br_width :: int
  br_reset :: int
  br_fields :: "behavior_field list"

definition bus_widths :: "int list" where
  "bus_widths = [8, 16, 32, 64]"

definition validate_register :: "behavior_register \<Rightarrow> behavior_register result" where
  "validate_register r =
     andThen (map_result validate_bits (br_fields r)) (\<lambda>_.
     andThen (first_failure
       [(0 \<le> br_offset r, ValueError ''offset''),
        (br_width r \<in> set bus_widths, ValueError ''width''),
        (0 \<le> br_reset r, ValueError ''reset'')])
     (\<lambda>_. Inr r))"

record clock_behavior =
  ck_name :: string
  ck_source :: string
  ck_frequency :: unit_value
  ck_enabled_when :: "string option"
  ck_reset_domain :: "string option"

datatype timer_direction = TD_up | TD_down | TD_up_down

record timer_behavior =
  tb_name :: string
  tb_clock :: string
  tb_width :: int
  tb_direction :: timer_direction
  tb_wrap_event :: "string option"
  tb_compare_channels :: int

datatype interrupt_trigger = IT_level_high | IT_level_low | IT_rising | IT_falling | IT_pulse

record interrupt_behavior =
  ib_name :: string
  ib_line :: int
  ib_trigger :: interrupt_trigger
  ib_condition :: string
  ib_clear_condition :: "string option"

datatype dma_direction = DD_peripheral_to_memory | DD_memory_to_peripheral | DD_bidirectional

record dma_request_behavior =
  dr_name :: string
  dr_request_line :: int
  dr_condition :: string
  dr_direction :: dma_direction
  dr_width_bits :: int

datatype protocol = PR_uart | PR_i2c | PR_spi | PR_can | PR_can_fd | PR_custom
datatype transaction_role = TR_controller | TR_target | TR_peer

record transaction_behavior =
  tx_name :: string
  tx_protocol :: protocol
  tx_role :: transaction_role
  tx_latency :: "unit_value option"
  tx_timeout :: "unit_value option"
  tx_crc :: "string option"

record fault_behavior =
  fb_name :: string
  fb_trigger :: string
  fb_effect :: string
  fb_recoverable :: bool
  fb_recovery :: "string option"

record power_state_behavior =
  pb_name :: string
  pb_current :: "unit_value option"
  pb_entry_condition :: "string option"
  pb_exit_condition :: "string option"
  pb_wake_latency :: "unit_value option"

record hardware_behavior_ir =
  ir_name :: string
  ir_bus_width :: int
  ir_size :: int
  ir_registers :: "behavior_register list"
  ir_state_machines :: "(string, pyval) dict list"
  ir_clocks :: "clock_behavior list"
  ir_timers :: "timer_behavior list"
  ir_interrupts :: "interrupt_behavior list"
  ir_dma_requests :: "dma_request_behavior list"
  ir_transactions :: "transaction_behavior list"
  ir_faults :: "fault_behavior list"
  ir_timing :: "(string, unit_value) dict"
  ir_power_states :: "power_state_behavior list"
  ir_fmi_ports :: "port list"
  ir_grounding :: "(string, string list) dict"

text \<open>
  The loop over a register's fields: \<open>field_bits\<close> collects the bit positions taken so far.
\<close>

definition field_range :: "behavior_field \<Rightarrow> int list" where
  "field_range f = [bf_lsb f .. bf_lsb f + bf_width f - 1]"

fun check_fields :: "int \<Rightarrow> behavior_field list \<Rightarrow> int list \<Rightarrow> unit result" where
  "check_fields width [] field_bits = Inr ()"
| "check_fields width (f # fs) field_bits =
     (if \<not> bf_lsb f + bf_width f \<le> width
      then Inl (ValueError ''field exceeds register width'')
      else if list_ex (\<lambda>b. b \<in> set field_bits) (field_range f)
      then Inl (ValueError ''register contains overlapping fields'')
      else check_fields width fs (field_bits @ field_range f))"

text \<open>
  The loop over the registers: \<open>occupied\<close> holds the byte ranges \<open>[start, end)\<close> of those before.
\<close>

definition register_end :: "behavior_register \<Rightarrow> int" where
  "register_end r = br_offset r + br_width r div 8"

fun check_registers :: "int \<Rightarrow> behavior_register list \<Rightarrow> (int \<times> int) list \<Rightarrow> unit result" where
  "check_registers limit [] occupied = Inr ()"
| "check_registers limit (r # rs) occupied =
     (if \<not> register_end r \<le> limit then Inl (ValueError ''register exceeds peripheral size'')
      else if \<not> br_reset r < 2 ^ nat (br_width r)
      then Inl (ValueError ''register reset does not fit width'')
      else if \<not> distinct (map bf_name (br_fields r))
      then Inl (ValueError ''register field names must be unique'')
      else andThen (check_fields (br_width r) (br_fields r) []) (\<lambda>_.
        if list_ex (\<lambda>(s, e). br_offset r < e \<and> register_end r > s) occupied
        then Inl (ValueError ''register overlaps register'')
        else check_registers limit rs (occupied @ [(br_offset r, register_end r)])))"

definition validate_register_layout :: "hardware_behavior_ir \<Rightarrow> hardware_behavior_ir result" where
  "validate_register_layout ir =
     (if \<not> distinct (map br_name (ir_registers ir))
      then Inl (ValueError ''register names must be unique'')
      else andThen (check_registers (ir_size ir) (ir_registers ir) []) (\<lambda>_. Inr ir))"

text \<open>The field constraints of the classes an IR contains, then the layout validator.\<close>

definition validate_ir :: "hardware_behavior_ir \<Rightarrow> hardware_behavior_ir result" where
  "validate_ir ir =
     andThen (map_result validate_register (ir_registers ir)) (\<lambda>_.
     andThen (map_result validate_port (ir_fmi_ports ir)) (\<lambda>_.
     andThen (map_result validate_unit_value
       (map ck_frequency (ir_clocks ir) @ map snd (ir_timing ir) @
        List.map_filter tx_latency (ir_transactions ir) @
        List.map_filter tx_timeout (ir_transactions ir) @
        List.map_filter pb_current (ir_power_states ir) @
        List.map_filter pb_wake_latency (ir_power_states ir))) (\<lambda>_.
     andThen (first_failure
       [(ir_bus_width ir \<in> set bus_widths, ValueError ''bus_width''),
        (0 < ir_size ir, ValueError ''size''),
        (list_all (\<lambda>t. tb_width t \<in> {8, 16, 24, 32, 64} \<and> 0 \<le> tb_compare_channels t \<and>
           tb_compare_channels t \<le> 16) (ir_timers ir), ValueError ''timer''),
        (list_all (\<lambda>i. 0 \<le> ib_line i) (ir_interrupts ir), ValueError ''line''),
        (list_all (\<lambda>d. 0 \<le> dr_request_line d \<and> dr_width_bits d \<in> set bus_widths)
           (ir_dma_requests ir), ValueError ''dma'')]) (\<lambda>_.
     validate_register_layout ir))))"

section \<open>Models\<close>

datatype provider = PROV_openai | PROV_anthropic

record model_generation_config =
  gc_provider :: provider
  gc_model :: string
  gc_prompt_template_version :: string
  gc_max_attempts :: int

definition is_sha256 :: "string \<Rightarrow> bool" where
  "is_sha256 s \<longleftrightarrow> length s = 64 \<and> list_all is_hex_lower s"

record grounding_reference =
  gr_source_path :: string
  gr_source_sha256 :: string
  gr_locator :: string
  gr_purpose :: string

record generation_receipt =
  rc_provider :: string
  rc_model :: string
  rc_prompt_template_version :: string
  rc_request_sha256 :: string
  rc_response_sha256 :: string
  rc_provider_request_id :: "string option"
  rc_attempts :: int
  rc_recorded :: bool

record model_generation_request =
  mg_id :: string
  mg_name :: string
  mg_version :: string
  mg_backend :: backend_name
  mg_svd :: "string option"
  mg_systemrdl :: "string option"
  mg_datasheets :: "string list"
  mg_drivers :: "string list"
  mg_reference_models :: "string list"
  mg_hardware_traces :: "string list"
  mg_generator :: string
  mg_generation :: "model_generation_config option"

text \<open>\<open>any([...])\<close> over optional strings and lists: an empty string counts as absent.\<close>

definition given :: "string option \<Rightarrow> bool" where
  "given s \<longleftrightarrow> (case s of None \<Rightarrow> False | Some t \<Rightarrow> t \<noteq> [])"

definition require_grounding :: "model_generation_request \<Rightarrow> model_generation_request result" where
  "require_grounding r =
     (if \<not> (given (mg_svd r) \<or> given (mg_systemrdl r) \<or> mg_datasheets r \<noteq> [] \<or>
            mg_drivers r \<noteq> [] \<or> mg_reference_models r \<noteq> [] \<or> mg_hardware_traces r \<noteq> [])
      then Inl (ValueError ''model generation requires at least one grounding input'')
      else Inr r)"

record model_package =
  mp_id :: string
  mp_name :: string
  mp_version :: string
  mp_backend :: backend_name
  mp_state :: model_state
  mp_source_paths :: "string list"
  mp_source_hashes :: "(string, string) dict"
  mp_ir_path :: "string option"
  mp_artifact_paths :: "string list"
  mp_test_paths :: "string list"
  mp_validation_evidence :: "string list"
  mp_signature :: "string option"
  mp_generated_by :: "string option"
  mp_grounding_manifest_path :: "string option"
  mp_generation_receipt_path :: "string option"
  mp_created_at :: int

record model_conformance_evidence =
  ce_model_id :: string
  ce_validator :: string
  ce_source_independent :: bool
  ce_register_layout_passed :: bool
  ce_compile_passed :: bool
  ce_driver_tests_passed :: bool
  ce_property_tests_passed :: bool
  ce_reference_trace_passed :: bool
  ce_generated_tests_are_only_evidence :: bool
  ce_sandbox_read_only :: bool
  ce_artifact_hashes :: "(string, string) dict"

section \<open>Workers and tasks\<close>

datatype capability_kind = CK_backend | CK_board | CK_instrument | CK_service

record worker_capability =
  wc_name :: string
  wc_version :: string
  wc_kind :: capability_kind
  wc_labels :: "(string, string) dict"
  wc_fidelity :: "(string, string) dict"

record worker_registration =
  wr_worker_id :: string
  wr_worker_kind :: worker_kind
  wr_capabilities :: "worker_capability list"
  wr_agent_version :: string
  wr_certificate_fingerprint :: string

definition validate_worker_registration ::
    "worker_registration \<Rightarrow> worker_registration result" where
  "validate_worker_registration r =
     andThen (first_failure
       [(is_identifier (wr_worker_id r), ValueError ''worker_id''),
        (length (wr_certificate_fingerprint r) = 64 \<and>
         list_all is_hex (wr_certificate_fingerprint r), ValueError ''certificate_fingerprint'')])
       (\<lambda>_. Inr r)"

datatype task_type = TT_experiment | TT_model_validation | TT_calibration | TT_hardware_validation

record worker_task =
  wt_task_id :: string
  wt_task_type :: task_type
  wt_required_capabilities :: "string list"
  wt_payload :: "(string, pyval) dict"
  wt_idempotency_key :: string
  wt_status :: task_status
  wt_lease_owner :: "string option"
  wt_lease_token :: "string option"
  wt_lease_expires_at :: "int option"
  wt_attempts :: int
  wt_result :: "pyval option"
  wt_created_at :: int

datatype heartbeat_status = HS_leased | HS_running

record worker_heartbeat =
  hb_task_id :: string
  hb_lease_token :: string
  hb_status :: heartbeat_status
  hb_progress :: pyfloat
  hb_message :: "string option"

datatype result_status = RES_succeeded | RES_failed | RES_cancelled

record worker_task_result =
  tr_task_id :: string
  tr_lease_token :: string
  tr_status :: result_status
  tr_artifact_hashes :: "(string, string) dict"
  tr_evidence_bundle :: "string option"
  tr_error :: "string option"

section \<open>Instruments\<close>

record calibration_record =
  cal_id :: string
  cal_instrument_id :: string
  cal_instrument_kind :: string
  cal_certificate_path :: string
  cal_certificate_sha256 :: string
  cal_calibrated_at :: int
  cal_expires_at :: int
  cal_laboratory :: string

datatype parameter =
    PV_unit unit_value | PV_str string | PV_int int | PV_float pyfloat | PV_bool bool

datatype instrument_operation =
    IO_power_configure | IO_power_output | IO_power_measure | IO_scope_capture
  | IO_logic_capture | IO_energy_measure | IO_chamber_set_temperature | IO_vna_sparameters
  | IO_spectrum_capture | IO_attenuator_set

record instrument_operation_request =
  ior_instrument_id :: string
  ior_operation :: instrument_operation
  ior_parameters :: "(string, parameter) dict"
  ior_calibration_id :: string

record instrument_evidence =
  iev_instrument_id :: string
  iev_driver :: string
  iev_calibration_id :: string
  iev_operation :: instrument_operation
  iev_parameters :: "(string, parameter) dict"
  iev_raw_artifact_path :: string
  iev_raw_artifact_sha256 :: string
  iev_captured_at :: int

section \<open>Acceptance, events, claims, evidence\<close>

datatype acceptance_status = AS_passed | AS_failed | AS_blocked

record acceptance_entry =
  ae_name :: string
  ae_status :: acceptance_status
  ae_evidence_path :: "string option"
  ae_evidence_sha256 :: "string option"
  ae_limitations :: "string list"

record acceptance_manifest =
  am_profile :: release_profile
  am_source_revision :: string
  am_platform :: string
  am_entries :: "acceptance_entry list"
  am_created_at :: int
  am_signature :: "string option"

definition require_unique_entries :: "acceptance_manifest \<Rightarrow> acceptance_manifest result" where
  "require_unique_entries m =
     (if \<not> distinct (map ae_name (am_entries m))
      then Inl (ValueError ''acceptance entry names must be unique'')
      else Inr m)"

record event =
  ev_sequence :: int
  ev_virtual_time_us :: int
  ev_source :: string
  ev_type :: string
  ev_payload :: "(string, pyval) dict"
  ev_parent_sequence :: "int option"
  ev_fidelity_ref :: "string option"

record claim =
  clm_id :: string
  clm_statement :: string
  clm_status :: claim_status
  clm_evidence_paths :: "string list"
  clm_limitations :: "string list"
  clm_validation_envelope_id :: "string option"
  clm_hardware_validated :: bool

definition validate_production_claim :: "claim \<Rightarrow> claim result" where
  "validate_production_claim c =
     (if clm_status c \<in> {CS_HARDWARE_VALIDATED, CS_PRODUCTION_APPROVED} \<and>
         (\<not> clm_hardware_validated c \<or> clm_validation_envelope_id c = None)
      then Inl (ValueError ''hardware claims require an envelope and hardware validation'')
      else Inr c)"

record assertion_result =
  ar_metric :: string
  ar_operator :: operator
  ar_expected :: pyval
  ar_actual :: pyval
  ar_unit :: "string option"
  ar_critical :: bool
  ar_passed :: bool

datatype mechanism_evidence =
    Tool_Event int string string string
  | Artifact_Evidence string string

record evidence_bundle =
  eb_run_id :: string
  eb_status :: run_status
  eb_created_at :: int
  eb_completed_at :: "int option"
  eb_experiment_hash :: string
  eb_system_hash :: string
  eb_model_hashes :: "(string, string) dict"
  eb_artifact_hashes :: "(string, string) dict"
  eb_event_count :: int
  eb_assertion_results :: "assertion_result list"
  eb_claims :: "claim list"
  eb_fidelity_boundaries :: "string list"
  eb_mechanism_evidence :: "mechanism_evidence list"
  eb_signature :: "string option"

record metric_tolerance =
  mt_metric :: string
  mt_absolute :: "unit_value option"
  mt_relative_percent :: "pyfloat option"

definition require_tolerance :: "metric_tolerance \<Rightarrow> metric_tolerance result" where
  "require_tolerance t =
     (if mt_absolute t = None \<and> mt_relative_percent t = None
      then Inl (ValueError ''at least one tolerance is required'')
      else Inr t)"

record validation_envelope =
  ve_id :: string
  ve_target :: string
  ve_hardware_revision :: string
  ve_model_id :: string
  ve_model_version :: string
  ve_conditions :: "(string, unit_value) dict"
  ve_tolerances :: "metric_tolerance list"
  ve_sample_count :: int
  ve_calibration_ids :: "string list"
  ve_valid_from :: int
  ve_valid_until :: "int option"
  ve_approved_by :: "string option"

section \<open>The register layout check\<close>

text \<open>
  What the layout check is meant to establish, stated without loops: every register lies in the
  peripheral and holds its reset value, its fields are named apart, lie in it and use disjoint
  bits, and no two registers share a byte.
\<close>

definition disjoint_fields :: "behavior_field \<Rightarrow> behavior_field \<Rightarrow> bool" where
  "disjoint_fields f g \<longleftrightarrow> set (field_range f) \<inter> set (field_range g) = {}"

definition well_formed_register :: "int \<Rightarrow> behavior_register \<Rightarrow> bool" where
  "well_formed_register limit r \<longleftrightarrow>
     register_end r \<le> limit \<and> br_reset r < 2 ^ nat (br_width r) \<and>
     distinct (map bf_name (br_fields r)) \<and>
     (\<forall>f \<in> set (br_fields r). bf_lsb f + bf_width f \<le> br_width r) \<and>
     sorted_wrt disjoint_fields (br_fields r)"

definition apart :: "behavior_register \<Rightarrow> behavior_register \<Rightarrow> bool" where
  "apart r q \<longleftrightarrow> register_end r \<le> br_offset q \<or> register_end q \<le> br_offset r"

definition layout_ok :: "hardware_behavior_ir \<Rightarrow> bool" where
  "layout_ok ir \<longleftrightarrow>
     distinct (map br_name (ir_registers ir)) \<and>
     (\<forall>r \<in> set (ir_registers ir). well_formed_register (ir_size ir) r) \<and>
     sorted_wrt apart (ir_registers ir)"

lemma check_fields_iff:
  "check_fields w fs bits = Inr () \<longleftrightarrow>
     (\<forall>f \<in> set fs. bf_lsb f + bf_width f \<le> w \<and> set (field_range f) \<inter> set bits = {}) \<and>
     sorted_wrt disjoint_fields fs"
proof (induction fs arbitrary: bits)
  case Nil
  then show ?case by simp
next
  case (Cons f fs)
  have "check_fields w (f # fs) bits = Inr () \<longleftrightarrow>
      bf_lsb f + bf_width f \<le> w \<and> set (field_range f) \<inter> set bits = {} \<and>
      check_fields w fs (bits @ field_range f) = Inr ()"
    by (auto simp: list_ex_iff)
  then show ?case
    by (simp only: Cons.IH sorted_wrt.simps) (auto simp: disjoint_fields_def [of f])
qed

lemma check_registers_iff:
  "check_registers limit rs occ = Inr () \<longleftrightarrow>
     (\<forall>r \<in> set rs. well_formed_register limit r \<and>
        (\<forall>(s, e) \<in> set occ. e \<le> br_offset r \<or> register_end r \<le> s)) \<and>
     sorted_wrt apart rs"
proof (induction rs arbitrary: occ)
  case Nil
  then show ?case by simp
next
  case (Cons r rs)
  have "check_registers limit (r # rs) occ = Inr () \<longleftrightarrow>
      well_formed_register limit r \<and> (\<forall>(s, e) \<in> set occ. e \<le> br_offset r \<or> register_end r \<le> s) \<and>
      check_registers limit rs (occ @ [(br_offset r, register_end r)]) = Inr ()"
    by (auto simp: andThen_eq_Inr check_fields_iff well_formed_register_def list_ex_iff not_less
        not_le)
  then show ?case
    by (simp only: Cons.IH sorted_wrt.simps) (auto simp: apart_def [of r])
qed

lemma validate_register_layout_iff:
  "validate_register_layout ir = Inr ir' \<longleftrightarrow> ir' = ir \<and> layout_ok ir"
  by (auto simp: validate_register_layout_def layout_ok_def andThen_eq_Inr check_registers_iff)

end
