(* ===== verification/Task_Lifecycle.thy ===== *)
theory Task_Lifecycle
  imports Contracts_Models
begin

text \<open>
  What a store of worker tasks promises, independently of the database behind it: the operations
  of the worker protocol (\<open>enqueue\<close>, \<open>lease\<close>, \<open>heartbeat\<close>, \<open>complete\<close>, \<open>cancel\<close>), the
  life cycle of one task as a relation between its record before and after an operation, and
  the contract \<open>task_store\<close> of a store. The facts about whole runs of operations (terminal
  states are final, a stale lease token never completes a task, only the holder of a lease
  completes) are proved once from the contract; \<open>Storage\<close> and \<open>Storage_Server\<close> interpret it.
\<close>

section \<open>Operations\<close>

text \<open>
  Every operation also takes the time \<open>now\<close> at which the store handles it. A lease carries the
  random token the store draws for it, and the ids of the rows that concurrent transactions hold
  locked (which only the server store looks at).
\<close>

datatype task_op =
    Enqueue worker_task
  | Lease (lease_worker: string) (lease_seconds: int) (lease_token: string) (lease_locked: "string list")
  | Heartbeat string worker_heartbeat int
  | Complete string worker_task_result
  | Cancel string

fun heartbeat_task_status :: "heartbeat_status \<Rightarrow> task_status" where
  "heartbeat_task_status HS_leased = TS_LEASED"
| "heartbeat_task_status HS_running = TS_RUNNING"

fun result_task_status :: "result_status \<Rightarrow> task_status" where
  "result_task_status RES_succeeded = TS_SUCCEEDED"
| "result_task_status RES_failed = TS_FAILED"
| "result_task_status RES_cancelled = TS_CANCELLED"

fun result_status_value :: "result_status \<Rightarrow> string" where
  "result_status_value RES_succeeded = ''succeeded''"
| "result_status_value RES_failed = ''failed''"
| "result_status_value RES_cancelled = ''cancelled''"

definition opt_str :: "string option \<Rightarrow> pyval" where
  "opt_str s = (case s of None \<Rightarrow> PNone | Some t \<Rightarrow> PStr t)"

text \<open>\<open>result.model_dump(mode="json")\<close>, the value both stores keep in the result column.\<close>

definition result_dump :: "worker_task_result \<Rightarrow> pyval" where
  "result_dump r = PDict
     [(''api_version'', PStr ''ael.dev/v1''), (''kind'', PStr ''WorkerTaskResult''),
      (''task_id'', PStr (tr_task_id r)), (''lease_token'', PStr (tr_lease_token r)),
      (''status'', PStr (result_status_value (tr_status r))),
      (''artifact_hashes'', PDict (map (\<lambda>(k, v). (k, PStr v)) (tr_artifact_hashes r))),
      (''evidence_bundle'', opt_str (tr_evidence_bundle r)), (''error'', opt_str (tr_error r))]"

section \<open>The life cycle of a task\<close>

definition active :: "('a :: type) worker_task_scheme \<Rightarrow> bool" where
  "active t \<longleftrightarrow> wt_status t = TS_LEASED \<or> wt_status t = TS_RUNNING"

definition terminal :: "('a :: type) worker_task_scheme \<Rightarrow> bool" where
  "terminal t \<longleftrightarrow> wt_status t \<in> {TS_SUCCEEDED, TS_FAILED, TS_CANCELLED}"

definition cancellable :: "('a :: type) worker_task_scheme \<Rightarrow> bool" where
  "cancellable t \<longleftrightarrow> wt_status t \<in> {TS_QUEUED, TS_LEASED, TS_RUNNING}"

text \<open>The lease of \<open>t\<close> is held by worker \<open>w\<close> under \<open>token\<close>.\<close>

definition holds_lease :: "string \<Rightarrow> string \<Rightarrow> ('a :: type) worker_task_scheme \<Rightarrow> bool" where
  "holds_lease w token t \<longleftrightarrow>
     active t \<and> wt_lease_owner t = Some w \<and> wt_lease_token t = Some token"

text \<open>SQL's \<open>lease_expires_at < now\<close>, which is not true of a null column.\<close>

definition lease_expired :: "int \<Rightarrow> ('a :: type) worker_task_scheme \<Rightarrow> bool" where
  "lease_expired now t \<longleftrightarrow>
     active t \<and> (case wt_lease_expires_at t of None \<Rightarrow> False | Some e \<Rightarrow> e < now)"

definition queued_again :: "('a :: type) worker_task_scheme \<Rightarrow> 'a worker_task_scheme" where
  "queued_again t = t\<lparr>wt_status := TS_QUEUED, wt_lease_owner := None, wt_lease_token := None,
     wt_lease_expires_at := None\<rparr>"

text \<open>A second is a million microseconds.\<close>

definition seconds :: "int \<Rightarrow> int" where
  "seconds n = n * 1000000"

definition leased :: "string \<Rightarrow> string \<Rightarrow> int \<Rightarrow> ('a :: type) worker_task_scheme \<Rightarrow> 'a worker_task_scheme" where
  "leased w token expires t = t\<lparr>wt_status := TS_LEASED, wt_lease_owner := Some w,
     wt_lease_token := Some token, wt_lease_expires_at := Some expires,
     wt_attempts := wt_attempts t + 1\<rparr>"

definition beaten ::
    "int \<Rightarrow> worker_heartbeat \<Rightarrow> ('a :: type) worker_task_scheme \<Rightarrow> 'a worker_task_scheme" where
  "beaten expires hb t = t\<lparr>wt_status := heartbeat_task_status (hb_status hb),
     wt_lease_expires_at := Some expires\<rparr>"

definition completed ::
    "worker_task_result \<Rightarrow> ('a :: type) worker_task_scheme \<Rightarrow> 'a worker_task_scheme" where
  "completed r t = t\<lparr>wt_status := result_task_status (tr_status r),
     wt_lease_expires_at := None, wt_result := Some (result_dump r)\<rparr>"

definition cancelled :: "('a :: type) worker_task_scheme \<Rightarrow> 'a worker_task_scheme" where
  "cancelled t = t\<lparr>wt_status := TS_CANCELLED\<rparr>"

text \<open>How one operation may change one task.\<close>

inductive task_edge :: "int \<Rightarrow> task_op \<Rightarrow> worker_task \<Rightarrow> worker_task \<Rightarrow> bool" where
  stay: "task_edge now op t t"
| reclaim: "lease_expired now t \<Longrightarrow> task_edge now (Lease w secs token lk) t (queued_again t)"
| grant: "wt_status t = TS_QUEUED \<Longrightarrow>
    task_edge now (Lease w secs token lk) t (leased w token (now + seconds secs) t)"
| regrant: "lease_expired now t \<Longrightarrow>
    task_edge now (Lease w secs token lk) t (leased w token (now + seconds secs) (queued_again t))"
| beat: "wt_task_id t = hb_task_id hb \<Longrightarrow> holds_lease w (hb_lease_token hb) t \<Longrightarrow>
    task_edge now (Heartbeat w hb secs) t
      (beaten (now + seconds secs) hb t)"
| complete: "wt_task_id t = tr_task_id r \<Longrightarrow> holds_lease w (tr_lease_token r) t \<Longrightarrow>
    task_edge now (Complete w r) t (completed r t)"
| cancel: "wt_task_id t = i \<Longrightarrow> cancellable t \<Longrightarrow>
    task_edge now (Cancel i) t (cancelled t)"

inductive_cases task_edgeE: "task_edge now op t t'"

text \<open>A task as \<open>enqueue\<close> stores it, whatever the client wrote in its lease fields.\<close>

definition enqueued :: "worker_task \<Rightarrow> worker_task" where
  "enqueued t = t\<lparr>wt_status := TS_QUEUED, wt_lease_owner := None, wt_lease_token := None,
     wt_lease_expires_at := None, wt_attempts := 0, wt_result := None\<rparr>"

lemmas edge_defs = active_def terminal_def cancellable_def holds_lease_def lease_expired_def
  queued_again_def leased_def enqueued_def beaten_def completed_def cancelled_def

lemma result_task_status_terminal:
  "result_task_status r \<in> {TS_SUCCEEDED, TS_FAILED, TS_CANCELLED}"
  by (cases r) auto

lemma heartbeat_task_status_active: "heartbeat_task_status h \<in> {TS_LEASED, TS_RUNNING}"
  by (cases h) auto

lemma edge_id [simp]: "task_edge now op t t' \<Longrightarrow> wt_task_id t' = wt_task_id t"
  by (induction rule: task_edge.induct) (auto simp: edge_defs)

lemma edge_request:
  "task_edge now op t t' \<Longrightarrow>
     wt_payload t' = wt_payload t \<and> wt_task_type t' = wt_task_type t \<and>
     wt_required_capabilities t' = wt_required_capabilities t \<and>
     wt_idempotency_key t' = wt_idempotency_key t \<and> wt_created_at t' = wt_created_at t"
  by (induction rule: task_edge.induct) (auto simp: edge_defs)

lemma edge_terminal: "task_edge now op t t' \<Longrightarrow> terminal t \<Longrightarrow> t' = t"
  by (induction rule: task_edge.induct) (auto simp: edge_defs)

lemma edge_attempts: "task_edge now op t t' \<Longrightarrow> wt_attempts t \<le> wt_attempts t'"
  by (induction rule: task_edge.induct) (auto simp: edge_defs)

lemma edge_token:
  "task_edge now op t t' \<Longrightarrow> wt_lease_token t' = Some token \<Longrightarrow> wt_lease_token t \<noteq> Some token \<Longrightarrow>
     \<exists>w secs lk. op = Lease w secs token lk"
  by (induction rule: task_edge.induct) (auto simp: edge_defs)

lemma edge_succeeded:
  "task_edge now op t t' \<Longrightarrow> wt_status t' = TS_SUCCEEDED \<Longrightarrow> wt_status t \<noteq> TS_SUCCEEDED \<Longrightarrow>
     \<exists>w r. op = Complete w r \<and> tr_task_id r = wt_task_id t \<and> tr_status r = RES_succeeded \<and>
       holds_lease w (tr_lease_token r) t"
proof (induction rule: task_edge.induct)
  case (beat t hb w now secs)
  then show ?case using heartbeat_task_status_active [of "hb_status hb"]
    by (simp add: beaten_def)
next
  case (complete t r w now)
  then show ?case by (cases "tr_status r") (auto simp: completed_def)
qed (auto simp: edge_defs)

section \<open>Runs\<close>

text \<open>A run of operations; one that raises leaves the store as it was.\<close>

fun run_ops :: "(int \<Rightarrow> task_op \<Rightarrow> 's \<Rightarrow> ('r \<times> 's) result) \<Rightarrow> (int \<times> task_op) list \<Rightarrow> 's \<Rightarrow> 's" where
  "run_ops step [] s = s"
| "run_ops step ((now, op) # ops) s =
     (case step now op s of Inl _ \<Rightarrow> run_ops step ops s | Inr (r, s') \<Rightarrow> run_ops step ops s')"

text \<open>Some lease of the run draws \<open>token\<close>.\<close>

fun op_draws :: "string \<Rightarrow> task_op \<Rightarrow> bool" where
  "op_draws token (Lease w secs token' lk) \<longleftrightarrow> token' = token"
| "op_draws token op \<longleftrightarrow> False"

definition draws :: "string \<Rightarrow> (int \<times> task_op) list \<Rightarrow> bool" where
  "draws token ops \<longleftrightarrow> list_ex (\<lambda>(now, op). op_draws token op) ops"

lemma draws_iff: "draws token ops \<longleftrightarrow> (\<exists>now w secs lk. (now, Lease w secs token lk) \<in> set ops)"
proof -
  have "op_draws token op \<longleftrightarrow> (\<exists>w secs lk. op = Lease w secs token lk)" for op
    by (cases op) auto
  then show ?thesis by (fastforce simp: draws_def list_ex_iff)
qed

section \<open>The contract of a task store\<close>

locale task_store =
  fixes invar :: "'s \<Rightarrow> bool"
    and lookup :: "'s \<Rightarrow> string \<Rightarrow> worker_task option"
    and step :: "int \<Rightarrow> task_op \<Rightarrow> 's \<Rightarrow> (worker_task option \<times> 's) result"
  assumes invar_step: "invar s \<Longrightarrow> step now op s = Inr (r, s') \<Longrightarrow> invar s'"
    and lookup_id: "lookup s i = Some t \<Longrightarrow> wt_task_id t = i"
    and step_edge: "invar s \<Longrightarrow> step now op s = Inr (r, s') \<Longrightarrow> lookup s i = Some t \<Longrightarrow>
      \<exists>t'. lookup s' i = Some t' \<and> task_edge now op t t'"
    and step_new: "invar s \<Longrightarrow> step now op s = Inr (r, s') \<Longrightarrow> lookup s i = None \<Longrightarrow>
      lookup s' i = Some t' \<Longrightarrow> \<exists>t. op = Enqueue t \<and> t' = enqueued t"
    and complete_effect: "invar s \<Longrightarrow> step now (Complete w res) s = Inr (r, s') \<Longrightarrow>
      \<exists>t. lookup s (tr_task_id res) = Some t \<and> holds_lease w (tr_lease_token res) t \<and>
        lookup s' (tr_task_id res) = Some (completed res t)"
    and complete_accepts: "invar s \<Longrightarrow> lookup s (tr_task_id res) = Some t \<Longrightarrow>
      holds_lease w (tr_lease_token res) t \<Longrightarrow> \<exists>r s'. step now (Complete w res) s = Inr (r, s')"
    and heartbeat_effect: "invar s \<Longrightarrow> step now (Heartbeat w hb secs) s = Inr (r, s') \<Longrightarrow>
      \<exists>t. lookup s (hb_task_id hb) = Some t \<and> holds_lease w (hb_lease_token hb) t \<and>
        lookup s' (hb_task_id hb) = Some (beaten (now + seconds secs) hb t)"
    and lease_grant: "invar s \<Longrightarrow> step now (Lease w secs token lk) s = Inr (Some t, s') \<Longrightarrow>
      lookup s' (wt_task_id t) = Some t \<and> holds_lease w token t \<and>
      (\<forall>i. i \<noteq> wt_task_id t \<longrightarrow> (\<exists>t'. lookup s' i = Some t' \<and> wt_lease_token t' = Some token) \<longrightarrow>
         (\<exists>t'. lookup s i = Some t' \<and> wt_lease_token t' = Some token))"
begin

lemma run_invar: "invar s \<Longrightarrow> invar (run_ops step ops s)"
proof (induction ops arbitrary: s)
  case Nil
  then show ?case by simp
next
  case (Cons nop ops)
  then show ?case
    by (cases nop) (auto split: sum.split dest: invar_step)
qed

text \<open>A property of a task that every edge keeps holds after every run.\<close>

lemma run_task:
  assumes "invar s" "lookup s i = Some t" "P t"
    and "\<And>now op t t'. (now, op) \<in> set ops \<Longrightarrow> wt_task_id t = i \<Longrightarrow> P t \<Longrightarrow> task_edge now op t t' \<Longrightarrow> P t'"
  shows "\<exists>t'. lookup (run_ops step ops s) i = Some t' \<and> P t'"
  using assms
proof (induction ops arbitrary: s t)
  case Nil
  then show ?case by simp
next
  case (Cons nop ops)
  obtain now op where nop: "nop = (now, op)" by (cases nop)
  show ?case
  proof (cases "step now op s")
    case (Inl e)
    have "\<exists>t'. lookup (run_ops step ops s) i = Some t' \<and> P t'"
      by (rule Cons.IH [OF Cons.prems(1-3)]) (rule Cons.prems(4), auto)
    with Inl nop show ?thesis by simp
  next
    case (Inr rs)
    obtain r s' where rs: "rs = (r, s')" by (cases rs)
    note step = Inr [unfolded rs]
    from step_edge [OF Cons.prems(1) step Cons.prems(2)] obtain t'
      where t': "lookup s' i = Some t'" "task_edge now op t t'" by blast
    have "P t'"
      by (rule Cons.prems(4) [OF _ lookup_id [OF Cons.prems(2)] Cons.prems(3) t'(2)])
        (simp add: nop)
    have "\<exists>t''. lookup (run_ops step ops s') i = Some t'' \<and> P t''"
      by (rule Cons.IH [OF invar_step [OF Cons.prems(1) step] t'(1) \<open>P t'\<close>])
        (rule Cons.prems(4), auto)
    with step nop show ?thesis by simp
  qed
qed

lemma terminal_final:
  "invar s \<Longrightarrow> lookup s i = Some t \<Longrightarrow> terminal t \<Longrightarrow> lookup (run_ops step ops s) i = Some t"
  using run_task [of s i t "\<lambda>t'. t' = t" ops] edge_terminal by blast

lemma attempts_grow:
  "invar s \<Longrightarrow> lookup s i = Some t \<Longrightarrow>
     \<exists>t'. lookup (run_ops step ops s) i = Some t' \<and> wt_attempts t \<le> wt_attempts t'"
  by (rule run_task [where P = "\<lambda>t'. wt_attempts t \<le> wt_attempts t'"])
    (auto dest: edge_attempts)

lemma request_kept:
  assumes "invar s" and "lookup s i = Some t"
  shows "\<exists>t'. lookup (run_ops step ops s) i = Some t' \<and> wt_payload t' = wt_payload t \<and>
     wt_required_capabilities t' = wt_required_capabilities t \<and>
     wt_idempotency_key t' = wt_idempotency_key t"
  by (rule run_task [OF assms, where P = "\<lambda>t'. wt_payload t' = wt_payload t \<and>
     wt_required_capabilities t' = wt_required_capabilities t \<and>
     wt_idempotency_key t' = wt_idempotency_key t"]) (auto dest: edge_request)

text \<open>
  Fencing: a token that is not the current one of a task, and that no later lease draws again,
  is never current again, so no result and no heartbeat is accepted under it.
\<close>

lemma stale_token:
  assumes "invar s" "lookup s i = Some t" "wt_lease_token t \<noteq> Some token" "\<not> draws token ops"
  shows "\<exists>t'. lookup (run_ops step ops s) i = Some t' \<and> wt_lease_token t' \<noteq> Some token"
  using assms(1-3)
proof (rule run_task [where P = "\<lambda>t'. wt_lease_token t' \<noteq> Some token"])
  fix now op t t'
  assume "(now, op) \<in> set ops" "wt_lease_token t \<noteq> Some token" "task_edge now op t t'"
  with assms(4) show "wt_lease_token t' \<noteq> Some token"
    using edge_token unfolding draws_iff by blast
qed

lemma stale_complete:
  assumes "invar s" "lookup s (tr_task_id res) = Some t" "wt_lease_token t \<noteq> Some (tr_lease_token res)"
    and "\<not> draws (tr_lease_token res) ops"
  shows "\<exists>e. step now (Complete w res) (run_ops step ops s) = Inl e"
proof (cases "step now (Complete w res) (run_ops step ops s)")
  case (Inr rs)
  obtain r s' where rs: "rs = (r, s')" by (cases rs)
  from complete_effect [OF run_invar [OF assms(1)] Inr [unfolded rs]]
    stale_token [OF assms] show ?thesis by (auto simp: holds_lease_def)
qed simp

text \<open>A result is accepted at most once.\<close>

lemma completed_once:
  assumes "invar s" "step now (Complete w res) s = Inr (r, s')"
  shows "\<exists>e. step now' (Complete w' res) (run_ops step ops s') = Inl e"
proof (cases "step now' (Complete w' res) (run_ops step ops s')")
  case (Inr rs)
  obtain r' s'' where rs: "rs = (r', s'')" by (cases rs)
  have inv': "invar s'" by (rule invar_step [OF assms])
  from complete_effect [OF assms] obtain t
    where t': "lookup s' (tr_task_id res) = Some (completed res t)" by blast
  have tm: "terminal (completed res t)"
    using result_task_status_terminal by (simp add: completed_def terminal_def)
  from complete_effect [OF run_invar [OF inv'] Inr [unfolded rs]] terminal_final [OF inv' t' tm]
  have "holds_lease w' (tr_lease_token res) (completed res t)" by auto
  with tm show ?thesis by (auto simp: holds_lease_def active_def terminal_def)
qed simp

end

end
