(* ===== verification/Paths.thy ===== *)
theory Paths
  imports Prelude
begin

text \<open>
  Workspace paths (\<open>src/src/ael/security.py\<close>): the file system as symbolic links, existing
  files and directories; \<open>pathlib\<close>'s parsing and \<open>Path.resolve\<close> (which expands links
  and \<open>..\<close>); and \<open>resolve_workspace_path\<close>, the single gate through which every
  component turns a caller's string into a file.
\<close>

section \<open>The file system a path is resolved in\<close>

type_synonym path = "string list"

text \<open>
  A path is its list of components below \<open>/\<close>. A link holds whether its target is absolute,
  and the target's components. \<open>link_budget\<close> bounds the number of link expansions of one
  resolution; where it is not enough the links are taken to be circular, the case in which
  \<open>Path.resolve\<close> raises \<open>RuntimeError\<close>. \<open>realpath_mono\<close> and \<open>realpath_no_links\<close>
  below say that a larger budget never changes an answer and that none is needed without links.
\<close>

record 'c fsys =
  links :: "path \<Rightarrow> (bool \<times> string list) option"
  files :: "path \<Rightarrow> 'c option"
  is_dir :: "path \<Rightarrow> bool"
  link_budget :: nat

definition path_exists :: "'c fsys \<Rightarrow> path \<Rightarrow> bool" where
  "path_exists fs p \<longleftrightarrow> files fs p \<noteq> None \<or> is_dir fs p"

text \<open>\<open>PurePosixPath(s)\<close>: empty and \<open>.\<close> components vanish, \<open>..\<close> stays.\<close>

definition parse_path :: "string \<Rightarrow> bool \<times> string list" where
  "parse_path s =
     (starts_with s ''/'', filter (\<lambda>c. c \<noteq> [] \<and> c \<noteq> ''.'') (split_on CHR ''/'' s))"

text \<open>\<open>Path.resolve\<close>: left to right, popping at \<open>..\<close> and expanding each link it meets.\<close>

function realpath ::
    "(path \<Rightarrow> (bool \<times> string list) option) \<Rightarrow> nat \<Rightarrow> path \<Rightarrow> string list \<Rightarrow> path option" where
  "realpath L n d [] = Some d"
| "realpath L n d (c # cs) =
     (if c = ''..'' then realpath L n (butlast d) cs
      else case L (d @ [c]) of
             None \<Rightarrow> realpath L n (d @ [c]) cs
           | Some (absolute, target) \<Rightarrow>
               (case n of 0 \<Rightarrow> None
                | Suc m \<Rightarrow> realpath L m (if absolute then [] else d) (target @ cs)))"
  by pat_completeness auto
termination
  by (relation "measures [\<lambda>(L, n, d, cs). n, \<lambda>(L, n, d, cs). length cs]") auto

definition resolve :: "'c fsys \<Rightarrow> string list \<Rightarrow> path result" where
  "resolve fs cs =
     (case realpath (links fs) (link_budget fs) [] cs of
        None \<Rightarrow> Inl (RuntimeError ''Symlink loop'')
      | Some p \<Rightarrow> Inr p)"

section \<open>The workspace gate\<close>

text \<open>\<open>str(path.relative_to(root))\<close> for a path below the root.\<close>

definition relative_to :: "path \<Rightarrow> path \<Rightarrow> string" where
  "relative_to root p =
     (case drop (length root) p of [] \<Rightarrow> ''.'' | c # cs \<Rightarrow> join_with ''/'' (c # cs))"

text \<open>\<open>resolve_workspace_path(workspace, candidate, must_exist=...)\<close>.\<close>

definition resolve_workspace_path ::
    "'c fsys \<Rightarrow> string list \<Rightarrow> string \<Rightarrow> bool \<Rightarrow> path result" where
  "resolve_workspace_path fs workspace candidate must_exist =
     andThen (resolve fs workspace) (\<lambda>root.
     let (absolute, raw) = parse_path candidate in
     andThen (if absolute then resolve fs raw else resolve fs (root @ raw)) (\<lambda>p.
     if p \<noteq> root \<and> \<not> strict_prefix root p
     then Inl (ValueError (''path escapes workspace: '' @ candidate))
     else if must_exist \<and> \<not> path_exists fs p
     then Inl (FileNotFoundError (CHR ''/'' # join_with ''/'' p))
     else Inr p))"

section \<open>Facts about resolution\<close>

text \<open>A path that is its own resolution: no component is a link and none is \<open>..\<close>.\<close>

definition canonical :: "(path \<Rightarrow> (bool \<times> string list) option) \<Rightarrow> path \<Rightarrow> bool" where
  "canonical L p \<longleftrightarrow> (\<forall>q. prefix q p \<and> q \<noteq> [] \<longrightarrow> L q = None \<and> last q \<noteq> ''..'')"

lemma canonical_Nil [simp]: "canonical L []"
  by (simp add: canonical_def)

lemma canonical_prefix: "canonical L p \<Longrightarrow> prefix q p \<Longrightarrow> canonical L q"
  by (meson canonical_def prefix_order.trans)

lemma canonical_butlast: "canonical L p \<Longrightarrow> canonical L (butlast p)"
  using canonical_prefix prefixeq_butlast by blast

lemma canonical_snoc:
  "canonical L p \<Longrightarrow> L (p @ [c]) = None \<Longrightarrow> c \<noteq> ''..'' \<Longrightarrow> canonical L (p @ [c])"
  by (auto simp: canonical_def prefix_snoc)

lemma realpath_canonical:
  "canonical L d \<Longrightarrow> realpath L n d cs = Some p \<Longrightarrow> canonical L p"
proof (induction L n d cs rule: realpath.induct)
  case (1 L n d)
  then show ?case by simp
next
  case (2 L n d c cs)
  show ?case
  proof (cases "c = ''..''")
    case True
    with 2 show ?thesis by (simp add: canonical_butlast)
  next
    case False
    with 2 show ?thesis
      by (auto simp: canonical_snoc split: option.splits nat.splits prod.splits if_splits)
  qed
qed

lemma realpath_mono:
  "realpath L n d cs = Some p \<Longrightarrow> n \<le> m \<Longrightarrow> realpath L m d cs = Some p"
proof (induction L n d cs arbitrary: m rule: realpath.induct)
  case (1 L n d)
  then show ?case by simp
next
  case (2 L n d c cs)
  show ?case
  proof (cases "c = ''..''")
    case True
    with 2 show ?thesis by simp
  next
    case False
    show ?thesis
    proof (cases "L (d @ [c])")
      case None
      with False 2 show ?thesis by simp
    next
      case (Some at)
      obtain a t where at: "at = (a, t)" by (cases at)
      from False Some at "2.prems" obtain k where k: "n = Suc k"
        "realpath L k (if a then [] else d) (t @ cs) = Some p"
        by (auto split: nat.splits)
      from k(1) "2.prems"(2) obtain j where j: "m = Suc j" "k \<le> j" by (cases m) auto
      from "2.IH"(3) [OF False Some at [symmetric] k(1) k(2) j(2)] False Some at j(1)
      show ?thesis by simp
    qed
  qed
qed

lemma realpath_no_links:
  "(\<And>q. L q = None) \<Longrightarrow> \<exists>p. realpath L n d cs = Some p"
  by (induction L n d cs rule: realpath.induct) auto

lemma realpath_plain:
  "canonical L (d @ cs) \<Longrightarrow> realpath L n d cs = Some (d @ cs)"
proof (induction cs arbitrary: d)
  case Nil
  then show ?case by simp
next
  case (Cons c cs)
  from Cons.prems have "canonical L ((d @ [c]) @ cs)" by simp
  moreover from this have "L (d @ [c]) = None" "c \<noteq> ''..''"
    by (auto simp: canonical_def dest!: spec [of _ "d @ [c]"])
  ultimately show ?case using Cons.IH [of "d @ [c]"] by simp
qed

lemma resolve_eq_Inr [result_simps]:
  "resolve fs cs = Inr p \<longleftrightarrow> realpath (links fs) (link_budget fs) [] cs = Some p"
  by (auto simp: resolve_def split: option.splits)

lemma resolve_canonical: "resolve fs cs = Inr p \<Longrightarrow> canonical (links fs) p"
  by (auto simp: resolve_eq_Inr intro: realpath_canonical [OF canonical_Nil])

lemma resolve_idem: "canonical (links fs) p \<Longrightarrow> resolve fs p = Inr p"
  using realpath_plain [of "links fs" "[]" p] by (simp add: resolve_eq_Inr)

lemma resolve_workspace_pathD:
  assumes "resolve_workspace_path fs ws cand must_exist = Inr p"
  obtains root where "resolve fs ws = Inr root" "prefix root p" "canonical (links fs) p"
    "must_exist \<longrightarrow> path_exists fs p"
proof -
  from assms obtain root where root: "resolve fs ws = Inr root"
    and *: "(let (absolute, raw) = parse_path cand in
     andThen (if absolute then resolve fs raw else resolve fs (root @ raw)) (\<lambda>p.
     if p \<noteq> root \<and> \<not> strict_prefix root p then Inl (ValueError (''path escapes workspace: '' @ cand))
     else if must_exist \<and> \<not> path_exists fs p then Inl (FileNotFoundError (CHR ''/'' # join_with ''/'' p))
     else Inr p)) = Inr p"
    unfolding resolve_workspace_path_def by (auto simp: andThen_eq_Inr)
  from * obtain raw where "resolve fs raw = Inr p" "p = root \<or> strict_prefix root p"
    "must_exist \<longrightarrow> path_exists fs p"
    by (auto simp: andThen_eq_Inr split: prod.splits if_splits)
  with root that [of root] show ?thesis by (auto simp: resolve_canonical)
qed

lemma relative_to_append: "cs \<noteq> [] \<Longrightarrow> relative_to root (root @ cs) = join_with ''/'' cs"
  by (cases cs) (auto simp: relative_to_def)

lemma split_join:
  "cs \<noteq> [] \<Longrightarrow> \<forall>c \<in> set cs. CHR ''/'' \<notin> set c \<Longrightarrow> split_on CHR ''/'' (join_with ''/'' cs) = cs"
  by (induction "''/''" cs rule: join_with.induct) (auto simp: split_on_no_sep split_on_append)

text \<open>A plain component is one \<open>pathlib\<close> keeps as it is.\<close>

definition plain_component :: "string \<Rightarrow> bool" where
  "plain_component c \<longleftrightarrow> c \<noteq> [] \<and> c \<noteq> ''.'' \<and> CHR ''/'' \<notin> set c"

lemma starts_with_join:
  "cs \<noteq> [] \<Longrightarrow> plain_component (hd cs) \<Longrightarrow> \<not> starts_with (join_with ''/'' cs) ''/''"
proof (cases cs)
  case (Cons c ds)
  assume "plain_component (hd cs)"
  with Cons obtain x xs where "c = x # xs" "x \<noteq> CHR ''/''"
    by (cases c) (auto simp: plain_component_def)
  with Cons show ?thesis by (cases ds) auto
qed simp

lemma parse_join:
  assumes "cs \<noteq> []" "\<forall>c \<in> set cs. plain_component c"
  shows "parse_path (join_with ''/'' cs) = (False, cs)"
proof -
  from assms(2) have "filter (\<lambda>c. c \<noteq> [] \<and> c \<noteq> ''.'') cs = cs"
    by (induction cs) (auto simp: plain_component_def)
  moreover have "split_on CHR ''/'' (join_with ''/'' cs) = cs"
    using assms by (intro split_join) (auto simp: plain_component_def)
  moreover have "\<not> starts_with (join_with ''/'' cs) ''/''"
    using assms by (intro starts_with_join) (auto simp: hd_in_set)
  ultimately show ?thesis by (simp add: parse_path_def)
qed

end
