(* ===== verification/Programs.thy ===== *)
theory Programs
  imports Prelude
begin

text \<open>
  Code with effects: a program takes a state and gives a result and the state it leaves, also when
  it raises, as a Python method that fails half way leaves what it already did. \<open>keeps\<close> is an
  invariant that every outcome of a program keeps, with one rule for each combinator, so that the
  invariants of the components follow from the structure of their code.
\<close>

named_theorems keeps_intros \<open>rules for invariants of programs\<close>

type_synonym ('s, 'a) prog = "'s \<Rightarrow> 'a result \<times> 's"

definition ret :: "'a \<Rightarrow> ('s, 'a) prog" where
  "ret x s = (Inr x, s)"

definition raise :: "exn \<Rightarrow> ('s, 'a) prog" where
  "raise e s = (Inl e, s)"

definition lift :: "'a result \<Rightarrow> ('s, 'a) prog" where
  "lift r s = (r, s)"

definition gets :: "('s \<Rightarrow> 'a) \<Rightarrow> ('s, 'a) prog" where
  "gets f s = (Inr (f s), s)"

text \<open>A read that may raise.\<close>

definition reads :: "('s \<Rightarrow> 'a result) \<Rightarrow> ('s, 'a) prog" where
  "reads f s = (f s, s)"

definition modify :: "('s \<Rightarrow> 's) \<Rightarrow> ('s, unit) prog" where
  "modify f s = (Inr (), f s)"

definition bindP :: "('s, 'a) prog \<Rightarrow> ('a \<Rightarrow> ('s, 'b) prog) \<Rightarrow> ('s, 'b) prog" where
  "bindP m f s = (case m s of (Inl e, t) \<Rightarrow> (Inl e, t) | (Inr x, t) \<Rightarrow> f x t)"

definition guardP :: "bool \<Rightarrow> exn \<Rightarrow> ('s, unit) prog" where
  "guardP ok e = lift (check ok e)"

text \<open>\<open>for x in xs: ...\<close>.\<close>

fun forP :: "('x \<Rightarrow> ('s, unit) prog) \<Rightarrow> 'x list \<Rightarrow> ('s, unit) prog" where
  "forP f [] = ret ()"
| "forP f (x # xs) = bindP (f x) (\<lambda>_. forP f xs)"

text \<open>A loop that carries a value besides the state.\<close>

fun foldP :: "('x \<Rightarrow> 'a \<Rightarrow> ('s, 'a) prog) \<Rightarrow> 'x list \<Rightarrow> 'a \<Rightarrow> ('s, 'a) prog" where
  "foldP f [] a = ret a"
| "foldP f (x # xs) a = bindP (f x a) (foldP f xs)"

text \<open>\<open>try: m except ...\<close>: the handler sees the state the failing program left.\<close>

definition handleP :: "('s, 'a) prog \<Rightarrow> (exn \<Rightarrow> ('s, 'a) prog) \<Rightarrow> ('s, 'a) prog" where
  "handleP m h s = (case m s of (Inl e, t) \<Rightarrow> h e t | (Inr x, t) \<Rightarrow> (Inr x, t))"

text \<open>\<open>try: m finally: f\<close>.\<close>

definition finallyP :: "('s, 'a) prog \<Rightarrow> ('s \<Rightarrow> 's) \<Rightarrow> ('s, 'a) prog" where
  "finallyP m f s = (case m s of (r, t) \<Rightarrow> (r, f t))"

text \<open>A program on the first component of a pair.\<close>

definition on_fst :: "('s, 'a) prog \<Rightarrow> ('s \<times> 't, 'a) prog" where
  "on_fst m s = (case m (fst s) of (r, a) \<Rightarrow> (r, (a, snd s)))"

section \<open>Equations\<close>

lemma prog_simps [simp, result_simps]:
  "ret x s = (Inr x, s)" "raise e s = (Inl e, s)" "lift r s = (r, s)" "gets f s = (Inr (f s), s)"
  "reads g s = (g s, s)" "modify h s = (Inr (), h s)"
  by (simp_all add: ret_def raise_def lift_def gets_def reads_def modify_def)

lemma bindP_eq_Inr [result_simps]:
  "bindP m f s = (Inr y, u) \<longleftrightarrow> (\<exists>x t. m s = (Inr x, t) \<and> f x t = (Inr y, u))"
  by (auto simp: bindP_def split: prod.splits sum.splits)

lemma bindP_Inr: "m s = (Inr x, t) \<Longrightarrow> bindP m f s = f x t"
  by (simp add: bindP_def)

lemma bindP_Inl: "m s = (Inl e, t) \<Longrightarrow> bindP m f s = (Inl e, t)"
  by (simp add: bindP_def)

lemma bindP_simps [simp]:
  "bindP (ret x) f s = f x s" "bindP (gets g) f s = f (g s) s" "bindP (modify h) f' s = f' () (h s)"
  "bindP (raise e) f s = (Inl e, s)"
  by (simp_all add: bindP_def)

lemma bindP_lift [simp]: "bindP (lift (Inr x)) f s = f x s" "bindP (lift (Inl e)) f s = (Inl e, s)"
  by (simp_all add: bindP_def)

lemma bindP_reads: "bindP (reads g) f s = (case g s of Inl e \<Rightarrow> (Inl e, s) | Inr x \<Rightarrow> f x s)"
  by (simp add: bindP_def split: sum.split)

lemma guardP_eq_Inr [result_simps]: "guardP ok e s = (Inr u, t) \<longleftrightarrow> ok \<and> t = s"
  by (auto simp: guardP_def check_def)

lemma guardP_simps [simp]: "guardP True e s = (Inr (), s)" "guardP False e s = (Inl e, s)"
  by (simp_all add: guardP_def)

lemma if_Inl_pair [simp, result_simps]:
  "(if ok then r else (Inl e, u)) = (Inr x, t) \<longleftrightarrow> ok \<and> r = (Inr x, t)"
  "(if bad then (Inl e, u) else r) = (Inr x, t) \<longleftrightarrow> \<not> bad \<and> r = (Inr x, t)"
  by auto

lemma bindP_guardP [simp]:
  "bindP (guardP ok e) f s = (if ok then f () s else (Inl e, s))"
  by (simp add: bindP_def)

text \<open>A loop that passes goes through each of its items.\<close>

lemma forP_append:
  "forP f (xs @ ys) s = (Inr (), u) \<longleftrightarrow> (\<exists>t. forP f xs s = (Inr (), t) \<and> forP f ys t = (Inr (), u))"
  by (induction xs arbitrary: s) (auto simp: bindP_eq_Inr)

lemma forP_split:
  assumes "forP f xs s = (Inr (), u)" and "x \<in> set xs"
  obtains ys zs t t' where "xs = ys @ x # zs" "forP f ys s = (Inr (), t)" "f x t = (Inr (), t')"
    "forP f zs t' = (Inr (), u)"
proof -
  from assms(2) obtain ys zs where xs: "xs = ys @ x # zs" by (metis split_list)
  with assms(1) that show thesis by (auto simp: forP_append bindP_eq_Inr)
qed

lemma bindP_eq_Inl:
  "bindP m f s = (Inl e, u) \<longleftrightarrow> m s = (Inl e, u) \<or> (\<exists>x t. m s = (Inr x, t) \<and> f x t = (Inl e, u))"
  by (auto simp: bindP_def split: prod.splits sum.splits)

lemma forP_eq_InlD:
  assumes "forP f xs s = (Inl e, u)"
  obtains ys x zs t where "xs = ys @ x # zs" "forP f ys s = (Inr (), t)" "f x t = (Inl e, u)"
  using assms
proof (induction xs arbitrary: s thesis)
  case (Cons x xs)
  then consider "f x s = (Inl e, u)" | t where "f x s = (Inr (), t)" "forP f xs t = (Inl e, u)"
    by (auto simp: bindP_eq_Inl)
  then show ?case
  proof cases
    case 1
    with Cons.prems(1) [of "[]" x xs s] show ?thesis by simp
  next
    case 2
    from Cons.IH [OF _ 2(2)] obtain ys y zs t' where "xs = ys @ y # zs" "forP f ys t = (Inr (), t')" "f y t' = (Inl e, u)"
      by blast
    with 2 Cons.prems(1) [of "x # ys" y zs t'] show ?thesis by (simp add: bindP_Inr)
  qed
qed simp

section \<open>Invariants\<close>

definition keeps :: "('s \<Rightarrow> bool) \<Rightarrow> ('s, 'a) prog \<Rightarrow> bool" where
  "keeps I m \<longleftrightarrow> (\<forall>s. I s \<longrightarrow> I (snd (m s)))"

lemma keepsD: "keeps I m \<Longrightarrow> I s \<Longrightarrow> I (snd (m s))"
  by (simp add: keeps_def)

lemma keepsI: "(\<And>s. I s \<Longrightarrow> I (snd (m s))) \<Longrightarrow> keeps I m"
  by (simp add: keeps_def)

lemma keeps_pure [keeps_intros, simp]:
  "keeps I (ret x)" "keeps I (raise e)" "keeps I (lift r)" "keeps I (gets f)" "keeps I (reads g)"
  "keeps I (guardP ok e)"
  by (simp_all add: keeps_def guardP_def)

lemma keeps_modify [keeps_intros]: "(\<And>s. I s \<Longrightarrow> I (f s)) \<Longrightarrow> keeps I (modify f)"
  by (simp add: keeps_def)

lemma keeps_bind [keeps_intros]:
  "keeps I m \<Longrightarrow> (\<And>x. keeps I (f x)) \<Longrightarrow> keeps I (bindP m f)"
  unfolding keeps_def bindP_def by (auto split: prod.splits sum.splits)

lemma keeps_handle [keeps_intros]:
  "keeps I m \<Longrightarrow> (\<And>e. keeps I (h e)) \<Longrightarrow> keeps I (handleP m h)"
  unfolding keeps_def handleP_def by (auto split: prod.splits sum.splits)

lemma keeps_finally [keeps_intros]:
  "keeps I m \<Longrightarrow> (\<And>s. I s \<Longrightarrow> I (f s)) \<Longrightarrow> keeps I (finallyP m f)"
  unfolding keeps_def finallyP_def by (auto split: prod.splits)

lemma keeps_for [keeps_intros]: "(\<And>x. keeps I (f x)) \<Longrightarrow> keeps I (forP f xs)"
  by (induction xs) (auto intro: keeps_intros)

lemma keeps_fold [keeps_intros]: "(\<And>x a. keeps I (f x a)) \<Longrightarrow> keeps I (foldP f xs a)"
  by (induction xs arbitrary: a) (auto intro: keeps_intros)

lemma keeps_if [keeps_intros]: "keeps I m \<Longrightarrow> keeps I n \<Longrightarrow> keeps I (if b then m else n)"
  by simp

lemma keeps_case_option [keeps_intros]:
  "keeps I m \<Longrightarrow> (\<And>x. keeps I (f x)) \<Longrightarrow> keeps I (case v of None \<Rightarrow> m | Some x \<Rightarrow> f x)"
  by (cases v) auto

lemma keeps_case_prod [keeps_intros]:
  "(\<And>x y. keeps I (f x y)) \<Longrightarrow> keeps I (case p of (x, y) \<Rightarrow> f x y)"
  by (cases p) auto

lemma keeps_on_fst [keeps_intros]:
  "keeps I m \<Longrightarrow> keeps (\<lambda>s. I (fst s) \<and> J (snd s)) (on_fst m)"
  unfolding keeps_def on_fst_def by (auto split: prod.splits)

text \<open>What a program's results satisfy where the invariant holds before it.\<close>

definition yields :: "('s \<Rightarrow> bool) \<Rightarrow> ('s, 'a) prog \<Rightarrow> ('a \<Rightarrow> bool) \<Rightarrow> bool" where
  "yields I m Q \<longleftrightarrow> (\<forall>s x t. I s \<longrightarrow> m s = (Inr x, t) \<longrightarrow> Q x)"

lemma keeps_bind_yields:
  "keeps I m \<Longrightarrow> yields I m Q \<Longrightarrow> (\<And>x. Q x \<Longrightarrow> keeps I (f x)) \<Longrightarrow> keeps I (bindP m f)"
  unfolding keeps_def yields_def bindP_def by (auto split: prod.splits sum.splits)

lemma keeps_bind_guard [keeps_intros]:
  "(ok \<Longrightarrow> keeps I (f ())) \<Longrightarrow> keeps I (bindP (guardP ok e) f)"
  by (simp add: keeps_def)

lemma yields_pure:
  "yields I (ret x) (\<lambda>y. y = x)" "yields I (gets f) (\<lambda>y. \<exists>s. I s \<and> y = f s)"
  "yields I (reads g) (\<lambda>y. \<exists>s. I s \<and> g s = Inr y)" "yields I (lift r) (\<lambda>y. r = Inr y)"
  by (auto simp: yields_def)

lemma yields_bind:
  "keeps I m \<Longrightarrow> yields I m P \<Longrightarrow> (\<And>x. P x \<Longrightarrow> yields I (f x) Q) \<Longrightarrow> yields I (bindP m f) Q"
  unfolding yields_def keeps_def by (auto simp: bindP_eq_Inr) (metis snd_conv)

text \<open>A program that only reads leaves the state as it is.\<close>

definition read_only :: "('s, 'a) prog \<Rightarrow> bool" where
  "read_only m \<longleftrightarrow> (\<forall>s. snd (m s) = s)"

lemma keeps_read_only: "read_only m \<Longrightarrow> keeps I m"
  by (simp add: read_only_def keeps_def)

lemma read_only_intros:
  "read_only (ret x)" "read_only (raise e)" "read_only (lift r)" "read_only (gets f)"
  "read_only (reads g)" "read_only (guardP ok e)"
  by (simp_all add: read_only_def guardP_def)

lemma read_only_bind: "read_only m \<Longrightarrow> (\<And>x. read_only (f x)) \<Longrightarrow> read_only (bindP m f)"
  unfolding read_only_def bindP_def
  by (auto split: prod.splits sum.splits) (metis snd_conv)+

lemma read_only_result: "read_only m \<Longrightarrow> m s = (r, t) \<Longrightarrow> t = s"
  unfolding read_only_def by (metis snd_conv)

end
