(* ===== verification/Storage.thy ===== *)
theory Storage
  imports Task_Lifecycle Paths Programs "HOL-Library.Product_Lexorder"
begin

text \<open>
  The local state store (\<open>src/src/ael/storage.py\<close>): the workspace layout, the content
  addressed store and the SQLite tables for runs, models, audit entries, workers and tasks.

  A table is the list of its rows. Every method is one transaction: it commits when the
  \<open>with\<close> block is left by \<open>return\<close> or at its end, and an exception closes the connection
  without a commit, so an operation that raises is \<open>Inl\<close> and has no new state. Times are UTC
  microseconds (the ISO texts the code stores compare in the same order), and \<open>now\<close> is the
  clock the method reads. JSON columns are kept as the values they encode; the key order of a
  JSON object is not observable in Python.
\<close>

section \<open>Workspace layout and content addressed store\<close>

record workspace_layout =
  layout_root :: path

definition state_dir :: "workspace_layout \<Rightarrow> path" where
  "state_dir l = layout_root l @ [''.ael'']"

definition database :: "workspace_layout \<Rightarrow> path" where
  "database l = state_dir l @ [''ael.sqlite3'']"

definition cas_dir :: "workspace_layout \<Rightarrow> path" where
  "cas_dir l = state_dir l @ [''cas'', ''sha256'']"

definition runs_dir :: "workspace_layout \<Rightarrow> path" where
  "runs_dir l = layout_root l @ [''runs'']"

definition models_dir :: "workspace_layout \<Rightarrow> path" where
  "models_dir l = layout_root l @ [''models'']"

text \<open>\<open>hashlib.sha256(...).hexdigest()\<close> is the parameter \<open>sha\<close>; files are a map from paths.\<close>

definition cas_path :: "workspace_layout \<Rightarrow> string \<Rightarrow> path" where
  "cas_path l digest = cas_dir l @ [take 2 digest, drop 2 digest]"

definition put_bytes ::
    "('b \<Rightarrow> string) \<Rightarrow> workspace_layout \<Rightarrow> 'b \<Rightarrow> (path \<rightharpoonup> 'b) \<Rightarrow> (string \<times> path) \<times> (path \<rightharpoonup> 'b)" where
  "put_bytes sha l payload fs =
     (let digest = sha payload; target = cas_path l digest in
      ((digest, target), if fs target = None then fs(target \<mapsto> payload) else fs))"

text \<open>Every object the store holds lies under its own digest.\<close>

definition cas_ok :: "('b \<Rightarrow> string) \<Rightarrow> workspace_layout \<Rightarrow> (path \<rightharpoonup> 'b) \<Rightarrow> bool" where
  "cas_ok sha l fs \<longleftrightarrow> (\<forall>d b. fs (cas_path l d) = Some b \<longrightarrow> sha b = d)"

lemma cas_path_inj: "cas_path l d = cas_path l d' \<longleftrightarrow> d = d'"
  by (auto simp: cas_path_def) (metis append_take_drop_id)

lemma put_bytes_ok: "cas_ok sha l fs \<Longrightarrow> put_bytes sha l b fs = (r, fs') \<Longrightarrow> cas_ok sha l fs'"
  by (auto simp: put_bytes_def cas_ok_def Let_def cas_path_inj split: if_splits)

lemma put_bytes_finds:
  assumes "cas_ok sha l fs" and "inj sha" and "put_bytes sha l b fs = ((d, p), fs')"
  shows "fs' p = Some b \<and> d = sha b"
proof (cases "fs (cas_path l (sha b))")
  case None
  with assms(3) show ?thesis by (auto simp: put_bytes_def Let_def)
next
  case (Some b')
  with assms(1) have "sha b' = sha b" by (simp add: cas_ok_def)
  with assms(2) have "b' = b" by (simp add: inj_eq)
  with Some assms(3) show ?thesis by (auto simp: put_bytes_def Let_def)
qed

lemma put_bytes_keeps: "fs p = Some b \<Longrightarrow> put_bytes sha l b' fs = (r, fs') \<Longrightarrow> fs' p = Some b"
  by (auto simp: put_bytes_def Let_def split: if_splits)

section \<open>Tables\<close>

record run_row =
  rr_run_id :: string
  rr_status :: run_status
  rr_experiment_path :: string
  rr_evidence_path :: "string option"
  rr_error :: "string option"
  rr_created_at :: int
  rr_updated_at :: int

record model_row =
  mr_model_id :: string
  mr_state :: model_state
  mr_package_path :: string
  mr_updated_at :: int

record audit_row =
  au_sequence :: nat
  au_timestamp :: int
  au_actor :: string
  au_action :: string
  au_subject :: string
  au_details :: string

record worker_row =
  wk_worker_id :: string
  wk_kind :: worker_kind
  wk_registration :: worker_registration
  wk_fingerprint :: string
  wk_last_seen_at :: int
  wk_enabled :: bool

text \<open>A row of \<open>tasks\<close> holds the fields of a \<open>WorkerTask\<close> and the time of its last change.\<close>

record task_row = worker_task +
  row_updated_at :: int

record state_store =
  ss_runs :: "run_row list"
  ss_models :: "model_row list"
  ss_audit :: "audit_row list"
  ss_next_sequence :: nat
  ss_workers :: "worker_row list"
  ss_tasks :: "task_row list"

text \<open>The tables \<open>_migrate\<close> creates.\<close>

definition migrated :: state_store where
  "migrated = \<lparr>ss_runs = [], ss_models = [], ss_audit = [], ss_next_sequence = 1,
     ss_workers = [], ss_tasks = []\<rparr>"

section \<open>Runs, models, audit\<close>

definition create_run :: "int \<Rightarrow> string \<Rightarrow> string \<Rightarrow> state_store \<Rightarrow> state_store result" where
  "create_run now run_id experiment_path st =
     (if find_by rr_run_id run_id (ss_runs st) \<noteq> None
      then Inl (IntegrityError ''UNIQUE constraint failed: runs.run_id'')
      else Inr (st\<lparr>ss_runs := ss_runs st @
        [\<lparr>rr_run_id = run_id, rr_status = RS_QUEUED, rr_experiment_path = experiment_path,
          rr_evidence_path = None, rr_error = None, rr_created_at = now, rr_updated_at = now\<rparr>]\<rparr>))"

definition coalesce :: "'a option \<Rightarrow> 'a option \<Rightarrow> 'a option" where
  "coalesce a b = (case a of None \<Rightarrow> b | Some x \<Rightarrow> Some x)"

definition update_run ::
    "int \<Rightarrow> string \<Rightarrow> run_status \<Rightarrow> string option \<Rightarrow> string option \<Rightarrow> state_store \<Rightarrow> state_store" where
  "update_run now run_id status evidence_path err st =
     st\<lparr>ss_runs := update_where (\<lambda>r. rr_run_id r = run_id)
       (\<lambda>r. r\<lparr>rr_status := status, rr_evidence_path := coalesce evidence_path (rr_evidence_path r),
          rr_error := err, rr_updated_at := now\<rparr>) (ss_runs st)\<rparr>"

definition get_run :: "string \<Rightarrow> state_store \<Rightarrow> run_row option" where
  "get_run run_id st = find_by rr_run_id run_id (ss_runs st)"

text \<open>\<open>ORDER BY created_at DESC LIMIT ?\<close>; a negative limit is none in SQLite.\<close>

definition list_runs :: "int \<Rightarrow> state_store \<Rightarrow> run_row list" where
  "list_runs limit st =
     (let rows = sort_key (\<lambda>r. - rr_created_at r) (ss_runs st) in
      if limit < 0 then rows else take (nat limit) rows)"

text \<open>The upsert of \<open>save_model\<close>.\<close>

definition upsert_model :: "model_row \<Rightarrow> model_row list \<Rightarrow> model_row list" where
  "upsert_model row rows =
     (if find_by mr_model_id (mr_model_id row) rows \<noteq> None
      then update_where (\<lambda>r. mr_model_id r = mr_model_id row)
        (\<lambda>r. r\<lparr>mr_state := mr_state row, mr_package_path := mr_package_path row,
           mr_updated_at := mr_updated_at row\<rparr>) rows
      else rows @ [row])"

text \<open>
  \<open>save_model\<close> writes the package file first (\<open>write\<close> is \<open>write_json\<close> on the files
  \<open>'f\<close>), so the file is written even where \<open>relative_to\<close> then raises because the path is
  not below the root.
\<close>

definition save_model ::
    "int \<Rightarrow> workspace_layout \<Rightarrow> (path \<Rightarrow> model_package \<Rightarrow> ('f, unit) prog) \<Rightarrow> model_package \<Rightarrow> path \<Rightarrow>
       ('f \<times> state_store, unit) prog" where
  "save_model now l write package package_path =
     bindP (on_fst (write package_path package)) (\<lambda>_.
     bindP (guardP (prefix (layout_root l) package_path) (ValueError ''path is not in the subpath'')) (\<lambda>_.
     modify (\<lambda>(fs, st). (fs, st\<lparr>ss_models := upsert_model
       \<lparr>mr_model_id = mp_id package, mr_state = mp_state package,
        mr_package_path = relative_to (layout_root l) package_path, mr_updated_at = now\<rparr>
       (ss_models st)\<rparr>))))"

definition get_model_record :: "string \<Rightarrow> state_store \<Rightarrow> model_row option" where
  "get_model_record model_id st = find_by mr_model_id model_id (ss_models st)"

definition list_models :: "state_store \<Rightarrow> model_row list" where
  "list_models st = sort_key mr_model_id (ss_models st)"

definition count_models :: "model_state \<Rightarrow> state_store \<Rightarrow> nat" where
  "count_models state st = length (filter (\<lambda>r. mr_state r = state) (ss_models st))"

definition audit :: "int \<Rightarrow> string \<Rightarrow> string \<Rightarrow> string \<Rightarrow> string \<Rightarrow> state_store \<Rightarrow> state_store" where
  "audit now actor action subject details st =
     st\<lparr>ss_audit := ss_audit st @
          [\<lparr>au_sequence = ss_next_sequence st, au_timestamp = now, au_actor = actor,
            au_action = action, au_subject = subject, au_details = details\<rparr>],
        ss_next_sequence := ss_next_sequence st + 1\<rparr>"

section \<open>Workers\<close>

text \<open>The conflict clause does not list \<open>enabled\<close>: registering again leaves it as it was.\<close>

definition register_worker :: "int \<Rightarrow> worker_registration \<Rightarrow> state_store \<Rightarrow> state_store" where
  "register_worker now r st =
     (if find_by wk_worker_id (wr_worker_id r) (ss_workers st) \<noteq> None
      then st\<lparr>ss_workers := update_where (\<lambda>w. wk_worker_id w = wr_worker_id r)
        (\<lambda>w. w\<lparr>wk_kind := wr_worker_kind r, wk_registration := r,
           wk_fingerprint := lower (wr_certificate_fingerprint r), wk_last_seen_at := now\<rparr>)
        (ss_workers st)\<rparr>
      else st\<lparr>ss_workers := ss_workers st @
        [\<lparr>wk_worker_id = wr_worker_id r, wk_kind = wr_worker_kind r, wk_registration = r,
          wk_fingerprint = lower (wr_certificate_fingerprint r), wk_last_seen_at = now,
          wk_enabled = True\<rparr>]\<rparr>)"

definition worker :: "string \<Rightarrow> worker_row list \<Rightarrow> worker_registration option" where
  "worker worker_id rows =
     map_option wk_registration (find (\<lambda>w. wk_worker_id w = worker_id \<and> wk_enabled w) rows)"

section \<open>Statements on the task table\<close>

definition task_from_row :: "task_row \<Rightarrow> worker_task" where
  "task_from_row r = worker_task.truncate r"

definition task_in :: "task_row list \<Rightarrow> string \<Rightarrow> worker_task option" where
  "task_in rows i = map_option task_from_row (find_by wt_task_id i rows)"

definition touched :: "int \<Rightarrow> task_row \<Rightarrow> task_row" where
  "touched now r = r\<lparr>row_updated_at := now\<rparr>"

text \<open>The insert of \<open>enqueue_task\<close>: status and lease columns do not come from the client.\<close>

definition task_insert :: "int \<Rightarrow> worker_task \<Rightarrow> task_row" where
  "task_insert now t = worker_task.extend (enqueued t) \<lparr>row_updated_at = now\<rparr>"

text \<open>The update that hands back every task whose lease has run out.\<close>

definition reclaim_expired :: "int \<Rightarrow> task_row list \<Rightarrow> task_row list" where
  "reclaim_expired now = update_where (lease_expired now) (\<lambda>r. touched now (queued_again r))"

text \<open>\<open>WHERE status = 'queued' ORDER BY created_at, task_id\<close>.\<close>

definition lease_order :: "('a :: type) worker_task_scheme \<Rightarrow> int \<times> string" where
  "lease_order r = (wt_created_at r, wt_task_id r)"

definition queued_rows :: "task_row list \<Rightarrow> task_row list" where
  "queued_rows rows = sort_key lease_order (filter (\<lambda>r. wt_status r = TS_QUEUED) rows)"

definition can_run :: "string list \<Rightarrow> ('a :: type) worker_task_scheme \<Rightarrow> bool" where
  "can_run capability_names r \<longleftrightarrow> set (wt_required_capabilities r) \<subseteq> set capability_names"

text \<open>
  An update that must hit exactly one row, and the read of that row by its id; the exception of a
  read that finds no row is \<open>missing\<close>.
\<close>

definition update_one ::
    "(task_row \<Rightarrow> bool) \<Rightarrow> (task_row \<Rightarrow> task_row) \<Rightarrow> exn \<Rightarrow> exn \<Rightarrow> string \<Rightarrow> task_row list \<Rightarrow>
       (worker_task \<times> task_row list) result" where
  "update_one p f e missing i rows =
     (if rowcount p rows \<noteq> 1 then Inl e
      else let rows' = update_where p f rows in
        andThen (require (task_in rows' i) missing) (\<lambda>t. Inr (t, rows')))"

definition lease_invalid :: exn where
  "lease_invalid = PermissionError ''lease token is invalid or task is no longer active''"

definition no_row :: exn where
  "no_row = TypeError ''NoneType object is not subscriptable''"

definition positive_seconds :: "int \<Rightarrow> unit result" where
  "positive_seconds secs = check (\<not> secs \<le> 0) (ValueError ''lease_seconds must be positive'')"

section \<open>Task operations\<close>

definition enqueue_task ::
    "int \<Rightarrow> worker_task \<Rightarrow> state_store \<Rightarrow> (worker_task \<times> state_store) result" where
  "enqueue_task now t st =
     (case find_by wt_idempotency_key (wt_idempotency_key t) (ss_tasks st) of
        Some existing \<Rightarrow> Inr (task_from_row existing, st)
      | None \<Rightarrow>
          if find_by wt_task_id (wt_task_id t) (ss_tasks st) \<noteq> None
          then Inl (IntegrityError ''UNIQUE constraint failed: tasks.task_id'')
          else Inr (t, st\<lparr>ss_tasks := ss_tasks st @ [task_insert now t]\<rparr>))"

definition get_task :: "state_store \<Rightarrow> string \<Rightarrow> worker_task option" where
  "get_task st i = task_in (ss_tasks st) i"

definition lease_task ::
    "int \<Rightarrow> string \<Rightarrow> string \<Rightarrow> int \<Rightarrow> state_store \<Rightarrow> (worker_task option \<times> state_store) result" where
  "lease_task now token worker_id secs st =
     andThen (positive_seconds secs) (\<lambda>_.
     andThen (require (worker worker_id (ss_workers st))
       (PermissionError ''worker is not registered or enabled'')) (\<lambda>registration.
     let capability_names = map wc_name (wr_capabilities registration);
         rows = reclaim_expired now (ss_tasks st)
     in case find (can_run capability_names) (queued_rows rows) of
          None \<Rightarrow> Inr (None, st\<lparr>ss_tasks := rows\<rparr>)
        | Some selected \<Rightarrow>
            let mine = (\<lambda>r. wt_task_id r = wt_task_id selected \<and> wt_status r = TS_QUEUED);
                rows' = update_where mine
                  (\<lambda>r. touched now (leased worker_id token (now + seconds secs) r)) rows
            in if rowcount mine rows \<noteq> 1 then Inr (None, st\<lparr>ss_tasks := rows'\<rparr>)
               else andThen (require (task_in rows' (wt_task_id selected)) no_row) (\<lambda>t.
                 Inr (Some t, st\<lparr>ss_tasks := rows'\<rparr>))))"

definition lease_matches :: "string \<Rightarrow> string \<Rightarrow> string \<Rightarrow> task_row \<Rightarrow> bool" where
  "lease_matches i worker_id token r \<longleftrightarrow> wt_task_id r = i \<and> holds_lease worker_id token r"

definition heartbeat_task ::
    "int \<Rightarrow> string \<Rightarrow> worker_heartbeat \<Rightarrow> int \<Rightarrow> state_store \<Rightarrow> (worker_task \<times> state_store) result" where
  "heartbeat_task now worker_id hb secs st =
     andThen (positive_seconds secs) (\<lambda>_.
     andThen (update_one (lease_matches (hb_task_id hb) worker_id (hb_lease_token hb))
       (\<lambda>r. touched now (beaten (now + seconds secs) hb r)) lease_invalid no_row
       (hb_task_id hb) (ss_tasks st)) (\<lambda>(t, rows).
     Inr (t, st\<lparr>ss_tasks := rows\<rparr>)))"

definition complete_task ::
    "int \<Rightarrow> string \<Rightarrow> worker_task_result \<Rightarrow> state_store \<Rightarrow> (worker_task \<times> state_store) result" where
  "complete_task now worker_id res st =
     andThen (update_one (lease_matches (tr_task_id res) worker_id (tr_lease_token res))
       (\<lambda>r. touched now (completed res r)) lease_invalid no_row (tr_task_id res) (ss_tasks st))
     (\<lambda>(t, rows). Inr (t, st\<lparr>ss_tasks := rows\<rparr>))"

definition cancel_task :: "int \<Rightarrow> string \<Rightarrow> state_store \<Rightarrow> (worker_task \<times> state_store) result" where
  "cancel_task now i st =
     andThen (update_one (\<lambda>r. wt_task_id r = i \<and> cancellable r) (\<lambda>r. touched now (cancelled r))
       (ValueError ''task is not cancellable'') no_row i (ss_tasks st))
     (\<lambda>(t, rows). Inr (t, st\<lparr>ss_tasks := rows\<rparr>))"

text \<open>One request of the worker protocol.\<close>

fun store_step ::
    "int \<Rightarrow> task_op \<Rightarrow> state_store \<Rightarrow> (worker_task option \<times> state_store) result" where
  "store_step now (Enqueue t) st =
     andThen (enqueue_task now t st) (\<lambda>(u, st'). Inr (Some u, st'))"
| "store_step now (Lease w secs token lk) st = lease_task now token w secs st"
| "store_step now (Heartbeat w hb secs) st =
     andThen (heartbeat_task now w hb secs st) (\<lambda>(u, st'). Inr (Some u, st'))"
| "store_step now (Complete w res) st =
     andThen (complete_task now w res st) (\<lambda>(u, st'). Inr (Some u, st'))"
| "store_step now (Cancel i) st =
     andThen (cancel_task now i st) (\<lambda>(u, st'). Inr (Some u, st'))"

section \<open>Row facts\<close>

lemma truncate_edges [row_simps]:
  "task_from_row (touched now r) = task_from_row r"
  "task_from_row (queued_again r) = queued_again (task_from_row r)"
  "task_from_row (leased w tok x r) = leased w tok x (task_from_row r)"
  "task_from_row (beaten x hb r) = beaten x hb (task_from_row r)"
  "task_from_row (completed res r) = completed res (task_from_row r)"
  "task_from_row (cancelled r) = cancelled (task_from_row r)"
  "task_from_row (task_insert now t) = enqueued t"
  by (simp_all add: task_from_row_def worker_task.defs touched_def edge_defs task_insert_def)

lemma truncate_fields [row_simps]:
  "wt_task_id (task_from_row r) = wt_task_id r"
  "wt_idempotency_key (task_from_row r) = wt_idempotency_key r"
  "wt_status (task_from_row r) = wt_status r"
  "wt_lease_owner (task_from_row r) = wt_lease_owner r"
  "wt_lease_token (task_from_row r) = wt_lease_token r"
  "wt_lease_expires_at (task_from_row r) = wt_lease_expires_at r"
  "wt_attempts (task_from_row r) = wt_attempts r"
  "wt_created_at (task_from_row r) = wt_created_at r"
  "wt_required_capabilities (task_from_row r) = wt_required_capabilities r"
  "wt_result (task_from_row r) = wt_result r"
  by (simp_all add: task_from_row_def worker_task.defs)

lemma truncate_preds [row_simps]:
  "active (task_from_row r) = active r" "cancellable (task_from_row r) = cancellable r"
  "holds_lease w tok (task_from_row r) = holds_lease w tok r"
  "lease_expired now (task_from_row r) = lease_expired now r"
  "can_run caps (task_from_row r) = can_run caps r"
  "lease_order (task_from_row r) = lease_order r"
  by (simp_all add: edge_defs can_run_def lease_order_def row_simps)

lemma edges_ids [row_simps]:
  fixes r :: task_row
  shows "wt_task_id (touched now r) = wt_task_id r" "wt_task_id (queued_again r) = wt_task_id r"
    "wt_task_id (leased w tok x r) = wt_task_id r" "wt_task_id (beaten x hb r) = wt_task_id r"
    "wt_task_id (completed res r) = wt_task_id r" "wt_task_id (cancelled r) = wt_task_id r"
  by (simp_all add: touched_def edge_defs)

lemma edges_keys [row_simps]:
  fixes r :: task_row
  shows "wt_idempotency_key (touched now r) = wt_idempotency_key r"
    "wt_idempotency_key (queued_again r) = wt_idempotency_key r"
    "wt_idempotency_key (leased w tok x r) = wt_idempotency_key r"
    "wt_idempotency_key (beaten x hb r) = wt_idempotency_key r"
    "wt_idempotency_key (completed res r) = wt_idempotency_key r"
    "wt_idempotency_key (cancelled r) = wt_idempotency_key r"
  by (simp_all add: touched_def edge_defs)

section \<open>The invariant of the task table\<close>

text \<open>
  Ids and idempotency keys are unique, and the lease columns fit the status: a queued task has no
  lease and no result, an active one has an owner, a token, a deadline and at least one attempt.
\<close>

definition lease_fields_ok :: "('a :: type) worker_task_scheme \<Rightarrow> bool" where
  "lease_fields_ok r \<longleftrightarrow> 0 \<le> wt_attempts r \<and>
     (wt_status r = TS_QUEUED \<longrightarrow> wt_lease_owner r = None \<and> wt_lease_token r = None \<and>
        wt_lease_expires_at r = None \<and> wt_result r = None) \<and>
     (active r \<longrightarrow> wt_lease_owner r \<noteq> None \<and> wt_lease_token r \<noteq> None \<and>
        wt_lease_expires_at r \<noteq> None \<and> wt_result r = None \<and> 0 < wt_attempts r)"

definition task_table_ok :: "task_row list \<Rightarrow> bool" where
  "task_table_ok rows \<longleftrightarrow> distinct (map wt_task_id rows) \<and>
     distinct (map wt_idempotency_key rows) \<and> list_all lease_fields_ok rows"

lemma lease_fields_edges [inv_intros]:
  fixes r :: task_row
  shows "lease_fields_ok r \<Longrightarrow> lease_fields_ok (touched now r)"
    "active r \<Longrightarrow> lease_fields_ok r \<Longrightarrow> lease_fields_ok (queued_again r)"
    "wt_status r = TS_QUEUED \<Longrightarrow> lease_fields_ok r \<Longrightarrow> lease_fields_ok (leased w tok x r)"
    "active r \<Longrightarrow> lease_fields_ok r \<Longrightarrow> lease_fields_ok (beaten x hb r)"
    "lease_fields_ok r \<Longrightarrow> lease_fields_ok (completed res r)"
    "lease_fields_ok r \<Longrightarrow> lease_fields_ok (cancelled r)"
    "lease_fields_ok (task_insert now t)"
  using heartbeat_task_status_active [of "hb_status hb"]
    result_task_status_terminal [of "tr_status res"]
  by (auto simp: lease_fields_ok_def touched_def edge_defs task_insert_def worker_task.defs)

lemma task_table_ok_update [inv_intros]:
  assumes "task_table_ok rows"
    and "\<And>r. wt_task_id (f r) = wt_task_id r" "\<And>r. wt_idempotency_key (f r) = wt_idempotency_key r"
    and "\<And>r. r \<in> set rows \<Longrightarrow> p r \<Longrightarrow> lease_fields_ok r \<Longrightarrow> lease_fields_ok (f r)"
  shows "task_table_ok (update_where p f rows)"
proof -
  have "list_all lease_fields_ok (update_where p f rows)"
    using assms(1,4) by (auto simp: task_table_ok_def list_all_iff update_where_def)
  with assms(1-3) show ?thesis
    by (simp add: task_table_ok_def keys_update_where)
qed

lemma task_table_ok_insert:
  assumes "task_table_ok rows" "find_by wt_idempotency_key (wt_idempotency_key t) rows = None"
    "find_by wt_task_id (wt_task_id t) rows = None"
  shows "task_table_ok (rows @ [task_insert now t])"
  using assms lease_fields_edges(7) [of now t]
  by (auto simp: task_table_ok_def find_by_None task_insert_def worker_task.defs enqueued_def)

lemma task_table_ok_reclaim: "task_table_ok rows \<Longrightarrow> task_table_ok (reclaim_expired now rows)"
  unfolding reclaim_expired_def
  by (rule task_table_ok_update) (auto simp: row_simps lease_expired_def intro!: lease_fields_edges)

lemma task_in_update:
  assumes "\<And>r. wt_task_id (f r) = wt_task_id r"
  shows "task_in (update_where p f rows) i =
     map_option (\<lambda>r. task_from_row (if p r then f r else r)) (find_by wt_task_id i rows)"
  using assms by (simp add: task_in_def find_by_update_where option.map_comp comp_def)

lemma task_in_id: "task_in rows i = Some t \<Longrightarrow> wt_task_id t = i"
  by (auto simp: task_in_def row_simps dest: find_by_SomeD)

lemma find_by_rowD: "find_by wt_task_id i rows = Some r \<Longrightarrow> r \<in> set rows \<and> wt_task_id r = i"
  by (rule find_by_SomeD)

lemma task_in_reclaim:
  "task_in (reclaim_expired now rows) i = map_option
     (\<lambda>t. if lease_expired now t then queued_again t else t) (task_in rows i)"
  unfolding reclaim_expired_def
  by (subst task_in_update) (auto simp: row_simps task_in_def option.map_comp comp_def
      intro!: option.map_cong0)

text \<open>An update that must hit one row of key \<open>i\<close>: what it needs and what it does.\<close>

lemma update_one_key:
  assumes ok: "task_table_ok rows" and f: "\<And>r. wt_task_id (f r) = wt_task_id r"
  shows "update_one (\<lambda>r. wt_task_id r = i \<and> q r) f e m i rows =
     (case find_by wt_task_id i rows of
        Some r \<Rightarrow> if q r then Inr (task_from_row (f r),
                     update_where (\<lambda>r. wt_task_id r = i \<and> q r) f rows) else Inl e
      | None \<Rightarrow> Inl e)"
proof -
  have d: "distinct (map wt_task_id rows)" using ok by (simp add: task_table_ok_def)
  show ?thesis
    using find_by_rowD [of i rows] f
    by (auto simp: update_one_def rowcount_key_unique [OF d] task_in_update [OF f] require_def
        Let_def split: option.splits)
qed

text \<open>Granting a lease on a queued row.\<close>

lemma grant_rows:
  fixes rows :: "task_row list" and x now :: int and w token :: string
  assumes ok: "task_table_ok rows" and sel: "sel \<in> set rows" "wt_status sel = TS_QUEUED"
  defines "mine \<equiv> \<lambda>r :: task_row. wt_task_id r = wt_task_id sel \<and> wt_status r = TS_QUEUED"
  defines "rows' \<equiv> update_where mine (\<lambda>r. touched now (leased w token x r)) rows"
  shows "rowcount mine rows = 1"
    and "task_table_ok rows'"
    and "task_in rows' i =
      (if i = wt_task_id sel then Some (leased w token x (task_from_row sel)) else task_in rows i)"
proof -
  have d: "distinct (map wt_task_id rows)" using ok by (simp add: task_table_ok_def)
  have f: "find_by wt_task_id (wt_task_id sel) rows = Some sel"
    by (rule find_by_distinct [OF d sel(1)])
  show "rowcount mine rows = 1"
    using sel(2) f by (simp add: mine_def rowcount_key_unique [OF d])
  show "task_table_ok rows'"
    unfolding rows'_def by (rule task_table_ok_update [OF ok])
      (auto simp: row_simps mine_def intro!: lease_fields_edges)
  show "task_in rows' i =
      (if i = wt_task_id sel then Some (leased w token x (task_from_row sel)) else task_in rows i)"
  proof (cases "find_by wt_task_id i rows")
    case None
    with f show ?thesis by (auto simp: rows'_def find_by_update_where row_simps task_in_def)
  next
    case (Some r)
    note id = find_by_rowD [OF Some]
    show ?thesis
    proof (cases "i = wt_task_id sel")
      case True
      with Some f sel(2) show ?thesis
        by (simp add: rows'_def find_by_update_where row_simps task_in_def mine_def)
    next
      case False
      with Some id show ?thesis
        by (simp add: rows'_def find_by_update_where row_simps task_in_def mine_def)
    qed
  qed
qed

text \<open>The two outcomes of \<open>lease_task\<close>: nothing it can run, or the first queued task it can.\<close>

lemma queued_rows_find:
  assumes "find p (queued_rows rows) = Some sel"
  shows "sel \<in> set rows" "wt_status sel = TS_QUEUED" "p sel"
    and "\<And>r. r \<in> set rows \<Longrightarrow> wt_status r = TS_QUEUED \<Longrightarrow> p r \<Longrightarrow> lease_order sel \<le> lease_order r"
  using find_sort_key_in [OF assms [unfolded queued_rows_def]]
    find_sort_key_least [OF assms [unfolded queued_rows_def]] by auto

lemma queued_rows_none:
  "find p (queued_rows rows) = None \<longleftrightarrow> (\<forall>r \<in> set rows. wt_status r = TS_QUEUED \<longrightarrow> \<not> p r)"
  by (auto simp: queued_rows_def find_None_iff)

lemma lease_task_eq:
  assumes ok: "task_table_ok (ss_tasks st)" and reg: "worker w (ss_workers st) = Some reg"
    and secs: "0 < secs"
  shows "lease_task now token w secs st =
     (let rows = reclaim_expired now (ss_tasks st) in
      case find (can_run (map wc_name (wr_capabilities reg))) (queued_rows rows) of
        None \<Rightarrow> Inr (None, st\<lparr>ss_tasks := rows\<rparr>)
      | Some sel \<Rightarrow> Inr (Some (leased w token (now + seconds secs) (task_from_row sel)),
          st\<lparr>ss_tasks := update_where (\<lambda>r. wt_task_id r = wt_task_id sel \<and> wt_status r = TS_QUEUED)
            (\<lambda>r. touched now (leased w token (now + seconds secs) r)) rows\<rparr>))"
proof -
  let ?rows = "reclaim_expired now (ss_tasks st)"
  have ok': "task_table_ok ?rows" by (rule task_table_ok_reclaim [OF ok])
  show ?thesis
  proof (cases "find (can_run (map wc_name (wr_capabilities reg))) (queued_rows ?rows)")
    case None
    with reg secs show ?thesis by (simp add: lease_task_def positive_seconds_def)
  next
    case (Some sel)
    note q = queued_rows_find [OF Some]
    from Some reg secs show ?thesis
      by (simp add: lease_task_def positive_seconds_def grant_rows [OF ok' q(1,2)])
  qed
qed

lemma lease_task_Inr:
  "lease_task now token w secs st = Inr rs \<Longrightarrow>
     0 < secs \<and> (\<exists>reg. worker w (ss_workers st) = Some reg)"
  by (auto simp: lease_task_def andThen_eq_Inr positive_seconds_def require_eq_Inr)

section \<open>The store keeps its promises\<close>

lemma reclaim_lookup:
  "task_in rows i = Some t \<Longrightarrow> task_in (reclaim_expired now rows) i =
     Some (if lease_expired now t then queued_again t else t)"
  by (simp add: task_in_reclaim)

lemma reclaim_edge:
  "task_in rows i = Some t \<Longrightarrow> \<exists>t'. task_in (reclaim_expired now rows) i = Some t' \<and>
     task_edge now (Lease w secs tok lk) t t'"
  by (auto simp: task_in_reclaim intro: task_edge.intros)

lemma reclaim_grant_edge:
  "task_in rows i = Some t \<Longrightarrow> task_in (reclaim_expired now rows) i = Some t' \<Longrightarrow>
     wt_status t' = TS_QUEUED \<Longrightarrow>
     task_edge now (Lease w secs tok lk) t (leased w tok (now + seconds secs) t')"
  by (auto simp: task_in_reclaim split: if_splits intro: task_edge.grant task_edge.regrant)

lemma task_in_mem:
  assumes "task_table_ok rows" and "r \<in> set rows"
  shows "task_in rows (wt_task_id r) = Some (task_from_row r)"
  using assms by (simp add: task_in_def task_table_ok_def find_by_distinct)

lemma update_edge:
  assumes "task_in rows i = Some t" and "\<And>r. wt_task_id (f r) = wt_task_id r"
    and "\<And>r. p r \<Longrightarrow> task_from_row r = t \<Longrightarrow> E t (task_from_row (f r))" and "E t t"
  shows "\<exists>t'. task_in (update_where p f rows) i = Some t' \<and> E t t'"
proof -
  from assms(1) obtain r where "find_by wt_task_id i rows = Some r" "t = task_from_row r"
    by (auto simp: task_in_def)
  with assms(3,4) show ?thesis by (simp add: task_in_update [OF assms(2)])
qed

text \<open>A heartbeat, a completion and a cancellation as one update of a row.\<close>

lemma update_one_Inr:
  assumes ok: "task_table_ok rows" and f: "\<And>r. wt_task_id (f r) = wt_task_id r"
    and upd: "update_one (\<lambda>r. wt_task_id r = i \<and> q r) f e m i rows = Inr (t', rows')"
  obtains r where "find_by wt_task_id i rows = Some r" "q r" "t' = task_from_row (f r)"
    "rows' = update_where (\<lambda>r. wt_task_id r = i \<and> q r) f rows"
    "task_in rows' i = Some t'"
  using upd find_by_rowD [of i rows]
  by (auto simp: update_one_key [OF ok f] task_in_update [OF f] split: option.splits if_splits)

definition store_ok :: "state_store \<Rightarrow> bool" where
  "store_ok st \<longleftrightarrow> task_table_ok (ss_tasks st) \<and> distinct (map rr_run_id (ss_runs st)) \<and>
     distinct (map mr_model_id (ss_models st)) \<and> distinct (map wk_worker_id (ss_workers st)) \<and>
     sorted_wrt (<) (map au_sequence (ss_audit st) @ [ss_next_sequence st])"

lemma store_ok_tasks:
  "store_ok st \<Longrightarrow> task_table_ok rows \<Longrightarrow> store_ok (st\<lparr>ss_tasks := rows\<rparr>)"
  by (simp add: store_ok_def)

lemma store_okD: "store_ok st \<Longrightarrow> task_table_ok (ss_tasks st)"
  by (simp add: store_ok_def)

text \<open>The outcomes of each operation, in the vocabulary of the life cycle.\<close>

lemma heartbeat_cases:
  assumes ok: "task_table_ok (ss_tasks st)"
    and step: "heartbeat_task now w hb secs st = Inr (t', st')"
  obtains r rows where "0 < secs" "find_by wt_task_id (hb_task_id hb) (ss_tasks st) = Some r"
    "holds_lease w (hb_lease_token hb) r"
    "t' = beaten (now + seconds secs) hb (task_from_row r)"
    "rows = update_where (lease_matches (hb_task_id hb) w (hb_lease_token hb))
       (\<lambda>r. touched now (beaten (now + seconds secs) hb r)) (ss_tasks st)"
    "st' = st\<lparr>ss_tasks := rows\<rparr>" "task_in rows (hb_task_id hb) = Some t'"
proof -
  have m: "lease_matches (hb_task_id hb) w (hb_lease_token hb) =
      (\<lambda>r. wt_task_id r = hb_task_id hb \<and> holds_lease w (hb_lease_token hb) r)"
    by (rule ext) (simp add: lease_matches_def)
  have f: "\<And>r :: task_row. wt_task_id (touched now (beaten (now + seconds secs) hb r)) = wt_task_id r"
    by (simp add: row_simps)
  from step obtain rows where
    u: "update_one (lease_matches (hb_task_id hb) w (hb_lease_token hb))
       (\<lambda>r. touched now (beaten (now + seconds secs) hb r)) lease_invalid no_row
       (hb_task_id hb) (ss_tasks st) = Inr (t', rows)"
    and st': "st' = st\<lparr>ss_tasks := rows\<rparr>" and secs: "0 < secs"
    by (auto simp: heartbeat_task_def andThen_eq_Inr positive_seconds_def)
  show thesis
    by (rule update_one_Inr [OF ok f u [unfolded m]])
      (rule that [OF secs _ _ _ _ st'], auto simp: row_simps m)
qed

lemma complete_cases:
  assumes ok: "task_table_ok (ss_tasks st)" and step: "complete_task now w res st = Inr (t', st')"
  obtains r rows where "find_by wt_task_id (tr_task_id res) (ss_tasks st) = Some r"
    "holds_lease w (tr_lease_token res) r" "t' = completed res (task_from_row r)"
    "rows = update_where (lease_matches (tr_task_id res) w (tr_lease_token res))
       (\<lambda>r. touched now (completed res r)) (ss_tasks st)"
    "st' = st\<lparr>ss_tasks := rows\<rparr>" "task_in rows (tr_task_id res) = Some t'"
proof -
  have m: "lease_matches (tr_task_id res) w (tr_lease_token res) =
      (\<lambda>r. wt_task_id r = tr_task_id res \<and> holds_lease w (tr_lease_token res) r)"
    by (rule ext) (simp add: lease_matches_def)
  have f: "\<And>r :: task_row. wt_task_id (touched now (completed res r)) = wt_task_id r"
    by (simp add: row_simps)
  from step obtain rows where
    u: "update_one (lease_matches (tr_task_id res) w (tr_lease_token res))
       (\<lambda>r. touched now (completed res r)) lease_invalid no_row
       (tr_task_id res) (ss_tasks st) = Inr (t', rows)"
    and st': "st' = st\<lparr>ss_tasks := rows\<rparr>"
    by (auto simp: complete_task_def andThen_eq_Inr)
  show thesis
    by (rule update_one_Inr [OF ok f u [unfolded m]])
      (rule that [OF _ _ _ _ st'], auto simp: row_simps m)
qed

lemma cancel_cases:
  assumes ok: "task_table_ok (ss_tasks st)" and step: "cancel_task now i st = Inr (t', st')"
  obtains r rows where "find_by wt_task_id i (ss_tasks st) = Some r" "cancellable r"
    "t' = cancelled (task_from_row r)"
    "rows = update_where (\<lambda>r. wt_task_id r = i \<and> cancellable r)
       (\<lambda>r. touched now (cancelled r)) (ss_tasks st)"
    "st' = st\<lparr>ss_tasks := rows\<rparr>" "task_in rows i = Some t'"
proof -
  have f: "\<And>r :: task_row. wt_task_id (touched now (cancelled r)) = wt_task_id r"
    by (simp add: row_simps)
  from step obtain rows where
    u: "update_one (\<lambda>r. wt_task_id r = i \<and> cancellable r) (\<lambda>r. touched now (cancelled r))
       (ValueError ''task is not cancellable'') no_row i (ss_tasks st) = Inr (t', rows)"
    and st': "st' = st\<lparr>ss_tasks := rows\<rparr>"
    by (auto simp: cancel_task_def andThen_eq_Inr)
  show thesis
    by (rule update_one_Inr [OF ok f u])
      (rule that [OF _ _ _ _ st'], auto simp: row_simps)
qed

lemma lease_cases:
  assumes ok: "task_table_ok (ss_tasks st)"
    and step: "lease_task now token w secs st = Inr (r, st')"
  obtains (none) reg rows where "0 < secs" "worker w (ss_workers st) = Some reg"
      "rows = reclaim_expired now (ss_tasks st)"
      "r = None" "st' = st\<lparr>ss_tasks := rows\<rparr>"
      "\<And>q. q \<in> set rows \<Longrightarrow> wt_status q = TS_QUEUED \<Longrightarrow>
         \<not> can_run (map wc_name (wr_capabilities reg)) q"
  | (some) reg sel rows rows' where "0 < secs" "worker w (ss_workers st) = Some reg"
      "rows = reclaim_expired now (ss_tasks st)"
      "find (can_run (map wc_name (wr_capabilities reg))) (queued_rows rows) = Some sel"
      "r = Some (leased w token (now + seconds secs) (task_from_row sel))"
      "st' = st\<lparr>ss_tasks := rows'\<rparr>"
      "rows' = update_where (\<lambda>r. wt_task_id r = wt_task_id sel \<and> wt_status r = TS_QUEUED)
            (\<lambda>r. touched now (leased w token (now + seconds secs) r)) rows"
proof -
  from lease_task_Inr [OF step] obtain reg
    where secs: "0 < secs" and reg: "worker w (ss_workers st) = Some reg" by blast
  let ?rows = "reclaim_expired now (ss_tasks st)"
  note eq = step [unfolded lease_task_eq [OF ok reg secs]]
  show thesis
  proof (cases "find (can_run (map wc_name (wr_capabilities reg))) (queued_rows ?rows)")
    case None
    with eq have "r = None" "st' = st\<lparr>ss_tasks := ?rows\<rparr>" by simp_all
    with secs reg None show thesis
      by (intro none [of reg ?rows]) (auto simp: queued_rows_none)
  next
    case (Some sel)
    with eq have "r = Some (leased w token (now + seconds secs) (task_from_row sel))"
      "st' = st\<lparr>ss_tasks := update_where (\<lambda>r. wt_task_id r = wt_task_id sel \<and> wt_status r = TS_QUEUED)
            (\<lambda>r. touched now (leased w token (now + seconds secs) r)) ?rows\<rparr>" by simp_all
    with secs reg Some show thesis by (intro some [of reg ?rows sel]) auto
  qed
qed

text \<open>
  What a lease request does to the tasks, as both stores do it: expired leases are taken back, and
  then at most one queued task is leased.
\<close>

definition lease_outcome ::
    "int \<Rightarrow> string \<Rightarrow> string \<Rightarrow> int \<Rightarrow> state_store \<Rightarrow> worker_task option \<Rightarrow> state_store \<Rightarrow> bool" where
  "lease_outcome now token w secs st r st' \<longleftrightarrow>
     (let rows = reclaim_expired now (ss_tasks st) in
      case r of
        None \<Rightarrow> st' = st\<lparr>ss_tasks := rows\<rparr>
      | Some t \<Rightarrow> \<exists>sel \<in> set rows. wt_status sel = TS_QUEUED \<and>
          t = leased w token (now + seconds secs) (task_from_row sel) \<and>
          st' = st\<lparr>ss_tasks := update_where
            (\<lambda>r. wt_task_id r = wt_task_id sel \<and> wt_status r = TS_QUEUED)
            (\<lambda>r. touched now (leased w token (now + seconds secs) r)) rows\<rparr>)"

lemma lease_task_outcome:
  assumes ok: "task_table_ok (ss_tasks st)" and step: "lease_task now token w secs st = Inr (r, st')"
  shows "lease_outcome now token w secs st r st'"
  by (rule lease_cases [OF ok step])
    (auto simp: lease_outcome_def Let_def dest: queued_rows_find(1,2))

lemma outcome_some:
  assumes ok: "task_table_ok (ss_tasks st)" and out: "lease_outcome now token w secs st (Some t) st'"
  obtains sel rows where "rows = reclaim_expired now (ss_tasks st)"
    "t = leased w token (now + seconds secs) (task_from_row sel)"
    "wt_status sel = TS_QUEUED" "sel \<in> set rows" "task_table_ok (ss_tasks st')"
    "\<And>i. get_task st' i = (if i = wt_task_id sel then Some t else task_in rows i)"
proof -
  let ?rows = "reclaim_expired now (ss_tasks st)"
  have ok': "task_table_ok ?rows" using ok by (simp add: task_table_ok_reclaim)
  from out obtain sel where sel: "sel \<in> set ?rows" "wt_status sel = TS_QUEUED"
    and t: "t = leased w token (now + seconds secs) (task_from_row sel)"
    and st': "st' = st\<lparr>ss_tasks := update_where
            (\<lambda>r. wt_task_id r = wt_task_id sel \<and> wt_status r = TS_QUEUED)
            (\<lambda>r. touched now (leased w token (now + seconds secs) r)) ?rows\<rparr>"
    by (auto simp: lease_outcome_def Let_def)
  note g = grant_rows(2,3) [OF ok' sel, where now = now and w = w and token = token
      and x = "now + seconds secs"]
  show thesis
    by (rule that [OF refl t sel(2,1)]) (use st' t g in \<open>auto simp: get_task_def\<close>)
qed

lemma outcome_none:
  "lease_outcome now token w secs st None st' \<Longrightarrow>
     st' = st\<lparr>ss_tasks := reclaim_expired now (ss_tasks st)\<rparr>"
  by (simp add: lease_outcome_def)

lemma get_task_reclaim_edge:
  "get_task st i = Some t \<Longrightarrow>
     \<exists>t'. task_in (reclaim_expired now (ss_tasks st)) i = Some t' \<and>
       task_edge now (Lease w secs tok lk) t t'"
  unfolding get_task_def by (rule reclaim_edge)

lemma outcome_tasks_only:
  "lease_outcome now token w secs st r st' \<Longrightarrow> \<exists>rows. st' = st\<lparr>ss_tasks := rows\<rparr>"
  by (cases r) (auto simp: lease_outcome_def Let_def)

lemma outcome_table_ok:
  assumes ok: "task_table_ok (ss_tasks st)" and out: "lease_outcome now token w secs st r st'"
  shows "task_table_ok (ss_tasks st')"
proof (cases r)
  case None
  with outcome_none [OF out [unfolded None]] ok show ?thesis by (simp add: task_table_ok_reclaim)
next
  case (Some t)
  show ?thesis by (rule outcome_some [OF ok out [unfolded Some]])
qed

lemma outcome_edge:
  assumes ok: "task_table_ok (ss_tasks st)" and out: "lease_outcome now token w secs st r st'"
    and t: "get_task st i = Some t"
  shows "\<exists>t'. get_task st' i = Some t' \<and> task_edge now (Lease w secs token lk) t t'"
proof (cases r)
  case None
  with outcome_none [OF out [unfolded None]] get_task_reclaim_edge [OF t]
  show ?thesis by (simp add: get_task_def)
next
  case (Some v)
  show ?thesis
  proof (rule outcome_some [OF ok out [unfolded Some]])
    fix sel rows
    assume rows: "rows = reclaim_expired now (ss_tasks st)"
      and v: "v = leased w token (now + seconds secs) (task_from_row sel)"
      and sel: "wt_status sel = TS_QUEUED" "sel \<in> set rows"
      and get: "\<And>i. get_task st' i = (if i = wt_task_id sel then Some v else task_in rows i)"
    have ok': "task_table_ok rows" using rows ok by (simp add: task_table_ok_reclaim)
    show ?thesis
    proof (cases "i = wt_task_id sel")
      case True
      have "task_in rows i = Some (task_from_row sel)"
        using task_in_mem [OF ok' sel(2)] True by simp
      then have "task_edge now (Lease w secs token lk) t v"
        using reclaim_grant_edge [OF t [unfolded get_task_def], of now "task_from_row sel"]
          sel(1) rows v by (simp add: row_simps)
      with get [of i] True show ?thesis by simp
    next
      case False
      with get [of i] rows get_task_reclaim_edge [OF t] show ?thesis by simp
    qed
  qed
qed

lemma outcome_new:
  assumes ok: "task_table_ok (ss_tasks st)" and out: "lease_outcome now token w secs st r st'"
    and t: "get_task st i = None"
  shows "get_task st' i = None"
proof (cases r)
  case None
  with outcome_none [OF out [unfolded None]] t show ?thesis
    by (simp add: get_task_def task_in_reclaim)
next
  case (Some v)
  show ?thesis
  proof (rule outcome_some [OF ok out [unfolded Some]])
    fix sel rows
    assume rows: "rows = reclaim_expired now (ss_tasks st)" and sel: "sel \<in> set rows"
      and get: "\<And>i. get_task st' i = (if i = wt_task_id sel then Some v else task_in rows i)"
    have ok': "task_table_ok rows" using rows ok by (simp add: task_table_ok_reclaim)
    have "task_in rows i = None" using t rows by (simp add: get_task_def task_in_reclaim)
    with task_in_mem [OF ok' sel] get [of i] show ?thesis by (auto split: if_splits)
  qed
qed

lemma leased_holds: "holds_lease w token (leased w token x t)"
  by (simp add: edge_defs)

lemma reclaim_token:
  "task_in (reclaim_expired now rows) i = Some t' \<Longrightarrow> wt_lease_token t' = Some token \<Longrightarrow>
     \<exists>t'. task_in rows i = Some t' \<and> wt_lease_token t' = Some token"
  by (auto simp: task_in_reclaim queued_again_def split: if_splits)

lemma outcome_grant:
  assumes ok: "task_table_ok (ss_tasks st)" and out: "lease_outcome now token w secs st (Some t) st'"
  shows "get_task st' (wt_task_id t) = Some t \<and> holds_lease w token t \<and>
      (\<forall>i. i \<noteq> wt_task_id t \<longrightarrow> (\<exists>t'. get_task st' i = Some t' \<and> wt_lease_token t' = Some token) \<longrightarrow>
         (\<exists>t'. get_task st i = Some t' \<and> wt_lease_token t' = Some token))"
proof (rule outcome_some [OF ok out])
  fix sel rows
  assume rows: "rows = reclaim_expired now (ss_tasks st)"
    and t: "t = leased w token (now + seconds secs) (task_from_row sel)"
    and get: "\<And>i. get_task st' i = (if i = wt_task_id sel then Some t else task_in rows i)"
  have id: "wt_task_id t = wt_task_id sel" by (simp add: t leased_def row_simps)
  have "get_task st' (wt_task_id t) = Some t" by (simp add: get id)
  moreover have "holds_lease w token t" by (simp add: t leased_holds)
  moreover have "\<exists>t'. get_task st i = Some t' \<and> wt_lease_token t' = Some token"
    if "i \<noteq> wt_task_id t" "get_task st' i = Some t'" "wt_lease_token t' = Some token" for i t'
  proof -
    from that(1,2) rows have "task_in (reclaim_expired now (ss_tasks st)) i = Some t'"
      by (simp add: get id)
    from reclaim_token [OF this that(3)] show ?thesis by (simp add: get_task_def)
  qed
  ultimately show ?thesis by blast
qed

section \<open>The contract, for the local store\<close>

lemma step_cases:
  assumes "store_step now op st = Inr (r, st')"
  obtains (enqueue) t u where "op = Enqueue t" "enqueue_task now t st = Inr (u, st')" "r = Some u"
  | (lease) w secs token lk where "op = Lease w secs token lk"
      "lease_task now token w secs st = Inr (r, st')"
  | (heartbeat) w hb secs u where "op = Heartbeat w hb secs"
      "heartbeat_task now w hb secs st = Inr (u, st')" "r = Some u"
  | (complete) w res u where "op = Complete w res" "complete_task now w res st = Inr (u, st')"
      "r = Some u"
  | (cancel) i u where "op = Cancel i" "cancel_task now i st = Inr (u, st')" "r = Some u"
  using assms by (cases op) (auto simp: andThen_eq_Inr)

lemma enqueue_cases:
  assumes "enqueue_task now t st = Inr (u, st')"
  obtains (existing) r where "find_by wt_idempotency_key (wt_idempotency_key t) (ss_tasks st) = Some r"
      "u = task_from_row r" "st' = st"
  | (new) "find_by wt_idempotency_key (wt_idempotency_key t) (ss_tasks st) = None"
      "find_by wt_task_id (wt_task_id t) (ss_tasks st) = None" "u = t"
      "st' = st\<lparr>ss_tasks := ss_tasks st @ [task_insert now t]\<rparr>"
proof (cases "find_by wt_idempotency_key (wt_idempotency_key t) (ss_tasks st)")
  case None
  note e = assms [unfolded enqueue_task_def None, simplified]
  show thesis by (rule new [OF None]) (use e in \<open>metis+\<close>)
next
  case (Some r)
  with assms show thesis by (intro existing [of r]) (simp_all add: enqueue_task_def)
qed

lemma tasks_only:
  assumes ok: "task_table_ok (ss_tasks st)" and step: "store_step now op st = Inr (r, st')"
  shows "\<exists>rows. st' = st\<lparr>ss_tasks := rows\<rparr>"
  using step
proof (cases rule: step_cases)
  case (enqueue t u)
  have "st = st\<lparr>ss_tasks := ss_tasks st\<rparr>" by simp
  with enqueue(2) show ?thesis by (cases rule: enqueue_cases) blast+
next
  case (lease w secs token lk)
  from outcome_tasks_only [OF lease_task_outcome [OF ok lease(2)]] show ?thesis .
next
  case (heartbeat w hb secs u)
  then show ?thesis by (auto simp: heartbeat_task_def andThen_eq_Inr)
next
  case (complete w res u)
  then show ?thesis by (auto simp: complete_task_def andThen_eq_Inr)
next
  case (cancel i u)
  then show ?thesis by (auto simp: cancel_task_def andThen_eq_Inr)
qed

lemma store_step_table_ok:
  assumes ok: "task_table_ok (ss_tasks st)" and step: "store_step now op st = Inr (r, st')"
  shows "task_table_ok (ss_tasks st')"
  using step
proof (cases rule: step_cases)
  case (enqueue t u)
  from enqueue(2) show ?thesis
    by (cases rule: enqueue_cases) (use ok task_table_ok_insert in auto)
next
  case (lease w secs token lk)
  show ?thesis by (rule outcome_table_ok [OF ok lease_task_outcome [OF ok lease(2)]])
next
  case (heartbeat w hb secs u)
  show ?thesis
    by (rule heartbeat_cases [OF ok heartbeat(2)])
      (auto simp: row_simps lease_matches_def holds_lease_def intro!: task_table_ok_update ok
        lease_fields_edges)
next
  case (complete w res u)
  show ?thesis
    by (rule complete_cases [OF ok complete(2)])
      (auto simp: row_simps lease_matches_def intro!: task_table_ok_update ok lease_fields_edges)
next
  case (cancel i u)
  show ?thesis
    by (rule cancel_cases [OF ok cancel(2)])
      (auto simp: row_simps intro!: task_table_ok_update ok lease_fields_edges)
qed

lemma store_step_ok:
  assumes "store_ok st" "store_step now op st = Inr (r, st')" shows "store_ok st'"
proof -
  from tasks_only [OF store_okD [OF assms(1)] assms(2)] obtain rows where st': "st' = st\<lparr>ss_tasks := rows\<rparr>" by blast
  with store_step_table_ok [OF store_okD [OF assms(1)] assms(2)] show ?thesis
    using store_ok_tasks [OF assms(1)] by simp
qed

lemma find_by_task_in:
  "find_by wt_task_id i rows = Some r \<Longrightarrow> task_in rows i = Some (task_from_row r)"
  by (simp add: task_in_def)

lemma store_step_edge:
  assumes ok: "task_table_ok (ss_tasks st)" and step: "store_step now op st = Inr (r, st')"
    and t: "get_task st i = Some t"
  shows "\<exists>t'. get_task st' i = Some t' \<and> task_edge now op t t'"
  using step
proof (cases rule: step_cases)
  case (enqueue v u)
  from enqueue(2) show ?thesis
  proof (cases rule: enqueue_cases)
    case existing
    with t show ?thesis by (auto intro: task_edge.stay)
  next
    case new
    with t show ?thesis
      by (auto simp: get_task_def task_in_def find_by_append intro: task_edge.stay)
  qed
next
  case (lease w secs token lk)
  show ?thesis unfolding lease(1)
    by (rule outcome_edge [OF ok lease_task_outcome [OF ok lease(2)] t])
next
  case (heartbeat w hb secs u)
  show ?thesis
  proof (rule heartbeat_cases [OF ok heartbeat(2)])
    fix rows
    assume rows: "rows = update_where (lease_matches (hb_task_id hb) w (hb_lease_token hb))
       (\<lambda>r. touched now (beaten (now + seconds secs) hb r)) (ss_tasks st)"
      and st': "st' = st\<lparr>ss_tasks := rows\<rparr>"
    have "\<exists>t'. task_in rows i = Some t' \<and> task_edge now op t t'"
      unfolding rows heartbeat(1)
      by (rule update_edge [OF t [unfolded get_task_def]])
        (auto simp: row_simps lease_matches_def intro: task_edge.intros)
    with st' show ?thesis by (simp add: get_task_def)
  qed
next
  case (complete w res u)
  show ?thesis
  proof (rule complete_cases [OF ok complete(2)])
    fix rows
    assume rows: "rows = update_where (lease_matches (tr_task_id res) w (tr_lease_token res))
       (\<lambda>r. touched now (completed res r)) (ss_tasks st)"
      and st': "st' = st\<lparr>ss_tasks := rows\<rparr>"
    have "\<exists>t'. task_in rows i = Some t' \<and> task_edge now op t t'"
      unfolding rows complete(1)
      by (rule update_edge [OF t [unfolded get_task_def]])
        (auto simp: row_simps lease_matches_def intro: task_edge.intros)
    with st' show ?thesis by (simp add: get_task_def)
  qed
next
  case (cancel j u)
  show ?thesis
  proof (rule cancel_cases [OF ok cancel(2)])
    fix rows
    assume rows: "rows = update_where (\<lambda>r. wt_task_id r = j \<and> cancellable r)
       (\<lambda>r. touched now (cancelled r)) (ss_tasks st)"
      and st': "st' = st\<lparr>ss_tasks := rows\<rparr>"
    have "\<exists>t'. task_in rows i = Some t' \<and> task_edge now op t t'"
      unfolding rows cancel(1)
      by (rule update_edge [OF t [unfolded get_task_def]])
        (auto simp: row_simps intro: task_edge.intros)
    with st' show ?thesis by (simp add: get_task_def)
  qed
qed

lemma find_by_update_None:
  "find_by wt_task_id i rows = None \<Longrightarrow> (\<And>r. wt_task_id (f r) = wt_task_id r) \<Longrightarrow>
     task_in (update_where p f rows) i = None"
  by (simp add: task_in_update)

lemma get_task_None: "get_task st i = None \<longleftrightarrow> find_by wt_task_id i (ss_tasks st) = None"
  by (simp add: get_task_def task_in_def)

lemma store_step_new:
  assumes ok: "task_table_ok (ss_tasks st)" and step: "store_step now op st = Inr (r, st')"
    and t: "get_task st i = None" "get_task st' i = Some t'"
  shows "\<exists>t. op = Enqueue t \<and> t' = enqueued t"
  using step
proof (cases rule: step_cases)
  case (enqueue v u)
  from enqueue(2) show ?thesis
  proof (cases rule: enqueue_cases)
    case existing
    with t show ?thesis by simp
  next
    case new
    with t enqueue(1) show ?thesis
      by (auto simp: get_task_def task_in_def find_by_append row_simps split: if_splits)
  qed
next
  case (lease w secs token lk)
  with outcome_new [OF ok lease_task_outcome [OF ok lease(2)] t(1)] t(2) show ?thesis by simp
next
  case (heartbeat w hb secs u)
  show ?thesis
  proof (rule heartbeat_cases [OF ok heartbeat(2)])
    fix rows
    assume rows: "rows = update_where (lease_matches (hb_task_id hb) w (hb_lease_token hb))
       (\<lambda>r. touched now (beaten (now + seconds secs) hb r)) (ss_tasks st)"
      and st': "st' = st\<lparr>ss_tasks := rows\<rparr>"
    have "task_in rows i = None" unfolding rows
      by (rule find_by_update_None) (use t(1) in \<open>simp_all add: get_task_None row_simps\<close>)
    with t(2) st' show ?thesis by (simp add: get_task_def)
  qed
next
  case (complete w res u)
  show ?thesis
  proof (rule complete_cases [OF ok complete(2)])
    fix rows
    assume rows: "rows = update_where (lease_matches (tr_task_id res) w (tr_lease_token res))
       (\<lambda>r. touched now (completed res r)) (ss_tasks st)"
      and st': "st' = st\<lparr>ss_tasks := rows\<rparr>"
    have "task_in rows i = None" unfolding rows
      by (rule find_by_update_None) (use t(1) in \<open>simp_all add: get_task_None row_simps\<close>)
    with t(2) st' show ?thesis by (simp add: get_task_def)
  qed
next
  case (cancel j u)
  show ?thesis
  proof (rule cancel_cases [OF ok cancel(2)])
    fix rows
    assume rows: "rows = update_where (\<lambda>r. wt_task_id r = j \<and> cancellable r)
       (\<lambda>r. touched now (cancelled r)) (ss_tasks st)"
      and st': "st' = st\<lparr>ss_tasks := rows\<rparr>"
    have "task_in rows i = None" unfolding rows
      by (rule find_by_update_None) (use t(1) in \<open>simp_all add: get_task_None row_simps\<close>)
    with t(2) st' show ?thesis by (simp add: get_task_def)
  qed
qed

lemma complete_task_effect:
  assumes ok: "task_table_ok (ss_tasks st)" and step: "complete_task now w res st = Inr (u, st')"
  shows "\<exists>t. get_task st (tr_task_id res) = Some t \<and> holds_lease w (tr_lease_token res) t \<and>
     u = completed res t \<and> get_task st' (tr_task_id res) = Some u"
proof (rule complete_cases [OF ok step])
  fix r rows
  assume "find_by wt_task_id (tr_task_id res) (ss_tasks st) = Some r"
    "holds_lease w (tr_lease_token res) r" "u = completed res (task_from_row r)"
    "st' = st\<lparr>ss_tasks := rows\<rparr>" "task_in rows (tr_task_id res) = Some u"
  then show ?thesis by (auto simp: get_task_def task_in_def row_simps)
qed

lemma complete_task_accepts:
  assumes ok: "task_table_ok (ss_tasks st)" and t: "get_task st (tr_task_id res) = Some t"
    and h: "holds_lease w (tr_lease_token res) t"
  shows "\<exists>u st'. complete_task now w res st = Inr (u, st')"
proof -
  have m: "lease_matches (tr_task_id res) w (tr_lease_token res) =
      (\<lambda>r. wt_task_id r = tr_task_id res \<and> holds_lease w (tr_lease_token res) r)"
    by (rule ext) (simp add: lease_matches_def)
  from t obtain r where r: "find_by wt_task_id (tr_task_id res) (ss_tasks st) = Some r"
    "t = task_from_row r" by (auto simp: get_task_def task_in_def)
  with h show ?thesis unfolding complete_task_def m
    by (subst update_one_key [OF ok]) (simp_all add: row_simps)
qed

lemma heartbeat_task_effect:
  assumes ok: "task_table_ok (ss_tasks st)" and step: "heartbeat_task now w hb secs st = Inr (u, st')"
  shows "\<exists>t. get_task st (hb_task_id hb) = Some t \<and> holds_lease w (hb_lease_token hb) t \<and>
     u = beaten (now + seconds secs) hb t \<and> get_task st' (hb_task_id hb) = Some u"
proof (rule heartbeat_cases [OF ok step])
  fix r rows
  assume "find_by wt_task_id (hb_task_id hb) (ss_tasks st) = Some r"
    "holds_lease w (hb_lease_token hb) r" "u = beaten (now + seconds secs) hb (task_from_row r)"
    "st' = st\<lparr>ss_tasks := rows\<rparr>" "task_in rows (hb_task_id hb) = Some u"
  then show ?thesis by (auto simp: get_task_def task_in_def row_simps)
qed

interpretation local_store: task_store store_ok get_task store_step
proof
  fix st now op r st' assume "store_ok st" "store_step now op st = Inr (r, st')"
  then show "store_ok st'" by (rule store_step_ok)
next
  fix st i t assume "get_task st i = Some t"
  then show "wt_task_id t = i" by (simp add: get_task_def task_in_id)
next
  fix st now op r st' i t
  assume "store_ok st" "store_step now op st = Inr (r, st')" "get_task st i = Some t"
  then show "\<exists>t'. get_task st' i = Some t' \<and> task_edge now op t t'"
    using store_step_edge store_okD by blast
next
  fix st now op r st' i t'
  assume "store_ok st" "store_step now op st = Inr (r, st')" "get_task st i = None"
    "get_task st' i = Some t'"
  then show "\<exists>t. op = Enqueue t \<and> t' = enqueued t"
    using store_step_new store_okD by blast
next
  fix st now w r st' and res :: worker_task_result
  assume "store_ok st" "store_step now (Complete w res) st = Inr (r, st')"
  then show "\<exists>t. get_task st (tr_task_id res) = Some t \<and> holds_lease w (tr_lease_token res) t \<and>
      get_task st' (tr_task_id res) = Some (completed res t)"
    using complete_task_effect [OF store_okD] by (fastforce simp: andThen_eq_Inr)
next
  fix st now w t and res :: worker_task_result
  assume "store_ok st" "get_task st (tr_task_id res) = Some t"
    "holds_lease w (tr_lease_token res) t"
  then show "\<exists>r st'. store_step now (Complete w res) st = Inr (r, st')"
    using complete_task_accepts [OF store_okD, of st res t w now] by auto
next
  fix st now w secs r st' and hb :: worker_heartbeat
  assume "store_ok st" "store_step now (Heartbeat w hb secs) st = Inr (r, st')"
  then show "\<exists>t. get_task st (hb_task_id hb) = Some t \<and> holds_lease w (hb_lease_token hb) t \<and>
      get_task st' (hb_task_id hb) = Some (beaten (now + seconds secs) hb t)"
    using heartbeat_task_effect [OF store_okD] by (fastforce simp: andThen_eq_Inr)
next
  fix st now w secs token lk t st'
  assume ok: "store_ok st" and step: "store_step now (Lease w secs token lk) st = Inr (Some t, st')"
  then show "get_task st' (wt_task_id t) = Some t \<and> holds_lease w token t \<and>
      (\<forall>i. i \<noteq> wt_task_id t \<longrightarrow> (\<exists>t'. get_task st' i = Some t' \<and> wt_lease_token t' = Some token) \<longrightarrow>
         (\<exists>t'. get_task st i = Some t' \<and> wt_lease_token t' = Some token))"
    using outcome_grant [OF store_okD [OF ok] lease_task_outcome [OF store_okD [OF ok]]] by simp
qed

section \<open>Every request of the store\<close>

datatype store_request =
    Task task_op
  | Register worker_registration
  | New_Run string string
  | Update_Run string run_status "string option" "string option"
  | Save_Model workspace_layout model_package path
  | Audit string string string string

text \<open>A request that raises leaves the tables as they were.\<close>

fun request_step ::
    "int \<Rightarrow> store_request \<Rightarrow> (path \<rightharpoonup> model_package) \<times> state_store \<Rightarrow>
       (path \<rightharpoonup> model_package) \<times> state_store" where
  "request_step now (Task op) (fs, st) =
     (case store_step now op st of Inl _ \<Rightarrow> (fs, st) | Inr (_, st') \<Rightarrow> (fs, st'))"
| "request_step now (Register r) (fs, st) = (fs, register_worker now r st)"
| "request_step now (New_Run i p) (fs, st) =
     (case create_run now i p st of Inl _ \<Rightarrow> (fs, st) | Inr st' \<Rightarrow> (fs, st'))"
| "request_step now (Update_Run i s p e) (fs, st) = (fs, update_run now i s p e st)"
| "request_step now (Save_Model l m p) (fs, st) = snd (save_model now l (\<lambda>q d. modify (\<lambda>f. f(q \<mapsto> d))) m p (fs, st))"
| "request_step now (Audit who what on details) (fs, st) = (fs, audit now who what on details st)"

definition run_requests ::
    "(int \<times> store_request) list \<Rightarrow> (path \<rightharpoonup> model_package) \<times> state_store \<Rightarrow>
       (path \<rightharpoonup> model_package) \<times> state_store" where
  "run_requests rs s = fold (\<lambda>(now, r). request_step now r) rs s"

lemma keys_upsert:
  "distinct (map mr_model_id rows) \<Longrightarrow> distinct (map mr_model_id (upsert_model row rows))"
  by (auto simp: upsert_model_def keys_update_where find_by_None)

lemma register_worker_ok: "store_ok st \<Longrightarrow> store_ok (register_worker now r st)"
  by (auto simp: store_ok_def register_worker_def keys_update_where find_by_None)

lemma create_run_ok: "store_ok st \<Longrightarrow> create_run now i p st = Inr st' \<Longrightarrow> store_ok st'"
  by (auto simp: store_ok_def create_run_def find_by_None)

lemma update_run_ok: "store_ok st \<Longrightarrow> store_ok (update_run now i s p e st)"
  by (simp add: store_ok_def update_run_def keys_update_where)

lemma save_model_ok: "store_ok (snd s) \<Longrightarrow> store_ok (snd (snd (save_model now l write m p s)))"
  by (auto simp: store_ok_def save_model_def bindP_def on_fst_def guardP_def check_def keys_upsert
      split: prod.splits sum.splits)

lemma audit_ok: "store_ok st \<Longrightarrow> store_ok (audit now who what on details st)"
  by (auto simp: store_ok_def audit_def sorted_wrt_append)

lemma request_step_ok: "store_ok st \<Longrightarrow> store_ok (snd (request_step now r (fs, st)))"
  by (cases r) (auto simp: register_worker_ok update_run_ok save_model_ok audit_ok
      dest: store_step_ok create_run_ok split: sum.split)

lemma run_requests_ok: "store_ok (snd s) \<Longrightarrow> store_ok (snd (run_requests rs s))"
proof (induction rs arbitrary: s)
  case Nil
  then show ?case by (simp add: run_requests_def)
next
  case (Cons nr rs)
  obtain now r where nr: "nr = (now, r)" by (cases nr)
  have "store_ok (snd (request_step now r s))"
    using request_step_ok [of "snd s" now r "fst s"] Cons.prems by simp
  from Cons.IH [OF this] show ?case by (simp add: run_requests_def nr)
qed

lemma store_ok_migrated: "store_ok migrated"
  by (simp add: store_ok_def migrated_def task_table_ok_def)

section \<open>Leasing\<close>

text \<open>A task a worker may be given: queued, or held under a lease that has run out.\<close>

definition available :: "int \<Rightarrow> ('a :: type) worker_task_scheme \<Rightarrow> bool" where
  "available now t \<longleftrightarrow> wt_status t = TS_QUEUED \<or> lease_expired now t"

definition reclaimed :: "int \<Rightarrow> worker_task \<Rightarrow> worker_task" where
  "reclaimed now t = (if lease_expired now t then queued_again t else t)"

lemma available_reclaimed: "available now t \<longleftrightarrow> wt_status (reclaimed now t) = TS_QUEUED"
  by (auto simp: available_def reclaimed_def edge_defs)

lemma reclaimed_keeps [row_simps]:
  "wt_task_id (reclaimed now t) = wt_task_id t" "can_run caps (reclaimed now t) = can_run caps t"
  "lease_order (reclaimed now t) = lease_order t"
  by (simp_all add: reclaimed_def queued_again_def can_run_def lease_order_def)

text \<open>The rows after reclaiming are the reclaimed tasks.\<close>

lemma reclaimed_rows:
  assumes "task_table_ok rows"
  shows "r \<in> set (reclaim_expired now rows) \<Longrightarrow>
      \<exists>t. task_in rows (wt_task_id r) = Some t \<and> task_from_row r = reclaimed now t"
    and "task_in rows i = Some t \<Longrightarrow>
      \<exists>r \<in> set (reclaim_expired now rows). task_from_row r = reclaimed now t"
proof -
  assume "r \<in> set (reclaim_expired now rows)"
  from task_in_mem [OF task_table_ok_reclaim [OF assms] this]
  show "\<exists>t. task_in rows (wt_task_id r) = Some t \<and> task_from_row r = reclaimed now t"
    by (auto simp: task_in_reclaim reclaimed_def)
next
  assume "task_in rows i = Some t"
  then have "task_in (reclaim_expired now rows) i = Some (reclaimed now t)"
    by (simp add: task_in_reclaim reclaimed_def)
  then show "\<exists>r \<in> set (reclaim_expired now rows). task_from_row r = reclaimed now t"
    by (auto simp: task_in_def dest: find_by_SomeD)
qed

lemma queued_available:
  assumes "task_from_row r = reclaimed now t"
  shows "wt_status r = TS_QUEUED \<longleftrightarrow> available now t" "can_run caps r = can_run caps t"
    "lease_order r = lease_order t" "wt_task_id r = wt_task_id t"
proof -
  show "wt_status r = TS_QUEUED \<longleftrightarrow> available now t"
    using arg_cong [OF assms, of wt_status] by (simp add: row_simps available_reclaimed)
  show "can_run caps r = can_run caps t"
    using arg_cong [OF assms, of "can_run caps"] by (simp add: row_simps)
  show "lease_order r = lease_order t"
    using arg_cong [OF assms, of lease_order] by (simp add: row_simps)
  show "wt_task_id r = wt_task_id t"
    using arg_cong [OF assms, of wt_task_id] by (simp add: row_simps)
qed

definition runnable :: "int \<Rightarrow> worker_registration \<Rightarrow> worker_task \<Rightarrow> bool" where
  "runnable now reg t \<longleftrightarrow> available now t \<and> can_run (map wc_name (wr_capabilities reg)) t"

lemma lease_finds:
  assumes ok: "task_table_ok rows" and rows: "rows' = reclaim_expired now rows"
    and caps: "caps = map wc_name (wr_capabilities reg)"
  shows "find (can_run caps) (queued_rows rows') = None \<Longrightarrow>
      task_in rows i = Some t \<Longrightarrow> \<not> runnable now reg t"
    and "find (can_run caps) (queued_rows rows') = Some sel \<Longrightarrow>
      \<exists>t. task_in rows (wt_task_id t) = Some t \<and> runnable now reg t \<and>
        task_from_row sel = reclaimed now t \<and>
        (\<forall>i t'. task_in rows i = Some t' \<and> runnable now reg t' \<longrightarrow> lease_order t \<le> lease_order t')"
proof -
  assume none: "find (can_run caps) (queued_rows rows') = None" and t: "task_in rows i = Some t"
  from reclaimed_rows(2) [OF ok t, of now] obtain r
    where r: "r \<in> set rows'" "task_from_row r = reclaimed now t" using rows by blast
  with none show "\<not> runnable now reg t"
    by (auto simp: queued_rows_none runnable_def caps queued_available [OF r(2)])
next
  assume sel: "find (can_run caps) (queued_rows rows') = Some sel"
  note q = queued_rows_find [OF sel]
  from reclaimed_rows(1) [OF ok q(1) [unfolded rows]] obtain t
    where t: "task_in rows (wt_task_id sel) = Some t" "task_from_row sel = reclaimed now t" by blast
  note qa = queued_available [OF t(2)]
  have "lease_order t \<le> lease_order t'" if t': "task_in rows i = Some t'" "runnable now reg t'" for i t'
  proof -
    from reclaimed_rows(2) [OF ok t'(1), of now] obtain r
      where r: "r \<in> set rows'" "task_from_row r = reclaimed now t'" using rows by blast
    note ra = queued_available [OF r(2)]
    from t'(2) have "wt_status r = TS_QUEUED" "can_run caps r"
      by (simp_all add: ra runnable_def caps)
    from q(4) [OF r(1) this] show ?thesis by (simp add: qa ra)
  qed
  moreover have "runnable now reg t" using q(2,3) by (simp add: qa runnable_def caps)
  moreover have "task_in rows (wt_task_id t) = Some t" using t(1) by (simp add: qa)
  ultimately show "\<exists>t. task_in rows (wt_task_id t) = Some t \<and> runnable now reg t \<and>
        task_from_row sel = reclaimed now t \<and>
        (\<forall>i t'. task_in rows i = Some t' \<and> runnable now reg t' \<longrightarrow> lease_order t \<le> lease_order t')"
    using t(2) by blast
qed

lemma lease_task_result:
  assumes ok: "task_table_ok (ss_tasks st)" and reg: "worker w (ss_workers st) = Some reg"
    and secs: "0 < secs"
  shows "\<exists>r st'. lease_task now token w secs st = Inr (r, st') \<and>
     (case r of
        None \<Rightarrow> \<forall>i t. get_task st i = Some t \<longrightarrow> \<not> runnable now reg t
      | Some u \<Rightarrow> \<exists>t. get_task st (wt_task_id t) = Some t \<and> runnable now reg t \<and>
          u = leased w token (now + seconds secs) (reclaimed now t) \<and>
          (\<forall>i t'. get_task st i = Some t' \<and> runnable now reg t' \<longrightarrow> lease_order t \<le> lease_order t'))"
proof -
  let ?rows = "reclaim_expired now (ss_tasks st)" and ?caps = "map wc_name (wr_capabilities reg)"
  note f = lease_finds [OF ok refl refl, where now = now and reg = reg, folded get_task_def]
  show ?thesis
  proof (cases "find (can_run ?caps) (queued_rows ?rows)")
    case None
    with f(1) show ?thesis by (auto simp: lease_task_eq [OF ok reg secs])
  next
    case (Some sel)
    with f(2) [OF Some] show ?thesis by (auto simp: lease_task_eq [OF ok reg secs])
  qed
qed

text \<open>A key that is in the table stays in it, with its task.\<close>

lemma key_row:
  assumes "task_table_ok rows" "task_in rows i = Some t"
  shows "\<exists>r. find_by wt_idempotency_key (wt_idempotency_key t) rows = Some r \<and> task_from_row r = t"
proof -
  from assms(2) obtain r where r: "find_by wt_task_id i rows = Some r" "t = task_from_row r"
    by (auto simp: task_in_def)
  then have "r \<in> set rows" by (auto dest: find_by_rowD)
  with assms(1) have "find_by wt_idempotency_key (wt_idempotency_key r) rows = Some r"
    by (simp add: task_table_ok_def find_by_distinct)
  with r show ?thesis by (simp add: row_simps)
qed

lemma enqueue_stored:
  assumes ok: "task_table_ok (ss_tasks st)" and step: "enqueue_task now t st = Inr (u, st')"
  shows "\<exists>v. get_task st' (wt_task_id u) = Some v \<and> wt_idempotency_key v = wt_idempotency_key t"
  using step
proof (cases rule: enqueue_cases)
  case (existing r)
  then have "r \<in> set (ss_tasks st)" "wt_idempotency_key r = wt_idempotency_key t"
    by (auto dest: find_by_SomeD)
  with task_in_mem [OF ok this(1)] existing show ?thesis
    by (auto simp: get_task_def row_simps)
next
  case new
  then show ?thesis
    by (auto simp: get_task_def task_in_def find_by_append row_simps task_insert_def
        worker_task.defs enqueued_def)
qed

lemma enqueue_again:
  fixes ops :: "(int \<times> task_op) list"
  assumes ok: "store_ok st" and step: "enqueue_task now t st = Inr (u, st')"
    and key: "wt_idempotency_key t' = wt_idempotency_key t"
  defines "later \<equiv> run_ops store_step ops st'"
  shows "\<exists>v. enqueue_task now' t' later = Inr (v, later) \<and> wt_task_id v = wt_task_id u"
proof -
  have ok': "store_ok st'" by (rule store_step_ok [OF ok, of now "Enqueue t" "Some u"]) (simp add: step)
  from enqueue_stored [OF store_okD [OF ok] step] obtain v
    where v: "get_task st' (wt_task_id u) = Some v" "wt_idempotency_key v = wt_idempotency_key t" by blast
  from local_store.request_kept [OF ok' v(1), of ops] v(2) obtain v'
    where v': "get_task later (wt_task_id u) = Some v'" "wt_idempotency_key v' = wt_idempotency_key t"
    unfolding later_def by auto
  have "task_table_ok (ss_tasks later)"
    unfolding later_def by (rule store_okD [OF local_store.run_invar [OF ok']])
  from key_row [OF this v'(1) [unfolded get_task_def]] v'(2)
  obtain r where "find_by wt_idempotency_key (wt_idempotency_key t) (ss_tasks later) = Some r"
    "task_from_row r = v'" by auto
  then have "enqueue_task now' t' later = Inr (v', later)"
    by (simp add: enqueue_task_def key)
  moreover have "wt_task_id v' = wt_task_id u"
    using v'(1) by (simp add: get_task_def task_in_id)
  ultimately show ?thesis by blast
qed

section \<open>A store for the witnesses\<close>

definition demo_worker :: worker_registration where
  "demo_worker = \<lparr>wr_worker_id = ''sim1'', wr_worker_kind = WK_SIMULATION,
     wr_capabilities = [\<lparr>wc_name = ''renode'', wc_version = ''1'', wc_kind = CK_backend,
       wc_labels = [], wc_fidelity = []\<rparr>],
     wr_agent_version = ''1'', wr_certificate_fingerprint = ''AB''\<rparr>"

definition demo_task :: "string \<Rightarrow> string \<Rightarrow> int \<Rightarrow> string list \<Rightarrow> worker_task" where
  "demo_task i key created caps = \<lparr>wt_task_id = i, wt_task_type = TT_experiment,
     wt_required_capabilities = caps, wt_payload = [], wt_idempotency_key = key,
     wt_status = TS_SUCCEEDED, wt_lease_owner = None, wt_lease_token = None,
     wt_lease_expires_at = None, wt_attempts = 7, wt_result = None, wt_created_at = created\<rparr>"

text \<open>Two tasks; only the second can run on the registered worker, which leases it.\<close>

definition demo_store :: state_store where
  "demo_store = run_ops store_step
     [(1, Enqueue (demo_task ''t1'' ''k1'' 1 [''board''])),
      (2, Enqueue (demo_task ''t2'' ''k2'' 2 [''renode'']))]
     (register_worker 0 demo_worker migrated)"

definition demo_leased :: state_store where
  "demo_leased = run_ops store_step [(10, Lease ''sim1'' 60 ''tok'' [])] demo_store"

definition demo_result :: "string \<Rightarrow> worker_task_result" where
  "demo_result token = \<lparr>tr_task_id = ''t2'', tr_lease_token = token, tr_status = RES_succeeded,
     tr_artifact_hashes = [], tr_evidence_bundle = None, tr_error = None\<rparr>"

lemma demo_store_ok: "store_ok demo_store"
  unfolding demo_store_def
  by (intro local_store.run_invar register_worker_ok store_ok_migrated)

lemma demo_leased_ok: "store_ok demo_leased"
  unfolding demo_leased_def by (rule local_store.run_invar [OF demo_store_ok])

lemma demo_leased_task: "get_task demo_leased ''t2'' = Some (leased ''sim1'' ''tok'' 60000010
    (enqueued (demo_task ''t2'' ''k2'' 2 [''renode''])))"
  by code_simp

section \<open>Properties of the local store\<close>

text \<open>C1. Every database the store can reach from the empty one, by any sequence of requests
  (task protocol, registrations, runs, models, audit) at any times, is well formed: ids and
  idempotency keys are unique, audit sequence numbers grow, a queued task carries no lease and no
  result, and a leased or running one has an owner, a token, a deadline and an attempt.\<close>

theorem local_store_reachable_ok: "store_ok (snd (run_requests rs (fs, migrated)))"
  by (rule run_requests_ok) (simp add: store_ok_migrated)



text \<open>C3. Fencing: a lease token that is not a task's current one, and that no later lease
  draws again, is worthless. Whatever operations follow, a result reported under it is refused.\<close>

theorem local_stale_token_refused:
  assumes "store_ok st" and "get_task st (tr_task_id res) = Some t"
    and "wt_lease_token t \<noteq> Some (tr_lease_token res)" and "\<not> draws (tr_lease_token res) ops"
  shows "\<exists>e. complete_task now w res (run_ops store_step ops st) = Inl e"
proof -
  from local_store.stale_complete [OF assms] obtain e
    where "store_step now (Complete w res) (run_ops store_step ops st) = Inl e" by blast
  then show ?thesis by (auto simp: andThen_eq_Inl)
qed

theorem local_stale_token_refused_witness:
  "\<exists>e. complete_task 90000000 ''sim1'' (demo_result ''old'')
     (run_ops store_step [(80000000, Lease ''sim1'' 60 ''tok2'' [])] demo_leased) = Inl e"
proof (rule local_stale_token_refused [OF demo_leased_ok])
  show "get_task demo_leased (tr_task_id (demo_result ''old'')) =
      Some (leased ''sim1'' ''tok'' 60000010 (enqueued (demo_task ''t2'' ''k2'' 2 [''renode''])))"
    using demo_leased_task by (simp add: demo_result_def)
qed (simp_all add: leased_def demo_result_def draws_def)

text \<open>C4. A result is accepted at most once, however the workers retry and whatever happens
  in between.\<close>

theorem local_completed_once:
  assumes "store_ok st" and "complete_task now w res st = Inr (t, st')"
  shows "\<exists>e. complete_task now' w' res (run_ops store_step ops st') = Inl e"
proof -
  have "store_step now (Complete w res) st = Inr (Some t, st')" by (simp add: assms(2))
  from local_store.completed_once [OF assms(1) this] obtain e
    where "store_step now' (Complete w' res) (run_ops store_step ops st') = Inl e" by blast
  then show ?thesis by (auto simp: andThen_eq_Inl)
qed

theorem local_completed_once_witness:
  "\<exists>t st' e. complete_task 20 ''sim1'' (demo_result ''tok'') demo_leased = Inr (t, st') \<and>
     complete_task 30 ''sim1'' (demo_result ''tok'')
       (run_ops store_step [(25, Lease ''sim1'' 60 ''tok2'' [])] st') = Inl e"
proof -
  have "holds_lease ''sim1'' (tr_lease_token (demo_result ''tok''))
      (leased ''sim1'' ''tok'' 60000010 (enqueued (demo_task ''t2'' ''k2'' 2 [''renode''])))"
    by (simp add: demo_result_def leased_holds)
  with complete_task_accepts [OF store_okD [OF demo_leased_ok]] demo_leased_task
  obtain t st' where "complete_task 20 ''sim1'' (demo_result ''tok'') demo_leased = Inr (t, st')"
    by (metis demo_result_def worker_task_result.select_convs(1))
  with local_completed_once [OF demo_leased_ok this] show ?thesis by blast
qed

text \<open>Submitting again under an idempotency key that was accepted before returns the same
  task and changes nothing, whatever the operations in between were.\<close>

theorem local_enqueue_idempotent:
  assumes "store_ok st" and "enqueue_task now t st = Inr (u, st')"
    and "wt_idempotency_key t' = wt_idempotency_key t"
  shows "\<exists>v. enqueue_task now' t' (run_ops store_step ops st') = Inr (v, run_ops store_step ops st') \<and>
     wt_task_id v = wt_task_id u"
  by (rule enqueue_again [OF assms])

theorem local_enqueue_idempotent_witness:
  "\<exists>u st' v. enqueue_task 5 (demo_task ''t3'' ''k3'' 5 []) demo_store = Inr (u, st') \<and>
     enqueue_task 9 (demo_task ''t4'' ''k3'' 8 []) (run_ops store_step [(7, Cancel ''t3'')] st') =
       Inr (v, run_ops store_step [(7, Cancel ''t3'')] st') \<and> wt_task_id v = wt_task_id u"
proof -
  have "find_by wt_idempotency_key ''k3'' (ss_tasks demo_store) = None"
    "find_by wt_task_id ''t3'' (ss_tasks demo_store) = None" by code_simp+
  then obtain u st'
    where u: "enqueue_task 5 (demo_task ''t3'' ''k3'' 5 []) demo_store = Inr (u, st')"
    by (simp add: enqueue_task_def demo_task_def)
  from local_enqueue_idempotent [OF demo_store_ok this, of "demo_task ''t4'' ''k3'' 8 []" 9
      "[(7, Cancel ''t3'')]"] u
  show ?thesis by (auto simp: demo_task_def)
qed

text \<open>C5. A task that succeeded, failed or was cancelled is never touched again.\<close>

theorem local_terminal_final:
  assumes "store_ok st" and "get_task st i = Some t" and "terminal t"
  shows "get_task (run_ops store_step ops st) i = Some t"
  by (rule local_store.terminal_final [OF assms])

theorem local_terminal_final_witness:
  "\<exists>t. get_task (run_ops store_step [(50, Lease ''sim1'' 60 ''tok2'' [])]
      (run_ops store_step [(40, Cancel ''t2'')] demo_leased)) ''t2'' = Some t"
proof -
  have "terminal (cancelled (leased ''sim1'' ''tok'' 60000010
      (enqueued (demo_task ''t2'' ''k2'' 2 [''renode'']))))" by (simp add: edge_defs)
  moreover have "get_task (run_ops store_step [(40, Cancel ''t2'')] demo_leased) ''t2'' =
      Some (cancelled (leased ''sim1'' ''tok'' 60000010
        (enqueued (demo_task ''t2'' ''k2'' 2 [''renode'']))))" by code_simp
  ultimately show ?thesis
    using local_terminal_final [OF local_store.run_invar [OF demo_leased_ok]] by blast
qed

end
