(* ===== verification/Texts.thy ===== *)
theory Texts
  imports Prelude
begin

text \<open>
  Text conversions of Python's standard library that the sources use: numbers to text and back
  (\<open>str(n)\<close>, \<open>f"{n:x}"\<close>, \<open>int(text, 0)\<close>), \<open>str.strip\<close>, \<open>str.splitlines\<close>,
  \<open>str.title\<close> and \<open>json.dumps\<close> of a string.
\<close>

section \<open>Numbers\<close>

text \<open>A text in single quotes, as the messages show names.\<close>

definition quoted :: "string \<Rightarrow> string" where
  "quoted s = [CHR 0x27] @ s @ [CHR 0x27]"

definition digit_char :: "nat \<Rightarrow> char" where
  "digit_char d = (if d < 10 then char_of (48 + d) else char_of (87 + d))"

fun show_base :: "nat \<Rightarrow> nat \<Rightarrow> string" where
  "show_base b n = (if n < b \<or> b < 2 then [digit_char n] else show_base b (n div b) @ [digit_char (n mod b)])"

declare show_base.simps [simp del]

definition show_nat :: "nat \<Rightarrow> string" where
  "show_nat n = show_base 10 n"

definition show_int :: "int \<Rightarrow> string" where
  "show_int i = (if i < 0 then ''-'' @ show_nat (nat (- i)) else show_nat (nat i))"

text \<open>\<open>f"{n:x}"\<close>.\<close>

definition show_hex :: "int \<Rightarrow> string" where
  "show_hex i = (if i < 0 then ''-'' @ show_base 16 (nat (- i)) else show_base 16 (nat i))"

definition digit_value :: "char \<Rightarrow> nat option" where
  "digit_value c =
     (let n = of_char c :: nat in
      if 48 \<le> n \<and> n \<le> 57 then Some (n - 48)
      else if 97 \<le> n \<and> n \<le> 122 then Some (n - 87)
      else if 65 \<le> n \<and> n \<le> 90 then Some (n - 55)
      else None)"

text \<open>
  The digits of a literal, most significant first: an underscore may stand between two digits
  (\<open>after\<close> tells that the last character was a digit).
\<close>

fun read_digits :: "nat \<Rightarrow> bool \<Rightarrow> nat \<Rightarrow> string \<Rightarrow> nat option" where
  "read_digits b after acc [] = (if after then Some acc else None)"
| "read_digits b after acc (c # cs) =
     (if c = CHR ''_'' then (if after then read_digits b False acc cs else None)
      else case digit_value c of
             None \<Rightarrow> None
           | Some d \<Rightarrow> if d < b then read_digits b True (acc * b + d) cs else None)"

definition is_space :: "char \<Rightarrow> bool" where
  "is_space c \<longleftrightarrow> c = CHR '' '' \<or> (9 \<le> (of_char c :: nat) \<and> (of_char c :: nat) \<le> 13) \<or>
     (28 \<le> (of_char c :: nat) \<and> (of_char c :: nat) \<le> 31) \<or>
     (of_char c :: nat) = 133 \<or> (of_char c :: nat) = 160"

text \<open>\<open>str.strip()\<close>: white space among the characters up to 255.\<close>

definition strip :: "string \<Rightarrow> string" where
  "strip s = rev (dropWhile is_space (rev (dropWhile is_space s)))"

text \<open>
  An unsigned literal with base 0: a prefix chooses the base (and one underscore may follow it); a
  decimal literal has no leading zero unless it is zero.
\<close>

definition read_prefixed :: "nat \<Rightarrow> string \<Rightarrow> nat option" where
  "read_prefixed b s =
     (case s of c # cs \<Rightarrow> if c = CHR ''_'' then read_digits b False 0 cs else read_digits b False 0 s
      | [] \<Rightarrow> None)"

definition read_unsigned :: "string \<Rightarrow> nat option" where
  "read_unsigned s =
     (case map lower_char (take 2 s) of
        [a, c] \<Rightarrow>
          if a = CHR ''0'' \<and> c = CHR ''x'' then read_prefixed 16 (drop 2 s)
          else if a = CHR ''0'' \<and> c = CHR ''o'' then read_prefixed 8 (drop 2 s)
          else if a = CHR ''0'' \<and> c = CHR ''b'' then read_prefixed 2 (drop 2 s)
          else if a = CHR ''0'' then
            (case read_digits 10 False 0 s of Some 0 \<Rightarrow> Some 0 | _ \<Rightarrow> None)
          else read_digits 10 False 0 s
      | _ \<Rightarrow> read_digits 10 False 0 s)"

text \<open>\<open>int(text, 0)\<close>.\<close>

definition int_base0 :: "string \<Rightarrow> int result" where
  "int_base0 text =
     (let s = strip text in
      case s of
        [] \<Rightarrow> Inl (ValueError (''invalid literal for int() with base 0: '' @ quoted text))
      | c # cs \<Rightarrow>
          if c = CHR ''-'' then
            require (map_option (\<lambda>n. - int n) (read_unsigned cs)) (ValueError (''invalid literal for int() with base 0: '' @ quoted text))
          else require (map_option int (read_unsigned (if c = CHR ''+'' then cs else s)))
            (ValueError (''invalid literal for int() with base 0: '' @ quoted text)))"

section \<open>Lines and words\<close>

text \<open>The line boundaries of \<open>str.splitlines\<close>; a carriage return and a line feed are one.\<close>

definition is_line_end :: "char \<Rightarrow> bool" where
  "is_line_end c \<longleftrightarrow> (of_char c :: nat) \<in> {10, 11, 12, 13, 28, 29, 30, 133}"

fun splitlines_acc :: "string \<Rightarrow> string \<Rightarrow> string list" where
  "splitlines_acc acc [] = (if acc = [] then [] else [rev acc])"
| "splitlines_acc acc [c] = (if is_line_end c then [rev acc] else [rev (c # acc)])"
| "splitlines_acc acc (c # d # cs) =
     (if (of_char c :: nat) = 13 \<and> (of_char d :: nat) = 10 then rev acc # splitlines_acc [] cs
      else if is_line_end c then rev acc # splitlines_acc [] (d # cs)
      else splitlines_acc (c # acc) (d # cs))"

definition splitlines :: "string \<Rightarrow> string list" where
  "splitlines s = splitlines_acc [] s"

definition upper_char :: "char \<Rightarrow> char" where
  "upper_char c =
     (if CHR ''a'' \<le> c \<and> c \<le> CHR ''z'' then char_of (of_char c - 32 :: nat) else c)"

text \<open>\<open>str.title()\<close>: a letter is upper case where the character before it is not a letter.\<close>

fun title_from :: "bool \<Rightarrow> string \<Rightarrow> string" where
  "title_from after_letter [] = []"
| "title_from after_letter (c # cs) =
     (if after_letter then lower_char c else upper_char c) # title_from (is_alpha c) cs"

definition title :: "string \<Rightarrow> string" where
  "title s = title_from False s"

section \<open>JSON strings\<close>

text \<open>\<open>json.dumps\<close> of a string, with \<open>ensure_ascii\<close>.\<close>

definition json_char :: "char \<Rightarrow> string" where
  "json_char c =
     (let n = of_char c :: nat in
      if n = 34 then [char_of (92 :: nat), char_of (34 :: nat)]
      else if n = 92 then [char_of (92 :: nat), char_of (92 :: nat)]
      else if n = 10 then [char_of (92 :: nat), CHR ''n'']
      else if n = 13 then [char_of (92 :: nat), CHR ''r'']
      else if n = 9 then [char_of (92 :: nat), CHR ''t'']
      else if n = 8 then [char_of (92 :: nat), CHR ''b'']
      else if n = 12 then [char_of (92 :: nat), CHR ''f'']
      else if n < 32 \<or> 126 < n \<and> n \<noteq> 127
      then [char_of (92 :: nat), CHR ''u'', CHR ''0'', CHR ''0'', digit_char (n div 16), digit_char (n mod 16)]
      else [c])"

definition json_string :: "string \<Rightarrow> string" where
  "json_string s = [char_of (34 :: nat)] @ concat (map json_char s) @ [char_of (34 :: nat)]"

section \<open>Documents\<close>

text \<open>An element of an XML document the code writes: tag, attributes and children.\<close>

datatype node = Node (node_tag: string) (node_attrs: "(string, string) dict") (node_children: "node list")

definition attr :: "node \<Rightarrow> string \<Rightarrow> string" where
  "attr n k = (case dict_get (node_attrs n) k of None \<Rightarrow> [] | Some v \<Rightarrow> v)"

text \<open>\<open>f"{s:0>n}"\<close>.\<close>

definition pad_left :: "nat \<Rightarrow> string \<Rightarrow> string" where
  "pad_left n s = replicate (n - length s) CHR ''0'' @ s"

section \<open>Round trips\<close>

lemma digit_value_char: "d < 36 \<Longrightarrow> digit_value (digit_char d) = Some d"
  by (auto simp: digit_value_def digit_char_def Let_def)

lemma digit_value_underscore: "digit_value CHR ''_'' = None"
  by code_simp

lemma digit_char_not_underscore: "d < 36 \<Longrightarrow> digit_char d \<noteq> CHR ''_''"
  using digit_value_char [of d] digit_value_underscore by auto

text \<open>Reading the digits a number is written with gives the number back.\<close>

lemma read_digits_snoc:
  assumes "b \<le> 36" "d < b"
  shows "read_digits b True acc s = Some n \<Longrightarrow>
      read_digits b True acc (s @ [digit_char d]) = Some (n * b + d)"
    and "s \<noteq> [] \<Longrightarrow> read_digits b False acc s = Some n \<Longrightarrow>
      read_digits b False acc (s @ [digit_char d]) = Some (n * b + d)"
  using assms
proof (induction s arbitrary: acc)
  case Nil
  {
    case 1
    then show ?case using digit_char_not_underscore [of d] digit_value_char [of d] by simp
  next
    case 2
    then show ?case by simp
  }
next
  case (Cons c cs)
  {
    case 1
    then show ?case
      using Cons.IH digit_char_not_underscore [of d] digit_value_char [of d]
      by (cases cs) (auto split: option.splits if_splits)
  next
    case 2
    then show ?case
      using Cons.IH digit_char_not_underscore [of d] digit_value_char [of d]
      by (cases cs) (auto split: option.splits if_splits)
  }
qed

lemma show_base_not_Nil: "show_base b n \<noteq> []"
  by (subst show_base.simps) simp

lemma read_show_base:
  assumes "2 \<le> b" "b \<le> 36"
  shows "read_digits b False 0 (show_base b n) = Some n"
  using assms
proof (induction b n rule: show_base.induct)
  case (1 b n)
  show ?case
  proof (cases "n < b")
    case True
    with 1 show ?thesis
      using digit_char_not_underscore [of n] digit_value_char [of n]
      by (subst show_base.simps) simp
  next
    case False
    with 1 have "read_digits b False 0 (show_base b (n div b)) = Some (n div b)" by simp
    from read_digits_snoc(2) [OF 1(3) _ show_base_not_Nil this, of "n mod b"] 1(2) False
    show ?thesis by (subst show_base.simps) simp
  qed
qed

lemma show_nat_inj: "show_nat m = show_nat n \<longleftrightarrow> m = n"
proof
  assume "show_nat m = show_nat n"
  then have "read_digits 10 False 0 (show_base 10 m) = read_digits 10 False 0 (show_base 10 n)"
    by (simp only: show_nat_def)
  then show "m = n" by (simp only: read_show_base) simp
qed simp

end
