(* ===== verification/Examples.thy ===== *)
theory Examples
  imports Contracts
begin

text \<open>
  Concrete systems and experiments, on which the witnesses of several theories evaluate the code.
\<close>

definition demo_port :: "string \<Rightarrow> port_direction \<Rightarrow> port" where
  "demo_port n d = \<lparr>port_name = n, port_direction = d, port_data_type = DT_real, port_unit = Some ''V''\<rparr>"

definition demo_component :: "string \<Rightarrow> int option \<Rightarrow> bool \<Rightarrow> system_component" where
  "demo_component i step direct = \<lparr>cmp_id = i, cmp_type = ''block'', cmp_backend = BN_SYNTHETIC,
     cmp_model = None, cmp_step_us = step, cmp_event_driven = (step = None),
     cmp_direct_feedthrough = direct,
     cmp_ports = [demo_port ''in'' DIR_input, demo_port ''out'' DIR_output], cmp_properties = []\<rparr>"

text \<open>A source, an amplifier and a feedback path, which is a loop only if it feeds through.\<close>

definition demo_system :: "bool \<Rightarrow> system_manifest" where
  "demo_system direct = \<lparr>sys_name = ''1 loop'', sys_description = None,
     sys_components = [demo_component ''src'' (Some 2000) True, demo_component ''amp'' (Some 3000) True,
       demo_component ''fb'' None direct],
     sys_connections =
       [\<lparr>con_source = ''src.out'', con_target = ''amp.in'', con_unit = None\<rparr>,
        \<lparr>con_source = ''amp.out'', con_target = ''fb.in'', con_unit = None\<rparr>,
        \<lparr>con_source = ''fb.out'', con_target = ''amp.in'', con_unit = None\<rparr>],
     sys_fidelity = []\<rparr>"

lemma demo_system_valid: "validate_topology (demo_system d) = Inr (demo_system d)"
  by (cases d; code_simp)

text \<open>An experiment that feeds the source and reads the amplifier.\<close>

definition demo_experiment :: "int \<Rightarrow> stimulus list \<Rightarrow> assertion list \<Rightarrow> experiment_spec" where
  "demo_experiment macro_step stimuli assertions = \<lparr>exp_name = ''demo'', exp_system = ''system.yaml'',
     exp_duration_us = 12000, exp_macro_step_us = macro_step, exp_timeout_s = 10,
     exp_requires_rollback = False, exp_checkpoint_interval_us = None, exp_seed = 7,
     exp_stimuli = stimuli, exp_faults = [], exp_assertions = assertions, exp_observables = [],
     exp_allowed_model_states = [], exp_tags = []\<rparr>"

end
