(* ===== verification/Evidence.thy ===== *)
theory Evidence
  imports Storage Texts Examples
begin

text \<open>
  The evidence recorder (\<open>src/src/ael/evidence.py\<close>): what a run writes below its run directory,
  how artifacts are copied into it, and the bundle that hashes every file. The files of the
  workspace are a list of paths with their contents; a directory exists where a file lies below it.
  The digests and the text of a value are parameters (\<open>digests\<close>).
\<close>

section \<open>Files of a run\<close>

datatype evidence_file =
    EF_Manifest system_manifest
  | EF_Experiment experiment_spec
  | EF_Events "event list"
  | EF_Assertions "assertion_result list"
  | EF_Provenance int int "string option"
  | EF_Junit node
  | EF_Summary "string list"
  | EF_Bundle evidence_bundle
  | EF_Snapshot pyval
  | EF_Json pyval
  | EF_Instrument instrument_evidence
  | EF_Acceptance acceptance_manifest
  | EF_Blob string

record digests =
  dg_file :: "evidence_file \<Rightarrow> string"
  dg_value :: "evidence_file \<Rightarrow> string"
  dg_str :: "pyval \<Rightarrow> string"

record recorder =
  rec_layout :: workspace_layout
  rec_links :: "path \<Rightarrow> (bool \<times> string list) option"
  rec_link_budget :: nat
  rec_files :: "(path, evidence_file) dict"
  rec_cas :: "path \<rightharpoonup> evidence_file"
  rec_run_id :: string
  rec_experiment :: experiment_spec
  rec_system :: system_manifest
  rec_events :: "event list"
  rec_assertion_results :: "assertion_result list"
  rec_started_at :: int

text \<open>The file system the recorder resolves workspace paths in.\<close>

definition rec_fs :: "recorder \<Rightarrow> evidence_file fsys" where
  "rec_fs r = \<lparr>links = rec_links r, files = dict_get (rec_files r),
     is_dir = (\<lambda>p. list_ex (\<lambda>(q, _). strict_prefix p q) (rec_files r)),
     link_budget = rec_link_budget r\<rparr>"

definition run_dir :: "recorder \<Rightarrow> path" where
  "run_dir r = runs_dir (rec_layout r) @ [rec_run_id r]"

definition snapshot_dir :: "recorder \<Rightarrow> path" where
  "snapshot_dir r = run_dir r @ [''snapshots'']"

definition put_file :: "path \<Rightarrow> evidence_file \<Rightarrow> (recorder, unit) prog" where
  "put_file p c = modify (\<lambda>r. r\<lparr>rec_files := dict_set p c (rec_files r)\<rparr>)"

text \<open>
  The constructor: the run directory must be new, and the resolved manifest and experiment are
  written into it. \<open>world\<close> is a recorder whose files, links and store are the workspace's.
\<close>

definition new_recorder ::
    "int \<Rightarrow> string \<Rightarrow> experiment_spec \<Rightarrow> system_manifest \<Rightarrow> recorder \<Rightarrow> recorder result" where
  "new_recorder now run_id experiment system world =
     (let r = world\<lparr>rec_run_id := run_id, rec_experiment := experiment, rec_system := system,
            rec_events := [], rec_assertion_results := [], rec_started_at := now\<rparr> in
      if path_exists (rec_fs r) (run_dir r) then Inl (OSError ''File exists'')
      else Inr (r\<lparr>rec_files := dict_set (run_dir r @ [''experiment.resolved.json'']) (EF_Experiment experiment)
             (dict_set (run_dir r @ [''manifest.resolved.json'']) (EF_Manifest system) (rec_files r))\<rparr>))"

section \<open>Events, assertions, artifacts\<close>

text \<open>Every event gets the number of events before it as its sequence number.\<close>

definition add_events :: "event list \<Rightarrow> (recorder, unit) prog" where
  "add_events es = forP (\<lambda>e. modify (\<lambda>r. r\<lparr>rec_events :=
     rec_events r @ [e\<lparr>ev_sequence := int (length (rec_events r))\<rparr>]\<rparr>)) es"

definition add_assertion :: "assertion \<Rightarrow> pyval \<Rightarrow> bool \<Rightarrow> (recorder, unit) prog" where
  "add_assertion a actual passed = modify (\<lambda>r. r\<lparr>rec_assertion_results := rec_assertion_results r @
     [\<lparr>ar_metric = asr_metric a, ar_operator = asr_operator a, ar_expected = asr_expected a,
       ar_actual = actual, ar_unit = asr_unit a, ar_critical = asr_critical a, ar_passed = passed\<rparr>]\<rparr>)"

definition label_char :: "char \<Rightarrow> bool" where
  "label_char c \<longleftrightarrow> is_alnum c \<or> c = CHR ''_'' \<or> c = CHR ''.'' \<or> c = CHR ''-''"

definition safe_label :: "string \<Rightarrow> bool" where
  "safe_label s \<longleftrightarrow> s \<noteq> [] \<and> list_all label_char s"

text \<open>\<open>f"{virtual_time_us:016d}"\<close> of a time that is not negative.\<close>

definition time_name :: "int \<Rightarrow> string" where
  "time_name t = pad_left 16 (show_int t)"

definition artifact_dir :: "recorder \<Rightarrow> string \<Rightarrow> int \<Rightarrow> string \<Rightarrow> path" where
  "artifact_dir r component_id t label =
     run_dir r @ [''artifacts'', component_id, time_name t, label]"

text \<open>\<open>shutil.copytree\<close>: every file below the source, at the same place below the destination.\<close>

definition copy_tree :: "path \<Rightarrow> path \<Rightarrow> recorder \<Rightarrow> recorder" where
  "copy_tree source destination r = r\<lparr>rec_files := fold
     (\<lambda>(p, c). dict_set (destination @ drop (length source) p) c)
     (filter (\<lambda>(p, _). strict_prefix source p) (rec_files r)) (rec_files r)\<rparr>"

text \<open>
  One artifact. The parent of the destination is made first, so a label that is \<open>.\<close> or \<open>..\<close>
  names a directory that exists, and both copies refuse it.
\<close>

definition add_artifact :: "string \<Rightarrow> int \<Rightarrow> string \<times> string \<Rightarrow> (recorder, unit) prog" where
  "add_artifact component_id t item =
     (case item of (label, reference) \<Rightarrow>
      bindP (guardP (safe_label label) (ValueError ''unsafe backend artifact label'')) (\<lambda>_.
      bindP (reads (\<lambda>r. resolve_workspace_path (rec_fs r) (layout_root (rec_layout r)) reference True)) (\<lambda>source.
      bindP (gets (\<lambda>r. artifact_dir r component_id t label)) (\<lambda>destination.
      bindP (gets (\<lambda>r. label = ''.'' \<or> label = ''..'' \<or> path_exists (rec_fs r) destination)) (\<lambda>exists.
      bindP (guardP (\<not> exists) (OSError ''File exists'')) (\<lambda>_.
      bindP (gets (\<lambda>r. files (rec_fs r) source)) (\<lambda>content.
      case content of
        Some c \<Rightarrow> put_file (destination @ [last source]) c
      | None \<Rightarrow> modify (copy_tree source destination))))))))"

definition add_artifacts :: "string \<Rightarrow> int \<Rightarrow> (string, string) dict \<Rightarrow> (recorder, unit) prog" where
  "add_artifacts component_id t artifacts =
     forP (add_artifact component_id t) (sort_key fst artifacts)"

section \<open>Finalization\<close>

fun operator_value :: "operator \<Rightarrow> string" where
  "operator_value OP_eq = ''eq''"
| "operator_value OP_ne = ''ne''"
| "operator_value OP_lt = ''lt''"
| "operator_value OP_le = ''le''"
| "operator_value OP_gt = ''gt''"
| "operator_value OP_ge = ''ge''"
| "operator_value OP_contains = ''contains''"

definition failed_assertions :: "recorder \<Rightarrow> assertion_result list" where
  "failed_assertions r = filter (\<lambda>a. \<not> ar_passed a) (rec_assertion_results r)"

definition junit_case :: "digests \<Rightarrow> assertion_result \<Rightarrow> node" where
  "junit_case dg a = Node ''testcase'' [(''name'', ar_metric a)]
     (if ar_passed a then []
      else [Node ''failure'' [(''message'', ''expected '' @ operator_value (ar_operator a) @ '' '' @
        dg_str dg (ar_expected a) @ ''; actual '' @ dg_str dg (ar_actual a))] []])"

definition write_junit :: "digests \<Rightarrow> run_status \<Rightarrow> string option \<Rightarrow> recorder \<Rightarrow> node" where
  "write_junit dg status err r =
     (let results = rec_assertion_results r; errored = given err in
      Node ''testsuite''
        [(''name'', exp_name (rec_experiment r)), (''tests'', show_nat (max 1 (length results))),
         (''failures'', show_nat (length (failed_assertions r))),
         (''errors'', if errored then ''1'' else ''0'')]
        ((if results = []
          then [Node ''testcase'' [(''name'', ''experiment-completed'')]
            (if status \<noteq> RS_PASSED
             then [Node ''failure'' [(''message'', if errored then the err else run_status_value status)] []]
             else [])]
          else map (junit_case dg) results) @
         (if errored then [Node ''system-err'' [(''text'', the err)] []] else [])))"

definition write_summary :: "run_status \<Rightarrow> string option \<Rightarrow> recorder \<Rightarrow> string list" where
  "write_summary status err r =
     [''# Experiment '' @ exp_name (rec_experiment r), [],
      ''- Run: `'' @ rec_run_id r @ ''`'', ''- Status: `'' @ run_status_value status @ ''`'',
      ''- Events: '' @ show_nat (length (rec_events r)),
      ''- Failed assertions: '' @ show_nat (length (failed_assertions r)), [],
      ''## Proven'', [],
      ''- The configuration was parsed under strict v1 contracts.'',
      ''- The attached event and assertion artifacts are content-addressed.'', [],
      ''## Not proven'', [],
      ''- Hardware behavior outside an approved Validation Envelope.'',
      ''- Electrical, timing, power, thermal, RF or EM equivalence unless separately claimed.''] @
     (if given err then [[], ''## Error'', [], ''`'' @ the err @ ''`''] else [])"

text \<open>\<open>path.is_file() and path.name != "bundle.json"\<close> over the run directory, in path order.\<close>

definition hashed_files :: "recorder \<Rightarrow> (path \<times> evidence_file) list" where
  "hashed_files r = sort_key fst
     (filter (\<lambda>(p, _). strict_prefix (run_dir r) p \<and> last p \<noteq> ''bundle.json'') (rec_files r))"

definition relative_name :: "recorder \<Rightarrow> path \<Rightarrow> string" where
  "relative_name r p = relative_to (run_dir r) p"

definition put_cas :: "digests \<Rightarrow> evidence_file \<Rightarrow> (recorder, string) prog" where
  "put_cas dg c r = (case put_bytes (dg_file dg) (rec_layout r) c (rec_cas r) of
     ((d, _), cas) \<Rightarrow> (Inr d, r\<lparr>rec_cas := cas\<rparr>))"

definition hash_file ::
    "digests \<Rightarrow> path \<times> evidence_file \<Rightarrow> (string, string) dict \<Rightarrow> (recorder, (string, string) dict) prog" where
  "hash_file dg pc hashes =
     bindP (put_cas dg (snd pc)) (\<lambda>d.
     bindP (gets (\<lambda>r. relative_name r (fst pc))) (\<lambda>n. ret (dict_set n d hashes)))"

definition hash_model ::
    "digests \<Rightarrow> system_component \<Rightarrow> (string, string) dict \<Rightarrow> (recorder, (string, string) dict) prog" where
  "hash_model dg c hashes =
     (if \<not> given (cmp_model c) then ret hashes
      else
        bindP (reads (\<lambda>r. resolve_workspace_path (rec_fs r) (layout_root (rec_layout r)) (the (cmp_model c)) True)) (\<lambda>p.
        bindP (reads (\<lambda>r. require (files (rec_fs r) p) (OSError ''cannot read''))) (\<lambda>content.
        bindP (put_cas dg content) (\<lambda>d. ret (dict_set (cmp_id c) d hashes)))))"

definition control_plane_claim :: "recorder \<Rightarrow> claim" where
  "control_plane_claim r =
     \<lparr>clm_id = rec_run_id r @ ''-control-plane'',
      clm_statement = ''The recorded control-plane experiment produced the attached evidence.'',
      clm_status = CS_UNVERIFIED, clm_evidence_paths = [''events.jsonl'', ''assertions.json''],
      clm_limitations = [''No hardware equivalence is implied.'',
        ''Claims remain dependent on the declared component models and fidelity metadata.''],
      clm_validation_envelope_id = None, clm_hardware_validated = False\<rparr>"

definition event_mechanisms :: "event list \<Rightarrow> mechanism_evidence list" where
  "event_mechanisms es = List.map_filter (\<lambda>e.
     case ev_fidelity_ref e of
       Some f \<Rightarrow> if sublist '':tool-executed'' f
         then Some (Tool_Event (ev_sequence e) (ev_source e) (ev_type e) f) else None
     | None \<Rightarrow> None) es"

definition artifact_mechanisms :: "(string, string) dict \<Rightarrow> mechanism_evidence list" where
  "artifact_mechanisms hashes =
     map (\<lambda>(p, d). Artifact_Evidence p d)
       (filter (\<lambda>(p, _). starts_with p ''artifacts/'') (sort_key fst hashes))"

definition finalize ::
    "digests \<Rightarrow> int \<Rightarrow> run_status \<Rightarrow> string option \<Rightarrow> (recorder, evidence_bundle) prog" where
  "finalize dg now status err =
     bindP (gets run_dir) (\<lambda>dir.
     bindP (gets (\<lambda>r. EF_Events (rec_events r))) (\<lambda>c. bindP (put_file (dir @ [''events.jsonl'']) c) (\<lambda>_.
     bindP (gets (\<lambda>r. EF_Assertions (rec_assertion_results r))) (\<lambda>c. bindP (put_file (dir @ [''assertions.json'']) c) (\<lambda>_.
     bindP (gets (\<lambda>r. EF_Provenance (rec_started_at r) now err)) (\<lambda>c. bindP (put_file (dir @ [''provenance.json'']) c) (\<lambda>_.
     bindP (gets (\<lambda>r. EF_Junit (write_junit dg status err r))) (\<lambda>c. bindP (put_file (dir @ [''junit.xml'']) c) (\<lambda>_.
     bindP (gets (\<lambda>r. EF_Summary (write_summary status err r))) (\<lambda>c. bindP (put_file (dir @ [''summary.md'']) c) (\<lambda>_.
     bindP (gets hashed_files) (\<lambda>pcs.
     bindP (foldP (hash_file dg) pcs []) (\<lambda>artifact_hashes.
     bindP (gets (\<lambda>r. sys_components (rec_system r))) (\<lambda>components.
     bindP (foldP (hash_model dg) components []) (\<lambda>model_hashes.
     bindP (gets (\<lambda>r.
       \<lparr>eb_run_id = rec_run_id r, eb_status = status, eb_created_at = rec_started_at r,
        eb_completed_at = Some now,
        eb_experiment_hash = dg_value dg (EF_Experiment (rec_experiment r)),
        eb_system_hash = dg_value dg (EF_Manifest (rec_system r)),
        eb_model_hashes = model_hashes, eb_artifact_hashes = artifact_hashes,
        eb_event_count = int (length (rec_events r)),
        eb_assertion_results = rec_assertion_results r, eb_claims = [control_plane_claim r],
        eb_fidelity_boundaries =
          [''Simulation results are not hardware validation.'',
           ''Synthetic components are test-only and cannot support production claims.''] @
          map (\<lambda>(k, v). k @ '': '' @ v) (sort_key fst (sys_fidelity (rec_system r))),
        eb_mechanism_evidence = event_mechanisms (rec_events r) @ artifact_mechanisms artifact_hashes,
        eb_signature = None\<rparr>)) (\<lambda>bundle.
     bindP (put_file (dir @ [''bundle.json'']) (EF_Bundle bundle)) (\<lambda>_.
     ret bundle)))))))))))))))))"

section \<open>Confinement and numbering\<close>

text \<open>
  Nothing outside the run directory differs between two recorders of one run, and the events are
  numbered from zero.
\<close>

definition same_outside :: "recorder \<Rightarrow> recorder \<Rightarrow> bool" where
  "same_outside r0 r \<longleftrightarrow> run_dir r = run_dir r0 \<and>
     (\<forall>p. \<not> strict_prefix (run_dir r0) p \<longrightarrow> dict_get (rec_files r) p = dict_get (rec_files r0) p)"

definition numbered :: "event list \<Rightarrow> bool" where
  "numbered es \<longleftrightarrow> map ev_sequence es = map int [0..<length es]"

definition recorder_ok :: "recorder \<Rightarrow> recorder \<Rightarrow> bool" where
  "recorder_ok r0 r \<longleftrightarrow> same_outside r0 r \<and> numbered (rec_events r)"

lemma run_dir_simps [simp]:
  "run_dir (r\<lparr>rec_files := f\<rparr>) = run_dir r" "run_dir (r\<lparr>rec_cas := c\<rparr>) = run_dir r"
  "run_dir (r\<lparr>rec_events := es\<rparr>) = run_dir r"
  "run_dir (r\<lparr>rec_assertion_results := rs\<rparr>) = run_dir r"
  by (simp_all add: run_dir_def)

lemma recorder_ok_run_dir: "recorder_ok r0 r \<Longrightarrow> run_dir r = run_dir r0"
  by (simp add: recorder_ok_def same_outside_def)

lemma recorder_ok_put:
  "recorder_ok r0 r \<Longrightarrow> strict_prefix (run_dir r0) p \<Longrightarrow>
     recorder_ok r0 (r\<lparr>rec_files := dict_set p c (rec_files r)\<rparr>)"
  by (auto simp: recorder_ok_def same_outside_def)

lemma keeps_put_file:
  "strict_prefix (run_dir r0) p \<Longrightarrow> keeps (recorder_ok r0) (put_file p c)"
  by (simp add: put_file_def keeps_def recorder_ok_put)

lemma keeps_add_events [keeps_intros]: "keeps (recorder_ok r0) (add_events es)"
  unfolding add_events_def
  by (intro keeps_intros) (auto simp: recorder_ok_def same_outside_def numbered_def)

lemma keeps_add_assertion [keeps_intros]: "keeps (recorder_ok r0) (add_assertion a v ok)"
  unfolding add_assertion_def
  by (intro keeps_intros) (auto simp: recorder_ok_def same_outside_def)

lemma keeps_put_cas [keeps_intros]: "keeps (recorder_ok r0) (put_cas dg c)"
  by (auto simp: keeps_def put_cas_def recorder_ok_def same_outside_def split: prod.splits)

lemma fold_dict_set_other:
  "\<forall>q \<in> fst ` set pcs. f q \<noteq> p \<Longrightarrow>
     dict_get (fold (\<lambda>(q, c). dict_set (f q) c) pcs d) p = dict_get d p"
  by (induction pcs arbitrary: d) auto

lemma copy_tree_ok:
  assumes "recorder_ok r0 r" and "strict_prefix (run_dir r0) dest"
  shows "recorder_ok r0 (copy_tree source dest r)"
proof -
  have "dict_get (rec_files (copy_tree source dest r)) p = dict_get (rec_files r) p"
    if "\<not> strict_prefix (run_dir r0) p" for p
    unfolding copy_tree_def
    using that assms(2)
    by (simp, intro fold_dict_set_other) (auto simp: strict_prefix_def prefix_def)
  with assms(1) show ?thesis
    by (auto simp: recorder_ok_def same_outside_def copy_tree_def)
qed

lemma artifact_dir_inside: "strict_prefix (run_dir r) (artifact_dir r c t l)"
  by (auto simp: artifact_dir_def strict_prefix_def)

lemma strict_prefix_extend: "strict_prefix p q \<Longrightarrow> strict_prefix p (q @ x)"
  by (auto simp: strict_prefix_def prefix_def)

lemma keeps_add_artifact [keeps_intros]: "keeps (recorder_ok r0) (add_artifact cid t item)"
proof -
  have inside: "strict_prefix (run_dir r0) (artifact_dir r cid t l)" if "recorder_ok r0 r" for r l
    using that artifact_dir_inside [of r] by (simp add: recorder_ok_run_dir)
  then have "yields (recorder_ok r0) (gets (\<lambda>r. artifact_dir r cid t l)) (strict_prefix (run_dir r0))" for l
    by (auto simp: yields_def)
  then show ?thesis
    unfolding add_artifact_def
    by (auto split: prod.split intro!: keeps_bind_guard keeps_intros
        keeps_bind_yields [OF keeps_pure(4), of _ _ "strict_prefix (run_dir r0)"]
        keeps_put_file strict_prefix_extend keeps_modify copy_tree_ok)
qed

lemma keeps_add_artifacts [keeps_intros]: "keeps (recorder_ok r0) (add_artifacts cid t items)"
  unfolding add_artifacts_def by (intro keeps_intros)

lemma keeps_hash_file [keeps_intros]: "keeps (recorder_ok r0) (hash_file dg pc h)"
  unfolding hash_file_def by (intro keeps_intros)

lemma keeps_hash_model [keeps_intros]: "keeps (recorder_ok r0) (hash_model dg c h)"
  unfolding hash_model_def by (intro keeps_intros)

lemma keeps_finalize [keeps_intros]: "keeps (recorder_ok r0) (finalize dg now status err)"
proof -
  have dir: "yields (recorder_ok r0) (gets run_dir) (\<lambda>d. d = run_dir r0)"
    by (auto simp: yields_def recorder_ok_run_dir)
  have inside: "strict_prefix (run_dir r0) (run_dir r0 @ [n])" for n by (simp add: strict_prefix_def)
  show ?thesis
    unfolding finalize_def
    by (rule keeps_bind_yields [OF keeps_pure(4) dir])
      (use inside in \<open>simp, intro keeps_intros keeps_put_file inside\<close>)
qed

section \<open>What the bundle hashes\<close>

text \<open>
  The files of a workspace are named apart by plain components, which the hashing relies on.
\<close>

definition plain_tree :: "(path, evidence_file) dict \<Rightarrow> bool" where
  "plain_tree d \<longleftrightarrow> distinct (dict_keys d) \<and> (\<forall>p \<in> fst ` set d. list_all plain_component p)"

lemma relative_name_inj:
  assumes "strict_prefix (run_dir r) p" "strict_prefix (run_dir r) q"
    and "list_all plain_component p" "list_all plain_component q"
    and "relative_name r p = relative_name r q"
  shows "p = q"
proof -
  from assms(1,2) obtain x y where xy: "p = run_dir r @ x" "q = run_dir r @ y" "x \<noteq> []" "y \<noteq> []"
    by (auto simp: strict_prefix_def prefix_def)
  with assms(5) have "join_with ''/'' x = join_with ''/'' y"
    by (simp add: relative_name_def relative_to_append)
  then have "split_on CHR ''/'' (join_with ''/'' x) = split_on CHR ''/'' (join_with ''/'' y)" by simp
  then have "x = y"
    using xy assms(3,4) by (simp add: split_join plain_component_def list_all_iff)
  with xy show ?thesis by simp
qed

text \<open>Hashing a file adds one entry and leaves everything but the object store as it is.\<close>

lemma hash_file_eq:
  "hash_file dg (p, c) h r =
     (Inr (dict_set (relative_name r p) (dg_file dg c) h),
      r\<lparr>rec_cas := snd (put_bytes (dg_file dg) (rec_layout r) c (rec_cas r))\<rparr>)"
  by (simp add: hash_file_def put_cas_def bindP_def relative_name_def put_bytes_def Let_def
      split: prod.splits)

lemma hash_files_eq:
  "\<exists>cas. foldP (hash_file dg) pcs h r =
     (Inr (fold (\<lambda>(p, c). dict_set (relative_name r p) (dg_file dg c)) pcs h), r\<lparr>rec_cas := cas\<rparr>)"
proof (induction pcs arbitrary: h r)
  case Nil
  show ?case by (simp add: exI [of _ "rec_cas r"])
next
  case (Cons pc pcs)
  obtain p c where pc: "pc = (p, c)" by (cases pc)
  let ?r = "r\<lparr>rec_cas := snd (put_bytes (dg_file dg) (rec_layout r) c (rec_cas r))\<rparr>"
  have "relative_name ?r = relative_name r" by (simp add: relative_name_def fun_eq_iff)
  with Cons.IH [of "dict_set (relative_name r p) (dg_file dg c) h" ?r] show ?case
    by (auto simp: pc bindP_def hash_file_eq)
qed

definition cas_holds :: "digests \<Rightarrow> recorder \<Rightarrow> string \<Rightarrow> bool" where
  "cas_holds dg r d \<longleftrightarrow> (\<exists>c. rec_cas r (cas_path (rec_layout r) d) = Some c \<and> dg_file dg c = d)"

definition cas_sound :: "digests \<Rightarrow> recorder \<Rightarrow> bool" where
  "cas_sound dg r \<longleftrightarrow> cas_ok (dg_file dg) (rec_layout r) (rec_cas r)"

lemma put_bytes_holds:
  assumes "cas_ok sha l fs" and "put_bytes sha l b fs = ((d, p), fs')"
  shows "d = sha b \<and> (\<exists>c. fs' (cas_path l d) = Some c \<and> sha c = d)"
  using assms by (fastforce simp: put_bytes_def cas_ok_def Let_def split: if_splits)

lemma put_cas_holds:
  assumes "cas_sound dg r" and "put_cas dg c r = (Inr d, r')"
  shows "d = dg_file dg c" "cas_holds dg r' d" "cas_sound dg r'"
    "cas_holds dg r x \<Longrightarrow> cas_holds dg r' x" "rec_files r' = rec_files r" "run_dir r' = run_dir r"
    "rec_layout r' = rec_layout r"
proof -
  from assms(2) obtain p cas where put: "put_bytes (dg_file dg) (rec_layout r) c (rec_cas r) = ((d, p), cas)"
    and r': "r' = r\<lparr>rec_cas := cas\<rparr>" by (auto simp: put_cas_def split: prod.splits)
  from put_bytes_holds [OF assms(1) [unfolded cas_sound_def] put]
  show "d = dg_file dg c" "cas_holds dg r' d" by (auto simp: cas_holds_def r')
  show "cas_sound dg r'"
    using put_bytes_ok [OF assms(1) [unfolded cas_sound_def] put] by (simp add: cas_sound_def r')
  show "cas_holds dg r x \<Longrightarrow> cas_holds dg r' x"
    using put_bytes_keeps [OF _ put] by (auto simp: cas_holds_def r')
qed (use assms(2) in \<open>auto simp: put_cas_def split: prod.splits\<close>)

lemma hash_file_holds:
  assumes "cas_sound dg r" and "hash_file dg (p, c) h r = (Inr h', r')"
  shows "cas_holds dg r' (dg_file dg c)" "cas_sound dg r'" "cas_holds dg r x \<Longrightarrow> cas_holds dg r' x"
proof -
  from assms(2) obtain d where "put_cas dg c r = (Inr d, r')"
    by (auto simp: hash_file_def bindP_eq_Inr)
  from put_cas_holds [OF assms(1) this]
  show "cas_holds dg r' (dg_file dg c)" "cas_sound dg r'" "cas_holds dg r x \<Longrightarrow> cas_holds dg r' x"
    by auto
qed

lemma hash_files_hold:
  assumes "foldP (hash_file dg) pcs h r = (Inr h', r')" and "cas_sound dg r"
  shows "cas_sound dg r' \<and> (\<forall>x. cas_holds dg r x \<longrightarrow> cas_holds dg r' x) \<and>
     (\<forall>pc \<in> set pcs. cas_holds dg r' (dg_file dg (snd pc)))"
  using assms
proof (induction pcs arbitrary: h r)
  case Nil
  then show ?case by simp
next
  case (Cons pc pcs)
  obtain p c where pc: "pc = (p, c)" by (cases pc)
  from Cons.prems(1) obtain h1 r1 where one: "hash_file dg (p, c) h r = (Inr h1, r1)"
    and rest: "foldP (hash_file dg) pcs h1 r1 = (Inr h', r')"
    by (auto simp: pc bindP_eq_Inr)
  note o = hash_file_holds [OF Cons.prems(2) one]
  from Cons.IH [OF rest o(2)] o(1,3) show ?case by (auto simp: pc)
qed

lemma hash_model_holds:
  assumes "hash_model dg c h r = (Inr h', r')" and "cas_sound dg r"
  shows "cas_sound dg r' \<and> (\<forall>x. cas_holds dg r x \<longrightarrow> cas_holds dg r' x) \<and>
     rec_files r' = rec_files r \<and> run_dir r' = run_dir r"
proof (cases "given (cmp_model c)")
  case True
  with assms(1) obtain d content where "put_cas dg content r = (Inr d, r')"
    by (auto simp: hash_model_def bindP_eq_Inr)
  from put_cas_holds [OF assms(2) this] show ?thesis by auto
qed (use assms in \<open>simp add: hash_model_def\<close>)

lemma hash_models_hold:
  assumes "foldP (hash_model dg) cs h r = (Inr h', r')" and "cas_sound dg r"
  shows "cas_sound dg r' \<and> (\<forall>x. cas_holds dg r x \<longrightarrow> cas_holds dg r' x) \<and>
     rec_files r' = rec_files r \<and> run_dir r' = run_dir r"
  using assms
proof (induction cs arbitrary: h r)
  case Nil
  then show ?case by simp
next
  case (Cons c cs)
  from Cons.prems(1) obtain h1 r1 where one: "hash_model dg c h r = (Inr h1, r1)"
    and rest: "foldP (hash_model dg) cs h1 r1 = (Inr h', r')"
    by (auto simp: bindP_eq_Inr)
  from hash_model_holds [OF one Cons.prems(2)] Cons.IH [OF rest] show ?case by auto
qed

text \<open>The recorder as the hashing finds it: the reports of the run are written.\<close>

definition with_reports :: "digests \<Rightarrow> int \<Rightarrow> run_status \<Rightarrow> string option \<Rightarrow> recorder \<Rightarrow> recorder" where
  "with_reports dg now status err r = r\<lparr>rec_files :=
     dict_set (run_dir r @ [''summary.md'']) (EF_Summary (write_summary status err r))
     (dict_set (run_dir r @ [''junit.xml'']) (EF_Junit (write_junit dg status err r))
     (dict_set (run_dir r @ [''provenance.json'']) (EF_Provenance (rec_started_at r) now err)
     (dict_set (run_dir r @ [''assertions.json'']) (EF_Assertions (rec_assertion_results r))
     (dict_set (run_dir r @ [''events.jsonl'']) (EF_Events (rec_events r)) (rec_files r)))))\<rparr>"

lemma reports_ignore_files [simp]:
  "write_summary status err (r\<lparr>rec_files := f\<rparr>) = write_summary status err r"
  "write_junit dg status err (r\<lparr>rec_files := f\<rparr>) = write_junit dg status err r"
  by (simp_all add: write_summary_def write_junit_def failed_assertions_def)

lemma finalize_Inr:
  assumes "finalize dg now status err r = (Inr b, r')"
  shows "\<exists>r2 mh r3. foldP (hash_file dg) (hashed_files (with_reports dg now status err r)) []
       (with_reports dg now status err r) = (Inr (eb_artifact_hashes b), r2) \<and>
     foldP (hash_model dg) (sys_components (rec_system r2)) [] r2 = (Inr mh, r3) \<and>
     r' = r3\<lparr>rec_files := dict_set (run_dir r @ [''bundle.json'']) (EF_Bundle b) (rec_files r3)\<rparr>"
  using assms
  by (auto simp: finalize_def bindP_eq_Inr put_file_def with_reports_def)

lemma fold_dict_get:
  assumes "distinct (map fst pcs)" and "inj_on g (fst ` set pcs)"
  shows "dict_get (fold (\<lambda>(p, c). dict_set (g p) (k c)) pcs []) n = Some d \<longleftrightarrow>
     (\<exists>p c. (p, c) \<in> set pcs \<and> g p = n \<and> d = k c)"
proof -
  let ?kvs = "map (\<lambda>(p, c). (g p, k c)) pcs"
  have "distinct (map fst ?kvs)"
    using assms by (simp add: comp_def case_prod_unfold distinct_map)
      (auto intro!: inj_onI dest: inj_onD)
  then have "dict_get (dict_of ?kvs) n = Some d \<longleftrightarrow> (n, d) \<in> set ?kvs"
    by (simp add: dict_of_distinct)
  moreover have "fold (\<lambda>(p, c). dict_set (g p) (k c)) pcs [] = dict_of ?kvs"
    by (simp add: dict_of_def dict_merge_def fold_map comp_def case_prod_unfold)
  ultimately show ?thesis by auto
qed

lemma plain_tree_set:
  "plain_tree d \<Longrightarrow> list_all plain_component p \<Longrightarrow> plain_tree (dict_set p c d)"
  by (auto simp: plain_tree_def distinct_update dom_update)

lemma plain_report_names:
  "list_all plain_component [''summary.md'', ''junit.xml'', ''provenance.json'', ''assertions.json'',
     ''events.jsonl'', ''bundle.json'']"
  by code_simp

lemma with_reports_plain:
  assumes "plain_tree (rec_files r)" and "list_all plain_component (run_dir r)"
  shows "plain_tree (rec_files (with_reports dg now status err r))"
  using assms plain_report_names by (simp add: with_reports_def plain_tree_set)

lemma with_reports_run_dir [simp]: "run_dir (with_reports dg now status err r) = run_dir r"
  by (simp add: with_reports_def)

lemma with_reports_cas [simp]:
  "cas_sound dg' (with_reports dg now status err r) = cas_sound dg' r"
  by (simp add: with_reports_def cas_sound_def)

lemma in_hashed_files:
  assumes "distinct (dict_keys (rec_files r))"
  shows "(p, c) \<in> set (hashed_files r) \<longleftrightarrow> dict_get (rec_files r) p = Some c \<and>
     strict_prefix (run_dir r) p \<and> last p \<noteq> ''bundle.json''"
  using assms by (auto simp: hashed_files_def)

lemma distinct_hashed_files:
  assumes "distinct (dict_keys (rec_files r))"
  shows "distinct (map fst (hashed_files r))"
proof -
  have "distinct (map fst (filter (\<lambda>(p, _). strict_prefix (run_dir r) p \<and> last p \<noteq> ''bundle.json'')
      (rec_files r)))"
    using assms by (rule distinct_map_filter)
  then show ?thesis by (simp add: hashed_files_def distinct_map)
qed

text \<open>The entry of a name is the digest of the file of that name, and the store holds it.\<close>

lemma finalize_hashes:
  assumes "finalize dg now status err r = (Inr b, r')" and "cas_sound dg r"
    and "plain_tree (rec_files r)" and "list_all plain_component (run_dir r)"
  shows "dict_get (eb_artifact_hashes b) n = Some d \<longleftrightarrow>
       (\<exists>p c. dict_get (rec_files r') p = Some c \<and> strict_prefix (run_dir r) p \<and>
          last p \<noteq> ''bundle.json'' \<and> relative_name r p = n \<and> d = dg_file dg c)"
    and "dict_get (eb_artifact_hashes b) n = Some d \<Longrightarrow> cas_holds dg r' d"
proof -
  let ?w = "with_reports dg now status err r"
  from finalize_Inr [OF assms(1)] obtain r2 mh r3
    where f: "foldP (hash_file dg) (hashed_files ?w) [] ?w = (Inr (eb_artifact_hashes b), r2)"
      and m: "foldP (hash_model dg) (sys_components (rec_system r2)) [] r2 = (Inr mh, r3)"
      and r': "r' = r3\<lparr>rec_files := dict_set (run_dir r @ [''bundle.json'']) (EF_Bundle b) (rec_files r3)\<rparr>"
    by blast
  from hash_files_eq [of dg "hashed_files ?w" "[]" ?w] f obtain cas
    where b: "eb_artifact_hashes b = fold (\<lambda>(p, c). dict_set (relative_name ?w p) (dg_file dg c)) (hashed_files ?w) []"
      and r2: "r2 = ?w\<lparr>rec_cas := cas\<rparr>" by auto
  have sound: "cas_sound dg ?w" using assms(2) by simp
  note h2 = hash_files_hold [OF f sound]
  note h3 = hash_models_hold [OF m] 
  have plain: "plain_tree (rec_files ?w)" by (rule with_reports_plain [OF assms(3,4)])
  then have d: "distinct (dict_keys (rec_files ?w))" by (simp add: plain_tree_def)
  have inj: "inj_on (relative_name ?w) (fst ` set (hashed_files ?w))"
  proof (rule inj_onI)
    fix p q assume "p \<in> fst ` set (hashed_files ?w)" "q \<in> fst ` set (hashed_files ?w)"
      and eq: "relative_name ?w p = relative_name ?w q"
    then have "p \<in> fst ` set (rec_files ?w)" "strict_prefix (run_dir ?w) p"
      "q \<in> fst ` set (rec_files ?w)" "strict_prefix (run_dir ?w) q"
      by (force simp: hashed_files_def)+
    with plain eq show "p = q" by (intro relative_name_inj [of ?w]) (auto simp: plain_tree_def)
  qed
  have rel: "relative_name ?w = relative_name r" by (simp add: relative_name_def fun_eq_iff)
  have files: "dict_get (rec_files r') p = dict_get (rec_files ?w) p" if "last p \<noteq> ''bundle.json''" for p
    using that h2 h3 by (auto simp: r' r2)
  have entry: "dict_get (eb_artifact_hashes b) n = Some d \<longleftrightarrow>
      (\<exists>p c. (p, c) \<in> set (hashed_files ?w) \<and> relative_name r p = n \<and> d = dg_file dg c)"
    unfolding b rel [symmetric] by (rule fold_dict_get [OF distinct_hashed_files [OF d] inj])
  then show "dict_get (eb_artifact_hashes b) n = Some d \<longleftrightarrow>
       (\<exists>p c. dict_get (rec_files r') p = Some c \<and> strict_prefix (run_dir r) p \<and>
          last p \<noteq> ''bundle.json'' \<and> relative_name r p = n \<and> d = dg_file dg c)"
    by (simp only: entry in_hashed_files [OF d] with_reports_run_dir) (metis files)
  assume "dict_get (eb_artifact_hashes b) n = Some d"
  with entry h2 h3 have "cas_holds dg r3 d" by fastforce
  then show "cas_holds dg r' d" by (simp add: r' cas_holds_def)
qed

section \<open>Properties\<close>

datatype recorder_op =
    Add_Events "event list"
  | Add_Assertion assertion pyval bool
  | Add_Artifacts string int "(string, string) dict"
  | Finalize int run_status "string option"

fun recorder_step :: "digests \<Rightarrow> recorder_op \<Rightarrow> recorder \<Rightarrow> recorder" where
  "recorder_step dg (Add_Events es) r = snd (add_events es r)"
| "recorder_step dg (Add_Assertion a actual passed) r = snd (add_assertion a actual passed r)"
| "recorder_step dg (Add_Artifacts cid t items) r = snd (add_artifacts cid t items r)"
| "recorder_step dg (Finalize now status err) r = snd (finalize dg now status err r)"

lemma recorder_step_ok: "recorder_ok r0 r \<Longrightarrow> recorder_ok r0 (recorder_step dg op r)"
  by (cases op) (simp_all add: keepsD [OF keeps_add_events] keepsD [OF keeps_add_assertion]
      keepsD [OF keeps_add_artifacts] keepsD [OF keeps_finalize])

lemma recorder_steps_ok: "recorder_ok r0 r \<Longrightarrow> recorder_ok r0 (fold (recorder_step dg) ops r)"
  by (induction ops arbitrary: r) (simp_all add: recorder_step_ok)

lemma new_recorder_ok:
  assumes "new_recorder now i e m world = Inr r"
  shows "recorder_ok r r \<and> run_dir r = runs_dir (rec_layout world) @ [i] \<and>
     (\<forall>p. \<not> strict_prefix (run_dir r) p \<longrightarrow> dict_get (rec_files r) p = dict_get (rec_files world) p)"
  using assms
  by (auto simp: new_recorder_def Let_def run_dir_def recorder_ok_def same_outside_def numbered_def
      strict_prefix_def split: if_splits)


definition demo_world :: recorder where
  "demo_world = \<lparr>rec_layout = \<lparr>layout_root = [''ws'']\<rparr>, rec_links = (\<lambda>_. None), rec_link_budget = 0,
     rec_files = [([''ws'', ''out'', ''bundle.json''], EF_Blob ''waveform''),
       ([''ws'', ''out'', ''log.txt''], EF_Blob ''log'')],
     rec_cas = Map.empty, rec_run_id = [], rec_experiment = demo_experiment 1000 [] [],
     rec_system = demo_system False, rec_events = [], rec_assertion_results = [], rec_started_at = 0\<rparr>"

definition demo_digests :: digests where
  "demo_digests = \<lparr>dg_file = (\<lambda>c. case c of EF_Blob s \<Rightarrow> ''b'' @ s | EF_Events _ \<Rightarrow> ''e'' | _ \<Rightarrow> ''x''),
     dg_value = (\<lambda>_. ''v''), dg_str = (\<lambda>_. ''?'')\<rparr>"

definition demo_recorder :: recorder where
  "demo_recorder = (case new_recorder 5 ''r1'' (demo_experiment 1000 [] []) (demo_system False) demo_world of
     Inr r \<Rightarrow> snd (add_artifacts ''amp'' 1000 [(''trace'', ''out'')] r) | Inl _ \<Rightarrow> demo_world)"


text \<open>A run whose components have no model files always finalizes.\<close>

lemma hash_models_none:
  "list_all (\<lambda>c. \<not> given (cmp_model c)) cs \<Longrightarrow> foldP (hash_model dg) cs h r = (Inr h, r)"
  by (induction cs) (auto simp: hash_model_def bindP_def)

lemma finalize_succeeds:
  assumes "list_all (\<lambda>c. \<not> given (cmp_model c)) (sys_components (rec_system r))"
  obtains b r' where "finalize dg now status err r = (Inr b, r')"
    and "rec_files r' = dict_set (run_dir r @ [''bundle.json'']) (EF_Bundle b)
      (rec_files (with_reports dg now status err r))"
proof -
  obtain cas where h: "foldP (hash_file dg) (hashed_files (with_reports dg now status err r)) []
      (with_reports dg now status err r) = (Inr (fold (\<lambda>(p, c). dict_set
        (relative_name (with_reports dg now status err r) p) (dg_file dg c))
        (hashed_files (with_reports dg now status err r)) []),
      (with_reports dg now status err r)\<lparr>rec_cas := cas\<rparr>)"
    using hash_files_eq by blast
  have sys: "rec_system (with_reports dg now status err r) = rec_system r"
    by (simp add: with_reports_def)
  have "\<exists>b r'. finalize dg now status err r = (Inr b, r') \<and>
      rec_files r' = dict_set (run_dir r @ [''bundle.json'']) (EF_Bundle b)
        (rec_files (with_reports dg now status err r))"
    using h hash_models_none [OF assms] sys
    by (simp add: finalize_def bindP_def put_file_def with_reports_def)
  then show thesis using that by blast
qed

text \<open>C21. The bundle of a run that finalizes is complete and correct about its files: a name has a
  hash exactly if the run directory holds a file of that name other than one called bundle.json,
  the hash is the digest of that file's content, and the object store holds content with it.\<close>

theorem bundle_hashes_run_directory:
  assumes "finalize dg now status err r = (Inr b, r')" and "cas_sound dg r"
    and "plain_tree (rec_files r)" and "list_all plain_component (run_dir r)"
  shows "(dict_get (eb_artifact_hashes b) n = Some d \<longleftrightarrow>
       (\<exists>p c. dict_get (rec_files r') p = Some c \<and> strict_prefix (run_dir r) p \<and>
          last p \<noteq> ''bundle.json'' \<and> relative_name r p = n \<and> d = dg_file dg c)) \<and>
     (if dict_get (eb_artifact_hashes b) n = Some d then cas_holds dg r' d else True)"
  using finalize_hashes [OF assms] by simp

text \<open>The file of a hashed artifact, in a run that recorded two files of a backend.\<close>

definition demo_artifact :: "string \<Rightarrow> path" where
  "demo_artifact n = run_dir demo_recorder @ [''artifacts'', ''amp'', ''0000000000001000'', ''trace'', n]"

lemma demo_recorder_ready:
  "cas_sound demo_digests demo_recorder" "plain_tree (rec_files demo_recorder)"
  "list_all plain_component (run_dir demo_recorder)"
  "list_all (\<lambda>c. \<not> given (cmp_model c)) (sys_components (rec_system demo_recorder))"
proof -
  have keep: "keeps (\<lambda>r. rec_cas r = Map.empty) (add_artifacts cid t items)" for cid t items
    unfolding add_artifacts_def add_artifact_def put_file_def
    by (intro keeps_intros) (simp_all add: copy_tree_def)
  have "rec_cas demo_recorder = Map.empty"
    unfolding demo_recorder_def
    by (auto split: sum.split intro!: keepsD [OF keep] simp: new_recorder_def demo_world_def Let_def
        split: if_splits)
  then show "cas_sound demo_digests demo_recorder" by (simp add: cas_sound_def cas_ok_def)
qed code_simp+

lemma demo_artifact_files:
  "dict_get (rec_files demo_recorder) (demo_artifact ''log.txt'') = Some (EF_Blob ''log'')"
  "dict_get (rec_files demo_recorder) (demo_artifact ''bundle.json'') = Some (EF_Blob ''waveform'')"
  "relative_name demo_recorder (demo_artifact ''log.txt'') = ''artifacts/amp/0000000000001000/trace/log.txt''"
  "relative_name demo_recorder (demo_artifact ''bundle.json'') = ''artifacts/amp/0000000000001000/trace/bundle.json''"
  by code_simp+

lemma demo_artifact_kept:
  assumes "rec_files r' = dict_set (run_dir demo_recorder @ [''bundle.json'']) (EF_Bundle b)
      (rec_files (with_reports dg now status err demo_recorder))"
  shows "dict_get (rec_files r') (demo_artifact n) = dict_get (rec_files demo_recorder) (demo_artifact n)"
  by (simp add: assms with_reports_def demo_artifact_def)

theorem bundle_hashes_run_directory_witness:
  "\<exists>b r'. finalize demo_digests 9 RS_PASSED None demo_recorder = (Inr b, r') \<and>
     dict_get (eb_artifact_hashes b) ''artifacts/amp/0000000000001000/trace/log.txt'' = Some ''blog'' \<and>
     cas_holds demo_digests r' ''blog''"
proof -
  obtain b r' where f: "finalize demo_digests 9 RS_PASSED None demo_recorder = (Inr b, r')"
    and r': "rec_files r' = dict_set (run_dir demo_recorder @ [''bundle.json'']) (EF_Bundle b)
      (rec_files (with_reports demo_digests 9 RS_PASSED None demo_recorder))"
    by (rule finalize_succeeds [OF demo_recorder_ready(4)])
  have "dict_get (rec_files r') (demo_artifact ''log.txt'') = Some (EF_Blob ''log'')"
    "strict_prefix (run_dir demo_recorder) (demo_artifact ''log.txt'')"
    "last (demo_artifact ''log.txt'') \<noteq> ''bundle.json''" "dg_file demo_digests (EF_Blob ''log'') = ''blog''"
    using demo_artifact_kept [OF r'] demo_artifact_files
    by (auto simp: demo_artifact_def strict_prefix_def demo_digests_def)
  with bundle_hashes_run_directory [OF f demo_recorder_ready(1-3),
      of "''artifacts/amp/0000000000001000/trace/log.txt''" "''blog''"] demo_artifact_files(3) f
  show ?thesis by (metis (no_types, lifting))
qed

text \<open>The exclusion of the bundle from its own hashes goes by file name alone: a backend's
  artifact that happens to be called bundle.json is copied into the run but no hash is recorded for
  it, so the bundle does not fix its content.\<close>

theorem artifact_named_bundle_unhashed:
  "\<exists>b r'. finalize demo_digests 9 RS_PASSED None demo_recorder = (Inr b, r') \<and>
     dict_get (rec_files r') (demo_artifact ''bundle.json'') = Some (EF_Blob ''waveform'') \<and>
     dict_get (eb_artifact_hashes b) (relative_name demo_recorder (demo_artifact ''bundle.json'')) = None"
proof -
  let ?n = "relative_name demo_recorder (demo_artifact ''bundle.json'')"
  obtain b r' where f: "finalize demo_digests 9 RS_PASSED None demo_recorder = (Inr b, r')"
    and r': "rec_files r' = dict_set (run_dir demo_recorder @ [''bundle.json'']) (EF_Bundle b)
      (rec_files (with_reports demo_digests 9 RS_PASSED None demo_recorder))"
    by (rule finalize_succeeds [OF demo_recorder_ready(4)])
  have "dict_get (eb_artifact_hashes b) ?n = None"
  proof (rule ccontr)
    assume "dict_get (eb_artifact_hashes b) ?n \<noteq> None"
    then obtain d where "dict_get (eb_artifact_hashes b) ?n = Some d" by blast
    then obtain p c where p: "dict_get (rec_files r') p = Some c" "strict_prefix (run_dir demo_recorder) p"
      "last p \<noteq> ''bundle.json''" "relative_name demo_recorder p = ?n"
      unfolding finalize_hashes(1) [OF f demo_recorder_ready(1-3)] by blast
    have plain: "plain_tree (rec_files r')"
      unfolding r'
      by (intro plain_tree_set with_reports_plain demo_recorder_ready)
        (use demo_recorder_ready(3) plain_report_names in simp)
    have inside: "strict_prefix (run_dir demo_recorder) (demo_artifact ''bundle.json'')"
      by (simp add: demo_artifact_def strict_prefix_def)
    have there: "dict_get (rec_files r') (demo_artifact ''bundle.json'') = Some (EF_Blob ''waveform'')"
      using demo_artifact_kept [OF r'] demo_artifact_files by simp
    from plain p(1) there have "list_all plain_component p" "list_all plain_component (demo_artifact ''bundle.json'')"
      by (auto simp: plain_tree_def dest!: map_of_SomeD)
    from relative_name_inj [OF p(2) inside this p(4)] p(3) show False
      by (simp add: demo_artifact_def)
  qed
  with f demo_artifact_kept [OF r'] demo_artifact_files(2) show ?thesis by metis
qed

end
