(* ===== verification/Floats.thy ===== *)
theory Floats
  imports Pyval Texts "HOL-Library.Log_Nat"
begin

text \<open>
  Double precision arithmetic as Python does it: the exact rational result rounded to the nearest
  representable number, ties to even, with overflow to an infinity; \<open>float(v)\<close> of the values the
  sources convert, \<open>round(x)\<close>, and reading a decimal literal. The sign of a zero is not kept.
\<close>

section \<open>Rounding\<close>

text \<open>The integer nearest to a rational, ties to even: \<open>round(q)\<close>.\<close>

definition nearest_even :: "rat \<Rightarrow> int" where
  "nearest_even q =
     (let n = \<lfloor>q\<rfloor>; d = q - of_int n in
      if d < 1 / 2 then n else if 1 / 2 < d then n + 1 else if even n then n else n + 1)"

definition pow2 :: "int \<Rightarrow> rat" where
  "pow2 e = (if 0 \<le> e then 2 ^ nat e else 1 / 2 ^ nat (- e))"

text \<open>The exponent of the leading bit of a positive rational: \<open>2 ^ e \<le> q < 2 ^ (e + 1)\<close>.\<close>

definition leading_exponent :: "rat \<Rightarrow> int" where
  "leading_exponent q =
     (let (a, b) = quotient_of q; e = bitlen a - bitlen b in
      if pow2 e \<le> q then e else e - 1)"

text \<open>53 significant bits, or fewer for subnormal numbers.\<close>

definition ulp_exponent :: "rat \<Rightarrow> int" where
  "ulp_exponent q = max (leading_exponent \<bar>q\<bar> - 52) (- 1074)"

definition round_f64 :: "rat \<Rightarrow> pyfloat" where
  "round_f64 q =
     (if q = 0 then Fin 0
      else let u = ulp_exponent q;
               m = (if q < 0 then - nearest_even (- q / pow2 u) else nearest_even (q / pow2 u));
               r = of_int m * pow2 u
           in if \<bar>r\<bar> < pow2 1024 then Fin r else if 0 < r then PosInf else NegInf)"

section \<open>Arithmetic\<close>

fun float_sign :: "pyfloat \<Rightarrow> int" where
  "float_sign (Fin q) = (if q < 0 then - 1 else if q = 0 then 0 else 1)"
| "float_sign PosInf = 1"
| "float_sign NegInf = - 1"
| "float_sign NaN = 0"

definition signed_inf :: "int \<Rightarrow> pyfloat" where
  "signed_inf s = (if 0 < s then PosInf else if s < 0 then NegInf else NaN)"

fun float_mul :: "pyfloat \<Rightarrow> pyfloat \<Rightarrow> pyfloat" where
  "float_mul (Fin a) (Fin b) = round_f64 (a * b)"
| "float_mul NaN b = NaN"
| "float_mul a NaN = NaN"
| "float_mul a b = signed_inf (float_sign a * float_sign b)"

fun float_neg :: "pyfloat \<Rightarrow> pyfloat" where
  "float_neg (Fin a) = Fin (- a)"
| "float_neg PosInf = NegInf"
| "float_neg NegInf = PosInf"
| "float_neg NaN = NaN"

fun float_add :: "pyfloat \<Rightarrow> pyfloat \<Rightarrow> pyfloat" where
  "float_add (Fin a) (Fin b) = round_f64 (a + b)"
| "float_add NaN b = NaN"
| "float_add a NaN = NaN"
| "float_add PosInf NegInf = NaN"
| "float_add NegInf PosInf = NaN"
| "float_add PosInf b = PosInf"
| "float_add NegInf b = NegInf"
| "float_add a b = b"

definition float_sub :: "pyfloat \<Rightarrow> pyfloat \<Rightarrow> pyfloat" where
  "float_sub a b = float_add a (float_neg b)"

text \<open>\<open>a / b\<close>: dividing by zero raises.\<close>

definition float_div :: "pyfloat \<Rightarrow> pyfloat \<Rightarrow> pyfloat result" where
  "float_div a b =
     (case b of
        Fin q \<Rightarrow>
          if q = 0 then Inl (ZeroDivisionError ''float division by zero'')
          else (case a of Fin p \<Rightarrow> Inr (round_f64 (p / q)) | NaN \<Rightarrow> Inr NaN
                | _ \<Rightarrow> Inr (signed_inf (float_sign a * float_sign b)))
      | NaN \<Rightarrow> Inr NaN
      | _ \<Rightarrow> (case a of Fin p \<Rightarrow> Inr (Fin 0) | _ \<Rightarrow> Inr NaN))"

text \<open>\<open>round(x)\<close> to an integer.\<close>

definition float_round :: "pyfloat \<Rightarrow> int result" where
  "float_round x =
     (case x of
        Fin q \<Rightarrow> Inr (nearest_even q)
      | NaN \<Rightarrow> Inl (ValueError ''cannot convert float NaN to integer'')
      | _ \<Rightarrow> Inl (OverflowError ''cannot convert float infinity to integer''))"

section \<open>Conversions\<close>

text \<open>
  A decimal literal: an optional sign, digits with an optional point, and an optional exponent,
  where an underscore may stand between two digits;
  or \<open>inf\<close>, \<open>infinity\<close>, \<open>nan\<close> in any case.
\<close>

definition read_plain :: "string \<Rightarrow> nat option" where
  "read_plain s = (if s = [] then Some 0 else read_digits 10 False 0 s)"

definition read_exponent :: "string \<Rightarrow> int option" where
  "read_exponent s =
     (case s of
        [] \<Rightarrow> None
      | c # cs \<Rightarrow>
          if c = CHR ''-'' then (if cs = [] then None else map_option (\<lambda>n. - int n) (read_plain cs))
          else if c = CHR ''+'' then (if cs = [] then None else map_option int (read_plain cs))
          else map_option int (read_plain s))"

definition pow10 :: "int \<Rightarrow> rat" where
  "pow10 e = (if 0 \<le> e then 10 ^ nat e else 1 / 10 ^ nat (- e))"

definition read_mantissa :: "string \<Rightarrow> rat option" where
  "read_mantissa s =
     (let whole = before_first CHR ''.'' s;
          fraction = (case after_first CHR ''.'' s of None \<Rightarrow> [] | Some f \<Rightarrow> f) in
      if whole = [] \<and> fraction = [] then None
      else case (read_plain whole, read_plain fraction) of
             (Some w, Some f) \<Rightarrow> Some (of_nat w + of_nat f * pow10 (- int (length (filter is_digit fraction))))
           | _ \<Rightarrow> None)"

definition read_decimal :: "string \<Rightarrow> rat option" where
  "read_decimal s =
     (let m = before_first CHR ''e'' s in
      case after_first CHR ''e'' s of
        None \<Rightarrow> read_mantissa m
      | Some e \<Rightarrow>
          (case (read_mantissa m, read_exponent e) of
             (Some q, Some x) \<Rightarrow> Some (q * pow10 x)
           | _ \<Rightarrow> None))"

definition read_unsigned_float :: "string \<Rightarrow> pyfloat option" where
  "read_unsigned_float s =
     (if s = ''inf'' \<or> s = ''infinity'' then Some PosInf
      else if s = ''nan'' then Some NaN
      else map_option round_f64 (read_decimal s))"

text \<open>\<open>float(text)\<close>.\<close>

definition float_of_text :: "string \<Rightarrow> pyfloat result" where
  "float_of_text text =
     (let s = lower (strip text) in
      require (case s of
          [] \<Rightarrow> None
        | c # cs \<Rightarrow>
            if c = CHR ''-'' then map_option float_neg (read_unsigned_float cs)
            else if c = CHR ''+'' then read_unsigned_float cs
            else read_unsigned_float s)
        (ValueError (''could not convert string to float: '' @ quoted text)))"

definition float_of_int :: "int \<Rightarrow> pyfloat result" where
  "float_of_int i =
     (case round_f64 (of_int i) of
        Fin q \<Rightarrow> Inr (Fin q)
      | _ \<Rightarrow> Inl (OverflowError ''int too large to convert to float''))"

text \<open>\<open>float(v)\<close>.\<close>

fun to_float :: "pyval \<Rightarrow> pyfloat result" where
  "to_float (PBool b) = Inr (Fin (if b then 1 else 0))"
| "to_float (PInt i) = float_of_int i"
| "to_float (PFloat f) = Inr f"
| "to_float (PStr s) = float_of_text s"
| "to_float _ = Inl (TypeError ''float() argument must be a string or a real number'')"

text \<open>\<open>int(text)\<close> in base ten and \<open>int(v)\<close>.\<close>

definition int_of_text :: "string \<Rightarrow> int result" where
  "int_of_text text =
     (let s = strip text in
      require (case s of
          [] \<Rightarrow> None
        | c # cs \<Rightarrow>
            if c = CHR ''-'' then map_option (\<lambda>n. - int n) (read_digits 10 False 0 cs)
            else if c = CHR ''+'' then map_option int (read_digits 10 False 0 cs)
            else map_option int (read_digits 10 False 0 s))
        (ValueError (''invalid literal for int() with base 10: '' @ quoted text)))"

definition truncate_rat :: "rat \<Rightarrow> int" where
  "truncate_rat q = (if q < 0 then - \<lfloor>- q\<rfloor> else \<lfloor>q\<rfloor>)"

fun to_int :: "pyval \<Rightarrow> int result" where
  "to_int (PBool b) = Inr (if b then 1 else 0)"
| "to_int (PInt i) = Inr i"
| "to_int (PFloat (Fin q)) = Inr (truncate_rat q)"
| "to_int (PFloat NaN) = Inl (ValueError ''cannot convert float NaN to integer'')"
| "to_int (PFloat _) = Inl (OverflowError ''cannot convert float infinity to integer'')"
| "to_int (PStr s) = int_of_text s"
| "to_int _ = Inl (TypeError ''int() argument must be a string or a real number'')"

section \<open>Facts\<close>

lemma nearest_even_int [simp]: "nearest_even (of_int i) = i"
  by (simp add: nearest_even_def)

lemma nearest_even_close: "\<bar>of_int (nearest_even q) - q\<bar> \<le> 1 / 2"
proof -
  have "of_int \<lfloor>q\<rfloor> \<le> q" "q < of_int \<lfloor>q\<rfloor> + 1" by linarith+
  then show ?thesis
    unfolding nearest_even_def Let_def by (simp add: abs_if) linarith
qed

end
