(* ===== verification/Adapters.thy ===== *)
theory Adapters
  imports Evidence Floats
begin

text \<open>
  Execution adapters (\<open>src/src/ael/adapters/\<close>): the operations of the abstract class, the
  synthetic test adapter, the native analysis adapter and the probe of an installed tool. An
  adapter's own fields are its state; the files of the workspace are read through the file system
  the recorder sees, and a snapshot names the file it leaves there.
\<close>

section \<open>The interface\<close>

record adapter_probe =
  prb_backend :: backend_name
  prb_available :: bool
  prb_command :: "string option"
  prb_detected_version :: "string option"
  prb_expected_version :: "string option"
  prb_reason :: "string option"

record adapter_step_result =
  sr_outputs :: "(string, pyval) dict"
  sr_metrics :: "(string, pyval) dict"
  sr_events :: "event list"
  sr_artifacts :: "(string, string) dict"

text \<open>
  The methods of a class of adapters over its state. \<open>ao_snapshot\<close> gives the file the adapter
  writes for a destination, where it writes one.
\<close>

record 'a adapter_ops =
  ao_probe :: "'a \<Rightarrow> adapter_probe \<times> 'a"
  ao_prepare :: "evidence_file fsys \<Rightarrow> system_component \<Rightarrow> int \<Rightarrow> ('a, unit) prog"
  ao_inject :: "string \<Rightarrow> pyval \<Rightarrow> int \<Rightarrow> ('a, event list) prog"
  ao_step :: "int \<Rightarrow> int \<Rightarrow> ('a, adapter_step_result) prog"
  ao_snapshot :: "evidence_file fsys \<Rightarrow> path \<Rightarrow> ('a, (path \<times> evidence_file) option) prog"
  ao_shutdown :: "('a, unit) prog"

text \<open>
  What the scheduler needs of the class: an adapter that was shut down holds nothing any more,
  even where shutting it down raised.
\<close>

locale adapter =
  fixes ops :: "'a adapter_ops" and released :: "'a \<Rightarrow> bool"
  assumes shutdown_releases: "released (snd (ao_shutdown ops a))"

section \<open>The synthetic adapter\<close>

record synthetic_adapter =
  syn_component :: "system_component option"
  syn_state :: "(string, pyval) dict"

definition new_synthetic :: synthetic_adapter where
  "new_synthetic = \<lparr>syn_component = None, syn_state = []\<rparr>"

definition synthetic_probe :: "synthetic_adapter \<Rightarrow> adapter_probe \<times> synthetic_adapter" where
  "synthetic_probe a =
     (\<lparr>prb_backend = BN_SYNTHETIC, prb_available = True, prb_command = Some ''in-process'',
       prb_detected_version = Some ''1'', prb_expected_version = Some ''1'',
       prb_reason = Some ''test-only synthetic backend; not production evidence''\<rparr>, a)"

definition dict_get_or :: "('k, 'v) dict \<Rightarrow> 'k \<Rightarrow> 'v \<Rightarrow> 'v" where
  "dict_get_or d k v = (case dict_get d k of None \<Rightarrow> v | Some w \<Rightarrow> w)"

text \<open>\<open>**value\<close> in a dictionary display.\<close>

fun as_mapping :: "pyval \<Rightarrow> (string, pyval) dict result" where
  "as_mapping (PDict d) = Inr d"
| "as_mapping _ = Inl (TypeError ''argument after ** must be a mapping'')"

definition synthetic_prepare ::
    "evidence_file fsys \<Rightarrow> system_component \<Rightarrow> int \<Rightarrow> (synthetic_adapter, unit) prog" where
  "synthetic_prepare fs c seed =
     bindP (modify (\<lambda>a. a\<lparr>syn_component := Some c\<rparr>)) (\<lambda>_.
     bindP (lift (as_mapping (dict_get_or (cmp_properties c) ''initial'' (PDict [])))) (\<lambda>initial.
     modify (\<lambda>a. a\<lparr>syn_state := dict_merge [(''seed'', PInt seed), (''counter'', PInt 0)] initial\<rparr>)))"

definition component_name :: "system_component option \<Rightarrow> string \<Rightarrow> string" where
  "component_name c other = (case c of None \<Rightarrow> other | Some c \<Rightarrow> cmp_id c)"

definition make_event :: "int \<Rightarrow> string \<Rightarrow> string \<Rightarrow> (string, pyval) dict \<Rightarrow> string \<Rightarrow> event" where
  "make_event time source typ payload ref =
     \<lparr>ev_sequence = 0, ev_virtual_time_us = time, ev_source = source, ev_type = typ,
      ev_payload = payload, ev_parent_sequence = None, ev_fidelity_ref = Some ref\<rparr>"

definition synthetic_inject :: "string \<Rightarrow> pyval \<Rightarrow> int \<Rightarrow> (synthetic_adapter, event list) prog" where
  "synthetic_inject target val virtual_time_us =
     bindP (modify (\<lambda>a. a\<lparr>syn_state := dict_set (after_last CHR ''.'' target) val (syn_state a)\<rparr>)) (\<lambda>_.
     gets (\<lambda>a. [make_event virtual_time_us (component_name (syn_component a) ''synthetic'')
       ''synthetic.inject'' [(''target'', PStr target), (''value'', val)] ''synthetic-test-only'']))"

definition synthetic_step :: "int \<Rightarrow> int \<Rightarrow> (synthetic_adapter, adapter_step_result) prog" where
  "synthetic_step virtual_time_us step_us =
     bindP (reads (\<lambda>a. to_int (dict_get_or (syn_state a) ''counter'' (PInt 0)))) (\<lambda>n.
     bindP (modify (\<lambda>a. a\<lparr>syn_state := dict_set ''counter'' (PInt (n + 1)) (syn_state a)\<rparr>)) (\<lambda>_.
     bindP (reads (\<lambda>a. case syn_component a of None \<Rightarrow> Inr (Fin 1)
       | Some c \<Rightarrow> to_float (dict_get_or (cmp_properties c) ''gain'' (PFloat (Fin 1))))) (\<lambda>gain.
     bindP (reads (\<lambda>a. to_float (dict_get_or (syn_state a) ''input'' (PFloat (Fin 0))))) (\<lambda>input_value.
     let out = PFloat (float_mul input_value gain) in
     bindP (modify (\<lambda>a. a\<lparr>syn_state := dict_set ''output'' out (syn_state a)\<rparr>)) (\<lambda>_.
     gets (\<lambda>a. \<lparr>sr_outputs = [(''output'', out)],
       sr_metrics = [(''counter'', PInt (n + 1)), (''output'', out)],
       sr_events = [make_event (virtual_time_us + step_us)
         (component_name (syn_component a) ''synthetic'') ''synthetic.step''
         [(''counter'', PInt (n + 1)), (''output'', out)] ''synthetic-test-only''],
       sr_artifacts = []\<rparr>))))))"

definition synthetic_snapshot ::
    "evidence_file fsys \<Rightarrow> path \<Rightarrow> (synthetic_adapter, (path \<times> evidence_file) option) prog" where
  "synthetic_snapshot fs destination = gets (\<lambda>a. Some (destination, EF_Snapshot (PDict (syn_state a))))"

definition synthetic_shutdown :: "(synthetic_adapter, unit) prog" where
  "synthetic_shutdown = modify (\<lambda>a. a\<lparr>syn_component := None\<rparr>)"

definition synthetic_ops :: "synthetic_adapter adapter_ops" where
  "synthetic_ops = \<lparr>ao_probe = synthetic_probe, ao_prepare = synthetic_prepare,
     ao_inject = synthetic_inject, ao_step = synthetic_step, ao_snapshot = synthetic_snapshot,
     ao_shutdown = synthetic_shutdown\<rparr>"

interpretation synthetic: adapter synthetic_ops "\<lambda>a. syn_component a = None"
  by unfold_locales (simp add: synthetic_ops_def synthetic_shutdown_def)

section \<open>The native analysis adapter\<close>

record native_adapter =
  nat_component :: "system_component option"
  nat_cases :: "(string, pyval) dict"
  nat_inputs :: "(string, pyval) dict"

definition new_native :: native_adapter where
  "new_native = \<lparr>nat_component = None, nat_cases = [], nat_inputs = []\<rparr>"

definition native_probe :: "native_adapter \<Rightarrow> adapter_probe \<times> native_adapter" where
  "native_probe a =
     (\<lparr>prb_backend = BN_NATIVE, prb_available = True, prb_command = None,
       prb_detected_version = Some ''1'', prb_expected_version = Some ''1'',
       prb_reason = Some ''declarative analysis only; no arbitrary command execution''\<rparr>, a)"

text \<open>
  \<open>set(payload) != {"version", "cases"} or payload["version"] != 1\<close> and the type of the cases, on
  whatever the JSON text decodes to.
\<close>

fun hashable :: "pyval \<Rightarrow> bool" where
  "hashable (PList xs) = False"
| "hashable (PDict d) = False"
| "hashable v = True"

fun native_cases :: "pyval \<Rightarrow> (string, pyval) dict result" where
  "native_cases (PDict d) =
     (if set (dict_keys d) \<noteq> {''version'', ''cases''} \<or>
         \<not> py_eq (dict_get_or d ''version'' PNone) (PInt 1)
      then Inl (ValueError ''native analysis model must contain only version=1 and cases'')
      else case dict_get_or d ''cases'' PNone of
             PDict cases \<Rightarrow> Inr cases
           | _ \<Rightarrow> Inl (ValueError ''native analysis cases must be an object''))"
| "native_cases (PList xs) =
     (if \<not> list_all hashable xs \<or> set xs = {PStr ''version'', PStr ''cases''}
      then Inl (TypeError ''list indices must be integers or slices'')
      else Inl (ValueError ''native analysis model must contain only version=1 and cases''))"
| "native_cases (PStr s) =
     Inl (ValueError ''native analysis model must contain only version=1 and cases'')"
| "native_cases _ = Inl (TypeError ''object is not iterable'')"

text \<open>\<open>cwd\<close> is the working directory, \<open>parse_json\<close> decodes the text of a file.\<close>

definition native_prepare ::
    "path \<Rightarrow> (evidence_file \<Rightarrow> pyval result) \<Rightarrow> evidence_file fsys \<Rightarrow> system_component \<Rightarrow> int \<Rightarrow>
       (native_adapter, unit) prog" where
  "native_prepare cwd parse_json fs c seed =
     bindP (guardP (given (cmp_model c)) (ValueError ''native analysis component requires a JSON model'')) (\<lambda>_.
     bindP (lift (resolve_workspace_path fs cwd (the (cmp_model c)) True)) (\<lambda>p.
     bindP (lift (require (files fs p) (OSError ''cannot read''))) (\<lambda>content.
     bindP (lift (andThen (parse_json content) native_cases)) (\<lambda>cases.
     modify (\<lambda>a. a\<lparr>nat_component := Some c, nat_cases := cases, nat_inputs := []\<rparr>)))))"

definition native_inject :: "string \<Rightarrow> pyval \<Rightarrow> int \<Rightarrow> (native_adapter, event list) prog" where
  "native_inject target val virtual_time_us =
     (let key = after_last CHR ''.'' target in
      bindP (guardP (key \<in> {''case_id'', ''fixed''}) (ValueError ''unsupported native analysis input'')) (\<lambda>_.
      bindP (modify (\<lambda>a. a\<lparr>nat_inputs := dict_set key val (nat_inputs a)\<rparr>)) (\<lambda>_.
      gets (\<lambda>a. [make_event virtual_time_us (component_name (nat_component a) ''native'')
        ''native.analysis_input'' [(''name'', PStr key), (''value'', val)]
        ''native:declarative-analysis'']))))"

text \<open>\<open>cases[case_id][variant]\<close>; a missing key is the only exception that is turned into another.\<close>

definition native_case :: "(string, pyval) dict \<Rightarrow> string \<Rightarrow> string \<Rightarrow> pyval result" where
  "native_case cases case_id variant =
     andThen (require (dict_get cases case_id) (ValueError ''native model has no such case'')) (\<lambda>v.
     case v of
       PDict d \<Rightarrow> require (dict_get d variant) (ValueError ''native model has no such case'')
     | _ \<Rightarrow> Inl (TypeError ''object is not subscriptable by a string''))"

text \<open>\<open>dict(value)\<close>; of lists only those of pairs with string keys can become a dictionary of metrics.\<close>

fun pair_of :: "pyval \<Rightarrow> (string \<times> pyval) result" where
  "pair_of (PList [PStr k, v]) = Inr (k, v)"
| "pair_of _ = Inl (ValueError ''dictionary update sequence element'')"

fun to_dict :: "pyval \<Rightarrow> (string, pyval) dict result" where
  "to_dict (PDict d) = Inr d"
| "to_dict (PList xs) = andThen (map_result pair_of xs) (\<lambda>kvs. Inr (dict_of kvs))"
| "to_dict (PStr s) = (if s = [] then Inr [] else Inl (ValueError ''dictionary update sequence element''))"
| "to_dict _ = Inl (TypeError ''object is not iterable'')"

definition native_step :: "int \<Rightarrow> int \<Rightarrow> (native_adapter, adapter_step_result) prog" where
  "native_step virtual_time_us step_us =
     bindP (reads (\<lambda>a. to_int (dict_get_or (nat_inputs a) ''case_id'' (PInt 0)))) (\<lambda>n.
     bindP (gets (\<lambda>a. if truthy (dict_get_or (nat_inputs a) ''fixed'' (PBool False))
       then ''fixed'' else ''faulty'')) (\<lambda>variant.
     bindP (reads (\<lambda>a. native_case (nat_cases a) (show_int n) variant)) (\<lambda>metrics.
     bindP (lift (to_dict metrics)) (\<lambda>ms.
     gets (\<lambda>a. \<lparr>sr_outputs = ms, sr_metrics = ms,
       sr_events = [make_event (virtual_time_us + step_us) (component_name (nat_component a) ''native'')
         ''native.analysis_complete'' [(''case_id'', PStr (show_int n)), (''variant'', PStr variant),
         (''metrics'', metrics)] ''native:declarative-analysis''], sr_artifacts = []\<rparr>)))))"

definition native_snapshot ::
    "path \<Rightarrow> evidence_file fsys \<Rightarrow> path \<Rightarrow> (native_adapter, (path \<times> evidence_file) option) prog" where
  "native_snapshot cwd fs destination =
     bindP (lift (resolve_workspace_path fs cwd (''/'' @ join_with ''/'' destination) False)) (\<lambda>p.
     gets (\<lambda>a. Some (p, EF_Snapshot (PDict (nat_inputs a)))))"

definition native_shutdown :: "(native_adapter, unit) prog" where
  "native_shutdown = modify (\<lambda>a. a\<lparr>nat_component := None, nat_inputs := []\<rparr>)"

definition native_ops :: "path \<Rightarrow> (evidence_file \<Rightarrow> pyval result) \<Rightarrow> native_adapter adapter_ops" where
  "native_ops cwd parse_json = \<lparr>ao_probe = native_probe, ao_prepare = native_prepare cwd parse_json,
     ao_inject = native_inject, ao_step = native_step, ao_snapshot = native_snapshot cwd,
     ao_shutdown = native_shutdown\<rparr>"

interpretation native: adapter "native_ops cwd parse_json" "\<lambda>a. nat_component a = None \<and> nat_inputs a = []"
  by unfold_locales (simp add: native_ops_def native_shutdown_def)

section \<open>Installed tools\<close>

record tool_version =
  tv_name :: string
  tv_version :: string
  tv_commands :: "string list"
  tv_environment_variable :: "string option"

definition tool_versions :: "tool_version list" where
  "tool_versions =
     [\<lparr>tv_name = ''renode'', tv_version = ''1.16.1'', tv_commands = [''renode''],
       tv_environment_variable = Some ''RENODE_BIN''\<rparr>,
      \<lparr>tv_name = ''zephyr'', tv_version = ''4.4.2'', tv_commands = [''west''],
       tv_environment_variable = Some ''ZEPHYR_BASE''\<rparr>,
      \<lparr>tv_name = ''zephyr-sdk'', tv_version = ''1.0.1'', tv_commands = [''arm-zephyr-eabi-gcc''],
       tv_environment_variable = Some ''ZEPHYR_SDK_INSTALL_DIR''\<rparr>,
      \<lparr>tv_name = ''ngspice'', tv_version = ''46'', tv_commands = [''ngspice''],
       tv_environment_variable = Some ''NGSPICE_BIN''\<rparr>,
      \<lparr>tv_name = ''openmodelica'', tv_version = ''1.27.0'', tv_commands = [''omc''],
       tv_environment_variable = Some ''OPENMODELICA_BIN''\<rparr>,
      \<lparr>tv_name = ''omsimulator'', tv_version = ''2.1.3'', tv_commands = [''OMSimulator'', ''omsimulator''],
       tv_environment_variable = Some ''OMSIMULATOR_BIN''\<rparr>,
      \<lparr>tv_name = ''ns-3'', tv_version = ''3.47'', tv_commands = [''ns3''],
       tv_environment_variable = Some ''NS3_BIN''\<rparr>,
      \<lparr>tv_name = ''openems'', tv_version = ''0.0.36'', tv_commands = [''openEMS''],
       tv_environment_variable = Some ''OPENEMS_BIN''\<rparr>]"

text \<open>
  The operating system a tool is looked up in: environment variables, \<open>shutil.which\<close>,
  \<open>os.path.isfile\<close>, and the output of a command with an argument, where it could be run.
\<close>

record host =
  host_env :: "string \<Rightarrow> string option"
  host_which :: "string \<Rightarrow> string option"
  host_isfile :: "string \<Rightarrow> bool"
  host_run :: "string \<Rightarrow> string \<Rightarrow> (string \<times> string) option"

definition first_some :: "('a \<Rightarrow> 'b option) \<Rightarrow> 'a list \<Rightarrow> 'b option" where
  "first_some f xs = (case List.map_filter f xs of [] \<Rightarrow> None | y # _ \<Rightarrow> Some y)"

text \<open>A path that is looked up is true in a condition unless it is empty.\<close>

definition nonempty :: "string option \<Rightarrow> string option" where
  "nonempty s = (if given s then s else None)"

definition tool_resolve :: "host \<Rightarrow> tool_version \<Rightarrow> string option" where
  "tool_resolve h d =
     (case nonempty (tv_environment_variable d) of
        None \<Rightarrow> first_some (\<lambda>c. nonempty (host_which h c)) (tv_commands d)
      | Some var \<Rightarrow>
          (case nonempty (host_env h var) of
             None \<Rightarrow> first_some (\<lambda>c. nonempty (host_which h c)) (tv_commands d)
           | Some configured \<Rightarrow>
               if host_isfile h configured then Some configured else host_which h configured))"

text \<open>
  The search for \<open>(?<!\d)(\d+(?:\.\d+){0,3})(?!\d)\<close>: the first run of digits, with up to three
  more after single dots. Every part is greedy and stops before a character that is no digit, so
  the matcher never has to give anything back.
\<close>

fun version_tail :: "nat \<Rightarrow> string \<Rightarrow> string" where
  "version_tail 0 s = []"
| "version_tail (Suc n) s =
     (case s of
        c # t \<Rightarrow>
          (if c = CHR ''.'' \<and> takeWhile is_digit t \<noteq> []
           then CHR ''.'' # takeWhile is_digit t @ version_tail n (dropWhile is_digit t)
           else [])
      | [] \<Rightarrow> [])"

definition version_search :: "string \<Rightarrow> string option" where
  "version_search s =
     (let t = dropWhile (\<lambda>c. \<not> is_digit c) s in
      if t = [] then None
      else Some (takeWhile is_digit t @ version_tail 3 (dropWhile is_digit t)))"

definition detect_version :: "host \<Rightarrow> string \<Rightarrow> string option" where
  "detect_version h command =
     first_some (\<lambda>argument.
       case host_run h command argument of
         None \<Rightarrow> None
       | Some (out, err) \<Rightarrow> version_search (out @ [char_of (10 :: nat)] @ err))
     [''--version'', ''-v'', ''-version'']"

definition tool_probe :: "host \<Rightarrow> backend_name \<Rightarrow> tool_version \<Rightarrow> adapter_probe" where
  "tool_probe h b d =
     (case tool_resolve h d of
        None \<Rightarrow> \<lparr>prb_backend = b, prb_available = False, prb_command = None,
          prb_detected_version = None, prb_expected_version = Some (tv_version d),
          prb_reason = Some ''tool executable not found''\<rparr>
      | Some command \<Rightarrow>
          let detected = detect_version h command in
          \<lparr>prb_backend = b, prb_available = True, prb_command = Some command,
           prb_detected_version = detected, prb_expected_version = Some (tv_version d),
           prb_reason = if given detected then None
             else Some ''executable found but version could not be detected''\<rparr>)"

end
