(* ===== verification/Backend_Worker.thy ===== *)
theory Backend_Worker
  imports Adapters
begin

text \<open>
  The backend worker process (\<open>src/src/ael/backend_protocol.py\<close>,
  \<open>src/src/ael/backend_workers/base.py\<close>): requests and responses, the state a worker keeps
  between them, the dispatch of one request, the loop over the lines of its input, and how the
  output of a tool is read. A class of workers is a record \<open>worker_class\<close>; the tools themselves,
  the JSON texts and the temporary directory's name are parameters.
\<close>

section \<open>The protocol\<close>

datatype backend_operation =
    BO_PROBE | BO_PREPARE | BO_INJECT | BO_STEP | BO_SNAPSHOT | BO_SHUTDOWN

record backend_request =
  brq_request_id :: string
  brq_operation :: backend_operation
  brq_virtual_time_us :: "int option"
  brq_payload :: "(string, pyval) dict"

record backend_response =
  brs_request_id :: string
  brs_ok :: bool
  brs_outputs :: "(string, pyval) dict"
  brs_metrics :: "(string, pyval) dict"
  brs_events :: "event list"
  brs_artifacts :: "(string, string) dict"
  brs_error :: "string option"

definition ok_response :: "string \<Rightarrow> backend_response" where
  "ok_response i = \<lparr>brs_request_id = i, brs_ok = True, brs_outputs = [], brs_metrics = [],
     brs_events = [], brs_artifacts = [], brs_error = None\<rparr>"

definition failure :: "string \<Rightarrow> string \<Rightarrow> backend_response" where
  "failure i err = (ok_response i)\<lparr>brs_ok := False, brs_error := Some err\<rparr>"

section \<open>The worker\<close>

text \<open>\<open>bw_extra\<close> are the fields a subclass adds; \<open>bw_written\<close> are the files the worker has written.\<close>

record 'm backend_worker =
  bw_workspace :: path
  bw_component :: "system_component option"
  bw_seed :: int
  bw_inputs :: "(string, pyval) dict"
  bw_virtual_time_us :: int
  bw_runtime_dir :: "path option"
  bw_tool :: "string option"
  bw_detected_version :: "string option"
  bw_extra :: 'm
  bw_written :: "(path, evidence_file) dict"

type_synonym step_output =
  "(string, pyval) dict \<times> (string, pyval) dict \<times> event list \<times> (string, string) dict"

record 'm worker_class =
  wk_backend_name :: string
  wk_expected_version :: string
  wk_commands :: "string list"
  wk_version_arguments :: "string list"
  wk_prepare :: "evidence_file fsys \<Rightarrow> ('m backend_worker, unit) prog"
  wk_step :: "evidence_file fsys \<Rightarrow> int \<Rightarrow> ('m backend_worker, step_output) prog"
  wk_parse_component :: "pyval \<Rightarrow> system_component result"

definition version_matches :: "'m worker_class \<Rightarrow> string \<Rightarrow> bool" where
  "version_matches k detected \<longleftrightarrow>
     detected = wk_expected_version k \<or> starts_with detected (wk_expected_version k @ ''.'')"

definition require_available :: "'m worker_class \<Rightarrow> ('m backend_worker, unit) prog" where
  "require_available k =
     bindP (gets (\<lambda>w. bw_tool w \<noteq> None)) (\<lambda>installed.
     bindP (guardP installed (RuntimeError ''executable is not installed'')) (\<lambda>_.
     bindP (gets (\<lambda>w. case bw_detected_version w of None \<Rightarrow> False | Some v \<Rightarrow> version_matches k v)) (\<lambda>ok.
     guardP ok (RuntimeError ''version mismatch''))))"

definition prepared :: "'m backend_worker \<Rightarrow> bool" where
  "prepared w \<longleftrightarrow> bw_component w \<noteq> None \<and> bw_runtime_dir w \<noteq> None"

definition require_prepared :: "('m backend_worker, unit) prog" where
  "require_prepared =
     bindP (gets prepared) (\<lambda>ok. guardP ok (RuntimeError ''backend has not been prepared''))"

definition payload_item :: "backend_request \<Rightarrow> string \<Rightarrow> pyval result" where
  "payload_item rq k = require (dict_get (brq_payload rq) k) (KeyError k)"

text \<open>\<open>str(value)\<close>; \<open>show_value\<close> gives it for floats and containers.\<close>

definition to_str :: "(pyval \<Rightarrow> string) \<Rightarrow> pyval \<Rightarrow> string" where
  "to_str show_value v =
     (case v of PStr s \<Rightarrow> s | PNone \<Rightarrow> ''None'' | PBool b \<Rightarrow> (if b then ''True'' else ''False'')
      | PInt i \<Rightarrow> show_int i | _ \<Rightarrow> show_value v)"

definition reject_non_finite :: "(string, pyval) dict \<Rightarrow> unit result" where
  "reject_non_finite values =
     check (list_all (\<lambda>(k, v). case v of PFloat f \<Rightarrow> is_finite f | _ \<Rightarrow> True) values)
       (FloatingPointError ''non-finite value'')"

definition model_path :: "evidence_file fsys \<Rightarrow> ('m backend_worker, path) prog" where
  "model_path fs =
     bindP require_prepared (\<lambda>_.
     bindP (gets (\<lambda>w. Option.bind (bw_component w) cmp_model)) (\<lambda>m.
     bindP (guardP (given m) (ValueError ''component requires a model path'')) (\<lambda>_.
     reads (\<lambda>w. resolve_workspace_path fs (bw_workspace w) (the m) True))))"

definition property_path ::
    "evidence_file fsys \<Rightarrow> string \<Rightarrow> bool \<Rightarrow> ('m backend_worker, path option) prog" where
  "property_path fs key needed =
     bindP require_prepared (\<lambda>_.
     bindP (gets (\<lambda>w. case bw_component w of None \<Rightarrow> PNone
       | Some c \<Rightarrow> dict_get_or (cmp_properties c) key PNone)) (\<lambda>v.
     case v of
       PNone \<Rightarrow> if needed then raise (ValueError ''component property is required'') else ret None
     | PStr s \<Rightarrow> bindP (reads (\<lambda>w. resolve_workspace_path fs (bw_workspace w) s True)) (\<lambda>p. ret (Some p))
     | _ \<Rightarrow> raise (ValueError ''component property must be a workspace path'')))"

definition artifact_reference :: "path \<Rightarrow> ('m backend_worker, string) prog" where
  "artifact_reference p = reads (\<lambda>w.
     if prefix (bw_workspace w) p then Inr (relative_to (bw_workspace w) p)
     else Inl (ValueError ''backend artifact is outside the workspace''))"

definition base_prepare :: "evidence_file fsys \<Rightarrow> ('m backend_worker, unit) prog" where
  "base_prepare fs =
     bindP (gets (\<lambda>w. given (Option.bind (bw_component w) cmp_model))) (\<lambda>has_model.
     if has_model then bindP (model_path fs) (\<lambda>_. ret ()) else ret ())"

definition worker_snapshot :: "'m worker_class \<Rightarrow> path \<Rightarrow> ('m backend_worker, path) prog" where
  "worker_snapshot k destination =
     bindP (modify (\<lambda>w. w\<lparr>bw_written := dict_set destination (EF_Snapshot (PDict
       [(''backend'', PStr (wk_backend_name k)), (''virtual_time_us'', PInt (bw_virtual_time_us w)),
        (''seed'', PInt (bw_seed w)), (''inputs'', PDict (bw_inputs w)),
        (''runtime_dir'', case bw_runtime_dir w of None \<Rightarrow> PStr ''None''
           | Some p \<Rightarrow> PStr (''/'' @ join_with ''/'' p))])) (bw_written w)\<rparr>)) (\<lambda>_.
     ret destination)"

definition worker_shutdown :: "('m backend_worker, unit) prog" where
  "worker_shutdown = modify (\<lambda>w. w\<lparr>bw_component := None, bw_runtime_dir := None\<rparr>)"

section \<open>One request\<close>

definition handle_probe :: "'m worker_class \<Rightarrow> backend_request \<Rightarrow> ('m backend_worker, backend_response) prog" where
  "handle_probe k rq = gets (\<lambda>w.
     let matches = (case bw_detected_version w of None \<Rightarrow> False | Some v \<Rightarrow> version_matches k v);
         reason = (if bw_tool w = None then Some ''tool executable not found''
           else if bw_detected_version w = None then Some ''tool version could not be detected''
           else if \<not> matches then Some ''version mismatch'' else None)
     in (ok_response (brq_request_id rq))\<lparr>brs_outputs :=
          [(''available'', PBool (bw_tool w \<noteq> None \<and> matches)),
           (''version'', case bw_detected_version w of None \<Rightarrow> PNone | Some v \<Rightarrow> PStr v),
           (''reason'', case reason of None \<Rightarrow> PNone | Some r \<Rightarrow> PStr r)]\<rparr>)"

definition handle_prepare ::
    "'m worker_class \<Rightarrow> evidence_file fsys \<Rightarrow> string \<Rightarrow> backend_request \<Rightarrow>
       ('m backend_worker, backend_response) prog" where
  "handle_prepare k fs fresh rq =
     bindP (lift (andThen (payload_item rq ''component'') (wk_parse_component k))) (\<lambda>c.
     bindP (guardP (backend_value (cmp_backend c) = wk_backend_name k) (ValueError ''worker cannot prepare'')) (\<lambda>_.
     bindP (modify (\<lambda>w. w\<lparr>bw_component := Some c\<rparr>)) (\<lambda>_.
     bindP (lift (andThen (payload_item rq ''seed'') to_int)) (\<lambda>seed.
     bindP (modify (\<lambda>w. w\<lparr>bw_seed := seed, bw_runtime_dir := Some (bw_workspace w @
       [''.ael'', ''backend-runtime'', ''ael-'' @ wk_backend_name k @ ''-'' @ fresh])\<rparr>)) (\<lambda>_.
     bindP (wk_prepare k fs) (\<lambda>_. ret (ok_response (brq_request_id rq))))))))"

definition handle_inject ::
    "(pyval \<Rightarrow> string) \<Rightarrow> 'm worker_class \<Rightarrow> backend_request \<Rightarrow> ('m backend_worker, backend_response) prog" where
  "handle_inject show_value k rq =
     bindP (lift (payload_item rq ''target'')) (\<lambda>t.
     bindP (lift (payload_item rq ''value'')) (\<lambda>v.
     let target = to_str show_value t in
     bindP (modify (\<lambda>w. w\<lparr>bw_inputs := dict_set (after_last CHR ''.'' target) v (bw_inputs w)\<rparr>)) (\<lambda>_.
     gets (\<lambda>w. (ok_response (brq_request_id rq))\<lparr>brs_events :=
       [make_event (case brq_virtual_time_us rq of None \<Rightarrow> 0 | Some t \<Rightarrow> t)
         (component_name (bw_component w) []) (wk_backend_name k @ ''.inject'')
         [(''target'', PStr target), (''value'', v)] (wk_backend_name k @ '':tool-executed'')]\<rparr>))))"

text \<open>\<open>request.virtual_time_us or self.virtual_time_us\<close>: an absent or zero time keeps the worker's own.\<close>

definition handle_step ::
    "'m worker_class \<Rightarrow> evidence_file fsys \<Rightarrow> backend_request \<Rightarrow> ('m backend_worker, backend_response) prog" where
  "handle_step k fs rq =
     bindP (lift (andThen (payload_item rq ''step_us'') to_int)) (\<lambda>step_us.
     bindP (modify (\<lambda>w. w\<lparr>bw_virtual_time_us := (case brq_virtual_time_us rq of
       None \<Rightarrow> bw_virtual_time_us w | Some t \<Rightarrow> if t = 0 then bw_virtual_time_us w else t)\<rparr>)) (\<lambda>_.
     bindP (wk_step k fs step_us) (\<lambda>(outputs, metrics, events, artifacts).
     bindP (lift (reject_non_finite outputs)) (\<lambda>_.
     bindP (lift (reject_non_finite metrics)) (\<lambda>_.
     bindP (modify (\<lambda>w. w\<lparr>bw_virtual_time_us := bw_virtual_time_us w + step_us\<rparr>)) (\<lambda>_.
     ret ((ok_response (brq_request_id rq))\<lparr>brs_outputs := outputs, brs_metrics := metrics,
       brs_events := events, brs_artifacts := artifacts\<rparr>)))))))"

definition handle_snapshot ::
    "(pyval \<Rightarrow> string) \<Rightarrow> 'm worker_class \<Rightarrow> evidence_file fsys \<Rightarrow> backend_request \<Rightarrow>
       ('m backend_worker, backend_response) prog" where
  "handle_snapshot show_value k fs rq =
     bindP (lift (payload_item rq ''destination'')) (\<lambda>d.
     bindP (reads (\<lambda>w. resolve_workspace_path fs (bw_workspace w) (to_str show_value d) False)) (\<lambda>destination.
     bindP (worker_snapshot k destination) (\<lambda>p.
     bindP (artifact_reference p) (\<lambda>ref.
     ret ((ok_response (brq_request_id rq))\<lparr>brs_artifacts := [(''snapshot'', ref)]\<rparr>)))))"

definition handle ::
    "(pyval \<Rightarrow> string) \<Rightarrow> 'm worker_class \<Rightarrow> evidence_file fsys \<Rightarrow> string \<Rightarrow> backend_request \<Rightarrow>
       ('m backend_worker, backend_response) prog" where
  "handle show_value k fs fresh rq =
     (if brq_operation rq = BO_PROBE then handle_probe k rq
      else bindP (require_available k) (\<lambda>_.
        if brq_operation rq = BO_PREPARE then handle_prepare k fs fresh rq
        else bindP require_prepared (\<lambda>_.
          case brq_operation rq of
            BO_INJECT \<Rightarrow> handle_inject show_value k rq
          | BO_STEP \<Rightarrow> handle_step k fs rq
          | BO_SNAPSHOT \<Rightarrow> handle_snapshot show_value k fs rq
          | BO_SHUTDOWN \<Rightarrow> bindP worker_shutdown (\<lambda>_. ret (ok_response (brq_request_id rq)))
          | _ \<Rightarrow> raise (ValueError ''unsupported operation''))))"

section \<open>The input loop\<close>

text \<open>
  A line is parsed as a request, or else searched for a request id. \<open>wire\<close> holds the JSON codec
  over the type of the lines, and the worker's view of the workspace at each line.
\<close>

record 'l wire =
  wr_parse_request :: "'l \<Rightarrow> backend_request result"
  wr_request_id :: "'l \<Rightarrow> string option"
  wr_show :: "pyval \<Rightarrow> string"
  wr_fs :: "'l \<Rightarrow> evidence_file fsys"
  wr_fresh :: "'l \<Rightarrow> string"

definition serve_line ::
    "'l wire \<Rightarrow> 'm worker_class \<Rightarrow> 'l \<Rightarrow> 'm backend_worker \<Rightarrow> backend_response \<times> 'm backend_worker" where
  "serve_line x k line w =
     (case wr_parse_request x line of
        Inl e \<Rightarrow> (failure (case wr_request_id x line of None \<Rightarrow> ''invalid'' | Some i \<Rightarrow> i) (exn_text e), w)
      | Inr rq \<Rightarrow>
          (case handle (wr_show x) k (wr_fs x line) (wr_fresh x line) rq w of
             (Inr rs, w') \<Rightarrow> (rs, w')
           | (Inl e, w') \<Rightarrow>
               (failure (case wr_request_id x line of None \<Rightarrow> ''invalid'' | Some i \<Rightarrow> i) (exn_text e), w')))"

definition ends_serving :: "'l wire \<Rightarrow> 'l \<Rightarrow> bool" where
  "ends_serving x line \<longleftrightarrow>
     (case wr_parse_request x line of Inr rq \<Rightarrow> brq_operation rq = BO_SHUTDOWN | Inl _ \<Rightarrow> False)"

fun serve :: "'l wire \<Rightarrow> 'm worker_class \<Rightarrow> 'l list \<Rightarrow> 'm backend_worker \<Rightarrow>
    backend_response list \<times> 'm backend_worker" where
  "serve x k [] w = ([], w)"
| "serve x k (line # lines) w =
     (case serve_line x k line w of (rs, w') \<Rightarrow>
        if ends_serving x line then ([rs], w')
        else (case serve x k lines w' of (rss, w'') \<Rightarrow> (rs # rss, w'')))"

section \<open>Every line is answered\<close>

lemma response_fields [simp]:
  "brs_request_id (ok_response i) = i" "brs_ok (ok_response i)"
  "brs_request_id (failure i e) = i" "\<not> brs_ok (failure i e)"
  by (simp_all add: ok_response_def failure_def)

text \<open>A response that is not a failure is for the request it answers.\<close>

lemmas handler_defs = handle_probe_def handle_prepare_def handle_inject_def handle_step_def
  handle_snapshot_def

lemma handle_response:
  assumes "handle sh k fs fresh rq w = (Inr rs, w')"
  shows "brs_ok rs \<and> brs_request_id rs = brq_request_id rq"
  using assms
  by (auto simp: handle_def handler_defs bindP_eq_Inr Let_def
      split: if_splits backend_operation.splits prod.splits)

text \<open>The lines the loop reads: all up to and including the first shutdown request.\<close>

definition served :: "'l wire \<Rightarrow> 'l list \<Rightarrow> 'l list" where
  "served x lines = takeWhile (\<lambda>l. \<not> ends_serving x l) lines @
     take 1 (dropWhile (\<lambda>l. \<not> ends_serving x l) lines)"

lemma served_simps [simp]:
  "served x [] = []"
  "served x (l # ls) = (if ends_serving x l then [l] else l # served x ls)"
  by (simp_all add: served_def)

definition answer_id :: "'l wire \<Rightarrow> 'l \<Rightarrow> string" where
  "answer_id x line = (case wr_request_id x line of None \<Rightarrow> ''invalid'' | Some i \<Rightarrow> i)"

lemma serve_line_id:
  assumes "\<And>rq. wr_parse_request x line = Inr rq \<Longrightarrow> wr_request_id x line = Some (brq_request_id rq)"
  shows "brs_request_id (fst (serve_line x k line w)) = answer_id x line"
  using assms
  by (auto simp: serve_line_def answer_id_def split: sum.splits prod.splits dest: handle_response)

lemma serve_ids:
  assumes "\<And>line rq. wr_parse_request x line = Inr rq \<Longrightarrow> wr_request_id x line = Some (brq_request_id rq)"
  shows "map brs_request_id (fst (serve x k lines w)) = map (answer_id x) (served x lines)"
proof (induction lines arbitrary: w)
  case Nil
  then show ?case by simp
next
  case (Cons line lines)
  obtain rs w' where one: "serve_line x k line w = (rs, w')" by fastforce
  obtain rss w'' where rest: "serve x k lines w' = (rss, w'')" by fastforce
  have "brs_request_id rs = answer_id x line"
    using serve_line_id [of x line k w] assms one by simp
  with Cons.IH [of w'] one rest show ?case by simp
qed

section \<open>Work is done only when the tool is right and a component is prepared\<close>

text \<open>What a class of workers may not touch while it prepares or steps.\<close>

definition same_worker :: "'m backend_worker \<Rightarrow> 'm backend_worker \<Rightarrow> bool" where
  "same_worker w0 w \<longleftrightarrow> bw_component w = bw_component w0 \<and> bw_runtime_dir w = bw_runtime_dir w0 \<and>
     bw_tool w = bw_tool w0 \<and> bw_detected_version w = bw_detected_version w0 \<and>
     bw_workspace w = bw_workspace w0"

lemma same_worker_refl [simp]: "same_worker w w"
  by (simp add: same_worker_def)

locale backend_class =
  fixes k :: "'m worker_class"
  assumes prepare_frame: "keeps (same_worker w0) (wk_prepare k fs)"
    and step_frame: "keeps (same_worker w0) (wk_step k fs step_us)"

definition worker_available :: "'m worker_class \<Rightarrow> 'm backend_worker \<Rightarrow> bool" where
  "worker_available k w \<longleftrightarrow> bw_tool w \<noteq> None \<and>
     (case bw_detected_version w of None \<Rightarrow> False | Some v \<Rightarrow> version_matches k v)"

text \<open>The component a worker holds is one of its own backend, and its tool never changes.\<close>

definition worker_ok :: "'m worker_class \<Rightarrow> 'm backend_worker \<Rightarrow> 'm backend_worker \<Rightarrow> bool" where
  "worker_ok k w0 w \<longleftrightarrow>
     (\<forall>c. bw_component w = Some c \<longrightarrow> backend_value (cmp_backend c) = wk_backend_name k) \<and>
     bw_tool w = bw_tool w0 \<and> bw_detected_version w = bw_detected_version w0"

lemma worker_ok_same: "worker_ok k w0 w \<Longrightarrow> same_worker w w' \<Longrightarrow> worker_ok k w0 w'"
  by (auto simp: worker_ok_def same_worker_def)

context backend_class
begin

lemma keeps_prepare: "keeps (worker_ok k w0) (wk_prepare k fs)"
  by (rule keepsI) (rule worker_ok_same, assumption, rule keepsD [OF prepare_frame same_worker_refl])

lemma keeps_step: "keeps (worker_ok k w0) (wk_step k fs n)"
  by (rule keepsI) (rule worker_ok_same, assumption, rule keepsD [OF step_frame same_worker_refl])

lemma keeps_requests: "keeps (worker_ok k w0) (handle sh k fs fresh rq)"
proof -
  have "keeps (worker_ok k w0) (handle_prepare k fs fresh rq)"
    unfolding handle_prepare_def
    by (intro keeps_intros keeps_prepare) (auto simp: worker_ok_def)
  moreover have "keeps (worker_ok k w0) (handle_step k fs rq)"
    unfolding handle_step_def
    by (intro keeps_intros keeps_step) (auto simp: worker_ok_def)
  moreover have "keeps (worker_ok k w0) (handle_inject sh k rq)"
    unfolding handle_inject_def Let_def by (intro keeps_intros) (auto simp: worker_ok_def)
  moreover have "keeps (worker_ok k w0) (handle_snapshot sh k fs rq)"
    unfolding handle_snapshot_def worker_snapshot_def artifact_reference_def
    by (intro keeps_intros) (auto simp: worker_ok_def)
  moreover have "keeps (worker_ok k w0) (handle_probe k rq)"
    unfolding handle_probe_def by (intro keeps_intros)
  moreover have "keeps (worker_ok k w0) worker_shutdown"
    unfolding worker_shutdown_def by (intro keeps_intros) (auto simp: worker_ok_def)
  ultimately show ?thesis
    unfolding handle_def require_available_def require_prepared_def
    by (auto intro!: keeps_intros split: backend_operation.split)
qed

lemma serve_line_ok: "worker_ok k w0 w \<Longrightarrow> worker_ok k w0 (snd (serve_line x k line w))"
  using keepsD [OF keeps_requests, of w0 w]
  by (auto simp: serve_line_def split: sum.split prod.split) (metis snd_conv)+

lemma serve_ok: "worker_ok k w0 w \<Longrightarrow> worker_ok k w0 (snd (serve x k lines w))"
proof (induction lines arbitrary: w)
  case (Cons line lines)
  obtain rs w' where one: "serve_line x k line w = (rs, w')" by fastforce
  with serve_line_ok [OF Cons.prems, of x line] have "worker_ok k w0 w'" by simp
  with Cons.IH [of w'] one show ?case by (auto split: prod.split)
qed simp

lemma handle_ready:
  assumes "worker_ok k w0 w" and "handle sh k fs fresh rq w = (Inr rs, w')"
    and "brq_operation rq \<noteq> BO_PROBE"
  shows "worker_available k w0 \<and> (brq_operation rq \<noteq> BO_PREPARE \<longrightarrow>
     (\<exists>c. bw_component w = Some c \<and> backend_value (cmp_backend c) = wk_backend_name k))"
  using assms
  by (auto simp: handle_def bindP_eq_Inr guardP_eq_Inr require_available_def require_prepared_def prepared_def
      worker_available_def worker_ok_def split: if_splits option.splits)

end

end
