(* ===== verification/Tool_Output.thy ===== *)
theory Tool_Output
  imports Backend_Worker
begin

text \<open>
  How a worker finds its tool and reads what the tool prints
  (\<open>src/src/ael/backend_workers/base.py\<close>), and the ngspice worker built on it
  (\<open>src/src/ael/backend_workers/ngspice.py\<close>). Running a tool is a parameter.
\<close>

section \<open>Finding the tool\<close>

definition ascii_upper :: "string \<Rightarrow> string" where
  "ascii_upper s = map upper_char s"

definition worker_resolve_tool :: "host \<Rightarrow> 'm worker_class \<Rightarrow> string option" where
  "worker_resolve_tool h k =
     (case nonempty (host_env h (''AEL_'' @ ascii_upper (wk_backend_name k) @ ''_BIN'')) of
        Some override \<Rightarrow> if host_isfile h override then Some override else None
      | None \<Rightarrow> first_some (\<lambda>c. nonempty (host_which h c)) (wk_commands k))"

text \<open>The expected version as a whole: no digit or dot before or after it.\<close>

definition version_char :: "char \<Rightarrow> bool" where
  "version_char c \<longleftrightarrow> is_digit c \<or> c = CHR ''.''"

definition mentions_version :: "string \<Rightarrow> string \<Rightarrow> bool" where
  "mentions_version v s \<longleftrightarrow>
     list_ex (\<lambda>i. starts_with (drop i s) v \<and> (i = 0 \<or> \<not> version_char (s ! (i - 1))) \<and>
       (i + length v = length s \<or> \<not> version_char (s ! (i + length v)))) [0..<Suc (length s - length v)]"

definition worker_version :: "host \<Rightarrow> 'm worker_class \<Rightarrow> string option \<Rightarrow> string option" where
  "worker_version h k tool =
     (case tool of
        None \<Rightarrow> None
      | Some t \<Rightarrow> first_some (\<lambda>argument.
          case host_run h t argument of
            None \<Rightarrow> None
          | Some (out, err) \<Rightarrow>
              let output = out @ [char_of (10 :: nat)] @ err in
              if mentions_version (wk_expected_version k) output then Some (wk_expected_version k)
              else version_search output) (wk_version_arguments k))"

text \<open>\<open>BackendWorker.__init__\<close>, with the fields of the subclass.\<close>

definition new_worker :: "host \<Rightarrow> 'm worker_class \<Rightarrow> path \<Rightarrow> 'm \<Rightarrow> 'm backend_worker" where
  "new_worker h k workspace extra =
     \<lparr>bw_workspace = workspace, bw_component = None, bw_seed = 0, bw_inputs = [],
      bw_virtual_time_us = 0, bw_runtime_dir = None, bw_tool = worker_resolve_tool h k,
      bw_detected_version = worker_version h k (worker_resolve_tool h k), bw_extra = extra,
      bw_written = []\<rparr>"

text \<open>\<open>_diagnostic_excerpt\<close> keeps the first and the last half of a long output.\<close>

definition diagnostic_excerpt :: "string \<Rightarrow> nat \<Rightarrow> string" where
  "diagnostic_excerpt output limit =
     (if output = [] then ''<empty>''
      else if length output \<le> limit then output
      else let half = limit div 2 in
        take half output @ [char_of (10 :: nat)] @ ''... <truncated '' @
        show_nat (length output - limit) @ '' chars> ...'' @ [char_of (10 :: nat)] @
        drop (length output - half) output)"

section \<open>Reading the output\<close>

text \<open>
  The three line patterns. A name is the longest run of its characters; none of them can stand for
  what must follow, so the matcher never gives a character back. A line is stripped before.
\<close>

definition name_char :: "char \<Rightarrow> bool" where
  "name_char c \<longleftrightarrow> is_alnum c \<or> c \<in> set ''_.-''"

text \<open>After a keyword: at least one space, then a name, then the rest.\<close>

definition after_keyword :: "string \<Rightarrow> string \<Rightarrow> (string \<times> string) option" where
  "after_keyword kw line =
     (if \<not> starts_with line kw then None
      else let t = drop (length kw) line; u = dropWhile is_space t in
        if u = t \<or> takeWhile name_char u = [] then None
        else Some (takeWhile name_char u, dropWhile name_char u))"

definition match_metric :: "string \<Rightarrow> (string \<times> string) option" where
  "match_metric line =
     (case after_keyword ''AEL_METRIC'' line of
        Some (name, c # rest) \<Rightarrow> if c = CHR ''='' \<and> rest \<noteq> [] then Some (name, rest) else None
      | _ \<Rightarrow> None)"

definition match_event :: "string \<Rightarrow> (string \<times> string option) option" where
  "match_event line =
     (case after_keyword ''AEL_EVENT'' line of
        None \<Rightarrow> None
      | Some (name, rest) \<Rightarrow>
          if rest = [] then Some (name, None)
          else let u = dropWhile is_space rest in
            if u = rest \<or> u = [] then None else Some (name, Some u))"

definition measure_char :: "char \<Rightarrow> bool" where
  "measure_char c \<longleftrightarrow> (is_digit c \<or> (CHR ''a'' \<le> c \<and> c \<le> CHR ''z'')) \<or> c \<in> set ''_.-''"

definition number_char :: "char \<Rightarrow> bool" where
  "number_char c \<longleftrightarrow> is_digit c \<or> c \<in> set ''-+.eE''"

definition match_measurement :: "string \<Rightarrow> (string \<times> string) option" where
  "match_measurement line =
     (if \<not> starts_with line ''ael_'' then None
      else let t = drop 4 line; name = takeWhile measure_char t;
               u = dropWhile is_space (dropWhile measure_char t) in
        case u of
          c # v \<Rightarrow>
            let digits = takeWhile number_char (dropWhile is_space v) in
            if c = CHR ''='' \<and> name \<noteq> [] \<and> digits \<noteq> [] then Some (name, digits) else None
        | [] \<Rightarrow> None)"

text \<open>The value of a metric line is the number it denotes, or its text.\<close>

definition metric_value :: "string \<Rightarrow> pyval" where
  "metric_value s = (case float_of_text s of Inr f \<Rightarrow> PFloat f | Inl _ \<Rightarrow> PStr s)"

text \<open>\<open>json\<close> is \<open>json.loads\<close>; an event's payload must be an object.\<close>

definition event_payload :: "(string \<Rightarrow> pyval option) \<Rightarrow> string option \<Rightarrow> (string, pyval) dict result" where
  "event_payload json text =
     (case text of
        None \<Rightarrow> Inr []
      | Some t \<Rightarrow>
          if t = [] then Inr []
          else case json t of
                 None \<Rightarrow> Inr [(''message'', PStr t)]
               | Some (PDict d) \<Rightarrow> Inr d
               | Some _ \<Rightarrow> Inl (ValueError ''payload''))"

definition parse_line ::
    "(string \<Rightarrow> pyval option) \<Rightarrow> string \<Rightarrow> string \<Rightarrow> int \<Rightarrow> string \<Rightarrow> (string, pyval) dict \<times> event list \<Rightarrow>
       ((string, pyval) dict \<times> event list) result" where
  "parse_line json source backend event_time_us raw acc =
     (let line = strip raw;
          metrics = (case match_metric line of None \<Rightarrow> fst acc
            | Some (name, text) \<Rightarrow> dict_set name (metric_value text) (fst acc)) in
      andThen (case match_event line of None \<Rightarrow> Inr (snd acc)
        | Some (name, text) \<Rightarrow> andThen (event_payload json text) (\<lambda>payload.
            Inr (snd acc @ [make_event event_time_us source name payload (backend @ '':tool-executed'')])))
      (\<lambda>events.
      case match_measurement (lower line) of
        None \<Rightarrow> Inr (metrics, events)
      | Some (name, digits) \<Rightarrow> andThen (float_of_text digits) (\<lambda>f.
          Inr (dict_set name (PFloat f) metrics, events))))"

definition parse_output ::
    "(string \<Rightarrow> pyval option) \<Rightarrow> string \<Rightarrow> string \<Rightarrow> string \<Rightarrow> int \<Rightarrow>
       ((string, pyval) dict \<times> event list) result" where
  "parse_output json source backend output event_time_us =
     fold_result (parse_line json source backend event_time_us) (splitlines output) ([], [])"

section \<open>The ngspice worker\<close>

text \<open>
  \<open>ng_measure\<close> and \<open>ng_raw\<close> are the two passes of the simulator over a deck: the text of the
  first with its log, and the waveform of the second; a pass that exits with another code than
  zero raises.
\<close>

record ngspice =
  ng_json :: "string \<Rightarrow> pyval option"
  ng_show :: "pyval \<Rightarrow> string"
  ng_text :: "evidence_file \<Rightarrow> string"
  ng_measure :: "string \<Rightarrow> (string \<times> string) result"
  ng_raw :: "string \<Rightarrow> string result"

definition ngspice_defaults :: "(string, pyval) dict" where
  "ngspice_defaults =
     [(''source_resistance_ohm'', PFloat (round_f64 (15 / 100))), (''capacitance_uF'', PFloat (Fin 47)),
      (''load_microamp'', PInt 60000), (''rf_retries'', PInt 0)]"

definition ngspice_parameters :: "ngspice \<Rightarrow> bool backend_worker \<Rightarrow> string list" where
  "ngspice_parameters x w =
     (let properties = (case bw_component w of None \<Rightarrow> [] | Some c \<Rightarrow> cmp_properties c);
          given_parameters = (case dict_get properties ''parameters'' of Some (PDict d) \<Rightarrow> d | _ \<Rightarrow> []) in
      map (\<lambda>(name, v). ''.param AEL_'' @ name @ ''='' @ to_str (ng_show x) v)
        (sort_key fst (dict_merge (dict_merge ngspice_defaults given_parameters) (bw_inputs w))))"

definition ngspice_deck :: "string list \<Rightarrow> string list \<Rightarrow> string" where
  "ngspice_deck source_lines parameters =
     join_with [char_of (10 :: nat)] (hd source_lines # parameters @ tl source_lines) @ [char_of (10 :: nat)]"

definition ngspice_prepare :: "evidence_file fsys \<Rightarrow> (bool backend_worker, unit) prog" where
  "ngspice_prepare fs = bindP (base_prepare fs) (\<lambda>_. modify (\<lambda>w. w\<lparr>bw_extra := False\<rparr>))"

text \<open>
  The brown-out latch: \<open>bw_extra\<close> is \<open>brownout_observed\<close>. A supply that is text is no voltage.
\<close>

definition brownout ::
    "int \<Rightarrow> (string, pyval) dict \<Rightarrow> event list \<Rightarrow> (bool backend_worker, (string, pyval) dict \<times> event list) prog" where
  "brownout time metrics events =
     bindP (reads (\<lambda>w. to_float (case bw_component w of None \<Rightarrow> PFloat (round_f64 (27 / 10))
       | Some c \<Rightarrow> dict_get_or (cmp_properties c) ''bor_threshold_V'' (PFloat (round_f64 (27 / 10)))))) (\<lambda>bor_threshold.
     case dict_get metrics ''supply_voltage'' of
       Some (PFloat supply) \<Rightarrow>
         bindP (gets (\<lambda>w. \<not> bw_extra w \<and> float_lt supply bor_threshold)) (\<lambda>threshold_crossed.
         bindP (modify (\<lambda>w. w\<lparr>bw_extra := (bw_extra w \<or> threshold_crossed)\<rparr>)) (\<lambda>_.
         gets (\<lambda>w. (dict_set ''failure'' (PFloat (Fin (if bw_extra w then 1 else 0))) metrics,
           if threshold_crossed
           then events @ [make_event time (component_name (bw_component w) []) ''power.brownout_threshold_crossed''
             [(''rail_voltage_V'', PFloat supply), (''bor_threshold_V'', PFloat bor_threshold)]
             ''ngspice:tool-executed'']
           else events))))
     | _ \<Rightarrow> ret (metrics, events))"

definition ngspice_step ::
    "ngspice \<Rightarrow> evidence_file fsys \<Rightarrow> int \<Rightarrow> (bool backend_worker, step_output) prog" where
  "ngspice_step x fs step_us =
     bindP (model_path fs) (\<lambda>source.
     bindP (lift (require (files fs source) (OSError ''cannot read''))) (\<lambda>content.
     bindP (gets (ngspice_parameters x)) (\<lambda>parameters.
     let source_lines = splitlines (ng_text x content) in
     bindP (guardP (source_lines \<noteq> []) (ValueError ''ngspice model is empty'')) (\<lambda>_.
     bindP (gets (\<lambda>w. (the (bw_runtime_dir w), bw_virtual_time_us w + step_us))) (\<lambda>(dir, time).
     let deck = ngspice_deck source_lines parameters;
         log = dir @ [''step-'' @ show_int time @ ''.log'']; raw = dir @ [''step-'' @ show_int time @ ''.raw''] in
     bindP (modify (\<lambda>w. w\<lparr>bw_written := dict_set (dir @ [''ael.cir'']) (EF_Blob deck) (bw_written w)\<rparr>)) (\<lambda>_.
     bindP (lift (ng_measure x deck)) (\<lambda>(out, log_text).
     bindP (modify (\<lambda>w. w\<lparr>bw_written := dict_set log (EF_Blob log_text) (bw_written w)\<rparr>)) (\<lambda>_.
     bindP (lift (ng_raw x deck)) (\<lambda>wave.
     bindP (modify (\<lambda>w. w\<lparr>bw_written := dict_set raw (EF_Blob wave) (bw_written w)\<rparr>)) (\<lambda>_.
     bindP (reads (\<lambda>w. parse_output (ng_json x) (component_name (bw_component w) ''ngspice'') ''ngspice''
       (out @ [char_of (10 :: nat)] @ log_text) time)) (\<lambda>(metrics, events).
     bindP (brownout time metrics events) (\<lambda>(metrics, events).
     bindP (artifact_reference raw) (\<lambda>raw_ref.
     bindP (artifact_reference log) (\<lambda>log_ref.
     ret (metrics, metrics, events, [(''raw'', raw_ref), (''log'', log_ref)])))))))))))))))"

definition ngspice_class :: "(pyval \<Rightarrow> system_component result) \<Rightarrow> ngspice \<Rightarrow> bool worker_class" where
  "ngspice_class parse_component x =
     \<lparr>wk_backend_name = ''ngspice'', wk_expected_version = ''46'', wk_commands = [''ngspice''],
      wk_version_arguments = [''--version'', ''-v''], wk_prepare = ngspice_prepare,
      wk_step = ngspice_step x, wk_parse_component = parse_component\<rparr>"

section \<open>The class of ngspice workers\<close>

lemma frame_updates [simp]:
  "same_worker w0 (w\<lparr>bw_extra := b\<rparr>) = same_worker w0 w"
  "same_worker w0 (w\<lparr>bw_written := f\<rparr>) = same_worker w0 w"
  by (simp_all add: same_worker_def)

lemma frame_model_path [keeps_intros]: "keeps I (model_path fs)"
  unfolding model_path_def require_prepared_def by (intro keeps_intros)

lemma frame_artifact_reference [keeps_intros]: "keeps I (artifact_reference p)"
  unfolding artifact_reference_def by (intro keeps_intros)

lemma frame_brownout [keeps_intros]: "keeps (same_worker w0) (brownout time metrics events)"
  unfolding brownout_def
  by (auto intro!: keeps_intros split: option.split pyval.split)

interpretation ngspice: backend_class "ngspice_class parse_component x"
proof unfold_locales
  show "keeps (same_worker w0) (wk_prepare (ngspice_class parse_component x) fs)" for w0 fs
    unfolding ngspice_class_def ngspice_prepare_def base_prepare_def worker_class.simps
    by (intro keeps_intros) simp
  show "keeps (same_worker w0) (wk_step (ngspice_class parse_component x) fs n)" for w0 fs n
    unfolding ngspice_class_def ngspice_step_def worker_class.simps Let_def
    by (intro keeps_intros) simp_all
qed

section \<open>Properties\<close>

definition demo_host :: host where
  "demo_host = \<lparr>host_env = (\<lambda>_. None),
     host_which = (\<lambda>c. if c = ''ngspice'' then Some ''/usr/bin/ngspice'' else None),
     host_isfile = (\<lambda>_. False), host_run = (\<lambda>_ _. Some (''ngspice-46 plus'', []))\<rparr>"

definition demo_spice_component :: system_component where
  "demo_spice_component = \<lparr>cmp_id = ''rail'', cmp_type = ''block'', cmp_backend = BN_NGSPICE,
     cmp_model = Some ''rail.cir'', cmp_step_us = Some 1000, cmp_event_driven = False,
     cmp_direct_feedthrough = False, cmp_ports = [],
     cmp_properties = [(''bor_threshold_V'', PFloat (Fin (5 / 2)))]\<rparr>"

definition demo_class :: "bool worker_class" where
  "demo_class = ngspice_class (\<lambda>_. Inr demo_spice_component)
     \<lparr>ng_json = (\<lambda>_. None), ng_show = (\<lambda>_. ''?''), ng_text = (\<lambda>_. ''rail''),
      ng_measure = (\<lambda>_. Inr (''AEL_METRIC supply_voltage=2'', [])), ng_raw = (\<lambda>_. Inr [])\<rparr>"

definition demo_fs :: "evidence_file fsys" where
  "demo_fs = \<lparr>links = (\<lambda>_. None), files = [[''ws'', ''rail.cir''] \<mapsto> EF_Blob ''rail''],
     is_dir = (\<lambda>_. False), link_budget = 0\<rparr>"

definition demo_wire_request :: "string \<Rightarrow> backend_request result" where
  "demo_wire_request line =
     (if line = ''prepare'' then Inr \<lparr>brq_request_id = ''a'', brq_operation = BO_PREPARE,
        brq_virtual_time_us = None, brq_payload = [(''component'', PNone), (''seed'', PInt 7)]\<rparr>
      else if line = ''inject'' then Inr \<lparr>brq_request_id = ''b'', brq_operation = BO_INJECT,
        brq_virtual_time_us = Some 5, brq_payload = [(''target'', PStr ''rail.load''), (''value'', PInt 3)]\<rparr>
      else if line = ''shutdown'' then Inr \<lparr>brq_request_id = ''c'', brq_operation = BO_SHUTDOWN,
        brq_virtual_time_us = None, brq_payload = []\<rparr>
      else Inl (ValueError ''not a request''))"

definition demo_wire :: "string wire" where
  "demo_wire = \<lparr>wr_parse_request = demo_wire_request,
     wr_request_id = (\<lambda>l. case demo_wire_request l of Inr rq \<Rightarrow> Some (brq_request_id rq) | Inl _ \<Rightarrow> None),
     wr_show = (\<lambda>_. ''?''), wr_fs = (\<lambda>_. demo_fs), wr_fresh = (\<lambda>_. ''x'')\<rparr>"



text \<open>An ngspice worker, whatever lines it has served, accepts work only with the right tool and
  for its own kind of component: a request other than a probe succeeds only if the tool was found
  in the expected version, and injecting, stepping, taking snapshots and shutting down only for a
  prepared ngspice component.\<close>

theorem ngspice_works_only_when_ready:
  assumes "handle sh (ngspice_class pc ng) fs fresh rq
      (snd (serve x (ngspice_class pc ng) lines (new_worker h (ngspice_class pc ng) ws False))) = (Inr rs, w')"
    and "brq_operation rq \<noteq> BO_PROBE"
  shows "worker_available (ngspice_class pc ng) (new_worker h (ngspice_class pc ng) ws False) \<and>
     (brq_operation rq = BO_PREPARE \<or> (\<exists>c. bw_component (snd (serve x (ngspice_class pc ng) lines
        (new_worker h (ngspice_class pc ng) ws False))) = Some c \<and> backend_value (cmp_backend c) = ''ngspice''))"
proof -
  let ?k = "ngspice_class pc ng"
  have "worker_ok ?k (new_worker h ?k ws False) (new_worker h ?k ws False)"
    by (simp add: worker_ok_def new_worker_def)
  from ngspice.handle_ready [OF ngspice.serve_ok [OF this] assms] show ?thesis
    by (auto simp: ngspice_class_def)
qed

theorem ngspice_works_only_when_ready_witness:
  "worker_available demo_class (new_worker demo_host demo_class [''ws''] False)"
proof -
  have "isl (fst (handle (\<lambda>_. ''?'') demo_class demo_fs ''y'' (case demo_wire_request ''inject'' of Inr r \<Rightarrow> r)
      (snd (serve demo_wire demo_class [''prepare''] (new_worker demo_host demo_class [''ws''] False))))) = False"
    "brq_operation (case demo_wire_request ''inject'' of Inr r \<Rightarrow> r) \<noteq> BO_PROBE"
    by code_simp+
  then obtain rs w' where "handle (\<lambda>_. ''?'') demo_class demo_fs ''y'' (case demo_wire_request ''inject'' of Inr r \<Rightarrow> r)
      (snd (serve demo_wire demo_class [''prepare''] (new_worker demo_host demo_class [''ws''] False))) = (Inr rs, w')"
    by (cases "handle (\<lambda>_. ''?'') demo_class demo_fs ''y'' (case demo_wire_request ''inject'' of Inr r \<Rightarrow> r)
      (snd (serve demo_wire demo_class [''prepare''] (new_worker demo_host demo_class [''ws''] False)))";
      case_tac a) auto
  from ngspice_works_only_when_ready [OF this [unfolded demo_class_def]]
  show ?thesis by (simp add: demo_class_def demo_wire_request_def)
qed

text \<open>A sequence of supply readings, one per step: the failure metric and the number of events each gives.\<close>

fun observe :: "int \<Rightarrow> pyfloat list \<Rightarrow> (bool backend_worker, (pyval option \<times> nat) list) prog" where
  "observe time [] = ret []"
| "observe time (v # vs) =
     bindP (brownout time [(''supply_voltage'', PFloat v)] []) (\<lambda>(metrics, events).
     bindP (observe time vs) (\<lambda>rest. ret ((dict_get metrics ''failure'', length events) # rest)))"

definition bor_threshold :: "bool backend_worker \<Rightarrow> pyfloat result" where
  "bor_threshold w = to_float (case bw_component w of None \<Rightarrow> PFloat (round_f64 (27 / 10))
     | Some c \<Rightarrow> dict_get_or (cmp_properties c) ''bor_threshold_V'' (PFloat (round_f64 (27 / 10))))"

definition flag :: "bool \<Rightarrow> pyval option" where
  "flag b = Some (PFloat (Fin (if b then 1 else 0)))"

lemma observe_eq:
  assumes "bor_threshold w = Inr thr"
  shows "\<exists>w'. observe time vs w =
     (Inr (map (\<lambda>i. (flag (bw_extra w \<or> (\<exists>v \<in> set (take (Suc i) vs). float_lt v thr)),
        if \<not> bw_extra w \<and> float_lt (vs ! i) thr \<and> \<not> (\<exists>v \<in> set (take i vs). float_lt v thr) then 1 else 0))
      [0..<length vs]), w')"
  using assms
proof (induction vs arbitrary: w)
  case Nil
  then show ?case by simp
next
  case (Cons v vs)
  let ?b = "bw_extra w \<or> float_lt v thr"
  have thr: "bor_threshold (w\<lparr>bw_extra := ?b\<rparr>) = Inr thr"
    using Cons.prems by (simp add: bor_threshold_def)
  obtain w' where rest: "observe time vs (w\<lparr>bw_extra := ?b\<rparr>) = (Inr (map (\<lambda>i.
      (flag (?b \<or> (\<exists>v \<in> set (take (Suc i) vs). float_lt v thr)),
        if \<not> ?b \<and> float_lt (vs ! i) thr \<and> \<not> (\<exists>v \<in> set (take i vs). float_lt v thr) then 1 else 0))
      [0..<length vs]), w')"
    using Cons.IH [OF thr] by auto
  have one: "\<exists>m e. brownout time [(''supply_voltage'', PFloat v)] [] w = (Inr (m, e), w\<lparr>bw_extra := ?b\<rparr>) \<and>
      dict_get m ''failure'' = flag ?b \<and> length e = (if \<not> bw_extra w \<and> float_lt v thr then 1 else 0)"
    using Cons.prems
    by (auto simp: brownout_def bindP_def bor_threshold_def flag_def cong: if_cong)
  have idx: "[0..<length (v # vs)] = 0 # map Suc [0..<length vs]"
    by (simp add: map_Suc_upt upt_conv_Cons del: upt_Suc)
  from one rest show ?case
    unfolding idx by (auto simp: bindP_def comp_def intro!: exI [of _ w'])
qed

text \<open>The brown-out evidence of an ngspice worker is latched: after each step the failure metric
  is 1 exactly if this or an earlier supply reading was below the threshold, and the crossing is
  reported as an event exactly once, at the first such reading.\<close>

theorem brownout_latched:
  assumes "bor_threshold w = Inr thr" and "\<not> bw_extra w"
  shows "fst (observe time vs w) =
     Inr (map (\<lambda>i. (flag (\<exists>v \<in> set (take (Suc i) vs). float_lt v thr),
        if float_lt (vs ! i) thr \<and> (\<forall>v \<in> set (take i vs). \<not> float_lt v thr) then 1 else 0))
      [0..<length vs])"
  using observe_eq [OF assms(1), of time vs] assms(2) by auto

definition demo_rail :: "bool backend_worker" where
  "demo_rail = (new_worker demo_host demo_class [''ws''] False)\<lparr>bw_component := Some demo_spice_component\<rparr>"

theorem brownout_latched_witness:
  "fst (observe 0 [Fin 3, Fin 2, Fin 3] demo_rail) = Inr [(flag False, 0), (flag True, 1), (flag True, 0)]"
proof -
  have "bor_threshold demo_rail = Inr (Fin (5 / 2))"
    by (simp add: bor_threshold_def demo_rail_def dict_get_or_def demo_spice_component_def)
  from brownout_latched [OF this, of 0 "[Fin 3, Fin 2, Fin 3]"] show ?thesis
    by (simp add: demo_rail_def new_worker_def upt_rec numeral_2_eq_2)
qed

text \<open>Reading a tool's output can fail on a line that is no measurement: the pattern of a
  measurement accepts the letter e as a number, so a status line ends the whole step with an
  exception, after which the run is recorded as failed.\<close>

theorem status_line_fails_parse:
  "\<exists>e. parse_output (\<lambda>_. None) ''rail'' ''ngspice'' ''ael_status = error'' 0 = Inl (ValueError e)"
proof -
  have "(case parse_output (\<lambda>_. None) ''rail'' ''ngspice'' ''ael_status = error'' 0 of
      Inl (ValueError e) \<Rightarrow> True | _ \<Rightarrow> False)" by code_simp
  then show ?thesis by (auto split: sum.splits exn.splits)
qed

end
