(* ===== verification/Subprocess.thy ===== *)
theory Subprocess
  imports Tool_Output
begin

text \<open>
  The adapter that talks to a worker process over pipes
  (\<open>src/src/ael/adapters/subprocess_adapter.py\<close>), on top of the worker of
  \<open>Backend_Worker\<close>: what it launches, one call with its time limit, and the adapter operations.
\<close>

section \<open>The process behind the pipes\<close>

text \<open>
  A worker process: whether it lives, its state, and the lines it has written that nobody has read.
\<close>

record ('l, 'm) pipe =
  pp_alive :: bool
  pp_worker :: "'m backend_worker"
  pp_queue :: "'l list"

text \<open>
  The world of an adapter: the JSON codec of both sides, the ids \<open>uuid4\<close> gives to the calls, which
  calls are answered too late or kill the worker, the environment and what starting a command does.
\<close>

record ('l, 'm) link =
  lk_wire :: "'l wire"
  lk_class :: "'m worker_class"
  lk_dump_request :: "backend_request \<Rightarrow> 'l"
  lk_dump_response :: "backend_response \<Rightarrow> 'l"
  lk_parse_response :: "'l \<Rightarrow> backend_response result"
  lk_dump_component :: "system_component \<Rightarrow> pyval"
  lk_uuid :: "nat \<Rightarrow> string"
  lk_late :: "nat \<Rightarrow> bool"
  lk_dies :: "nat \<Rightarrow> bool"
  lk_host :: host
  lk_workspace :: path
  lk_python :: string
  lk_user :: "(int \<times> int) option"
  lk_show_g :: "pyfloat \<Rightarrow> string"
  lk_spawn :: "string list \<Rightarrow> 'm backend_worker result"

record ('l, 'm) subprocess_adapter =
  sp_backend :: backend_name
  sp_worker_module :: string
  sp_expected_version :: string
  sp_timeout_s :: int
  sp_process :: "('l, 'm) pipe option"
  sp_launch_command :: "string list option"
  sp_calls :: nat

definition new_subprocess :: "backend_name \<Rightarrow> string \<Rightarrow> string \<Rightarrow> int \<Rightarrow> ('l, 'm) subprocess_adapter" where
  "new_subprocess b worker_module version timeout =
     \<lparr>sp_backend = b, sp_worker_module = worker_module, sp_expected_version = version,
      sp_timeout_s = timeout, sp_process = None, sp_launch_command = None, sp_calls = 0\<rparr>"

section \<open>Launching\<close>

definition backend_cpu_limit :: "host \<Rightarrow> pyfloat result" where
  "backend_cpu_limit h =
     (let raw = (case host_env h ''AEL_BACKEND_CPUS'' of None \<Rightarrow> ''2'' | Some s \<Rightarrow> s) in
      case float_of_text raw of
        Inl _ \<Rightarrow> Inl (ValueError ''AEL_BACKEND_CPUS must be numeric'')
      | Inr v \<Rightarrow>
          if float_le (round_f64 (1 / 100)) v \<and> float_le v (Fin 64) then Inr v
          else Inl (ValueError ''AEL_BACKEND_CPUS must be between 0.01 and 64''))"

definition image_variable :: "backend_name \<Rightarrow> string" where
  "image_variable b = ''AEL_'' @ map (\<lambda>c. if c = CHR ''-'' then CHR ''_'' else c)
     (ascii_upper (backend_value b)) @ ''_IMAGE''"

definition oci_runtime :: "host \<Rightarrow> string option" where
  "oci_runtime h =
     (case host_which h (case host_env h ''AEL_OCI_RUNTIME'' of None \<Rightarrow> ''podman'' | Some r \<Rightarrow> r) of
        Some r \<Rightarrow> Some r
      | None \<Rightarrow> host_which h ''docker'')"

definition path_text :: "path \<Rightarrow> string" where
  "path_text p = ''/'' @ join_with ''/'' p"

definition container_command :: "('l, 'm) link \<Rightarrow> string \<Rightarrow> string \<Rightarrow> string \<Rightarrow> string \<Rightarrow> string list" where
  "container_command x runtime cpus oci_image worker_module =
     [runtime, ''run'', ''--rm'', ''--interactive''] @
     (case lk_user x of None \<Rightarrow> [] | Some (u, g) \<Rightarrow> [''--user='' @ show_int u @ '':'' @ show_int g]) @
     [''--read-only'', ''--network=none'', ''--cap-drop=ALL'', ''--security-opt=no-new-privileges'',
      ''--pids-limit=512'', ''--memory=4g'', ''--cpus='' @ cpus,
      ''--tmpfs=/tmp:rw,exec,nosuid,nodev,size=2g'', ''--mount'',
      ''type=bind,src='' @ path_text (lk_workspace x) @ '',dst=/workspace'', ''--workdir=/workspace'',
      ''--env=AEL_WORKSPACE=/workspace'', ''--env=HOME=/tmp'', ''--env=XDG_CONFIG_HOME=/tmp'',
      ''--env=DOTNET_BUNDLE_EXTRACT_BASE_DIR=/tmp'', ''--entrypoint=python3'', oci_image, ''-m'', worker_module]"

definition launch_command :: "('l, 'm) link \<Rightarrow> ('l, 'm) subprocess_adapter \<Rightarrow> string list result" where
  "launch_command x a =
     (case nonempty (host_env (lk_host x) (image_variable (sp_backend a))) of
        None \<Rightarrow> Inr [lk_python x, ''-m'', sp_worker_module a]
      | Some oci_image \<Rightarrow>
          andThen (require (oci_runtime (lk_host x))
            (RuntimeError ''backend image configured but no OCI runtime is installed'')) (\<lambda>runtime.
          andThen (backend_cpu_limit (lk_host x)) (\<lambda>cpus.
          Inr (container_command x runtime (lk_show_g x cpus) oci_image (sp_worker_module a)))))"

definition running :: "('l, 'm) subprocess_adapter \<Rightarrow> bool" where
  "running a \<longleftrightarrow> (case sp_process a of None \<Rightarrow> False | Some p \<Rightarrow> pp_alive p)"

definition start :: "('l, 'm) link \<Rightarrow> (('l, 'm) subprocess_adapter, unit) prog" where
  "start x = (\<lambda>a.
     if running a then (Inr (), a)
     else bindP (reads (launch_command x)) (\<lambda>command.
       bindP (modify (\<lambda>a. a\<lparr>sp_launch_command := Some command\<rparr>)) (\<lambda>_.
       bindP (lift (lk_spawn x command)) (\<lambda>w.
       modify (\<lambda>a. a\<lparr>sp_process := Some \<lparr>pp_alive = True, pp_worker = w, pp_queue = []\<rparr>\<rparr>)))) a)"

section \<open>One call\<close>

text \<open>
  The worker reads the line and answers it; it exits after a shutdown request, or dies on the call.
\<close>

definition deliver :: "('l, 'm) link \<Rightarrow> nat \<Rightarrow> 'l \<Rightarrow> ('l, 'm) pipe \<Rightarrow> ('l, 'm) pipe" where
  "deliver x n line p =
     (if lk_dies x n then p\<lparr>pp_alive := False\<rparr>
      else case serve_line (lk_wire x) (lk_class x) line (pp_worker p) of
             (rs, w) \<Rightarrow> p\<lparr>pp_alive := \<not> ends_serving (lk_wire x) line, pp_worker := w,
               pp_queue := pp_queue p @ [lk_dump_response x rs]\<rparr>)"

definition next_request :: "('l, 'm) link \<Rightarrow> nat \<Rightarrow> backend_operation \<Rightarrow> int option \<Rightarrow>
    (string, pyval) dict \<Rightarrow> backend_request" where
  "next_request x n op time payload =
     \<lparr>brq_request_id = lk_uuid x n, brq_operation = op, brq_virtual_time_us = time, brq_payload = payload\<rparr>"

definition accept :: "('l, 'm) link \<Rightarrow> nat \<Rightarrow> 'l \<Rightarrow> backend_response result" where
  "accept x n line =
     (case lk_parse_response x line of
        Inl _ \<Rightarrow> Inl (BackendProtocolError ''invalid backend response'')
      | Inr rs \<Rightarrow>
          if brs_request_id rs \<noteq> lk_uuid x n
          then Inl (BackendProtocolError ''backend response request_id mismatch'')
          else if \<not> brs_ok rs
          then Inl (BackendProtocolError (case nonempty (brs_error rs) of
                 None \<Rightarrow> ''backend operation failed'' | Some e \<Rightarrow> e))
          else Inr rs)"

definition call ::
    "('l, 'm) link \<Rightarrow> backend_operation \<Rightarrow> int option \<Rightarrow> (string, pyval) dict \<Rightarrow>
       (('l, 'm) subprocess_adapter, backend_response) prog" where
  "call x op time payload = (\<lambda>a.
     case sp_process a of
       None \<Rightarrow> (Inl (BackendProtocolError ''backend process is not running''), a)
     | Some p \<Rightarrow>
         let n = sp_calls a; a = a\<lparr>sp_calls := Suc n\<rparr> in
         if \<not> pp_alive p then (Inl (OSError ''Broken pipe''), a)
         else
           let p' = deliver x n (lk_dump_request x (next_request x n op time payload)) p in
           if pp_queue p = [] \<and> lk_late x n
           then (Inl (TimeoutError ''backend did not respond''), a\<lparr>sp_process := Some p'\<rparr>)
           else case pp_queue p' of
                  [] \<Rightarrow> (Inl (BackendProtocolError ''backend exited''), a\<lparr>sp_process := Some p'\<rparr>)
                | line # rest \<Rightarrow> (accept x n line, a\<lparr>sp_process := Some (p'\<lparr>pp_queue := rest\<rparr>)\<rparr>))"

section \<open>The adapter\<close>

text \<open>
  A live worker is asked to shut down, and terminated or killed where it does not; the adapter lets
  go of the process in any case.
\<close>

definition subprocess_shutdown :: "('l, 'm) link \<Rightarrow> (('l, 'm) subprocess_adapter, unit) prog" where
  "subprocess_shutdown x = (\<lambda>a.
     if running a
     then (Inr (), (snd (call x BO_SHUTDOWN None [] a))\<lparr>sp_process := None\<rparr>)
     else (Inr (), a\<lparr>sp_process := None\<rparr>))"

definition probe_of_response :: "('l, 'm) link \<Rightarrow> ('l, 'm) subprocess_adapter \<Rightarrow> backend_response \<Rightarrow> adapter_probe" where
  "probe_of_response x a rs =
     (let text = to_str (wr_show (lk_wire x)) in
      \<lparr>prb_backend = sp_backend a,
       prb_available = truthy (dict_get_or (brs_outputs rs) ''available'' (PBool False)),
       prb_command = Some (lk_python x @ '' -m '' @ sp_worker_module a),
       prb_detected_version = nonempty (Some (text (dict_get_or (brs_outputs rs) ''version'' (PStr [])))),
       prb_expected_version = Some (sp_expected_version a),
       prb_reason = (case nonempty (brs_error rs) of
           Some e \<Rightarrow> Some e
         | None \<Rightarrow> (case dict_get_or (brs_outputs rs) ''reason'' PNone of PNone \<Rightarrow> None | v \<Rightarrow> Some (text v)))\<rparr>)"

definition subprocess_probe :: "('l, 'm) link \<Rightarrow> ('l, 'm) subprocess_adapter \<Rightarrow> adapter_probe \<times> ('l, 'm) subprocess_adapter" where
  "subprocess_probe x a =
     (case bindP (start x) (\<lambda>_. call x BO_PROBE None []) a of
        (Inr rs, b) \<Rightarrow> (probe_of_response x b rs, snd (subprocess_shutdown x b))
      | (Inl e, b) \<Rightarrow>
          (\<lparr>prb_backend = sp_backend b, prb_available = False,
            prb_command = Some (lk_python x @ '' -m '' @ sp_worker_module b), prb_detected_version = None,
            prb_expected_version = Some (sp_expected_version b),
            prb_reason = Some (''backend worker unavailable: '' @ exn_message e)\<rparr>,
           snd (subprocess_shutdown x b)))"

definition subprocess_prepare ::
    "('l, 'm) link \<Rightarrow> evidence_file fsys \<Rightarrow> system_component \<Rightarrow> int \<Rightarrow> (('l, 'm) subprocess_adapter, unit) prog" where
  "subprocess_prepare x fs c seed =
     bindP (start x) (\<lambda>_.
     bindP (call x BO_PREPARE None [(''component'', lk_dump_component x c), (''seed'', PInt seed)]) (\<lambda>_.
     ret ()))"

definition subprocess_inject ::
    "('l, 'm) link \<Rightarrow> string \<Rightarrow> pyval \<Rightarrow> int \<Rightarrow> (('l, 'm) subprocess_adapter, event list) prog" where
  "subprocess_inject x target val virtual_time_us =
     bindP (call x BO_INJECT (Some virtual_time_us) [(''target'', PStr target), (''value'', val)]) (\<lambda>rs.
     ret (brs_events rs))"

definition subprocess_step ::
    "('l, 'm) link \<Rightarrow> int \<Rightarrow> int \<Rightarrow> (('l, 'm) subprocess_adapter, adapter_step_result) prog" where
  "subprocess_step x virtual_time_us step_us =
     bindP (call x BO_STEP (Some virtual_time_us) [(''step_us'', PInt step_us)]) (\<lambda>rs.
     ret \<lparr>sr_outputs = brs_outputs rs, sr_metrics = brs_metrics rs, sr_events = brs_events rs,
       sr_artifacts = brs_artifacts rs\<rparr>)"

definition subprocess_snapshot ::
    "('l, 'm) link \<Rightarrow> evidence_file fsys \<Rightarrow> path \<Rightarrow>
       (('l, 'm) subprocess_adapter, (path \<times> evidence_file) option) prog" where
  "subprocess_snapshot x fs destination =
     bindP (lift (resolve fs destination)) (\<lambda>p.
     bindP (guardP (prefix (lk_workspace x) p) (ValueError ''path is not in the subpath'')) (\<lambda>_.
     bindP (call x BO_SNAPSHOT None [(''destination'', PStr (relative_to (lk_workspace x) p))]) (\<lambda>rs.
     gets (\<lambda>a. case dict_get (brs_artifacts rs) ''snapshot'' of
         None \<Rightarrow> None
       | Some _ \<Rightarrow> (case sp_process a of None \<Rightarrow> None
           | Some pp \<Rightarrow> map_option (Pair p) (dict_get (bw_written (pp_worker pp)) p))))))"

definition subprocess_ops :: "('l, 'm) link \<Rightarrow> ('l, 'm) subprocess_adapter adapter_ops" where
  "subprocess_ops x = \<lparr>ao_probe = subprocess_probe x, ao_prepare = subprocess_prepare x,
     ao_inject = subprocess_inject x, ao_step = subprocess_step x, ao_snapshot = subprocess_snapshot x,
     ao_shutdown = subprocess_shutdown x\<rparr>"

interpretation subprocess: adapter "subprocess_ops x" "\<lambda>a. sp_process a = None"
  by unfold_locales (simp add: subprocess_ops_def subprocess_shutdown_def)

section \<open>Answers and requests\<close>

text \<open>
  What the JSON texts and \<open>uuid4\<close> are relied on for: a text decodes to what it was made from, and
  no id is drawn twice.
\<close>

definition codec_ok :: "('l, 'm) link \<Rightarrow> bool" where
  "codec_ok x \<longleftrightarrow>
     (\<forall>rs. lk_parse_response x (lk_dump_response x rs) = Inr rs) \<and>
     (\<forall>rq. wr_parse_request (lk_wire x) (lk_dump_request x rq) = Inr rq) \<and>
     (\<forall>rq. wr_request_id (lk_wire x) (lk_dump_request x rq) = Some (brq_request_id rq)) \<and>
     inj (lk_uuid x)"

text \<open>Every unread line answers an earlier call.\<close>

definition pipe_ok :: "('l, 'm) link \<Rightarrow> ('l, 'm) subprocess_adapter \<Rightarrow> bool" where
  "pipe_ok x a \<longleftrightarrow> (\<forall>p. sp_process a = Some p \<longrightarrow> (\<forall>line \<in> set (pp_queue p).
     \<exists>rs j. lk_parse_response x line = Inr rs \<and> brs_request_id rs = lk_uuid x j \<and> j < sp_calls a))"

lemma keeps_start [keeps_intros]: "keeps (pipe_ok x) (start x)"
  by (auto simp: keeps_def start_def bindP_def pipe_ok_def split: sum.split)

lemma deliver_queue:
  assumes "codec_ok x"
  shows "set (pp_queue (deliver x n (lk_dump_request x (next_request x n op time payload)) p)) \<subseteq>
     set (pp_queue p) \<union> {line. \<exists>rs. lk_parse_response x line = Inr rs \<and> brs_request_id rs = lk_uuid x n}"
proof -
  let ?line = "lk_dump_request x (next_request x n op time payload)"
  obtain rs w where one: "serve_line (lk_wire x) (lk_class x) ?line (pp_worker p) = (rs, w)" by fastforce
  have "brs_request_id rs = answer_id (lk_wire x) ?line"
    using serve_line_id [of "lk_wire x" ?line "lk_class x" "pp_worker p"] one assms
    by (simp add: codec_ok_def)
  also have "\<dots> = lk_uuid x n"
    using assms by (simp add: answer_id_def codec_ok_def next_request_def)
  finally show ?thesis using one assms by (auto simp: deliver_def codec_ok_def)
qed

lemma keeps_call:
  assumes "codec_ok x"
  shows "keeps (pipe_ok x) (call x op time payload)"
proof (rule keepsI)
  fix a assume ok: "pipe_ok x a"
  show "pipe_ok x (snd (call x op time payload a))"
  proof (cases "sp_process a")
    case None
    then show ?thesis using ok by (simp add: call_def)
  next
    case (Some p)
    let ?n = "sp_calls a"
    let ?p = "deliver x ?n (lk_dump_request x (next_request x ?n op time payload)) p"
    have q: "\<exists>rs j. lk_parse_response x line = Inr rs \<and> brs_request_id rs = lk_uuid x j \<and> j < Suc ?n"
      if "line \<in> set (pp_queue ?p)" for line
    proof -
      from deliver_queue [OF assms, of ?n op time payload p] that
      consider "line \<in> set (pp_queue p)"
        | "\<exists>rs. lk_parse_response x line = Inr rs \<and> brs_request_id rs = lk_uuid x ?n" by auto
      then show ?thesis
      proof cases
        case 1
        then show ?thesis using ok Some unfolding pipe_ok_def by (meson less_Suc_eq)
      next
        case 2
        then show ?thesis by blast
      qed
    qed
    have q': "\<exists>rs j. lk_parse_response x line = Inr rs \<and> brs_request_id rs = lk_uuid x j \<and> j < Suc ?n"
      if "line \<in> set (pp_queue p)" for line
      using ok Some that unfolding pipe_ok_def by (meson less_Suc_eq)
    show ?thesis
      using q q' Some by (auto simp: call_def Let_def pipe_ok_def split: list.split)
  qed
qed

lemma keeps_subprocess:
  assumes "codec_ok x"
  shows "keeps (pipe_ok x) (subprocess_prepare x fs c seed)"
    "keeps (pipe_ok x) (subprocess_inject x target val t)"
    "keeps (pipe_ok x) (subprocess_step x t step_us)"
    "keeps (pipe_ok x) (subprocess_snapshot x fs destination)"
    "keeps (pipe_ok x) (subprocess_shutdown x)"
  unfolding subprocess_prepare_def subprocess_inject_def subprocess_step_def subprocess_snapshot_def
  by (intro keeps_intros keeps_call [OF assms])+
    (simp add: keeps_def subprocess_shutdown_def pipe_ok_def)

lemma probe_ok: "pipe_ok x (snd (subprocess_probe x a))"
  by (auto simp: subprocess_probe_def subprocess_shutdown_def pipe_ok_def split: prod.split sum.split)

text \<open>An answer that is accepted was written by the worker for this very request.\<close>

lemma call_own_answer:
  assumes "codec_ok x" and "pipe_ok x a" and "call x op time payload a = (Inr rs, a')"
  shows "\<exists>p p'. sp_process a = Some p \<and> sp_process a' = Some p' \<and>
     handle (wr_show (lk_wire x)) (lk_class x)
       (wr_fs (lk_wire x) (lk_dump_request x (next_request x (sp_calls a) op time payload)))
       (wr_fresh (lk_wire x) (lk_dump_request x (next_request x (sp_calls a) op time payload)))
       (next_request x (sp_calls a) op time payload) (pp_worker p) = (Inr rs, pp_worker p')"
proof -
  let ?n = "sp_calls a" 
  let ?rq = "next_request x ?n op time payload"
  let ?line = "lk_dump_request x ?rq"
  from assms(3) obtain p where p: "sp_process a = Some p"
    by (auto simp: call_def split: option.splits)
  let ?p = "deliver x ?n ?line p"
  from assms(3) p obtain line rest where q: "pp_queue ?p = line # rest" "accept x ?n line = Inr rs"
    and a': "sp_process a' = Some (?p\<lparr>pp_queue := rest\<rparr>)"
    by (auto simp: call_def Let_def split: if_splits list.splits)
  have own: "lk_parse_response x line = Inr rs" "brs_request_id rs = lk_uuid x ?n" "brs_ok rs"
    using q(2) by (auto simp: accept_def split: sum.splits if_splits)
  have "line \<notin> set (pp_queue p)"
  proof
    assume "line \<in> set (pp_queue p)"
    with assms(2) p own obtain j where "lk_uuid x ?n = lk_uuid x j" "j < ?n"
      unfolding pipe_ok_def by fastforce
    with assms(1) show False by (simp add: codec_ok_def inj_eq)
  qed
  moreover obtain rs' w where one: "serve_line (lk_wire x) (lk_class x) ?line (pp_worker p) = (rs', w)"
    by fastforce
  ultimately have "line = lk_dump_response x rs'" "pp_worker ?p = w"
    using q(1) by (auto simp: deliver_def append_eq_Cons_conv split: if_splits)
  with own(1) assms(1) have rs: "rs' = rs" by (simp add: codec_ok_def)
  have parse: "wr_parse_request (lk_wire x) ?line = Inr ?rq" using assms(1) by (simp add: codec_ok_def)
  have "handle (wr_show (lk_wire x)) (lk_class x) (wr_fs (lk_wire x) ?line) (wr_fresh (lk_wire x) ?line)
      ?rq (pp_worker p) = (Inr rs, w)"
    using one parse own(3) rs by (auto simp: serve_line_def split: prod.splits sum.splits)
  with p a' \<open>pp_worker ?p = w\<close> show ?thesis by auto
qed

datatype sub_op =
    Sub_Probe
  | Sub_Prepare "evidence_file fsys" system_component int
  | Sub_Inject string pyval int
  | Sub_Step int int
  | Sub_Snapshot "evidence_file fsys" path
  | Sub_Shutdown

fun sub_step :: "('l, 'm) link \<Rightarrow> sub_op \<Rightarrow> ('l, 'm) subprocess_adapter \<Rightarrow> ('l, 'm) subprocess_adapter" where
  "sub_step x Sub_Probe a = snd (subprocess_probe x a)"
| "sub_step x (Sub_Prepare fs c seed) a = snd (subprocess_prepare x fs c seed a)"
| "sub_step x (Sub_Inject target val t) a = snd (subprocess_inject x target val t a)"
| "sub_step x (Sub_Step t n) a = snd (subprocess_step x t n a)"
| "sub_step x (Sub_Snapshot fs destination) a = snd (subprocess_snapshot x fs destination a)"
| "sub_step x Sub_Shutdown a = snd (subprocess_shutdown x a)"

lemma sub_step_ok: "codec_ok x \<Longrightarrow> pipe_ok x a \<Longrightarrow> pipe_ok x (sub_step x op a)"
  by (cases op) (simp_all add: probe_ok keepsD [OF keeps_subprocess(1)] keepsD [OF keeps_subprocess(2)]
      keepsD [OF keeps_subprocess(3)] keepsD [OF keeps_subprocess(4)] keepsD [OF keeps_subprocess(5)])

lemma sub_steps_ok: "codec_ok x \<Longrightarrow> pipe_ok x a \<Longrightarrow> pipe_ok x (fold (sub_step x) ops a)"
  by (induction ops arbitrary: a) (simp_all add: sub_step_ok)

section \<open>Properties\<close>


text \<open>A worker that puts out the time, whose lines are the messages themselves, on a host where \<open>h\<close> says what is installed.\<close>

definition demo_link ::
    "host \<Rightarrow> (system_component \<Rightarrow> pyval) \<Rightarrow> (backend_request + backend_response, bool) link" where
  "demo_link h dump = \<lparr>lk_wire = \<lparr>wr_parse_request = (\<lambda>l. case l of Inl rq \<Rightarrow> Inr rq
       | Inr _ \<Rightarrow> Inl (ValueError ''not a request'')),
     wr_request_id = (\<lambda>l. case l of Inl rq \<Rightarrow> Some (brq_request_id rq) | Inr rs \<Rightarrow> Some (brs_request_id rs)),
     wr_show = (\<lambda>_. ''?''), wr_fs = (\<lambda>_. demo_fs), wr_fresh = (\<lambda>_. ''x'')\<rparr>,
     lk_class = demo_class\<lparr>wk_parse_component := (\<lambda>v. if v = PNone then Inr demo_spice_component
       else Inl (ValueError ''component'')), wk_step := (\<lambda>_ n. gets (\<lambda>w.
         ([(''v'', PInt (bw_virtual_time_us w + n))], [], [], [])))\<rparr>,
     lk_dump_request = Inl, lk_dump_response = Inr,
     lk_parse_response = (\<lambda>l. case l of Inr rs \<Rightarrow> Inr rs | Inl _ \<Rightarrow> Inl (ValueError ''not a response'')),
     lk_dump_component = dump, lk_uuid = show_nat, lk_late = (\<lambda>_. False), lk_dies = (\<lambda>_. False),
     lk_host = h, lk_workspace = [''ws''], lk_python = ''python3'', lk_user = None,
     lk_show_g = (\<lambda>_. ''2''), lk_spawn = (\<lambda>_. Inr (new_worker h demo_class [''ws''] False))\<rparr>"

lemma demo_codec_ok: "codec_ok (demo_link h dump)"
  by (simp add: codec_ok_def demo_link_def inj_def show_nat_inj)

definition demo_adapter :: "(backend_request + backend_response, bool) subprocess_adapter" where
  "demo_adapter = new_subprocess BN_NGSPICE ''ael.backend_workers.ngspice'' ''46'' 30"


text \<open>The version a probe reports for a tool that is not installed is the text None: the worker
  sends a null version, and \<open>str\<close> of it is not empty, so the fallback to no version never applies.\<close>

theorem missing_tool_version_is_none_text:
  "prb_available (fst (subprocess_probe (demo_link (demo_host\<lparr>host_which := (\<lambda>_. None)\<rparr>) (\<lambda>_. PNone)) demo_adapter)) = False \<and>
   prb_detected_version (fst (subprocess_probe (demo_link (demo_host\<lparr>host_which := (\<lambda>_. None)\<rparr>) (\<lambda>_. PNone))
     demo_adapter)) = Some ''None''"
  by (intro conjI; code_simp)

text \<open>
  A preparation that the worker refuses raises and leaves the worker process running.
\<close>

lemma failed_prepare_keeps_process:
  "isl (fst (subprocess_prepare (demo_link demo_host (\<lambda>_. PInt 0)) demo_fs demo_spice_component 7 demo_adapter))"
  "running (snd (subprocess_prepare (demo_link demo_host (\<lambda>_. PInt 0)) demo_fs demo_spice_component 7 demo_adapter))"
  by code_simp+

end
