(* ===== verification/Catalog.thy ===== *)
theory Catalog
  imports Subprocess
begin

text \<open>
  The adapter catalog (\<open>src/src/ael/adapters/catalog.py\<close>): which adapter serves a backend, and
  the cache of probes; and the router that says which backends a problem needs
  (\<open>src/src/ael/router.py\<close>).
\<close>

section \<open>All adapters\<close>

datatype ('l, 'm) any_adapter =
    Synthetic_Adapter synthetic_adapter
  | Native_Adapter native_adapter
  | Subprocess_Adapter "('l, 'm) subprocess_adapter"

text \<open>
  The surroundings of the adapters: the working directory and the JSON decoder of the native one,
  and the link to the worker of each backend.
\<close>

record ('l, 'm) surroundings =
  sur_cwd :: path
  sur_json :: "evidence_file \<Rightarrow> pyval result"
  sur_link :: "backend_name \<Rightarrow> ('l, 'm) link"

text \<open>A method call goes to the class of the adapter.\<close>

definition wrap :: "('b \<Rightarrow> 'a) \<Rightarrow> ('b, 'r) prog \<Rightarrow> 'b \<Rightarrow> 'r result \<times> 'a" where
  "wrap con m b = (case m b of (r, b') \<Rightarrow> (r, con b'))"

definition dispatch ::
    "(synthetic_adapter adapter_ops \<Rightarrow> (synthetic_adapter, 'r) prog) \<Rightarrow>
     (native_adapter adapter_ops \<Rightarrow> (native_adapter, 'r) prog) \<Rightarrow>
     (('l, 'm) subprocess_adapter adapter_ops \<Rightarrow> (('l, 'm) subprocess_adapter, 'r) prog) \<Rightarrow>
     ('l, 'm) surroundings \<Rightarrow> (('l, 'm) any_adapter, 'r) prog" where
  "dispatch f g h s a =
     (case a of
        Synthetic_Adapter b \<Rightarrow> wrap Synthetic_Adapter (f synthetic_ops) b
      | Native_Adapter b \<Rightarrow> wrap Native_Adapter (g (native_ops (sur_cwd s) (sur_json s))) b
      | Subprocess_Adapter b \<Rightarrow> wrap Subprocess_Adapter (h (subprocess_ops (sur_link s (sp_backend b)))) b)"

definition any_probe :: "('l, 'm) surroundings \<Rightarrow> ('l, 'm) any_adapter \<Rightarrow> adapter_probe \<times> ('l, 'm) any_adapter" where
  "any_probe s a =
     (case a of
        Synthetic_Adapter b \<Rightarrow> map_prod id Synthetic_Adapter (synthetic_probe b)
      | Native_Adapter b \<Rightarrow> map_prod id Native_Adapter (native_probe b)
      | Subprocess_Adapter b \<Rightarrow>
          map_prod id Subprocess_Adapter (subprocess_probe (sur_link s (sp_backend b)) b))"

definition any_ops :: "('l, 'm) surroundings \<Rightarrow> ('l, 'm) any_adapter adapter_ops" where
  "any_ops s = \<lparr>ao_probe = any_probe s,
     ao_prepare = (\<lambda>fs c seed. dispatch (\<lambda>k. ao_prepare k fs c seed) (\<lambda>k. ao_prepare k fs c seed)
       (\<lambda>k. ao_prepare k fs c seed) s),
     ao_inject = (\<lambda>t v n. dispatch (\<lambda>k. ao_inject k t v n) (\<lambda>k. ao_inject k t v n) (\<lambda>k. ao_inject k t v n) s),
     ao_step = (\<lambda>t n. dispatch (\<lambda>k. ao_step k t n) (\<lambda>k. ao_step k t n) (\<lambda>k. ao_step k t n) s),
     ao_snapshot = (\<lambda>fs p. dispatch (\<lambda>k. ao_snapshot k fs p) (\<lambda>k. ao_snapshot k fs p) (\<lambda>k. ao_snapshot k fs p) s),
     ao_shutdown = dispatch ao_shutdown ao_shutdown ao_shutdown s\<rparr>"

fun any_released :: "('l, 'm) any_adapter \<Rightarrow> bool" where
  "any_released (Synthetic_Adapter b) = (syn_component b = None)"
| "any_released (Native_Adapter b) = (nat_component b = None \<and> nat_inputs b = [])"
| "any_released (Subprocess_Adapter b) = (sp_process b = None)"

interpretation all_adapters: adapter "any_ops s" any_released
proof
  show "any_released (snd (ao_shutdown (any_ops s) a))" for s :: "('l, 'm) surroundings" and a
    using synthetic.shutdown_releases native.shutdown_releases subprocess.shutdown_releases
    by (cases a) (simp_all add: any_ops_def dispatch_def wrap_def case_prod_beta)
qed

section \<open>The catalog\<close>

text \<open>A factory builds the same fresh adapter every time, and stands here for it.\<close>

record 'a catalog =
  cat_probe_cache :: "(backend_name, adapter_probe) dict"
  cat_factories :: "(backend_name, 'a) dict"
  cat_tools :: "(backend_name, tool_version) dict"

definition tool_backends :: "(string, backend_name) dict" where
  "tool_backends = [(''renode'', BN_RENODE), (''ngspice'', BN_NGSPICE), (''openmodelica'', BN_MODELICA),
     (''omsimulator'', BN_OMSIMULATOR), (''ns-3'', BN_NS3), (''openems'', BN_OPENEMS)]"

definition catalog_tools :: "(backend_name, tool_version) dict" where
  "catalog_tools = dict_of (List.map_filter (\<lambda>t.
     case dict_get tool_backends (tv_name t) of None \<Rightarrow> None | Some b \<Rightarrow> Some (b, t)) tool_versions)"

definition subprocess_factory :: "backend_name \<Rightarrow> string \<Rightarrow> string \<Rightarrow> int \<Rightarrow>
    backend_name \<times> ('l, 'm) any_adapter" where
  "subprocess_factory b worker_module version timeout_s =
     (b, Subprocess_Adapter (new_subprocess b (''ael.backend_workers.'' @ worker_module) version timeout_s))"

definition new_catalog :: "('l, 'm) any_adapter catalog" where
  "new_catalog = \<lparr>cat_probe_cache = [],
     cat_factories =
       [subprocess_factory BN_ZEPHYR_BUILD ''zephyr_build'' ''4.4.2'' 360,
        (BN_SYNTHETIC, Synthetic_Adapter new_synthetic), (BN_NATIVE, Native_Adapter new_native),
        subprocess_factory BN_RENODE ''renode'' ''1.16.1'' 30,
        subprocess_factory BN_NGSPICE ''ngspice'' ''46'' 30,
        subprocess_factory BN_MODELICA ''modelica'' ''1.27.0'' 30,
        subprocess_factory BN_OMSIMULATOR ''omsimulator'' ''2.1.3'' 30,
        subprocess_factory BN_NS3 ''ns3'' ''3.47'' 30,
        subprocess_factory BN_OPENEMS ''openems'' ''0.0.36'' 30],
     cat_tools = catalog_tools\<rparr>"

definition register_factory :: "backend_name \<Rightarrow> 'a \<Rightarrow> 'a catalog \<Rightarrow> 'a catalog" where
  "register_factory b factory c = c\<lparr>cat_factories := dict_set b factory (cat_factories c),
     cat_probe_cache := dict_del b (cat_probe_cache c)\<rparr>"

definition create_adapter :: "backend_name \<Rightarrow> 'a catalog \<Rightarrow> 'a result" where
  "create_adapter b c = require (dict_get (cat_factories c) b)
     (RuntimeError (''backend '' @ backend_value b @ '' is declared but its runtime adapter is not installed''))"

definition probe_backend ::
    "'a adapter_ops \<Rightarrow> host \<Rightarrow> backend_name \<Rightarrow> 'a catalog \<Rightarrow> adapter_probe \<times> 'a catalog" where
  "probe_backend ops h b c =
     (case dict_get (cat_probe_cache c) b of
        Some p \<Rightarrow> (p, c)
      | None \<Rightarrow>
          (case dict_get (cat_factories c) b of
             Some fresh \<Rightarrow>
               let p = fst (ao_probe ops fresh) in
               (p, c\<lparr>cat_probe_cache := dict_set b p (cat_probe_cache c)\<rparr>)
           | None \<Rightarrow>
               (case dict_get (cat_tools c) b of
                  Some t \<Rightarrow>
                    let p = tool_probe h b t in
                    (if prb_available p
                     then p\<lparr>prb_available := False, prb_reason := Some
                       ''tool is installed but the AEL runtime adapter is not yet implemented''\<rparr>
                     else p, c)
                | None \<Rightarrow>
                    (\<lparr>prb_backend = b, prb_available = False, prb_command = None,
                      prb_detected_version = None, prb_expected_version = None,
                      prb_reason = Some (if b = BN_HARDWARE then ''requires a configured worker capability''
                        else ''unknown backend'')\<rparr>, c))))"

fun probe_all ::
    "'a adapter_ops \<Rightarrow> host \<Rightarrow> backend_name list \<Rightarrow> 'a catalog \<Rightarrow> adapter_probe list \<times> 'a catalog" where
  "probe_all ops h [] c = ([], c)"
| "probe_all ops h (b # bs) c =
     (case probe_backend ops h b c of (p, c) \<Rightarrow>
        case probe_all ops h bs c of (ps, c) \<Rightarrow> (p # ps, c))"

definition probes :: "'a adapter_ops \<Rightarrow> host \<Rightarrow> 'a catalog \<Rightarrow> adapter_probe list \<times> 'a catalog" where
  "probes ops h = probe_all ops h backend_names"

section \<open>Routing\<close>

datatype route_status =
    ROUTE_EXECUTABLE | ROUTE_MODEL_GENERATION_REQUIRED | ROUTE_HARDWARE_VALIDATION_REQUIRED | ROUTE_BLOCKED

fun category_backends :: "problem_category \<Rightarrow> backend_name list" where
  "category_backends PC_BUILD = [BN_NATIVE]"
| "category_backends PC_CONFIGURATION = [BN_NATIVE, BN_RENODE]"
| "category_backends PC_BOOT = [BN_RENODE]"
| "category_backends PC_MEMORY = [BN_NATIVE, BN_RENODE]"
| "category_backends PC_DIGITAL_IO = [BN_RENODE]"
| "category_backends PC_TIMING = [BN_RENODE, BN_HARDWARE]"
| "category_backends PC_INTERRUPT = [BN_RENODE]"
| "category_backends PC_DMA = [BN_RENODE]"
| "category_backends PC_SERIAL_BUS = [BN_RENODE]"
| "category_backends PC_RTOS = [BN_RENODE]"
| "category_backends PC_UPDATE = [BN_RENODE, BN_NGSPICE]"
| "category_backends PC_ANALOG = [BN_NGSPICE]"
| "category_backends PC_POWER = [BN_NGSPICE, BN_MODELICA]"
| "category_backends PC_THERMAL = [BN_MODELICA]"
| "category_backends PC_NETWORK = [BN_NS3]"
| "category_backends PC_RF = [BN_NS3, BN_OPENEMS]"
| "category_backends PC_ELECTROMAGNETIC = [BN_OPENEMS]"
| "category_backends PC_SECURITY = [BN_NATIVE, BN_RENODE]"
| "category_backends PC_HARDWARE_ONLY = [BN_HARDWARE]"

record route_result =
  ro_problem :: string
  ro_category :: problem_category
  ro_status :: route_status
  ro_required_backends :: "backend_name list"
  ro_available_backends :: "backend_name list"
  ro_missing_backends :: "backend_name list"
  ro_reasons :: "string list"
  ro_fidelity_boundary :: string

definition classify_problem ::
    "'a adapter_ops \<Rightarrow> host \<Rightarrow> problem_spec \<Rightarrow> 'a catalog \<Rightarrow> route_result \<times> 'a catalog" where
  "classify_problem ops h problem c =
     (let required = category_backends (ps_category problem) in
      case probe_all ops h required c of (ps, c) \<Rightarrow>
        let found = zip required ps;
            missing = map fst (filter (\<lambda>(b, p). \<not> prb_available p) found) in
        (\<lparr>ro_problem = ps_name problem, ro_category = ps_category problem,
          ro_status = (if ps_category problem = PC_HARDWARE_ONLY then ROUTE_HARDWARE_VALIDATION_REQUIRED
            else if missing \<noteq> [] then ROUTE_MODEL_GENERATION_REQUIRED else ROUTE_EXECUTABLE),
          ro_required_backends = required,
          ro_available_backends = map fst (filter (\<lambda>(b, p). prb_available p) found),
          ro_missing_backends = missing,
          ro_reasons = List.map_filter (\<lambda>p. nonempty (prb_reason p)) ps,
          ro_fidelity_boundary = ''Routing identifies an execution path; it does not establish simulator '' @
            ''or hardware equivalence. Any resulting claim remains bounded by model state and validation '' @
            ''envelope.''\<rparr>, c))"

section \<open>Probing is stable\<close>

definition probe_value :: "'a adapter_ops \<Rightarrow> host \<Rightarrow> 'a catalog \<Rightarrow> backend_name \<Rightarrow> adapter_probe" where
  "probe_value ops h c b = fst (probe_backend ops h b c)"

text \<open>A probe changes no probe's outcome, and asking again neither changes the catalog.\<close>

lemma probe_value_cached:
  "dict_get (cat_probe_cache c) b = Some p \<Longrightarrow> probe_value ops h c b = p"
  by (simp add: probe_value_def probe_backend_def)

lemma probe_value_uncached:
  assumes "dict_get (cat_probe_cache c) b = None" "dict_get (cat_probe_cache c') b = None"
    "cat_factories c' = cat_factories c" "cat_tools c' = cat_tools c"
  shows "probe_value ops h c' b = probe_value ops h c b"
  by (cases "dict_get (cat_factories c) b"; cases "dict_get (cat_tools c) b")
    (simp_all add: probe_value_def probe_backend_def Let_def assms)

lemma probe_backend_cases:
  "snd (probe_backend ops h b c) = c \<or>
   dict_get (cat_probe_cache c) b = None \<and>
   snd (probe_backend ops h b c) =
     c\<lparr>cat_probe_cache := dict_set b (probe_value ops h c b) (cat_probe_cache c)\<rparr>"
  by (cases "dict_get (cat_probe_cache c) b"; cases "dict_get (cat_factories c) b";
      cases "dict_get (cat_tools c) b")
    (simp_all add: probe_value_def probe_backend_def Let_def)

lemma probe_value_after: "probe_value ops h (snd (probe_backend ops h b c)) b' = probe_value ops h c b'"
proof -
  let ?c = "c\<lparr>cat_probe_cache := dict_set b (probe_value ops h c b) (cat_probe_cache c)\<rparr>"
  have "probe_value ops h ?c b' = probe_value ops h c b'" if "dict_get (cat_probe_cache c) b = None"
  proof (cases "b' = b")
    case True
    then show ?thesis by (simp add: probe_value_cached [of ?c])
  next
    case b': False
    show ?thesis
    proof (cases "dict_get (cat_probe_cache c) b'")
      case None
      with b' show ?thesis by (intro probe_value_uncached) simp_all
    next
      case (Some p)
      with b' show ?thesis by (simp add: probe_value_cached [of _ _ p])
    qed
  qed
  then show ?thesis using probe_backend_cases [of ops h b c] by (elim disjE conjE) simp_all
qed

text \<open>A backend is settled when asking for it changes nothing; it then stays settled.\<close>

lemma probe_backend_settled_iff:
  "snd (probe_backend ops h b c) = c \<longleftrightarrow>
     dict_get (cat_probe_cache c) b \<noteq> None \<or> dict_get (cat_factories c) b = None"
proof (cases "dict_get (cat_probe_cache c) b")
  case None
  have "dict_get (cat_probe_cache (c\<lparr>cat_probe_cache := dict_set b p (cat_probe_cache c)\<rparr>)) b = Some p" for p
    by simp
  then have "c\<lparr>cat_probe_cache := dict_set b p (cat_probe_cache c)\<rparr> \<noteq> c" for p
    using None by (metis option.distinct(1))
  then show ?thesis using None
    by (cases "dict_get (cat_factories c) b"; cases "dict_get (cat_tools c) b")
      (simp_all add: probe_backend_def Let_def)
qed (simp add: probe_backend_def)

lemma probe_backend_keeps:
  "dict_get (cat_probe_cache c) b \<noteq> None \<Longrightarrow>
     dict_get (cat_probe_cache (snd (probe_backend ops h b' c))) b \<noteq> None"
  "cat_factories (snd (probe_backend ops h b' c)) = cat_factories c"
  by (auto simp: probe_backend_def Let_def split: option.split)

lemma probe_backend_settles:
  "snd (probe_backend ops h b (snd (probe_backend ops h b c))) = snd (probe_backend ops h b c)"
  by (simp add: probe_backend_def Let_def split: option.split)

lemma probe_all_keeps:
  "snd (probe_backend ops h b c) = c \<Longrightarrow>
     snd (probe_backend ops h b (snd (probe_all ops h bs c))) = snd (probe_all ops h bs c)"
proof (induction bs arbitrary: c)
  case (Cons b' bs)
  have "snd (probe_backend ops h b (snd (probe_backend ops h b' c))) = snd (probe_backend ops h b' c)"
    using Cons.prems unfolding probe_backend_settled_iff probe_backend_keeps(2)
    by (metis probe_backend_keeps(1))
  then show ?case using Cons.IH by (simp add: case_prod_beta)
qed simp

lemma probe_all_settles:
  "b \<in> set bs \<Longrightarrow> snd (probe_backend ops h b (snd (probe_all ops h bs c))) = snd (probe_all ops h bs c)"
proof (induction bs arbitrary: c)
  case (Cons b' bs)
  show ?case
  proof (cases "b \<in> set bs")
    case True
    then show ?thesis using Cons.IH by (simp add: case_prod_beta)
  next
    case False
    then have "b = b'" using Cons.prems by simp
    then show ?thesis
      using probe_all_keeps [OF probe_backend_settles] by (simp add: case_prod_beta)
  qed
qed simp

lemma probe_all_value:
  "probe_value ops h (snd (probe_all ops h bs c)) b = probe_value ops h c b"
  by (induction bs arbitrary: c) (simp_all add: case_prod_beta probe_value_after)

lemma probe_all_probes: "fst (probe_all ops h bs c) = map (probe_value ops h c) bs"
proof (induction bs arbitrary: c)
  case (Cons b bs)
  then show ?case
    by (simp add: case_prod_beta probe_value_after) (simp add: probe_value_def)
qed simp

lemma probe_all_settled:
  "\<forall>b \<in> set bs. snd (probe_backend ops h b c) = c \<Longrightarrow> snd (probe_all ops h bs c) = c"
  by (induction bs) (simp_all add: case_prod_beta)

lemma probe_all_again:
  "probe_all ops h bs (snd (probe_all ops h bs c)) = probe_all ops h bs c"
  by (rule prod_eqI) (simp_all add: probe_all_probes probe_all_value probe_all_settled probe_all_settles)

lemma zip_map_self: "zip bs (map f bs) = map (\<lambda>b. (b, f b)) bs"
  by (induction bs) auto

section \<open>Property\<close>

text \<open>Routing is sound and stable: a problem is called executable exactly if it does not ask for
  hardware only and every backend of its category probes as available; each required backend is
  listed as available or as missing accordingly, in order; and asking again, with the probes cached,
  gives the same answer and changes nothing.\<close>

theorem classify_problem_sound:
  assumes "classify_problem ops h p c = (r, c')"
  shows "(ro_status r = ROUTE_EXECUTABLE \<longleftrightarrow> ps_category p \<noteq> PC_HARDWARE_ONLY \<and>
       list_all (\<lambda>b. prb_available (probe_value ops h c b)) (category_backends (ps_category p))) \<and>
     ro_available_backends r = filter (\<lambda>b. prb_available (probe_value ops h c b)) (category_backends (ps_category p)) \<and>
     ro_missing_backends r = filter (\<lambda>b. \<not> prb_available (probe_value ops h c b)) (category_backends (ps_category p)) \<and>
     classify_problem ops h p c' = (r, c')"
proof -
  let ?bs = "category_backends (ps_category p)"
  obtain ps where all: "probe_all ops h ?bs c = (ps, c')"
    using assms by (auto simp: classify_problem_def Let_def split: prod.splits)
  then have ps: "ps = map (probe_value ops h c) ?bs" and c': "c' = snd (probe_all ops h ?bs c)"
    using probe_all_probes [of ops h ?bs c] by simp_all
  have again: "probe_all ops h ?bs c' = (ps, c')"
    using probe_all_again [of ops h ?bs c] all by simp
  have "classify_problem ops h p c' = (r, c')"
    using assms by (simp add: classify_problem_def again all)
  moreover have "ro_status r = ROUTE_EXECUTABLE \<longleftrightarrow> ps_category p \<noteq> PC_HARDWARE_ONLY \<and>
      list_all (\<lambda>b. prb_available (probe_value ops h c b)) ?bs"
    "ro_available_backends r = filter (\<lambda>b. prb_available (probe_value ops h c b)) ?bs"
    "ro_missing_backends r = filter (\<lambda>b. \<not> prb_available (probe_value ops h c b)) ?bs"
    using assms
    by (auto simp: classify_problem_def Let_def all ps zip_map_self filter_map comp_def
        filter_empty_conv list_all_iff split: if_splits)
  ultimately show ?thesis by blast
qed

definition demo_problem :: problem_spec where
  "demo_problem = \<lparr>ps_name = ''reset'', ps_title = ''reset loop'', ps_category = PC_CONFIGURATION,
     ps_symptoms = [''resets''], ps_target = None, ps_constraints = [], ps_evidence = [],
     ps_desired_claims = []\<rparr>"

definition demo_surroundings :: "(backend_request + backend_response, bool) surroundings" where
  "demo_surroundings = \<lparr>sur_cwd = [''ws''], sur_json = (\<lambda>_. Inr PNone),
     sur_link = (\<lambda>_. demo_link demo_host (\<lambda>_. PNone))\<rparr>"

theorem classify_problem_sound_witness:
  "\<exists>r c'. classify_problem (any_ops demo_surroundings) demo_host demo_problem new_catalog = (r, c') \<and>
     classify_problem (any_ops demo_surroundings) demo_host demo_problem c' = (r, c')"
  using classify_problem_sound [of "any_ops demo_surroundings" demo_host demo_problem new_catalog]
  by (metis prod.exhaust)

end
