(* ===== verification/Fmi.thy ===== *)
theory Fmi
  imports Examples Texts
begin

text \<open>
  Multi-rate schedules, the algebraic loop check and the export of System Structure and
  Parameterization documents (\<open>src/src/ael/fmi.py\<close>, the part before the bridge server).
\<close>

section \<open>Schedules\<close>

record multi_rate_schedule =
  mrs_communication_step_us :: int
  mrs_component_steps_us :: "(string, int option) dict"
  mrs_event_driven :: "string list"
  mrs_non_rollback :: "string list"

text \<open>\<open>if component.step_us\<close>: a step that is given and not zero.\<close>

definition periodic_steps :: "system_component list \<Rightarrow> int list" where
  "periodic_steps cs = filter (\<lambda>s. s \<noteq> 0) (List.map_filter cmp_step_us cs)"

text \<open>\<open>math.gcd(x, *xs)\<close>.\<close>

definition gcd_all :: "int \<Rightarrow> int list \<Rightarrow> int" where
  "gcd_all x xs = fold gcd xs \<bar>x\<bar>"

definition build_schedule :: "system_manifest \<Rightarrow> int \<Rightarrow> multi_rate_schedule" where
  "build_schedule system macro_step_us =
     \<lparr>mrs_communication_step_us = gcd_all macro_step_us (periodic_steps (sys_components system)),
      mrs_component_steps_us = dict_of (map (\<lambda>c. (cmp_id c, cmp_step_us c)) (sys_components system)),
      mrs_event_driven = remdups (map cmp_id (filter cmp_event_driven (sys_components system))),
      mrs_non_rollback = remdups (map cmp_id
        (filter (\<lambda>c. cmp_backend c \<in> {BN_RENODE, BN_NS3, BN_OPENEMS}) (sys_components system)))\<rparr>"

lemma gcd_all_dvd: "x' \<in> set (x # xs) \<Longrightarrow> gcd_all x xs dvd x'"
proof -
  have fold: "fold gcd xs a dvd a" for a :: int and xs
    by (induction xs arbitrary: a) (auto intro: dvd_trans)
  have "y \<in> set xs \<Longrightarrow> fold gcd xs a dvd y" for a y :: int and xs
  proof (induction xs arbitrary: a)
    case (Cons z zs)
    then show ?case using fold [of zs "gcd z a"] by (auto intro: dvd_trans)
  qed simp
  then show "x' \<in> set (x # xs) \<Longrightarrow> gcd_all x xs dvd x'"
    using fold [of xs "\<bar>x\<bar>"] by (auto simp: gcd_all_def)
qed

lemma gcd_all_greatest:
  assumes "\<And>y. y \<in> set (x # xs) \<Longrightarrow> d dvd y" shows "d dvd gcd_all x xs"
proof -
  have "(\<And>y. y \<in> set xs \<Longrightarrow> d dvd y) \<Longrightarrow> d dvd a \<Longrightarrow> d dvd fold gcd xs a" for a :: int
    by (induction xs arbitrary: a) auto
  then show ?thesis using assms by (simp add: gcd_all_def)
qed

lemma gcd_all_pos: "0 < x \<Longrightarrow> 0 < gcd_all x xs"
proof -
  have "0 < a \<Longrightarrow> 0 < fold gcd xs a" for a :: int
    by (induction xs arbitrary: a) auto
  then show "0 < x \<Longrightarrow> 0 < gcd_all x xs" by (simp add: gcd_all_def)
qed

section \<open>Algebraic loops\<close>

text \<open>
  \<open>component_by_id\<close> and the graph of direct feedthrough: a target is added to its source's set
  when the source component has direct feedthrough. The sets are kept as lists; the outcome of the
  search does not depend on the order of a set.
\<close>

type_synonym graph = "(string, string list) dict"

definition add_edge :: "string \<Rightarrow> string \<Rightarrow> graph \<Rightarrow> graph" where
  "add_edge s t g =
     (case dict_get g s of None \<Rightarrow> g | Some ts \<Rightarrow> if t \<in> set ts then g else dict_set s (ts @ [t]) g)"

definition feedthrough_step ::
    "(string, system_component) dict \<Rightarrow> connection \<Rightarrow> graph \<Rightarrow> graph result" where
  "feedthrough_step component_by_id con graph =
     (let source_id = before_first CHR ''.'' (con_source con);
          target_id = before_first CHR ''.'' (con_target con) in
      andThen (require (dict_get component_by_id source_id) (KeyError source_id)) (\<lambda>c.
      Inr (if cmp_direct_feedthrough c then add_edge source_id target_id graph else graph)))"

definition feedthrough_graph :: "system_manifest \<Rightarrow> graph result" where
  "feedthrough_graph system =
     fold_result (feedthrough_step (dict_of (map (\<lambda>c. (cmp_id c, c)) (sys_components system))))
       (sys_connections system) (dict_of (map (\<lambda>c. (cmp_id c, [])) (sys_components system)))"

text \<open>
  The depth first search \<open>visit\<close>: \<open>visiting\<close> are the nodes on the stack, \<open>visited\<close> those that
  are done, which it returns extended.
\<close>

definition loop_error :: exn where
  "loop_error = ValueError ''unsolved direct-feedthrough algebraic loop detected''"

definition unvisited :: "graph \<Rightarrow> string list \<Rightarrow> nat" where
  "unvisited g visiting = card (set (dict_keys g) - set visiting)"

lemma unvisited_less:
  "dict_get g node = Some ts \<Longrightarrow> node \<notin> set visiting \<Longrightarrow> unvisited g (node # visiting) < unvisited g visiting"
  unfolding unvisited_def
proof (rule psubset_card_mono)
  assume "dict_get g node = Some ts" "node \<notin> set visiting"
  then have "node \<in> set (dict_keys g) - set visiting" by (force dest: map_of_SomeD)
  then show "set (dict_keys g) - set (node # visiting) \<subset> set (dict_keys g) - set visiting"
    by auto
qed simp

function visit :: "graph \<Rightarrow> string list \<Rightarrow> string list \<Rightarrow> string \<Rightarrow> string list result"
  and visit_all :: "graph \<Rightarrow> string list \<Rightarrow> string list \<Rightarrow> string list \<Rightarrow> string list result"
where
  "visit g visiting visited node =
     (if node \<in> set visiting then Inl loop_error
      else if node \<in> set visited then Inr visited
      else case dict_get g node of
             None \<Rightarrow> Inl (KeyError node)
           | Some targets \<Rightarrow>
               andThen (visit_all g (node # visiting) visited targets) (\<lambda>done. Inr (node # done)))"
| "visit_all g visiting visited [] = Inr visited"
| "visit_all g visiting visited (t # ts) =
     andThen (visit g visiting visited t) (\<lambda>done. visit_all g visiting done ts)"
  by pat_completeness auto

termination
  by (relation "measures [\<lambda>x. case x of Inl (g, vs, d, n) \<Rightarrow> unvisited g vs | Inr (g, vs, d, ts) \<Rightarrow> unvisited g vs,
      \<lambda>x. case x of Inl _ \<Rightarrow> 0 | Inr (g, vs, d, ts) \<Rightarrow> Suc (length ts)]")
    (auto simp: unvisited_less)

declare visit.simps [simp del]

definition openems_warning :: string where
  "openems_warning =
     ''openEMS is batch/event driven and does not participate in millisecond lockstep''"

definition validate_fmi_topology :: "system_manifest \<Rightarrow> string list result" where
  "validate_fmi_topology system =
     andThen (feedthrough_graph system) (\<lambda>graph.
     andThen (visit_all graph [] [] (dict_keys graph)) (\<lambda>_.
     Inr (if list_ex (\<lambda>c. cmp_backend c = BN_OPENEMS) (sys_components system)
          then [openems_warning] else [])))"

section \<open>The search decides acyclicity\<close>

definition edges :: "graph \<Rightarrow> (string \<times> string) set" where
  "edges g = {(s, t). \<exists>ts. dict_get g s = Some ts \<and> t \<in> set ts}"

definition on_cycle :: "graph \<Rightarrow> string \<Rightarrow> bool" where
  "on_cycle g n \<longleftrightarrow> (n, n) \<in> (edges g)\<^sup>+"

text \<open>No cycle can be reached from a node.\<close>

definition safe :: "graph \<Rightarrow> string \<Rightarrow> bool" where
  "safe g n \<longleftrightarrow> (\<forall>m. (n, m) \<in> (edges g)\<^sup>* \<longrightarrow> \<not> on_cycle g m)"

lemma safe_if_successors_safe:
  assumes "\<And>t. (n, t) \<in> edges g \<Longrightarrow> safe g t"
  shows "safe g n"
  unfolding safe_def
proof (intro allI impI)
  fix m assume nm: "(n, m) \<in> (edges g)\<^sup>*"
  show "\<not> on_cycle g m"
  proof
    assume c: "on_cycle g m"
    obtain t where t: "(n, t) \<in> edges g" "\<exists>k. (t, k) \<in> (edges g)\<^sup>* \<and> on_cycle g k"
    proof (cases "n = m")
      case True
      with c obtain t where "(n, t) \<in> edges g" "(t, n) \<in> (edges g)\<^sup>*"
        by (auto simp: on_cycle_def dest: tranclD)
      with c True that show thesis by blast
    next
      case False
      with nm obtain t where "(n, t) \<in> edges g" "(t, m) \<in> (edges g)\<^sup>*"
        by (meson converse_rtranclE)
      with c that show thesis by blast
    qed
    with assms [OF t(1)] show False by (auto simp: safe_def)
  qed
qed

lemma visit_sound:
  "visit g vs visited n = Inr d \<Longrightarrow> (\<forall>x \<in> set visited. safe g x) \<Longrightarrow>
     (\<forall>x \<in> set d. safe g x) \<and> n \<in> set d \<and> set visited \<subseteq> set d"
  "visit_all g vs visited ts = Inr d \<Longrightarrow> (\<forall>x \<in> set visited. safe g x) \<Longrightarrow>
     (\<forall>x \<in> set d. safe g x) \<and> set ts \<subseteq> set d \<and> set visited \<subseteq> set d"
proof (induction g vs visited n and g vs visited ts arbitrary: d and d rule: visit_visit_all.induct)
  case (1 g vs visited n)
  show ?case
  proof (cases "n \<in> set visited \<or> n \<in> set vs")
    case True
    with 1 show ?thesis by (auto simp: visit.simps [of g vs visited n] split: if_splits)
  next
    case False
    with 1(2) obtain ts e where ts: "dict_get g n = Some ts"
      and e: "visit_all g (n # vs) visited ts = Inr e" and d: "d = n # e"
      by (auto simp: visit.simps [of g vs visited n] andThen_eq_Inr split: option.splits)
    have ih: "(\<forall>x \<in> set e. safe g x) \<and> set ts \<subseteq> set e \<and> set visited \<subseteq> set e"
      using 1(1) [OF _ _ ts e 1(3)] False by blast
    have "safe g n"
      by (rule safe_if_successors_safe) (use ih ts in \<open>auto simp: edges_def\<close>)
    with ih d show ?thesis by auto
  qed
next
  case (2 g vs visited)
  then show ?case by simp
next
  case (3 g vs visited t ts)
  from 3(3) obtain d' where v: "visit g vs visited t = Inr d'" "visit_all g vs d' ts = Inr d"
    by (auto simp: andThen_eq_Inr)
  from 3(1) [OF v(1) 3(4)]
  have h: "\<forall>x \<in> set d'. safe g x" "t \<in> set d'" "set visited \<subseteq> set d'" by auto
  from 3(2) [OF v(1) v(2) h(1)] h show ?case by auto
qed

text \<open>Every node on the stack reaches the node being visited, so meeting one closes a cycle.\<close>

lemma visit_complete:
  "visit g vs visited n = Inl e \<Longrightarrow> (\<forall>v \<in> set vs. (v, n) \<in> (edges g)\<^sup>+) \<Longrightarrow>
     (\<exists>m. on_cycle g m) \<and> e = loop_error \<or> (\<exists>m. dict_get g m = None \<and> e = KeyError m \<and> (m = n \<or> (\<exists>s. (s, m) \<in> edges g)))"
  "visit_all g vs visited ts = Inl e \<Longrightarrow> (\<forall>v \<in> set vs. \<forall>t \<in> set ts. (v, t) \<in> (edges g)\<^sup>+) \<Longrightarrow>
     (\<exists>m. on_cycle g m) \<and> e = loop_error \<or> (\<exists>m. dict_get g m = None \<and> e = KeyError m \<and> (m \<in> set ts \<or> (\<exists>s. (s, m) \<in> edges g)))"
proof (induction g vs visited n and g vs visited ts rule: visit_visit_all.induct)
  case (1 g vs visited n)
  show ?case
  proof (cases "n \<in> set vs")
    case True
    with 1 show ?thesis by (auto simp: visit.simps [of g vs visited n] on_cycle_def)
  next
    case False
    show ?thesis
    proof (cases "dict_get g n")
      case None
      with 1(2) False show ?thesis
        by (auto simp: visit.simps [of g vs visited n] split: if_splits)
    next
      case (Some ts)
      with 1(2) False have e: "visit_all g (n # vs) visited ts = Inl e" "n \<notin> set visited"
        by (auto simp: visit.simps [of g vs visited n] andThen_eq_Inl split: if_splits)
      have "\<forall>v \<in> set (n # vs). \<forall>t \<in> set ts. (v, t) \<in> (edges g)\<^sup>+"
        using 1(3) Some by (fastforce simp: edges_def intro: trancl_into_trancl r_into_trancl)
      from 1(1) [OF False e(2) Some e(1) this] Some show ?thesis
        by (auto simp: edges_def)
    qed
  qed
next
  case (2 g vs visited)
  then show ?case by simp
next
  case (3 g vs visited t ts)
  from 3(3) consider (head) "visit g vs visited t = Inl e"
    | (rest) d where "visit g vs visited t = Inr d" "visit_all g vs d ts = Inl e"
    by (auto simp: andThen_eq_Inl)
  then show ?case
  proof cases
    case head
    from 3(1) [OF this] 3(4) show ?thesis by auto
  next
    case rest
    from 3(2) [OF rest] 3(4) show ?thesis by auto
  qed
qed

lemma search_iff:
  assumes "\<And>s t. (s, t) \<in> edges g \<Longrightarrow> dict_get g t \<noteq> None"
  shows "(\<exists>d. visit_all g [] [] (dict_keys g) = Inr d) \<longleftrightarrow> acyclic (edges g)"
    and "visit_all g [] [] (dict_keys g) = Inl e \<Longrightarrow> e = loop_error"
proof -
  have keys: "dict_get g n \<noteq> None" if "n \<in> set (dict_keys g)" for n
    using that by (simp add: map_of_eq_None_iff)
  have fail: "(\<exists>m. on_cycle g m) \<and> e = loop_error"
    if "visit_all g [] [] (dict_keys g) = Inl e" for e
  proof -
    from visit_complete(2) [OF that] show ?thesis
    proof
      assume "\<exists>m. dict_get g m = None \<and> e = KeyError m \<and>
        (m \<in> set (dict_keys g) \<or> (\<exists>s. (s, m) \<in> edges g))"
      with keys assms show ?thesis by blast
    qed simp_all
  qed
  then show "visit_all g [] [] (dict_keys g) = Inl e \<Longrightarrow> e = loop_error" by blast
  show "(\<exists>d. visit_all g [] [] (dict_keys g) = Inr d) \<longleftrightarrow> acyclic (edges g)"
  proof
    assume "\<exists>d. visit_all g [] [] (dict_keys g) = Inr d"
    then obtain d where "visit_all g [] [] (dict_keys g) = Inr d" by blast
    from visit_sound(2) [OF this] have safe: "\<forall>x \<in> set (dict_keys g). safe g x" by auto
    show "acyclic (edges g)"
      unfolding acyclic_def
    proof (intro allI notI)
      fix x assume c: "(x, x) \<in> (edges g)\<^sup>+"
      then obtain y where "(x, y) \<in> edges g" by (meson tranclD)
      then have "x \<in> set (dict_keys g)" by (force simp: edges_def dest: map_of_SomeD)
      with safe c show False by (auto simp: safe_def on_cycle_def)
    qed
  next
    assume "acyclic (edges g)"
    then show "\<exists>d. visit_all g [] [] (dict_keys g) = Inr d"
      using fail by (cases "visit_all g [] [] (dict_keys g)") (auto simp: acyclic_def on_cycle_def)
  qed
qed

section \<open>The graph of a validated system\<close>

definition feedthrough :: "system_manifest \<Rightarrow> (string \<times> string) set" where
  "feedthrough system =
     {(s, t). \<exists>con \<in> set (sys_connections system). s = before_first CHR ''.'' (con_source con) \<and>
        t = before_first CHR ''.'' (con_target con) \<and>
        (\<exists>c \<in> set (sys_components system). cmp_id c = s \<and> cmp_direct_feedthrough c)}"

lemma edges_add_edge:
  "dict_get g s \<noteq> None \<Longrightarrow> edges (add_edge s t g) = insert (s, t) (edges g)"
  by (auto simp: edges_def add_edge_def split: if_splits)

lemma dom_add_edge: "dict_get (add_edge s t g) n = None \<longleftrightarrow> dict_get g n = None"
  by (auto simp: add_edge_def split: option.splits)

lemma fold_feedthrough:
  assumes "\<forall>con \<in> set cons. dict_get by_id (before_first CHR ''.'' (con_source con)) \<noteq> None"
    and "\<forall>n. dict_get g n = None \<longleftrightarrow> dict_get by_id n = None"
  shows "\<exists>g'. fold_result (feedthrough_step by_id) cons g = Inr g' \<and>
     (\<forall>n. dict_get g' n = None \<longleftrightarrow> dict_get by_id n = None) \<and>
     edges g' = edges g \<union> {(s, t). \<exists>con \<in> set cons. s = before_first CHR ''.'' (con_source con) \<and>
       t = before_first CHR ''.'' (con_target con) \<and>
       (\<exists>c. dict_get by_id s = Some c \<and> cmp_direct_feedthrough c)}"
  using assms
proof (induction cons arbitrary: g)
  case Nil
  then show ?case by simp
next
  case (Cons con cons)
  let ?s = "before_first CHR ''.'' (con_source con)" and ?t = "before_first CHR ''.'' (con_target con)"
  from Cons.prems obtain c where c: "dict_get by_id ?s = Some c" by auto
  let ?g = "if cmp_direct_feedthrough c then add_edge ?s ?t g else g"
  have gs: "dict_get g ?s \<noteq> None" using Cons.prems(2) c by simp
  have "\<forall>n. dict_get ?g n = None \<longleftrightarrow> dict_get by_id n = None"
    using Cons.prems(2) by (simp add: dom_add_edge)
  moreover have "\<forall>con \<in> set cons. dict_get by_id (before_first CHR ''.'' (con_source con)) \<noteq> None"
    using Cons.prems(1) by simp
  ultimately obtain g' where g': "fold_result (feedthrough_step by_id) cons ?g = Inr g'"
    "\<forall>n. dict_get g' n = None \<longleftrightarrow> dict_get by_id n = None"
    "edges g' = edges ?g \<union> {(s, t). \<exists>con \<in> set cons. s = before_first CHR ''.'' (con_source con) \<and>
       t = before_first CHR ''.'' (con_target con) \<and>
       (\<exists>c. dict_get by_id s = Some c \<and> cmp_direct_feedthrough c)}"
    using Cons.IH [of ?g] by blast
  have "feedthrough_step by_id con g = Inr ?g"
    by (simp add: feedthrough_step_def Let_def c)
  moreover have "edges ?g = edges g \<union> (if cmp_direct_feedthrough c then {(?s, ?t)} else {})"
    using edges_add_edge [OF gs] by auto
  ultimately show ?case using g' c by (intro exI [of _ g']) auto
qed

lemma endpoint_component:
  assumes "validate_topology m = Inr m'" and "con \<in> set (sys_connections m)"
  shows "\<exists>c \<in> set (sys_components m). cmp_id c = before_first CHR ''.'' (con_source con)"
    and "\<exists>c \<in> set (sys_components m). cmp_id c = before_first CHR ''.'' (con_target con)"
  using validate_topologyD(3) [OF assms]
  by (auto simp: check_connection_def endpoint_port_def andThen_eq_Inr require_eq_Inr
      dest!: find_by_SomeD)

lemma component_by_id:
  assumes "distinct (map cmp_id cs)"
  shows "dict_get (dict_of (map (\<lambda>c. (cmp_id c, c)) cs)) n = find_by cmp_id n cs"
proof -
  have "dict_get (dict_of (map (\<lambda>c. (cmp_id c, c)) cs)) = map_of (map (\<lambda>c. (cmp_id c, c)) cs)"
    using assms by (intro dict_of_distinct) (simp add: comp_def)
  moreover have "map_of (map (\<lambda>c. (cmp_id c, c)) cs) n = find_by cmp_id n cs"
    by (induction cs) auto
  ultimately show ?thesis by simp
qed

lemma initial_graph:
  "dict_get (dict_of (map (\<lambda>c. (cmp_id c, [])) cs)) n = (if n \<in> cmp_id ` set cs then Some [] else None)"
proof -
  have "map_of (map (\<lambda>c. (cmp_id c, [])) cs) n = (if n \<in> cmp_id ` set cs then Some [] else None)" for cs
    by (induction cs) auto
  from this [of "rev cs"] show ?thesis by (simp add: dict_get_of rev_map)
qed

lemma feedthrough_graph_validated:
  assumes "validate_topology m = Inr m'"
  shows "\<exists>g. feedthrough_graph m = Inr g \<and> edges g = feedthrough m \<and>
     (\<forall>s t. (s, t) \<in> edges g \<longrightarrow> dict_get g t \<noteq> None)"
proof -
  let ?by = "dict_of (map (\<lambda>c. (cmp_id c, c)) (sys_components m))"
  let ?g0 = "dict_of (map (\<lambda>c. (cmp_id c, [] :: string list)) (sys_components m))"
  have d: "distinct (map cmp_id (sys_components m))" by (rule validate_topologyD(2) [OF assms])
  note by_id = component_by_id [OF d]
  have has: "find_by cmp_id n cs \<noteq> None \<longleftrightarrow> (\<exists>c \<in> set cs. cmp_id c = n)"
    for n and cs :: "system_component list"
    unfolding find_by_None by auto
  have src: "\<forall>con \<in> set (sys_connections m). dict_get ?by (before_first CHR ''.'' (con_source con)) \<noteq> None"
    unfolding by_id has using endpoint_component(1) [OF assms] by blast
  have dom: "\<forall>n. dict_get ?g0 n = None \<longleftrightarrow> dict_get ?by n = None"
    by (auto simp: by_id find_by_None initial_graph)
  have e0: "edges ?g0 = {}" by (auto simp: edges_def initial_graph split: if_splits)
  from fold_feedthrough [OF src dom] obtain g
    where g: "feedthrough_graph m = Inr g" "\<forall>n. dict_get g n = None \<longleftrightarrow> dict_get ?by n = None"
    and e: "edges g = {(s, t). \<exists>con \<in> set (sys_connections m).
       s = before_first CHR ''.'' (con_source con) \<and> t = before_first CHR ''.'' (con_target con) \<and>
       (\<exists>c. dict_get ?by s = Some c \<and> cmp_direct_feedthrough c)}"
    unfolding feedthrough_graph_def e0 by auto
  have id: "(\<exists>c. dict_get ?by s = Some c \<and> P c) \<longleftrightarrow> (\<exists>c \<in> set (sys_components m). cmp_id c = s \<and> P c)" for s P
    using d by (auto simp: by_id dest: find_by_SomeD find_by_distinct)
  have "edges g = feedthrough m" unfolding e feedthrough_def id by auto
  moreover have "dict_get g t \<noteq> None" if "(s, t) \<in> edges g" for s t
  proof -
    from that have "\<exists>c \<in> set (sys_components m). cmp_id c = t"
      using endpoint_component(2) [OF assms] by (auto simp: e)
    then show ?thesis using g(2) has [of t "sys_components m"] by (simp add: by_id)
  qed
  ultimately show ?thesis using g(1) by blast
qed

lemma topology_acyclic:
  assumes "validate_topology m = Inr m'"
  shows "(\<exists>ws. validate_fmi_topology m = Inr ws) \<longleftrightarrow> acyclic (feedthrough m)"
    and "validate_fmi_topology m = Inl e \<Longrightarrow> e = loop_error"
proof -
  from feedthrough_graph_validated [OF assms] obtain g
    where g: "feedthrough_graph m = Inr g" "edges g = feedthrough m"
    and t: "\<And>s t. (s, t) \<in> edges g \<Longrightarrow> dict_get g t \<noteq> None" by blast
  note s = search_iff [of g, OF t]
  show "(\<exists>ws. validate_fmi_topology m = Inr ws) \<longleftrightarrow> acyclic (feedthrough m)"
    using s(1) by (simp add: validate_fmi_topology_def g andThen_eq_Inr)
  show "validate_fmi_topology m = Inl e \<Longrightarrow> e = loop_error"
    using s(2) by (auto simp: validate_fmi_topology_def g andThen_eq_Inl)
qed

section \<open>Export\<close>

definition ssp_char :: "char \<Rightarrow> char" where
  "ssp_char c = (if is_alnum c \<or> c = CHR ''_'' then c else CHR ''_'')"

definition ssp_identifier :: "string \<Rightarrow> string" where
  "ssp_identifier value =
     (let identifier = map ssp_char value in
      if identifier = [] \<or> \<not> (is_alpha (hd identifier) \<or> hd identifier = CHR ''_'')
      then ''ael_'' @ identifier else identifier)"

definition fmi_proxy_name :: "backend_name \<Rightarrow> string" where
  "fmi_proxy_name b =
     (if b = BN_RENODE then ''RenodeFmu'' else if b = BN_NGSPICE then ''NgspiceFmu''
      else if b = BN_MODELICA then ''ModelicaFmu'' else if b = BN_NS3 then ''Ns3Fmu''
      else if b = BN_OPENEMS then ''OpenEmsFmu'' else backend_value b)"

fun direction_value :: "port_direction \<Rightarrow> string" where
  "direction_value DIR_input = ''input''"
| "direction_value DIR_output = ''output''"
| "direction_value DIR_bidirectional = ''bidirectional''"

fun ssc_type :: "data_type \<Rightarrow> string option" where
  "ssc_type DT_real = Some ''Real''"
| "ssc_type DT_integer = Some ''Integer''"
| "ssc_type DT_boolean = Some ''Boolean''"
| "ssc_type DT_string = Some ''String''"
| "ssc_type DT_bytes = None"

text \<open>\<open>port.unit and port.unit != "1"\<close>.\<close>

definition given_unit :: "string option \<Rightarrow> bool" where
  "given_unit u \<longleftrightarrow> (case u of None \<Rightarrow> False | Some s \<Rightarrow> s \<noteq> [] \<and> s \<noteq> ''1'')"

definition ssp_connector :: "port \<Rightarrow> node result" where
  "ssp_connector p =
     andThen (require (ssc_type (port_data_type p)) (ValueError ''SSP/FMI does not support port type''))
     (\<lambda>type_name.
       let attributes = (if given_unit (port_unit p) then [(''unit'', the (port_unit p))] else [])
       in Inr (Node ''ssd:Connector''
         [(''name'', port_name p),
          (''kind'', if port_direction p = DIR_bidirectional then ''inout'' else direction_value (port_direction p))]
         [Node (''ssc:'' @ type_name) attributes []]))"

definition ssp_component :: "system_component \<Rightarrow> node result" where
  "ssp_component c =
     andThen (map_result ssp_connector (cmp_ports c)) (\<lambda>connectors.
     Inr (Node ''ssd:Component''
       [(''name'', cmp_id c),
        (''source'', case cmp_model c of
             None \<Rightarrow> ''ael-proxy://'' @ fmi_proxy_name (cmp_backend c)
           | Some m \<Rightarrow> if m = [] then ''ael-proxy://'' @ fmi_proxy_name (cmp_backend c) else m)]
       [Node ''ssd:Connectors'' [] connectors]))"

definition ssp_connection :: "connection \<Rightarrow> node result" where
  "ssp_connection con =
     andThen (require (after_first CHR ''.'' (con_source con)) (ValueError ''not enough values to unpack'')) (\<lambda>sc.
     andThen (require (after_first CHR ''.'' (con_target con)) (ValueError ''not enough values to unpack'')) (\<lambda>tc.
     Inr (Node ''ssd:Connection''
       [(''startElement'', before_first CHR ''.'' (con_source con)), (''startConnector'', sc),
        (''endElement'', before_first CHR ''.'' (con_target con)), (''endConnector'', tc)] [])))"

text \<open>
  \<open>f"{us / 1_000_000:.9f}"\<close>: a whole number of microseconds has six decimals, and the division
  loses less than half a unit of the ninth for steps below ten days.
\<close>

definition step_seconds :: "int \<Rightarrow> string" where
  "step_seconds us = show_int (us div 1000000) @ ''.'' @
     pad_left 6 (show_int (us mod 1000000)) @ ''000''"

definition master_step_us :: "system_component list \<Rightarrow> int" where
  "master_step_us cs =
     (case periodic_steps cs of [] \<Rightarrow> 1000 | s # ss \<Rightarrow> gcd_all s ss)"

definition export_ssp :: "system_manifest \<Rightarrow> node result" where
  "export_ssp system =
     andThen (validate_fmi_topology system) (\<lambda>_.
     andThen (map_result ssp_component (sys_components system)) (\<lambda>elements.
     andThen (map_result ssp_connection (sys_connections system)) (\<lambda>connections.
     let execution_name = ssp_identifier (sys_name system) in
     Inr (Node ''ssd:SystemStructureDescription'' [(''version'', ''1.0''), (''name'', execution_name)]
       [Node ''ssd:System'' [(''name'', execution_name)]
         [Node ''ssd:Elements'' [] elements,
          Node ''ssd:Connections'' [] connections,
          Node ''ssd:Annotations'' []
           [Node ''ssc:Annotation'' [(''type'', ''org.openmodelica'')]
             [Node ''oms:Annotations'' []
               [Node ''oms:SimulationInformation'' []
                 [Node ''oms:FixedStepMaster''
                   [(''description'', ''oms-ma''),
                    (''stepSize'', step_seconds (master_step_us (sys_components system))),
                    (''absoluteTolerance'', ''0.0001''), (''relativeTolerance'', ''0.0001'')] []]]]]]]))))"

text \<open>
  \<open>export_ssp_package\<close>: every component needs an FMU, whose copy becomes its model; the
  package holds the copies and the structure description.
\<close>

definition rewrite_model :: "(string, 'f) dict \<Rightarrow> system_component \<Rightarrow> (system_component \<times> (string \<times> 'f)) result" where
  "rewrite_model fmus c =
     andThen (require (dict_get fmus (cmp_id c)) (ValueError ''missing FMU for component'')) (\<lambda>fmu.
     Inr (c\<lparr>cmp_model := Some (''resources/'' @ cmp_id c @ ''.fmu'')\<rparr>, (cmp_id c @ ''.fmu'', fmu)))"

definition export_ssp_package ::
    "system_manifest \<Rightarrow> (string, 'f) dict \<Rightarrow> (node \<times> (string, 'f) dict) result" where
  "export_ssp_package system fmus =
     andThen (map_result (rewrite_model fmus) (sys_components system)) (\<lambda>rs.
     andThen (export_ssp (system\<lparr>sys_components := map fst rs\<rparr>)) (\<lambda>ssd.
     Inr (ssd, dict_of (map snd rs))))"

section \<open>Facts about the export\<close>

text \<open>The elements below the system node of an exported document, and its connections.\<close>

definition ssd_system :: "node \<Rightarrow> node list" where
  "ssd_system doc = (case node_children doc of [] \<Rightarrow> [] | s # _ \<Rightarrow> node_children s)"

definition ssd_components :: "node \<Rightarrow> node list" where
  "ssd_components doc = node_children (ssd_system doc ! 0)"

definition ssd_connections :: "node \<Rightarrow> node list" where
  "ssd_connections doc = node_children (ssd_system doc ! 1)"

definition ssd_connectors :: "node \<Rightarrow> node list" where
  "ssd_connectors c = node_children (node_children c ! 0)"

lemma split_first_dot:
  assumes "after_first c s = Some b" shows "before_first c s @ c # b = s"
proof -
  from assms have "dropWhile (\<lambda>x. x \<noteq> c) s = c # b"
    unfolding after_first_def by (auto split: list.splits dest: dropWhile_eq_Cons_conv [THEN iffD1])
  then show ?thesis unfolding before_first_def by (metis takeWhile_dropWhile_id)
qed

lemma ssp_connection_endpoints:
  "ssp_connection con = Inr n \<Longrightarrow>
     attr n ''startElement'' @ ''.'' @ attr n ''startConnector'' = con_source con \<and>
     attr n ''endElement'' @ ''.'' @ attr n ''endConnector'' = con_target con"
  by (auto simp: ssp_connection_def andThen_eq_Inr require_eq_Inr attr_def dest: split_first_dot)

lemma ssp_connectors_names:
  "list_all2 (\<lambda>p n. ssp_connector p = Inr n) ps ns \<Longrightarrow> map (\<lambda>n. attr n ''name'') ns = map port_name ps"
  by (induction rule: list_all2_induct)
    (auto simp: ssp_connector_def andThen_eq_Inr Let_def attr_def)

lemma ssp_component_names:
  "ssp_component c = Inr n \<Longrightarrow> attr n ''name'' = cmp_id c \<and>
     map (\<lambda>k. attr k ''name'') (ssd_connectors n) = map port_name (cmp_ports c)"
  by (auto simp: ssp_component_def andThen_eq_Inr map_result_eq_Inr attr_def ssd_connectors_def
      dest: ssp_connectors_names)

lemma ssp_char_ok: "is_alnum (ssp_char c) \<or> ssp_char c = CHR ''_''"
  by (simp add: ssp_char_def)

section \<open>Properties\<close>

text \<open>The communication step of a schedule is positive, divides the macro step and the step of
  every periodic component, and is the largest such step.\<close>

theorem build_schedule_gcd:
  assumes "0 < macro_step_us"
  shows "0 < mrs_communication_step_us (build_schedule system macro_step_us) \<and>
     (\<forall>d. d dvd mrs_communication_step_us (build_schedule system macro_step_us) \<longleftrightarrow>
        d dvd macro_step_us \<and>
        (\<forall>c \<in> set (sys_components system). \<forall>s. cmp_step_us c = Some s \<longrightarrow> d dvd s))"
proof -
  let ?q = "gcd_all macro_step_us (periodic_steps (sys_components system))"
  have q: "?q dvd y" if "y \<in> set (macro_step_us # periodic_steps (sys_components system))" for y
    by (rule gcd_all_dvd [OF that])
  have p: "s \<in> set (periodic_steps (sys_components system)) \<longleftrightarrow>
      s \<noteq> 0 \<and> (\<exists>c \<in> set (sys_components system). cmp_step_us c = Some s)" for s
    by (auto simp: periodic_steps_def List.map_filter_def image_iff)
  have "d dvd ?q \<longleftrightarrow> d dvd macro_step_us \<and>
        (\<forall>c \<in> set (sys_components system). \<forall>s. cmp_step_us c = Some s \<longrightarrow> d dvd s)" for d
  proof
    assume d: "d dvd ?q"
    have "d dvd s" if "c \<in> set (sys_components system)" "cmp_step_us c = Some s" for c s
      using that q [of s] p [of s] d by (cases "s = 0") (auto intro: dvd_trans)
    with d q [of macro_step_us] show "d dvd macro_step_us \<and>
        (\<forall>c \<in> set (sys_components system). \<forall>s. cmp_step_us c = Some s \<longrightarrow> d dvd s)"
      by (auto intro: dvd_trans)
  next
    assume d: "d dvd macro_step_us \<and>
        (\<forall>c \<in> set (sys_components system). \<forall>s. cmp_step_us c = Some s \<longrightarrow> d dvd s)"
    show "d dvd ?q" by (rule gcd_all_greatest) (use d p in auto)
  qed
  with gcd_all_pos [OF assms] show ?thesis by (simp add: build_schedule_def)
qed

theorem build_schedule_gcd_witness:
  "mrs_communication_step_us (build_schedule (demo_system True) 5000) = 1000 \<and>
   (1000 :: int) dvd 5000 \<and> \<not> (2000 :: int) dvd 5000"
proof -
  have e: "mrs_communication_step_us (build_schedule (demo_system True) 5000) = 1000" by code_simp
  have "(1000 :: int) dvd mrs_communication_step_us (build_schedule (demo_system True) 5000) \<longleftrightarrow>
        (1000 :: int) dvd 5000 \<and> (\<forall>c \<in> set (sys_components (demo_system True)). \<forall>s. cmp_step_us c = Some s \<longrightarrow> 1000 dvd s)"
    using build_schedule_gcd [of 5000 "demo_system True"] by simp
  with e show ?thesis by simp
qed

text \<open>C13. For every system that passed topology validation, the algebraic loop check accepts exactly
  the systems whose direct feedthrough connections form no cycle, and it refuses the others with the
  loop error and no other exception.\<close>

theorem loop_check_decides_acyclicity:
  assumes "validate_topology system = Inr system"
  shows "(if acyclic (feedthrough system) then \<exists>ws. validate_fmi_topology system = Inr ws
     else validate_fmi_topology system = Inl loop_error)"
  using topology_acyclic [OF assms] by (cases "validate_fmi_topology system") auto

theorem loop_check_decides_acyclicity_witness:
  "acyclic (feedthrough (demo_system False)) \<and> \<not> acyclic (feedthrough (demo_system True))"
proof -
  have "validate_fmi_topology (demo_system False) = Inr []"
    "validate_fmi_topology (demo_system True) = Inl loop_error" by code_simp+
  with loop_check_decides_acyclicity [OF demo_system_valid [of False]]
    loop_check_decides_acyclicity [OF demo_system_valid [of True]]
  show ?thesis by (auto split: if_splits)
qed

text \<open>An exported structure description names every component and every port of the system, in
  order, and each of its connections, read back as element, dot, connector, is the connection of the
  manifest: nothing is dropped, added or rerouted.\<close>

theorem export_ssp_faithful:
  assumes "export_ssp system = Inr doc"
  shows "list_all2 (\<lambda>c n. attr n ''name'' = cmp_id c \<and>
        map (\<lambda>k. attr k ''name'') (ssd_connectors n) = map port_name (cmp_ports c))
      (sys_components system) (ssd_components doc) \<and>
    list_all2 (\<lambda>con n. attr n ''startElement'' @ ''.'' @ attr n ''startConnector'' = con_source con \<and>
        attr n ''endElement'' @ ''.'' @ attr n ''endConnector'' = con_target con)
      (sys_connections system) (ssd_connections doc)"
proof -
  from assms obtain els cons
    where els: "list_all2 (\<lambda>c n. ssp_component c = Inr n) (sys_components system) els"
      and cons: "list_all2 (\<lambda>c n. ssp_connection c = Inr n) (sys_connections system) cons"
      and doc: "ssd_components doc = els" "ssd_connections doc = cons"
    by (auto simp: export_ssp_def andThen_eq_Inr map_result_eq_Inr Let_def ssd_components_def
        ssd_connections_def ssd_system_def)
  show ?thesis
    unfolding doc
    by (intro conjI list_all2_mono [OF els ssp_component_names]
        list_all2_mono [OF cons ssp_connection_endpoints])
qed

theorem export_ssp_faithful_witness:
  "\<exists>doc. export_ssp (demo_system False) = Inr doc \<and> length (ssd_connections doc) = 3"
proof -
  have "map_sum id (\<lambda>_. ()) (export_ssp (demo_system False)) = Inr ()" by code_simp
  then obtain doc where doc: "export_ssp (demo_system False) = Inr doc"
    by (cases "export_ssp (demo_system False)") auto
  from export_ssp_faithful [OF this] have "length (ssd_connections doc) = 3"
    by (auto simp: demo_system_def dest!: list_all2_lengthD)
  with doc show ?thesis by blast
qed

definition ssp_shape :: "string \<Rightarrow> bool" where
  "ssp_shape s \<longleftrightarrow> s \<noteq> [] \<and> (is_alpha (hd s) \<or> hd s = CHR ''_'') \<and>
     list_all (\<lambda>c. is_alnum c \<or> c = CHR ''_'') s"

text \<open>The identifier written into a structure description always has the shape its consumer
  needs (a letter or underscore, then letters, digits and underscores), and exactly the names that
  have it already are kept as they are.\<close>

theorem ssp_identifier_shape:
  "ssp_shape (ssp_identifier s) \<and> (ssp_identifier s = s \<longleftrightarrow> ssp_shape s)"
proof -
  have map: "list_all (\<lambda>c. is_alnum c \<or> c = CHR ''_'') (map ssp_char s)"
    by (simp add: list_all_iff ssp_char_ok)
  have id: "list_all (\<lambda>c. is_alnum c \<or> c = CHR ''_'') s \<Longrightarrow> map ssp_char s = s"
    by (induction s) (auto simp: ssp_char_def)
  have ael: "is_alpha (hd ''ael_'')" "list_all (\<lambda>c. is_alnum c \<or> c = CHR ''_'') ''ael_''" by code_simp+
  have shape: "ssp_shape (ssp_identifier s)"
    using map ael by (auto simp: ssp_shape_def ssp_identifier_def Let_def)
  moreover have "ssp_identifier s = s" if "ssp_shape s"
    using that id by (auto simp: ssp_shape_def ssp_identifier_def Let_def)
  ultimately show ?thesis by metis
qed

end
