(* ===== verification/Scheduler.thy ===== *)
theory Scheduler
  imports Catalog Fmi
begin

text \<open>
  The deterministic scheduler (\<open>src/src/ael/scheduler.py\<close>): it prepares an adapter for every
  component, steps them on a common time grid, carries outputs to the connected inputs one step
  later, injects stimuli and faults, evaluates the assertions, and leaves the evidence of the run
  whatever happened. It is written over any class of adapters.
\<close>

section \<open>State\<close>

text \<open>
  \<open>ru_abandoned\<close> are adapters that were created but never entered into \<open>adapters\<close>, as their
  preparation raised: the code drops the reference to them.
\<close>

record 'a run_state =
  ru_recorder :: recorder
  ru_catalog :: "'a catalog"
  ru_adapters :: "(string, 'a) dict"
  ru_abandoned :: "'a list"
  ru_metrics :: "(string, pyval) dict"
  ru_pending :: "(int, (string \<times> pyval) list) dict"

text \<open>
  The surroundings: the host, digests and the clock; when the control plane cancels and when the
  wall clock has run out, at each virtual time; and the files an adapter's tool has left in the
  workspace when a step returns.
\<close>

record 'a run_env =
  re_host :: host
  re_digests :: digests
  re_cancelled :: "int \<Rightarrow> bool"
  re_timed_out :: "int \<Rightarrow> bool"
  re_written :: "'a \<Rightarrow> (path \<times> evidence_file) list"
  re_started_at :: int
  re_completed_at :: int

record run_result =
  out_run_id :: string
  out_status :: run_status
  out_evidence_dir :: path
  out_error :: "string option"

definition on_recorder :: "(recorder, 'r) prog \<Rightarrow> ('a run_state, 'r) prog" where
  "on_recorder m s = (case m (ru_recorder s) of (r, rec) \<Rightarrow> (r, s\<lparr>ru_recorder := rec\<rparr>))"

text \<open>A method of \<open>adapters[component_id]\<close>.\<close>

definition on_adapter :: "string \<Rightarrow> ('a, 'r) prog \<Rightarrow> ('a run_state, 'r) prog" where
  "on_adapter cid m s =
     (case dict_get (ru_adapters s) cid of
        None \<Rightarrow> (Inl (KeyError (CHR 0x27 # cid @ [CHR 0x27])), s)
      | Some a \<Rightarrow> (case m a of (r, a') \<Rightarrow> (r, s\<lparr>ru_adapters := dict_set cid a' (ru_adapters s)\<rparr>)))"

section \<open>Preparation\<close>

definition text_or_none :: "string option \<Rightarrow> string" where
  "text_or_none t = (case t of None \<Rightarrow> ''None'' | Some t \<Rightarrow> t)"

definition probe_component :: "'a adapter_ops \<Rightarrow> 'a run_env \<Rightarrow> backend_name \<Rightarrow> ('a run_state, adapter_probe) prog" where
  "probe_component ops env b s =
     (case probe_backend ops (re_host env) b (ru_catalog s) of (p, c) \<Rightarrow> (Inr p, s\<lparr>ru_catalog := c\<rparr>))"

definition prepare_adapter :: "'a adapter_ops \<Rightarrow> system_component \<Rightarrow> int \<Rightarrow> 'a \<Rightarrow> ('a run_state, unit) prog" where
  "prepare_adapter ops c seed a s =
     (case ao_prepare ops (rec_fs (ru_recorder s)) c seed a of
        (Inl e, a') \<Rightarrow> (Inl e, s\<lparr>ru_abandoned := a' # ru_abandoned s\<rparr>)
      | (Inr _, a') \<Rightarrow> (Inr (), s\<lparr>ru_adapters := dict_set (cmp_id c) a' (ru_adapters s)\<rparr>))"

definition prepare_component ::
    "'a adapter_ops \<Rightarrow> 'a run_env \<Rightarrow> experiment_spec \<Rightarrow> system_component \<Rightarrow> ('a run_state, unit) prog" where
  "prepare_component ops env e c =
     bindP (probe_component ops env (cmp_backend c)) (\<lambda>p.
     bindP (guardP (prb_available p) (ExperimentBlocked
       (cmp_id c @ ''/'' @ backend_value (cmp_backend c) @ '': '' @ text_or_none (prb_reason p)))) (\<lambda>_.
     bindP (reads (\<lambda>s. create_adapter (cmp_backend c) (ru_catalog s))) (\<lambda>a.
     prepare_adapter ops c (exp_seed e) a)))"

section \<open>Timeline\<close>

definition quantum :: "experiment_spec \<Rightarrow> system_manifest \<Rightarrow> int" where
  "quantum e sys = gcd_all (exp_macro_step_us e) (List.map_filter cmp_step_us (sys_components sys))"

text \<open>\<open>range(0, duration, q)\<close> for a positive step.\<close>

definition grid :: "int \<Rightarrow> int \<Rightarrow> int list" where
  "grid duration q = map (\<lambda>i. int i * q) [0..<nat ((duration + q - 1) div q)]"

text \<open>The items of each time, in their order.\<close>

definition group_at :: "('x \<Rightarrow> int) \<Rightarrow> 'x list \<Rightarrow> (int, 'x list) dict" where
  "group_at at_us xs = fold (\<lambda>x. dict_append (at_us x) x) xs (dict_of (map (\<lambda>x. (at_us x, [])) xs))"

definition connection_map :: "connection list \<Rightarrow> (string, string list) dict" where
  "connection_map cs = fold (\<lambda>c. dict_append (con_source c) (con_target c)) cs []"

definition inject_at :: "'a adapter_ops \<Rightarrow> int \<Rightarrow> string \<Rightarrow> string \<Rightarrow> pyval \<Rightarrow> ('a run_state, unit) prog" where
  "inject_at ops t owner target val =
     bindP (on_adapter (before_first CHR ''.'' owner) (ao_inject ops target val t)) (\<lambda>es.
     on_recorder (add_events es))"

definition inject_pending :: "'a adapter_ops \<Rightarrow> int \<Rightarrow> ('a run_state, unit) prog" where
  "inject_pending ops t =
     bindP (gets (\<lambda>s. dict_get_or (ru_pending s) t [])) (\<lambda>ps.
     bindP (modify (\<lambda>s. s\<lparr>ru_pending := dict_del t (ru_pending s)\<rparr>)) (\<lambda>_.
     forP (\<lambda>(target, val). inject_at ops t target target val) ps))"

definition inject_stimuli :: "'a adapter_ops \<Rightarrow> experiment_spec \<Rightarrow> int \<Rightarrow> ('a run_state, unit) prog" where
  "inject_stimuli ops e t =
     forP (\<lambda>x. inject_at ops t (stm_target x) (stm_target x) (stm_value x))
       (dict_get_or (group_at stm_at_us (exp_stimuli e)) t [])"

definition inject_faults :: "'a adapter_ops \<Rightarrow> experiment_spec \<Rightarrow> int \<Rightarrow> ('a run_state, unit) prog" where
  "inject_faults ops e t =
     forP (\<lambda>x. inject_at ops t (flt_target x) (flt_target x @ ''.fault.'' @ flt_type x) (PDict (flt_parameters x)))
       (dict_get_or (group_at flt_at_us (exp_faults e)) t [])"

section \<open>One step\<close>

fun show_special :: "pyval \<Rightarrow> string" where
  "show_special (PFloat PosInf) = ''inf''"
| "show_special (PFloat NegInf) = ''-inf''"
| "show_special _ = ''nan''"

fun finite_value :: "pyval \<Rightarrow> bool" where
  "finite_value (PFloat f) = is_finite f"
| "finite_value _ = True"

definition run_reject_non_finite :: "(string, pyval) dict \<Rightarrow> unit result" where
  "run_reject_non_finite values =
     (case find (\<lambda>(_, v). \<not> finite_value v) values of
        None \<Rightarrow> Inr ()
      | Some (k, v) \<Rightarrow> Inl (FloatingPointError (''non-finite value for '' @ k @ '': '' @ show_special v)))"

definition metric_key :: "string \<Rightarrow> string \<Rightarrow> string" where
  "metric_key cid name = cid @ ''.'' @ name"

definition set_metric :: "string \<Rightarrow> pyval \<Rightarrow> 'a run_state \<Rightarrow> 'a run_state" where
  "set_metric name v s = s\<lparr>ru_metrics := dict_set name v (ru_metrics s)\<rparr>"

definition forward :: "int \<Rightarrow> pyval \<Rightarrow> string \<Rightarrow> 'a run_state \<Rightarrow> 'a run_state" where
  "forward due v target s = s\<lparr>ru_pending := dict_append due (target, v) (ru_pending s)\<rparr>"

text \<open>What a step gave: the metrics of the component, and its outputs, which go to the inputs they
  are connected to when the step is over.\<close>

definition record_outputs ::
    "(string, string list) dict \<Rightarrow> string \<Rightarrow> int \<Rightarrow> adapter_step_result \<Rightarrow> 'a run_state \<Rightarrow> 'a run_state" where
  "record_outputs cm cid due r s =
     fold (\<lambda>(p, v) s. fold (forward due v) (dict_get_or cm (metric_key cid p) []) (set_metric (metric_key cid p) v s))
       (sr_outputs r) (fold (\<lambda>(n, v). set_metric (metric_key cid n) v) (sr_metrics r) s)"

definition component_step_us :: "int \<Rightarrow> system_component \<Rightarrow> int" where
  "component_step_us q c = (case cmp_step_us c of Some n \<Rightarrow> if n = 0 then q else n | None \<Rightarrow> q)"

definition files_written :: "'a run_env \<Rightarrow> string \<Rightarrow> 'a run_state \<Rightarrow> 'a run_state" where
  "files_written env cid s =
     (case dict_get (ru_adapters s) cid of None \<Rightarrow> s
      | Some a \<Rightarrow> s\<lparr>ru_recorder := (ru_recorder s)\<lparr>rec_files :=
          dict_merge (rec_files (ru_recorder s)) (re_written env a)\<rparr>\<rparr>)"

definition step_component ::
    "'a adapter_ops \<Rightarrow> 'a run_env \<Rightarrow> (string, string list) dict \<Rightarrow> int \<Rightarrow> int \<Rightarrow> system_component \<Rightarrow>
     ('a run_state, unit) prog" where
  "step_component ops env cm q t c =
     (let step_us = component_step_us q c in
      if t mod step_us \<noteq> 0 then ret ()
      else
        bindP (on_adapter (cmp_id c) (ao_step ops t step_us)) (\<lambda>r.
        bindP (modify (files_written env (cmp_id c))) (\<lambda>_.
        bindP (lift (run_reject_non_finite (sr_outputs r))) (\<lambda>_.
        bindP (lift (run_reject_non_finite (sr_metrics r))) (\<lambda>_.
        bindP (on_recorder (add_events (sr_events r))) (\<lambda>_.
        bindP (on_recorder (add_artifacts (cmp_id c) (t + step_us) (sr_artifacts r))) (\<lambda>_.
        modify (record_outputs cm (cmp_id c) (t + step_us) r))))))))"

section \<open>Snapshots and the loop\<close>

definition snapshot_adapter :: "'a adapter_ops \<Rightarrow> string \<Rightarrow> string \<Rightarrow> ('a run_state, unit) prog" where
  "snapshot_adapter ops cid name =
     bindP (gets (\<lambda>s. (rec_fs (ru_recorder s), snapshot_dir (ru_recorder s) @ [name]))) (\<lambda>(fs, dest).
     bindP (on_adapter cid (ao_snapshot ops fs dest)) (\<lambda>w.
     case w of None \<Rightarrow> ret () | Some (p, c) \<Rightarrow> on_recorder (put_file p c)))"

definition adapter_ids :: "('a run_state, string list) prog" where
  "adapter_ids = gets (\<lambda>s. dict_keys (ru_adapters s))"

definition take_checkpoint :: "'a adapter_ops \<Rightarrow> experiment_spec \<Rightarrow> int \<Rightarrow> int \<Rightarrow> ('a run_state, unit) prog" where
  "take_checkpoint ops e q t =
     (case exp_checkpoint_interval_us e of
        Some i \<Rightarrow>
          if i \<noteq> 0 \<and> (t + q) mod i = 0
          then bindP adapter_ids (forP (\<lambda>cid.
            snapshot_adapter ops cid (cid @ ''-'' @ time_name (t + q) @ ''.snapshot'')))
          else ret ()
      | None \<Rightarrow> ret ())"

definition tick ::
    "'a adapter_ops \<Rightarrow> 'a run_env \<Rightarrow> experiment_spec \<Rightarrow> system_manifest \<Rightarrow> int \<Rightarrow> ('a run_state, unit) prog" where
  "tick ops env e sys t =
     bindP (inject_pending ops t) (\<lambda>_.
     bindP (inject_stimuli ops e t) (\<lambda>_.
     bindP (inject_faults ops e t) (\<lambda>_.
     bindP (forP (step_component ops env (connection_map (sys_connections sys)) (quantum e sys) t)
       (sys_components sys)) (\<lambda>_.
     take_checkpoint ops e (quantum e sys) t))))"

text \<open>The loop; the result tells whether it was cancelled.\<close>

fun run_times ::
    "'a adapter_ops \<Rightarrow> 'a run_env \<Rightarrow> experiment_spec \<Rightarrow> system_manifest \<Rightarrow> int list \<Rightarrow> ('a run_state, bool) prog" where
  "run_times ops env e sys [] = ret False"
| "run_times ops env e sys (t # ts) =
     (if re_cancelled env t then ret True
      else
        bindP (guardP (\<not> re_timed_out env t)
          (TimeoutError (''experiment exceeded '' @ show_int (exp_timeout_s e) @ ''s wall timeout''))) (\<lambda>_.
        bindP (tick ops env e sys t) (\<lambda>_. run_times ops env e sys ts)))"

section \<open>Assertions and the result\<close>

text \<open>A metric that was never set is \<open>None\<close>.\<close>

fun evaluate :: "pyval \<Rightarrow> operator \<Rightarrow> pyval \<Rightarrow> bool result" where
  "evaluate actual OP_eq expected = Inr (py_eq actual expected)"
| "evaluate actual OP_ne expected = Inr (\<not> py_eq actual expected)"
| "evaluate actual OP_contains expected = (if actual = PNone then Inr False else py_in expected actual)"
| "evaluate actual OP_lt expected = (if actual = PNone then Inr False else py_lt actual expected)"
| "evaluate actual OP_le expected = (if actual = PNone then Inr False else py_le actual expected)"
| "evaluate actual OP_gt expected = (if actual = PNone then Inr False else py_lt expected actual)"
| "evaluate actual OP_ge expected = (if actual = PNone then Inr False else py_le expected actual)"

definition check_assertion :: "assertion \<Rightarrow> bool \<Rightarrow> ('a run_state, bool) prog" where
  "check_assertion a critical_failure =
     bindP (gets (\<lambda>s. dict_get_or (ru_metrics s) (asr_metric a) PNone)) (\<lambda>actual.
     bindP (lift (evaluate actual (asr_operator a) (asr_expected a))) (\<lambda>passed.
     bindP (on_recorder (add_assertion a actual passed)) (\<lambda>_.
     ret (critical_failure \<or> asr_critical a \<and> \<not> passed))))"

definition run_body ::
    "'a adapter_ops \<Rightarrow> 'a run_env \<Rightarrow> experiment_spec \<Rightarrow> system_manifest \<Rightarrow>
     ('a run_state, run_status \<times> string option) prog" where
  "run_body ops env e sys =
     bindP (forP (prepare_component ops env e) (sys_components sys)) (\<lambda>_.
     bindP (guardP (quantum e sys \<noteq> 0) (ValueError ''range() arg 3 must not be zero'')) (\<lambda>_.
     bindP (run_times ops env e sys (grid (exp_duration_us e) (quantum e sys))) (\<lambda>cancelled.
     if cancelled then ret (RS_CANCELLED, Some ''experiment cancelled by control plane'')
     else bindP (foldP check_assertion (exp_assertions e) False) (\<lambda>critical_failure.
       ret (if critical_failure then RS_FAILED else RS_PASSED, None)))))"

definition snapshot_quietly :: "'a adapter_ops \<Rightarrow> string \<Rightarrow> ('a run_state, unit) prog" where
  "snapshot_quietly ops cid =
     handleP (snapshot_adapter ops cid (cid @ ''.json'')) (\<lambda>_. ret ())"

fun run_failure :: "'a adapter_ops \<Rightarrow> exn \<Rightarrow> ('a run_state, run_status \<times> string option) prog" where
  "run_failure ops (ExperimentBlocked m) = ret (RS_BLOCKED, Some m)"
| "run_failure ops ex =
     bindP (bindP adapter_ids (forP (snapshot_quietly ops))) (\<lambda>_. ret (RS_FAILED, Some (exn_text ex)))"

definition shutdown_all :: "'a adapter_ops \<Rightarrow> 'a run_state \<Rightarrow> 'a run_state" where
  "shutdown_all ops s = s\<lparr>ru_adapters := map (\<lambda>(cid, a). (cid, snd (ao_shutdown ops a))) (ru_adapters s)\<rparr>"

text \<open>The run, from the recorder its constructor made.\<close>

definition run_recorded ::
    "'a adapter_ops \<Rightarrow> 'a run_env \<Rightarrow> experiment_spec \<Rightarrow> system_manifest \<Rightarrow> ('a run_state, run_result) prog" where
  "run_recorded ops env e sys =
     bindP (finallyP (handleP (run_body ops env e sys) (run_failure ops)) (shutdown_all ops)) (\<lambda>(status, err).
     bindP (on_recorder (finalize (re_digests env) (re_completed_at env) status err)) (\<lambda>_.
     gets (\<lambda>s. \<lparr>out_run_id = rec_run_id (ru_recorder s), out_status = status,
       out_evidence_dir = run_dir (ru_recorder s), out_error = err\<rparr>)))"

definition start_state :: "'a catalog \<Rightarrow> recorder \<Rightarrow> 'a run_state" where
  "start_state c rec = \<lparr>ru_recorder = rec, ru_catalog = c, ru_adapters = [], ru_abandoned = [],
     ru_metrics = [], ru_pending = []\<rparr>"

definition run ::
    "'a adapter_ops \<Rightarrow> 'a run_env \<Rightarrow> string \<Rightarrow> experiment_spec \<Rightarrow> system_manifest \<Rightarrow> 'a catalog \<Rightarrow> recorder \<Rightarrow>
     run_result result \<times> 'a run_state" where
  "run ops env run_id e sys c world =
     (case new_recorder (re_started_at env) run_id e sys world of
        Inl ex \<Rightarrow> (Inl ex, start_state c world)
      | Inr rec \<Rightarrow> run_recorded ops env e sys (start_state c rec))"

end
