(* ===== verification/Runs.thy ===== *)
theory Runs
  imports Scheduler
begin

text \<open>
  What the runs of the scheduler guarantee: adapters are released, stimuli and outputs on the time
  grid are delivered, the verdict follows from the assertions, a blocked run did nothing; and what
  they do not: items off the grid, and the evidence of a run whose model is missing.
\<close>

section \<open>Invariants of the state\<close>

lemma keeps_on_recorder:
  "(\<And>s. I s \<Longrightarrow> I (s\<lparr>ru_recorder := snd (m (ru_recorder s))\<rparr>)) \<Longrightarrow> keeps I (on_recorder m)"
  by (simp add: keeps_def on_recorder_def case_prod_beta)

lemma keeps_on_adapter:
  "(\<And>s a. I s \<Longrightarrow> dict_get (ru_adapters s) cid = Some a \<Longrightarrow>
      I (s\<lparr>ru_adapters := dict_set cid (snd (m a)) (ru_adapters s)\<rparr>)) \<Longrightarrow> keeps I (on_adapter cid m)"
  by (simp add: keeps_def on_adapter_def case_prod_beta split: option.split)

text \<open>
  An invariant of runs that looks only at the recorder, by a predicate that the operations of the
  recorder keep.
\<close>

definition recorder_inv :: "(recorder \<Rightarrow> bool) \<Rightarrow> 'a run_state \<Rightarrow> bool" where
  "recorder_inv J s \<longleftrightarrow> J (ru_recorder s)"

lemma recorder_inv_on_recorder [keeps_intros]:
  "keeps J m \<Longrightarrow> keeps (recorder_inv J) (on_recorder m)"
  by (rule keeps_on_recorder) (simp add: recorder_inv_def keepsD)

lemma recorder_inv_on_adapter [keeps_intros]: "keeps (recorder_inv J) (on_adapter cid m)"
  by (rule keeps_on_adapter) (simp add: recorder_inv_def)

section \<open>Adapters are released\<close>

lemma finalize_keeps_adapters: "keeps (\<lambda>s. P (ru_adapters s)) (on_recorder m)"
  by (rule keeps_on_recorder) simp

context adapter
begin

lemma shutdown_all_releases: "list_all (\<lambda>(_, a). released a) (ru_adapters (shutdown_all ops s))"
  by (auto simp: shutdown_all_def list_all_iff shutdown_releases)

lemma run_recorded_releases:
  "list_all (\<lambda>(_, a). released a) (ru_adapters (snd (run_recorded ops env e sys s)))"
proof -
  obtain r t where body: "finallyP (handleP (run_body ops env e sys) (run_failure ops)) (shutdown_all ops) s =
      (r, shutdown_all ops t)"
    by (simp add: finallyP_def case_prod_beta)
  have "keeps (\<lambda>s. list_all (\<lambda>(_, a). released a) (ru_adapters s))
      (bindP (on_recorder (finalize (re_digests env) (re_completed_at env) status err)) (\<lambda>_.
        gets (\<lambda>s. \<lparr>out_run_id = rec_run_id (ru_recorder s), out_status = status,
          out_evidence_dir = run_dir (ru_recorder s), out_error = err\<rparr>)))" for status err
    by (intro keeps_intros finalize_keeps_adapters)
  from keepsD [OF this shutdown_all_releases] show ?thesis
    unfolding run_recorded_def bindP_def [of "finallyP _ _"] body
    by (cases r) (auto simp: shutdown_all_releases split: prod.split)
qed

lemma run_releases: "list_all (\<lambda>(_, a). released a) (ru_adapters (snd (run ops env run_id e sys c world)))"
  by (simp add: run_def start_state_def run_recorded_releases split: sum.split)

end

section \<open>The time grid\<close>

lemma in_grid: "0 < q \<Longrightarrow> t \<in> set (grid d q) \<longleftrightarrow> 0 \<le> t \<and> t < d \<and> q dvd t"
proof -
  assume q: "0 < q"
  have bound: "i < (d + q - 1) div q \<longleftrightarrow> i * q < d" for i
  proof -
    have "i < (d + q - 1) div q \<longleftrightarrow> i + 1 \<le> (d + q - 1) div q" by (rule add1_zle_eq [symmetric])
    also have "\<dots> \<longleftrightarrow> (i + 1) * q \<le> d + q - 1"
    proof
      assume "i + 1 \<le> (d + q - 1) div q"
      then have "(i + 1) * q \<le> (d + q - 1) div q * q" using q by (simp add: mult_right_mono)
      also have "\<dots> = d + q - 1 - (d + q - 1) mod q" by (simp add: minus_mod_eq_div_mult)
      also have "\<dots> \<le> d + q - 1" using pos_mod_sign [OF q, of "d + q - 1"] by linarith
      finally show "(i + 1) * q \<le> d + q - 1" .
    next
      assume "(i + 1) * q \<le> d + q - 1"
      then have "(i + 1) * q div q \<le> (d + q - 1) div q" using q by (intro zdiv_mono1)
      then show "i + 1 \<le> (d + q - 1) div q" using q by simp
    qed
    also have "\<dots> \<longleftrightarrow> i * q < d" by (simp add: algebra_simps) linarith
    finally show ?thesis .
  qed
  show ?thesis
  proof
    assume "t \<in> set (grid d q)"
    then obtain i where "t = int i * q" "i < nat ((d + q - 1) div q)"
      unfolding grid_def by fastforce
    then have "t = int i * q" "int i < (d + q - 1) div q" by (simp_all add: zless_nat_eq_int_zless)
    with q bound show "0 \<le> t \<and> t < d \<and> q dvd t" by auto
  next
    assume t: "0 \<le> t \<and> t < d \<and> q dvd t"
    then obtain i where i: "t = i * q" by (metis dvd_def mult.commute)
    with t q have "0 \<le> i" by (simp add: zero_le_mult_iff)
    moreover have "i < (d + q - 1) div q" using t i bound by simp
    ultimately show "t \<in> set (grid d q)"
      by (auto simp: grid_def i zless_nat_eq_int_zless intro!: image_eqI [of _ _ "nat i"])
  qed
qed

lemma grid_split:
  assumes "t \<in> set (grid d q)"
  obtains ts us where "grid d q = ts @ t # us"
  using assms by (metis split_list)

lemma quantum_pos: "0 < exp_macro_step_us e \<Longrightarrow> 0 < quantum e sys"
  by (simp add: quantum_def gcd_all_pos)

lemma quantum_dvd_step:
  assumes "c \<in> set (sys_components sys)" shows "quantum e sys dvd component_step_us (quantum e sys) c"
  using assms unfolding quantum_def component_step_us_def
  by (auto simp: map_filter_def split: option.split intro!: gcd_all_dvd)
    (force simp: image_iff)

lemma group_at_get: "dict_get_or (group_at f xs) t [] = filter (\<lambda>x. f x = t) xs"
proof -
  have "dict_get_or (fold (\<lambda>x. dict_append (f x) x) xs d) t [] = dict_get_or d t [] @ filter (\<lambda>x. f x = t) xs" for d
    by (induction xs arbitrary: d) (auto simp: dict_get_or_def dict_get_append)
  moreover have "dict_get_or (dict_of (map (\<lambda>x. (f x, [])) xs)) t [] = []"
    by (auto simp: dict_get_or_def dict_get_of rev_map split: option.split dest!: map_of_SomeD)
  ultimately show ?thesis by (simp add: group_at_def)
qed

section \<open>Items off the timeline\<close>

definition on_timeline :: "experiment_spec \<Rightarrow> system_manifest \<Rightarrow> int \<Rightarrow> bool" where
  "on_timeline e sys t \<longleftrightarrow> 0 \<le> t \<and> t < exp_duration_us e \<and> quantum e sys dvd t"

text \<open>The experiment without the stimuli and faults that lie off the timeline.\<close>

definition timeline_only :: "experiment_spec \<Rightarrow> system_manifest \<Rightarrow> experiment_spec" where
  "timeline_only e sys = e\<lparr>exp_stimuli := filter (\<lambda>x. on_timeline e sys (stm_at_us x)) (exp_stimuli e),
     exp_faults := filter (\<lambda>x. on_timeline e sys (flt_at_us x)) (exp_faults e)\<rparr>"

lemma timeline_only_simps [simp]:
  "exp_seed (timeline_only e sys) = exp_seed e" "exp_duration_us (timeline_only e sys) = exp_duration_us e"
  "exp_timeout_s (timeline_only e sys) = exp_timeout_s e"
  "exp_checkpoint_interval_us (timeline_only e sys) = exp_checkpoint_interval_us e"
  "exp_assertions (timeline_only e sys) = exp_assertions e" "quantum (timeline_only e sys) sys = quantum e sys"
  by (simp_all add: timeline_only_def quantum_def)

lemma tick_timeline_only:
  assumes "on_timeline e sys t" shows "tick ops env (timeline_only e sys) sys t = tick ops env e sys t"
proof -
  have "filter (\<lambda>x. stm_at_us x = t) (exp_stimuli (timeline_only e sys)) = filter (\<lambda>x. stm_at_us x = t) (exp_stimuli e)"
    "filter (\<lambda>x. flt_at_us x = t) (exp_faults (timeline_only e sys)) = filter (\<lambda>x. flt_at_us x = t) (exp_faults e)"
    using assms by (auto simp: timeline_only_def intro: filter_cong)
  then show ?thesis
    by (simp add: tick_def inject_stimuli_def inject_faults_def group_at_get take_checkpoint_def)
qed

lemma run_times_timeline_only:
  "\<forall>t \<in> set ts. on_timeline e sys t \<Longrightarrow>
     run_times ops env (timeline_only e sys) sys ts = run_times ops env e sys ts"
  by (induction ts) (simp_all add: tick_timeline_only)

lemma run_body_timeline_only:
  assumes "0 < exp_macro_step_us e"
  shows "run_body ops env (timeline_only e sys) sys = run_body ops env e sys"
proof -
  have "\<forall>t \<in> set (grid (exp_duration_us e) (quantum e sys)). on_timeline e sys t"
    using in_grid [OF quantum_pos [OF assms, of sys]] by (auto simp: on_timeline_def)
  note same = run_times_timeline_only [OF this]
  show ?thesis
    unfolding run_body_def prepare_component_def [abs_def] timeline_only_simps same ..
qed

section \<open>Outputs that are due\<close>

text \<open>Every pending injection is due on the grid, at a time not before the next tick.\<close>

definition due_from :: "int \<Rightarrow> int \<Rightarrow> 'a run_state \<Rightarrow> bool" where
  "due_from q t s \<longleftrightarrow> (\<forall>k. dict_get (ru_pending s) k \<noteq> None \<longrightarrow> t \<le> k \<and> q dvd k)"

lemma due_from_on_recorder [keeps_intros]: "keeps (due_from q t) (on_recorder m)"
  by (rule keeps_on_recorder) (simp add: due_from_def)

lemma due_from_on_adapter [keeps_intros]: "keeps (due_from q t) (on_adapter cid m)"
  by (rule keeps_on_adapter) (simp add: due_from_def)

lemma due_from_inject_at [keeps_intros]: "keeps (due_from q t) (inject_at ops u owner target v)"
  unfolding inject_at_def by (intro keeps_intros)

lemma due_from_inject_pending:
  assumes "due_from q t s" "0 < q" "q dvd t" shows "due_from q (t + q) (snd (inject_pending ops t s))"
proof -
  have "due_from q (t + q) (s\<lparr>ru_pending := dict_del t (ru_pending s)\<rparr>)"
    using assms by (auto simp: due_from_def) (metis add.commute dvdE dvd_diff_commute le_less zdvd_imp_le zless_iff_Suc_zadd diff_ge_0_iff_ge diff_gt_0_iff_gt dvd_diff le_diff_eq)
  moreover have "keeps (due_from q (t + q)) (forP (\<lambda>(target, v). inject_at ops t target target v) ps)" for ps
    by (intro keeps_intros)
  ultimately show ?thesis by (simp add: inject_pending_def keepsD)
qed

lemma due_from_forward:
  "due_from q t s \<Longrightarrow> t \<le> due \<Longrightarrow> q dvd due \<Longrightarrow> due_from q t (forward due v target s)"
  by (auto simp: due_from_def forward_def dict_get_append split: if_splits)

lemma due_from_record_outputs:
  assumes "due_from q t s" "t \<le> due" "q dvd due" shows "due_from q t (record_outputs cm cid due r s)"
proof -
  have metric: "due_from q t (set_metric n v s) = due_from q t s" for n v s
    by (simp add: due_from_def set_metric_def)
  have f: "due_from q t s \<Longrightarrow> due_from q t (fold (forward due v) targets s)" for v targets s
    by (induction targets arbitrary: s) (simp_all add: due_from_forward assms)
  have "due_from q t s \<Longrightarrow> due_from q t (fold (\<lambda>(n, v). set_metric (metric_key cid n) v) ms s)" for ms s
    by (induction ms arbitrary: s) (auto simp: metric)
  moreover have "due_from q t s \<Longrightarrow> due_from q t (fold (\<lambda>(p, v) s. fold (forward due v)
      (dict_get_or cm (metric_key cid p) []) (set_metric (metric_key cid p) v s)) os s)" for os s
    by (induction os arbitrary: s) (auto simp: metric f)
  ultimately show ?thesis using assms unfolding record_outputs_def by blast
qed

lemma due_from_files_written: "due_from q t (files_written env cid s) = due_from q t s"
  by (simp add: due_from_def files_written_def split: option.split)

lemma due_from_step_component:
  assumes "q dvd t" "q dvd component_step_us q c" "0 < component_step_us q c"
  shows "keeps (due_from q (t + q)) (step_component ops env cm q t c)"
proof -
  have "t + q \<le> t + component_step_us q c" "q dvd t + component_step_us q c"
    using assms by (simp_all add: zdvd_imp_le)
  then show ?thesis
    unfolding step_component_def Let_def
    by (intro keeps_intros) (simp_all add: due_from_files_written due_from_record_outputs)
qed

lemma due_from_snapshot_adapter [keeps_intros]: "keeps (due_from q t) (snapshot_adapter ops cid name)"
  unfolding snapshot_adapter_def by (intro keeps_intros)

lemma due_from_tick:
  assumes "due_from q t s" "q = quantum e sys" "q dvd t" "0 < q"
    and "\<And>c. c \<in> set (sys_components sys) \<Longrightarrow> 0 < component_step_us q c"
  shows "due_from q (t + q) (snd (tick ops env e sys t s))"
proof -
  have step: "keeps (due_from q (t + q)) (step_component ops env cm q t c)"
    if "c \<in> set (sys_components sys)" for cm c
    using that assms quantum_dvd_step [OF that, of e] by (intro due_from_step_component) simp_all
  have steps: "set cs \<subseteq> set (sys_components sys) \<Longrightarrow>
      keeps (due_from q (t + q)) (forP (step_component ops env cm q t) cs)" for cm cs
    by (induction cs) (auto intro: keeps_intros step)
  have rest: "keeps (due_from q (t + q)) (bindP (inject_stimuli ops e t) (\<lambda>_.
     bindP (inject_faults ops e t) (\<lambda>_.
     bindP (forP (step_component ops env (connection_map (sys_connections sys)) q t)
       (sys_components sys)) (\<lambda>_. take_checkpoint ops e q t))))"
    unfolding inject_stimuli_def inject_faults_def take_checkpoint_def adapter_ids_def
    by (intro keeps_intros steps subset_refl)
  show ?thesis
    using due_from_inject_pending [OF assms(1,4,3), of ops] keepsD [OF rest]
    by (cases "inject_pending ops t s"; cases "fst (inject_pending ops t s)")
      (auto simp: tick_def bindP_def [of "inject_pending ops t"] assms(2))
qed

lemma due_from_prepare: "keeps (due_from q t) (prepare_component ops env e c)"
proof -
  have "keeps (due_from q t) (probe_component ops env b)" for b
    by (simp add: keeps_def probe_component_def due_from_def case_prod_beta)
  moreover have "keeps (due_from q t) (prepare_adapter ops c seed a)" for a seed
    by (simp add: keeps_def prepare_adapter_def due_from_def case_prod_beta split: sum.split)
  ultimately show ?thesis unfolding prepare_component_def by (intro keeps_intros)
qed

text \<open>Two parts of a loop that is not cancelled.\<close>

lemma run_times_Cons:
  "run_times ops env e sys (t # ts) s = (Inr False, s') \<longleftrightarrow> \<not> re_cancelled env t \<and> \<not> re_timed_out env t \<and>
     (\<exists>s1. tick ops env e sys t s = (Inr (), s1) \<and> run_times ops env e sys ts s1 = (Inr False, s'))"
  by (auto simp: bindP_eq_Inr guardP_eq_Inr)

lemma run_times_append:
  "run_times ops env e sys (ts @ us) s = (Inr False, s2) \<longleftrightarrow>
     (\<exists>s1. run_times ops env e sys ts s = (Inr False, s1) \<and> run_times ops env e sys us s1 = (Inr False, s2))"
  by (induction ts arbitrary: s) (auto simp: bindP_eq_Inr guardP_eq_Inr)

lemma run_times_due_from:
  assumes "run_times ops env e sys (map (\<lambda>i. int i * q) [m..<n]) s = (Inr False, s')"
    and "due_from q (int m * q) s" "q = quantum e sys" "0 < q" "m \<le> n"
    and "\<And>c. c \<in> set (sys_components sys) \<Longrightarrow> 0 < component_step_us q c"
  shows "due_from q (int n * q) s'"
  using assms
proof (induction "n - m" arbitrary: m s)
  case (Suc k)
  then have "[m..<n] = m # [Suc m..<n]" by (simp add: upt_rec)
  with Suc.prems(1) obtain s1 where t: "tick ops env e sys (int m * q) s = (Inr (), s1)"
    and rest: "run_times ops env e sys (map (\<lambda>i. int i * q) [Suc m..<n]) s1 = (Inr False, s')"
    by (auto simp: run_times_Cons simp del: run_times.simps)
  have "due_from q (int (Suc m) * q) s1"
    using due_from_tick [OF Suc.prems(2,3) _ Suc.prems(4,6), of ops env] t by (simp add: algebra_simps)
  then show ?case using Suc.hyps rest Suc.prems by (intro Suc.hyps(1) [of "Suc m" s1]) simp_all
qed simp

section \<open>What stays in the recorder\<close>

text \<open>Predicates on recorders that writing files and storing contents do not touch, and of these the
  ones that later events do not touch either.\<close>

definition report_inv :: "(recorder \<Rightarrow> bool) \<Rightarrow> bool" where
  "report_inv J \<longleftrightarrow> (\<forall>r fs. J r \<longrightarrow> J (r\<lparr>rec_files := fs\<rparr>)) \<and> (\<forall>r cas. J r \<longrightarrow> J (r\<lparr>rec_cas := cas\<rparr>))"

definition event_inv :: "(recorder \<Rightarrow> bool) \<Rightarrow> bool" where
  "event_inv J \<longleftrightarrow> report_inv J \<and> (\<forall>r es. J r \<longrightarrow> J (r\<lparr>rec_events := rec_events r @ es\<rparr>))"

lemma report_inv_put_file: "report_inv J \<Longrightarrow> keeps J (put_file p c)"
  by (simp add: put_file_def keeps_def report_inv_def)

lemma report_inv_put_cas: "report_inv J \<Longrightarrow> keeps J (put_cas dg c)"
  by (simp add: put_cas_def keeps_def report_inv_def split: prod.split)

lemma report_inv_add_artifacts: "report_inv J \<Longrightarrow> keeps J (add_artifacts cid t items)"
  unfolding add_artifacts_def add_artifact_def
  by (intro keeps_intros report_inv_put_file) (simp_all add: copy_tree_def report_inv_def)

lemma report_inv_finalize: "report_inv J \<Longrightarrow> keeps J (finalize dg now status err)"
  unfolding finalize_def hash_file_def hash_model_def
  by (intro keeps_intros report_inv_put_file report_inv_put_cas)

lemma event_inv_add_events: "event_inv J \<Longrightarrow> keeps J (add_events es)"
  unfolding add_events_def by (intro keeps_intros) (simp add: event_inv_def)

lemma recorder_inv_files_written: "report_inv J \<Longrightarrow> recorder_inv J s \<Longrightarrow> recorder_inv J (files_written env cid s)"
  by (simp add: recorder_inv_def files_written_def report_inv_def split: option.split)

lemma ru_recorder_outputs [simp]: "ru_recorder (record_outputs cm cid due r s) = ru_recorder s"
proof -
  have f: "ru_recorder (fold (forward due v) targets s) = ru_recorder s" for v targets s
    by (induction targets arbitrary: s) (simp_all add: forward_def)
  have m: "ru_recorder (fold (\<lambda>(n, v). set_metric (metric_key cid n) v) ms s) = ru_recorder s" for ms s
    by (induction ms arbitrary: s) (auto simp: set_metric_def)
  have outs: "ru_recorder (fold (\<lambda>(p, v) s. fold (forward due v)
      (dict_get_or cm (metric_key cid p) []) (set_metric (metric_key cid p) v s)) os s) = ru_recorder s" for os s
    by (induction os arbitrary: s) (auto simp: set_metric_def f)
  show ?thesis unfolding record_outputs_def by (rule trans [OF outs m])
qed

lemma recorder_inv_snapshot_adapter: "report_inv J \<Longrightarrow> keeps (recorder_inv J) (snapshot_adapter ops cid name)"
  unfolding snapshot_adapter_def by (intro keeps_intros report_inv_put_file)

lemma recorder_inv_inject_at: "event_inv J \<Longrightarrow> keeps (recorder_inv J) (inject_at ops t owner target v)"
  unfolding inject_at_def by (intro keeps_intros event_inv_add_events)

lemma recorder_inv_inject_pending: "event_inv J \<Longrightarrow> keeps (recorder_inv J) (inject_pending ops t)"
  unfolding inject_pending_def
  by (intro keeps_intros recorder_inv_inject_at) (simp_all add: recorder_inv_def)

lemma recorder_inv_step_component:
  assumes "event_inv J" shows "keeps (recorder_inv J) (step_component ops env cm q t c)"
proof -
  have r: "report_inv J" using assms by (simp add: event_inv_def)
  show ?thesis
    unfolding step_component_def Let_def
    by (intro keeps_intros event_inv_add_events assms report_inv_add_artifacts r)
      (simp_all add: recorder_inv_files_written r, simp add: recorder_inv_def)
qed

lemma recorder_inv_rest:
  assumes "event_inv J"
  shows "keeps (recorder_inv J) (inject_faults ops e t)" "keeps (recorder_inv J) (inject_stimuli ops e t)"
    "keeps (recorder_inv J) (take_checkpoint ops e q t)"
  using assms unfolding inject_faults_def inject_stimuli_def take_checkpoint_def adapter_ids_def event_inv_def
  by (intro keeps_intros recorder_inv_inject_at recorder_inv_snapshot_adapter assms; simp)+

lemma recorder_inv_tick: "event_inv J \<Longrightarrow> keeps (recorder_inv J) (tick ops env e sys t)"
  unfolding tick_def
  by (intro keeps_intros recorder_inv_rest recorder_inv_inject_pending recorder_inv_step_component)

lemma recorder_inv_run_times: "event_inv J \<Longrightarrow> keeps (recorder_inv J) (run_times ops env e sys ts)"
proof (induction ts)
  case (Cons t ts)
  then show ?case
    unfolding run_times.simps by (intro keeps_intros recorder_inv_tick)
qed simp

lemma recorder_inv_prepare: "keeps (recorder_inv J) (prepare_component ops env e c)"
proof -
  have "keeps (recorder_inv J) (probe_component ops env b)" for b
    by (simp add: keeps_def probe_component_def recorder_inv_def case_prod_beta)
  moreover have "keeps (recorder_inv J) (prepare_adapter ops c seed a)" for a seed
    by (simp add: keeps_def prepare_adapter_def recorder_inv_def case_prod_beta split: sum.split)
  ultimately show ?thesis unfolding prepare_component_def by (intro keeps_intros)
qed

section \<open>Runs that complete\<close>

lemma finalize_keeps_reports:
  assumes "finalize dg now status err r = (x, r')"
  shows "rec_events r' = rec_events r" "rec_assertion_results r' = rec_assertion_results r"
proof -
  have "keeps (\<lambda>q. rec_events q = rec_events r \<and> rec_assertion_results q = rec_assertion_results r)
      (finalize dg now status err)"
    by (rule report_inv_finalize) (simp add: report_inv_def)
  from keepsD [OF this, of r] assms show "rec_events r' = rec_events r"
    "rec_assertion_results r' = rec_assertion_results r" by simp_all
qed

text \<open>What the assertions come to on the metrics of a run.\<close>

definition metric_of :: "(string, pyval) dict \<Rightarrow> assertion \<Rightarrow> pyval" where
  "metric_of ms a = dict_get_or ms (asr_metric a) PNone"

definition holds_on :: "(string, pyval) dict \<Rightarrow> assertion \<Rightarrow> bool" where
  "holds_on ms a \<longleftrightarrow> evaluate (metric_of ms a) (asr_operator a) (asr_expected a) = Inr True"

definition judged :: "(string, pyval) dict \<Rightarrow> assertion \<Rightarrow> assertion_result" where
  "judged ms a = \<lparr>ar_metric = asr_metric a, ar_operator = asr_operator a, ar_expected = asr_expected a,
     ar_actual = metric_of ms a, ar_unit = asr_unit a, ar_critical = asr_critical a, ar_passed = holds_on ms a\<rparr>"

lemma check_assertion_Inr:
  assumes "check_assertion a crit s = (Inr crit', s')"
  shows "crit' = (crit \<or> asr_critical a \<and> \<not> holds_on (ru_metrics s) a)"
    "s' = s\<lparr>ru_recorder := (ru_recorder s)\<lparr>rec_assertion_results :=
       rec_assertion_results (ru_recorder s) @ [judged (ru_metrics s) a]\<rparr>\<rparr>"
  using assms
  by (auto simp: check_assertion_def bindP_def on_recorder_def add_assertion_def metric_of_def
      holds_on_def judged_def split: sum.splits)

lemma check_assertions_Inr:
  assumes "foldP check_assertion as crit s = (Inr crit', s')"
  shows "ru_metrics s' = ru_metrics s \<and> ru_pending s' = ru_pending s \<and> rec_events (ru_recorder s') = rec_events (ru_recorder s) \<and>
    rec_assertion_results (ru_recorder s') =
      rec_assertion_results (ru_recorder s) @ map (judged (ru_metrics s)) as \<and>
    (crit' \<longleftrightarrow> crit \<or> list_ex (\<lambda>a. asr_critical a \<and> \<not> holds_on (ru_metrics s) a) as)"
  using assms
proof (induction as arbitrary: crit s)
  case (Cons a as)
  from Cons.prems obtain c1 s1 where one: "check_assertion a crit s = (Inr c1, s1)"
    and rest: "foldP check_assertion as c1 s1 = (Inr crit', s')"
    by (auto simp: bindP_eq_Inr)
  from Cons.IH [OF rest] check_assertion_Inr [OF one] show ?case by auto
qed simp

lemma run_failure_error: "run_failure ops ex s = (Inr (status, err), s') \<Longrightarrow> err \<noteq> None"
  by (cases ex) (auto simp: bindP_eq_Inr)

text \<open>A run without an error went through all its stages.\<close>

lemma run_completed:
  assumes "run ops env run_id e sys c world = (Inr res, s)" and "out_error res = None"
  obtains rec s1 s2 crit t where
    "new_recorder (re_started_at env) run_id e sys world = Inr rec"
    "forP (prepare_component ops env e) (sys_components sys) (start_state c rec) = (Inr (), s1)"
    "quantum e sys \<noteq> 0"
    "run_times ops env e sys (grid (exp_duration_us e) (quantum e sys)) s1 = (Inr False, s2)"
    "foldP check_assertion (exp_assertions e) False s2 = (Inr crit, t)"
    "out_status res = (if crit then RS_FAILED else RS_PASSED)"
    "ru_metrics s = ru_metrics t" "ru_pending s = ru_pending t"
    "rec_events (ru_recorder s) = rec_events (ru_recorder t)"
    "rec_assertion_results (ru_recorder s) = rec_assertion_results (ru_recorder t)"
proof -
  obtain rec where rec: "new_recorder (re_started_at env) run_id e sys world = Inr rec"
    and r: "run_recorded ops env e sys (start_state c rec) = (Inr res, s)"
    using assms(1) by (auto simp: run_def split: sum.splits)
  from r obtain status t b where
    body: "handleP (run_body ops env e sys) (run_failure ops) (start_state c rec) = (Inr (status, None), t)"
    and fin: "on_recorder (finalize (re_digests env) (re_completed_at env) status None) (shutdown_all ops t) =
      (Inr b, s)"
    and status: "out_status res = status"
    using assms(2) by (auto simp: run_recorded_def bindP_eq_Inr finallyP_def split: prod.splits)
  have "run_body ops env e sys (start_state c rec) = (Inr (status, None), t)"
    using body by (auto simp: handleP_def dest: run_failure_error split: prod.splits sum.splits)
  then obtain s1 s2 crit where body: "forP (prepare_component ops env e) (sys_components sys) (start_state c rec) = (Inr (), s1)"
    "quantum e sys \<noteq> 0"
    "run_times ops env e sys (grid (exp_duration_us e) (quantum e sys)) s1 = (Inr False, s2)"
    "foldP check_assertion (exp_assertions e) False s2 = (Inr crit, t)"
    "status = (if crit then RS_FAILED else RS_PASSED)"
    by (auto simp: run_body_def bindP_eq_Inr guardP_eq_Inr split: if_splits)
  from fin obtain rec' where f: "finalize (re_digests env) (re_completed_at env) status None (ru_recorder t) = (Inr b, rec')"
    and s: "s = (shutdown_all ops t)\<lparr>ru_recorder := rec'\<rparr>"
    by (auto simp: on_recorder_def shutdown_all_def split: prod.splits)
  show ?thesis
    by (rule that [OF rec body(1-4)]) (simp_all add: status body(5) s shutdown_all_def finalize_keeps_reports [OF f])
qed

section \<open>Delivered stimuli\<close>

text \<open>Events up to their numbers.\<close>

definition unnumbered :: "event list \<Rightarrow> event list" where
  "unnumbered es = map (\<lambda>e. e\<lparr>ev_sequence := 0\<rparr>) es"

definition recorded :: "event list \<Rightarrow> recorder \<Rightarrow> bool" where
  "recorded es r \<longleftrightarrow> sublist (unnumbered es) (unnumbered (rec_events r))"

lemma event_inv_recorded: "event_inv (recorded es)"
  by (auto simp: event_inv_def report_inv_def recorded_def unnumbered_def sublist_def) blast

lemma recorded_add_events:
  assumes "add_events es r = (x, r')" shows "recorded es r'"
proof -
  have "\<exists>fs. add_events es r = (Inr (), r\<lparr>rec_events := rec_events r @ fs\<rparr>) \<and> unnumbered fs = unnumbered es" for es r
  proof (induction es arbitrary: r)
    case (Cons e es)
    let ?e = "e\<lparr>ev_sequence := int (length (rec_events r))\<rparr>"
    from Cons [of "r\<lparr>rec_events := rec_events r @ [?e]\<rparr>"] obtain fs where
      "add_events es (r\<lparr>rec_events := rec_events r @ [?e]\<rparr>) =
        (Inr (), r\<lparr>rec_events := (rec_events r @ [?e]) @ fs\<rparr>)" "unnumbered fs = unnumbered es" by auto
    then show ?case by (intro exI [of _ "?e # fs"]) (simp add: add_events_def unnumbered_def)
  qed (simp add: add_events_def unnumbered_def)
  then obtain fs where "r' = r\<lparr>rec_events := rec_events r @ fs\<rparr>" "unnumbered fs = unnumbered es"
    using assms by (metis snd_conv)
  then show ?thesis by (auto simp: recorded_def sublist_def) (metis append_Nil2 map_append unnumbered_def)
qed

lemma inject_at_Inr:
  assumes "inject_at ops t owner target v s = (Inr (), s')"
  obtains a a' es where "ao_inject ops target v t a = (Inr es, a')" "recorder_inv (recorded es) s'"
proof -
  from assms obtain es s1 where adapter: "on_adapter (before_first CHR ''.'' owner) (ao_inject ops target v t) s = (Inr es, s1)"
    and rec: "on_recorder (add_events es) s1 = (Inr (), s')"
    by (auto simp: inject_at_def bindP_eq_Inr)
  from adapter obtain a a' where "ao_inject ops target v t a = (Inr es, a')"
    by (auto simp: on_adapter_def split: option.splits prod.splits)
  moreover from rec have "recorder_inv (recorded es) s'"
    using recorded_add_events [of es "ru_recorder s1"]
    by (auto simp: on_recorder_def recorder_inv_def split: prod.splits)
  ultimately show thesis by (rule that)
qed

lemma run_times_delivers:
  assumes "run_times ops env e sys ts s = (Inr False, s')" and "x \<in> set (exp_stimuli e)" and "stm_at_us x \<in> set ts"
  obtains a a' es where "ao_inject ops (stm_target x) (stm_value x) (stm_at_us x) a = (Inr es, a')"
    "recorder_inv (recorded es) s'"
proof -
  obtain ts1 ts2 where ts: "ts = ts1 @ stm_at_us x # ts2" using assms(3) by (metis split_list)
  with assms(1) obtain s1 s2 where tick: "tick ops env e sys (stm_at_us x) s1 = (Inr (), s2)"
    and after: "run_times ops env e sys ts2 s2 = (Inr False, s')"
    by (auto simp: run_times_append run_times_Cons simp del: run_times.simps)
  let ?f = "\<lambda>x. inject_at ops (stm_at_us x) (stm_target x) (stm_target x) (stm_value x)"
  from tick obtain u1 u2 where
    inject: "inject_stimuli ops e (stm_at_us x) u1 = (Inr (), u2)"
    and rest: "bindP (inject_faults ops e (stm_at_us x)) (\<lambda>_.
      bindP (forP (step_component ops env (connection_map (sys_connections sys)) (quantum e sys) (stm_at_us x))
        (sys_components sys)) (\<lambda>_. take_checkpoint ops e (quantum e sys) (stm_at_us x))) u2 = (Inr (), s2)"
    by (auto simp: tick_def bindP_eq_Inr)
  have "x \<in> set (filter (\<lambda>y. stm_at_us y = stm_at_us x) (exp_stimuli e))" using assms(2) by simp
  then obtain w1 w2 w3 where one: "inject_at ops (stm_at_us x) (stm_target x) (stm_target x) (stm_value x) w1 = (Inr (), w2)"
    and others: "forP (\<lambda>y. inject_at ops (stm_at_us x) (stm_target y) (stm_target y) (stm_value y))
      (w3 :: stimulus list) w2 = (Inr (), u2)"
    by (elim forP_split [OF inject [unfolded inject_stimuli_def group_at_get]]) (rule that)
  from one obtain a a' es where i: "ao_inject ops (stm_target x) (stm_value x) (stm_at_us x) a = (Inr es, a')"
    and r: "recorder_inv (recorded es) w2" by (rule inject_at_Inr)
  note inv = event_inv_recorded [of es]
  have "keeps (recorder_inv (recorded es)) (forP (\<lambda>y. inject_at ops (stm_at_us x) (stm_target y) (stm_target y)
      (stm_value y)) w3)"
    by (intro keeps_intros recorder_inv_inject_at inv)
  from keepsD [OF this r] have "recorder_inv (recorded es) u2" by (simp add: others)
  moreover have "keeps (recorder_inv (recorded es)) (bindP (inject_faults ops e (stm_at_us x)) (\<lambda>_.
      bindP (forP (step_component ops env (connection_map (sys_connections sys)) (quantum e sys) (stm_at_us x))
        (sys_components sys)) (\<lambda>_. take_checkpoint ops e (quantum e sys) (stm_at_us x))))"
    by (intro keeps_intros recorder_inv_rest recorder_inv_step_component inv)
  ultimately have s2: "recorder_inv (recorded es) s2" using rest keepsD by fastforce
  from keepsD [OF recorder_inv_run_times [OF inv] this, of ops env e sys ts2] have "recorder_inv (recorded es) s'"
    by (simp add: after)
  with i show thesis by (rule that)
qed

section \<open>Metrics are finite\<close>

definition finite_metrics :: "'a run_state \<Rightarrow> bool" where
  "finite_metrics s \<longleftrightarrow> list_all (\<lambda>(_, v). finite_value v) (ru_metrics s)"

lemma reject_non_finite_Inr:
  "run_reject_non_finite vs = Inr u \<longleftrightarrow> list_all (\<lambda>(_, v). finite_value v) vs"
  by (auto simp: run_reject_non_finite_def list_all_iff find_None_iff find_Some_iff
      intro!: bexI [OF _ nth_mem] split: option.split)

lemma finite_metrics_set: "finite_metrics s \<Longrightarrow> finite_value v \<Longrightarrow> finite_metrics (set_metric n v s)"
proof -
  have "set (dict_set k v d) \<subseteq> insert (k, v) (set d)" for k v and d :: "(string, pyval) dict"
    by (induction d) auto
  then show "finite_metrics s \<Longrightarrow> finite_value v \<Longrightarrow> finite_metrics (set_metric n v s)"
    by (fastforce simp: finite_metrics_def set_metric_def list_all_iff)
qed

lemma finite_metrics_outputs:
  assumes "finite_metrics s" "list_all (\<lambda>(_, v). finite_value v) (sr_outputs r)"
    "list_all (\<lambda>(_, v). finite_value v) (sr_metrics r)"
  shows "finite_metrics (record_outputs cm cid due r s)"
proof -
  have f: "finite_metrics (fold (forward due v) targets s) = finite_metrics s" for v targets s
    by (induction targets arbitrary: s) (simp_all add: forward_def finite_metrics_def)
  have "list_all (\<lambda>(_, v). finite_value v) ms \<Longrightarrow> finite_metrics s \<Longrightarrow>
      finite_metrics (fold (\<lambda>(n, v). set_metric (metric_key cid n) v) ms s)" for ms s
    by (induction ms arbitrary: s) (auto simp: finite_metrics_set)
  moreover have "list_all (\<lambda>(_, v). finite_value v) os \<Longrightarrow> finite_metrics s \<Longrightarrow>
      finite_metrics (fold (\<lambda>(p, v) s. fold (forward due v)
        (dict_get_or cm (metric_key cid p) []) (set_metric (metric_key cid p) v s)) os s)" for os s
    by (induction os arbitrary: s) (auto simp: finite_metrics_set f)
  ultimately show ?thesis using assms unfolding record_outputs_def by blast
qed

lemma finite_metrics_on_recorder [keeps_intros]: "keeps finite_metrics (on_recorder m)"
  by (rule keeps_on_recorder) (simp add: finite_metrics_def)

lemma finite_metrics_on_adapter [keeps_intros]: "keeps finite_metrics (on_adapter cid m)"
  by (rule keeps_on_adapter) (simp add: finite_metrics_def)

lemma keeps_checked:
  "(r = Inr () \<Longrightarrow> keeps I m) \<Longrightarrow> keeps I (bindP (lift r) (\<lambda>_. m))"
  by (cases r) (simp_all add: keeps_def)

lemma finite_metrics_step_component: "keeps finite_metrics (step_component ops env cm q t c)"
proof -
  have written: "finite_metrics s \<Longrightarrow> finite_metrics (files_written env cid s)" for s cid
    by (simp add: files_written_def finite_metrics_def split: option.split)
  show ?thesis
    unfolding step_component_def Let_def
    by (intro keeps_if keeps_pure keeps_bind finite_metrics_on_adapter finite_metrics_on_recorder
        keeps_modify keeps_checked)
      (simp_all add: written reject_non_finite_Inr finite_metrics_outputs)
qed

lemma finite_metrics_tick: "keeps finite_metrics (tick ops env e sys t)"
  unfolding tick_def inject_pending_def inject_stimuli_def inject_faults_def inject_at_def
    take_checkpoint_def adapter_ids_def snapshot_adapter_def
  by (intro keeps_intros finite_metrics_step_component) (simp add: finite_metrics_def)

lemma finite_metrics_run_times: "keeps finite_metrics (run_times ops env e sys ts)"
proof (induction ts)
  case (Cons t ts)
  then show ?case
    unfolding run_times.simps by (intro keeps_intros finite_metrics_tick)
qed (simp add: keeps_def)

lemma finite_metrics_prepare: "keeps finite_metrics (prepare_component ops env e c)"
proof -
  have "keeps finite_metrics (probe_component ops env b)" for b
    by (simp add: keeps_def probe_component_def finite_metrics_def case_prod_beta)
  moreover have "keeps finite_metrics (prepare_adapter ops c seed a)" for a seed
    by (simp add: keeps_def prepare_adapter_def finite_metrics_def case_prod_beta split: sum.split)
  ultimately show ?thesis unfolding prepare_component_def by (intro keeps_intros)
qed

section \<open>Programs that do not block\<close>

fun is_blocked :: "exn \<Rightarrow> bool" where
  "is_blocked (ExperimentBlocked m) = True"
| "is_blocked _ = False"

text \<open>Programs that never raise what only the scheduler raises.\<close>

definition calm :: "('s, 'r) prog \<Rightarrow> bool" where
  "calm m \<longleftrightarrow> (\<forall>s ex t. m s = (Inl ex, t) \<longrightarrow> \<not> is_blocked ex)"

named_theorems calm_intros \<open>programs that do not block\<close>

lemma calm_pure [calm_intros]:
  "calm (ret x)" "calm (gets f)" "calm (modify g)" "\<not> is_blocked ex \<Longrightarrow> calm (raise ex)"
  "\<not> is_blocked ex \<Longrightarrow> calm (guardP b ex)"
  by (auto simp: calm_def guardP_def check_def)

lemma calm_reads: "(\<And>s ex. f s = Inl ex \<Longrightarrow> \<not> is_blocked ex) \<Longrightarrow> calm (reads f)"
  by (simp add: calm_def)

lemma calm_lift: "(\<And>ex. r = Inl ex \<Longrightarrow> \<not> is_blocked ex) \<Longrightarrow> calm (lift r)"
  by (simp add: calm_def)

lemma calm_bind [calm_intros]: "calm m \<Longrightarrow> (\<And>x. calm (f x)) \<Longrightarrow> calm (bindP m f)"
  unfolding calm_def bindP_eq_Inl by blast

lemma calm_for [calm_intros]: "(\<And>x. calm (f x)) \<Longrightarrow> calm (forP f xs)"
  by (induction xs) (auto intro: calm_intros)

lemma calm_fold [calm_intros]: "(\<And>x a. calm (f x a)) \<Longrightarrow> calm (foldP f xs a)"
  by (induction xs arbitrary: a) (auto intro: calm_intros)

lemma calm_cases [calm_intros]:
  "calm m \<Longrightarrow> calm n \<Longrightarrow> calm (if b then m else n)"
  "calm m \<Longrightarrow> (\<And>x. calm (f x)) \<Longrightarrow> calm (case v of None \<Rightarrow> m | Some x \<Rightarrow> f x)"
  "(\<And>x y. calm (g x y)) \<Longrightarrow> calm (case p of (x, y) \<Rightarrow> g x y)"
  by (auto split: option.split prod.split)

lemma calm_on_recorder [calm_intros]: "calm m \<Longrightarrow> calm (on_recorder m)"
  by (auto simp: calm_def on_recorder_def split: prod.splits)

lemma calm_on_adapter [calm_intros]: "calm m \<Longrightarrow> calm (on_adapter cid m)"
  by (auto simp: calm_def on_adapter_def split: option.splits prod.splits)

lemma resolve_calm:
  assumes "resolve_workspace_path fs w p must = Inl ex" shows "\<not> is_blocked ex"
proof -
  have r: "resolve fs cs = Inl ex \<Longrightarrow> \<not> is_blocked ex" for cs
    by (auto simp: resolve_def split: option.splits)
  obtain a raw where "parse_path p = (a, raw)" by fastforce
  with assms r show ?thesis
    by (cases a) (auto simp: resolve_workspace_path_def andThen_eq_Inl split: if_splits)
qed

lemma calm_recorder [calm_intros]:
  "calm (put_file p c)" "calm (add_events es)" "calm (add_artifacts cid t items)"
proof -
  show put: "calm (put_file p c)" for p c unfolding put_file_def by (intro calm_intros)
  show "calm (add_events es)" unfolding add_events_def by (intro calm_intros)
  show "calm (add_artifacts cid t items)"
    unfolding add_artifacts_def add_artifact_def
    by (intro calm_intros put calm_reads) (simp_all add: resolve_calm)
qed

text \<open>A class of adapters that leaves the verdict \<open>blocked\<close> to the scheduler.\<close>

definition polite :: "'a adapter_ops \<Rightarrow> bool" where
  "polite ops \<longleftrightarrow> (\<forall>fs c seed. calm (ao_prepare ops fs c seed)) \<and>
     (\<forall>target v t. calm (ao_inject ops target v t)) \<and> (\<forall>t n. calm (ao_step ops t n)) \<and>
     (\<forall>fs p. calm (ao_snapshot ops fs p))"

lemma calm_snapshot_adapter: "polite ops \<Longrightarrow> calm (snapshot_adapter ops cid name)"
  unfolding snapshot_adapter_def by (intro calm_intros) (simp add: polite_def)

lemma calm_inject_at: "polite ops \<Longrightarrow> calm (inject_at ops t owner target v)"
  unfolding inject_at_def by (intro calm_intros) (simp add: polite_def)

lemma calm_step_component: "polite ops \<Longrightarrow> calm (step_component ops env cm q t c)"
proof -
  have "run_reject_non_finite vs = Inl ex \<Longrightarrow> \<not> is_blocked ex" for vs ex
    by (auto simp: run_reject_non_finite_def split: option.splits)
  then show "polite ops \<Longrightarrow> calm (step_component ops env cm q t c)"
    unfolding step_component_def Let_def
    by (intro calm_intros calm_lift) (simp_all add: polite_def)
qed

lemma calm_tick: "polite ops \<Longrightarrow> calm (tick ops env e sys t)"
  unfolding tick_def inject_pending_def inject_stimuli_def inject_faults_def take_checkpoint_def adapter_ids_def
  by (intro calm_intros calm_inject_at calm_step_component calm_snapshot_adapter)

lemma calm_run_times: "polite ops \<Longrightarrow> calm (run_times ops env e sys ts)"
proof (induction ts)
  case (Cons t ts)
  then show ?case
    unfolding run_times.simps by (intro calm_intros calm_tick) simp_all
qed (simp add: calm_def)

lemma calm_check_assertion: "calm (check_assertion a crit)"
proof -
  have "py_lt u v = Inl ex \<Longrightarrow> \<not> is_blocked ex" "py_lt_list us vs = Inl ex \<Longrightarrow> \<not> is_blocked ex" for u v us vs ex
    by (induction u v and us vs rule: py_lt_py_lt_list.induct) (auto split: pyval.splits option.splits list.splits if_splits)
  moreover have "py_in u v = Inl ex \<Longrightarrow> \<not> is_blocked ex" for u v ex
    by (cases v) (auto split: pyval.splits)
  ultimately have "evaluate u opr v = Inl ex \<Longrightarrow> \<not> is_blocked ex" for u opr v ex
    by (cases opr) (auto simp: py_le_def andThen_eq_Inl split: if_splits)
  then show ?thesis
    unfolding check_assertion_def add_assertion_def by (intro calm_intros calm_lift)
qed

section \<open>Blocked runs\<close>

text \<open>What preparation leaves as it was.\<close>

definition untouched :: "'a adapter_ops \<Rightarrow> 'a run_env \<Rightarrow> 'a catalog \<Rightarrow> 'a run_state \<Rightarrow> bool" where
  "untouched ops env c s \<longleftrightarrow> rec_events (ru_recorder s) = [] \<and> rec_assertion_results (ru_recorder s) = [] \<and>
     ru_metrics s = [] \<and>
     (\<forall>b. probe_value ops (re_host env) (ru_catalog s) b = probe_value ops (re_host env) c b)"

lemma untouched_probe: "keeps (untouched ops env c) (probe_component ops env b)"
proof (rule keepsI)
  fix s assume "untouched ops env c s"
  then show "untouched ops env c (snd (probe_component ops env b s))"
    using probe_value_after [of ops "re_host env" b "ru_catalog s"]
    by (simp add: probe_component_def untouched_def case_prod_beta)
qed

lemma untouched_prepare: "keeps (untouched ops env c) (prepare_component ops env e x)"
proof -
  have "keeps (untouched ops env c) (prepare_adapter ops x seed a)" for a seed
    by (simp add: keeps_def prepare_adapter_def untouched_def case_prod_beta split: sum.split)
  then show ?thesis unfolding prepare_component_def by (intro keeps_intros untouched_probe)
qed

lemma prepare_blocked:
  assumes "prepare_component ops env e x s = (Inl ex, s')" "is_blocked ex" "polite ops" "untouched ops env c s"
  shows "\<not> prb_available (probe_value ops (re_host env) c (cmp_backend x))"
proof -
  obtain p s1 where p: "probe_component ops env (cmp_backend x) s = (Inr p, s1)"
    and v: "p = probe_value ops (re_host env) (ru_catalog s) (cmp_backend x)"
    by (simp add: probe_component_def probe_value_def case_prod_beta)
  have "calm (ao_prepare ops fs k seed)" for fs k seed
    using assms(3) by (simp add: polite_def)
  then have "calm (prepare_adapter ops x seed a)" for seed a
    by (simp add: calm_def prepare_adapter_def case_prod_beta split: sum.split) (metis prod.collapse)
  moreover have "create_adapter b k = Inl ex' \<Longrightarrow> \<not> is_blocked ex'" for b k ex'
    by (auto simp: create_adapter_def require_def split: option.splits)
  ultimately have "calm (bindP (reads (\<lambda>s. create_adapter (cmp_backend x) (ru_catalog s))) (\<lambda>a.
      prepare_adapter ops x (exp_seed e) a))" for e :: experiment_spec
    by (intro calm_intros calm_reads)
  then have "\<not> prb_available p"
    using assms(1,2) p by (auto simp: prepare_component_def bindP_Inr calm_def split: if_splits)
  then show ?thesis using v assms(4) by (simp add: untouched_def)
qed

lemma blocked_body:
  assumes "run_body ops env e sys (start_state c rec) = (Inl ex, t)" "is_blocked ex" "polite ops"
    and "rec_events rec = []" "rec_assertion_results rec = []"
  shows "untouched ops env c t \<and>
    list_ex (\<lambda>x. \<not> prb_available (probe_value ops (re_host env) c (cmp_backend x))) (sys_components sys)"
proof -
  have start: "untouched ops env c (start_state c rec)"
    using assms(4,5) by (simp add: untouched_def start_state_def)
  have "calm (bindP (guardP (quantum e sys \<noteq> 0) (ValueError ''range() arg 3 must not be zero'')) (\<lambda>_.
     bindP (run_times ops env e sys (grid (exp_duration_us e) (quantum e sys))) (\<lambda>cancelled.
     if cancelled then ret (RS_CANCELLED, Some ''experiment cancelled by control plane'')
     else bindP (foldP check_assertion (exp_assertions e) False) (\<lambda>critical_failure.
       ret (if critical_failure then RS_FAILED else RS_PASSED, None)))))"
    by (intro calm_intros calm_run_times calm_check_assertion assms(3)) simp
  with assms(1,2) have "forP (prepare_component ops env e) (sys_components sys) (start_state c rec) = (Inl ex, t)"
    by (auto simp: run_body_def bindP_eq_Inl calm_def)
  then obtain ys x zs u where xs: "sys_components sys = ys @ x # zs"
    and before: "forP (prepare_component ops env e) ys (start_state c rec) = (Inr (), u)"
    and bad: "prepare_component ops env e x u = (Inl ex, t)"
    by (rule forP_eq_InlD)
  have "keeps (untouched ops env c) (forP (prepare_component ops env e) ys)"
    by (intro keeps_intros untouched_prepare)
  from keepsD [OF this start] have u: "untouched ops env c u" by (simp add: before)
  have "untouched ops env c t" using keepsD [OF untouched_prepare u, of e x] by (simp add: bad)
  with prepare_blocked [OF bad assms(2,3) u] show ?thesis by (simp add: xs)
qed

text \<open>The synthetic adapter is polite.\<close>

lemma synthetic_polite: "polite synthetic_ops"
proof -
  have m: "as_mapping v = Inl ex \<Longrightarrow> \<not> is_blocked ex" for v ex by (cases v) auto
  have i: "to_int v = Inl ex \<Longrightarrow> \<not> is_blocked ex" for v ex
    by (induction v rule: to_int.induct)
      (auto simp: int_of_text_def require_def Let_def split: option.splits)
  have f: "to_float v = Inl ex \<Longrightarrow> \<not> is_blocked ex" for v ex
    by (induction v rule: to_float.induct)
      (auto simp: float_of_int_def float_of_text_def require_def Let_def split: option.splits if_splits pyfloat.splits)
  show ?thesis
    unfolding polite_def synthetic_ops_def adapter_ops.simps synthetic_prepare_def synthetic_inject_def
      synthetic_step_def synthetic_snapshot_def Let_def
    by (intro conjI allI calm_intros calm_lift calm_reads) (auto simp: m i f split: option.splits)
qed

section \<open>Runs without evidence\<close>

lemma hash_model_missing:
  assumes "given (cmp_model c)"
    and "resolve_workspace_path (rec_fs r) (layout_root (rec_layout r)) (the (cmp_model c)) True = Inl ex"
  shows "hash_model dg c h (r\<lparr>rec_cas := cas\<rparr>) = (Inl ex, r\<lparr>rec_cas := cas\<rparr>)"
  using assms by (simp add: hash_model_def bindP_def rec_fs_def)

text \<open>A missing model stops finalization after the reports, before the bundle.\<close>

lemma finalize_missing_model:
  assumes "sys_components (rec_system r) = [c]" "given (cmp_model c)"
    and "resolve_workspace_path (rec_fs (with_reports dg now status err r)) (layout_root (rec_layout r))
      (the (cmp_model c)) True = Inl ex"
  shows "\<exists>r'. finalize dg now status err r = (Inl ex, r') \<and> rec_files r' = rec_files (with_reports dg now status err r)"
proof -
  let ?w = "with_reports dg now status err r"
  obtain cas where h: "foldP (hash_file dg) (hashed_files ?w) [] ?w =
      (Inr (fold (\<lambda>(p, c). dict_set (relative_name ?w p) (dg_file dg c)) (hashed_files ?w) []), ?w\<lparr>rec_cas := cas\<rparr>)"
    using hash_files_eq by blast
  have "layout_root (rec_layout ?w) = layout_root (rec_layout r)" by (simp add: with_reports_def)
  then have m: "hash_model dg c hs (?w\<lparr>rec_cas := cas\<rparr>) = (Inl ex, ?w\<lparr>rec_cas := cas\<rparr>)" for hs
    using hash_model_missing [OF assms(2)] assms(3) by simp
  have sys: "sys_components (rec_system ?w) = [c]" using assms(1) by (simp add: with_reports_def)
  show ?thesis
    using h m sys by (simp add: finalize_def bindP_def put_file_def with_reports_def)
qed

lemma run_abandoned:
  "ru_abandoned (snd (run_recorded ops env e sys s)) =
     ru_abandoned (snd (handleP (run_body ops env e sys) (run_failure ops) s))"
  by (auto simp: run_recorded_def bindP_def finallyP_def on_recorder_def shutdown_all_def
      split: prod.splits sum.splits)

section \<open>Example runs\<close>

definition demo_run_env :: "'a run_env" where
  "demo_run_env = \<lparr>re_host = demo_host, re_digests = demo_digests, re_cancelled = (\<lambda>_. False),
     re_timed_out = (\<lambda>_. False), re_written = (\<lambda>_. []), re_started_at = 5, re_completed_at = 9\<rparr>"

lemma demo_run_env_simps [simp]:
  "re_digests demo_run_env = demo_digests" "re_completed_at demo_run_env = 9"
  by (simp_all add: demo_run_env_def)

definition demo_catalog :: "backend_name \<Rightarrow> 'a \<Rightarrow> 'a catalog" where
  "demo_catalog b fresh = \<lparr>cat_probe_cache = [], cat_factories = [(b, fresh)], cat_tools = []\<rparr>"

definition demo_plant :: system_manifest where
  "demo_plant = (demo_system False)\<lparr>sys_components := [demo_component ''src'' (Some 6000) True],
     sys_connections := [\<lparr>con_source = ''src.out'', con_target = ''src.in'', con_unit = None\<rparr>]\<rparr>"

definition demo_stimulus :: "int \<Rightarrow> stimulus" where
  "demo_stimulus t = \<lparr>stm_at_us = t, stm_target = ''src.bias'', stm_value = PInt 3, stm_unit = None\<rparr>"

definition demo_plan :: experiment_spec where
  "demo_plan = demo_experiment 6000 [demo_stimulus 6000, demo_stimulus 500]
     [\<lparr>asr_metric = ''src.counter'', asr_operator = OP_eq, asr_expected = PInt 2, asr_unit = None, asr_critical = True\<rparr>]"

definition demo_files :: recorder where
  "demo_files = demo_world\<lparr>rec_files := []\<rparr>"

text \<open>A run whose components have no model files comes to its result.\<close>

lemma run_from_body:
  assumes "new_recorder (re_started_at env) run_id e sys world = Inr rec"
    and "fst (handleP (run_body ops env e sys) (run_failure ops) (start_state c rec)) = Inr (status, err)"
    and "list_all (\<lambda>c. \<not> given (cmp_model c)) (sys_components (rec_system (ru_recorder
      (snd (handleP (run_body ops env e sys) (run_failure ops) (start_state c rec))))))"
  obtains res s where "run ops env run_id e sys c world = (Inr res, s)" "out_status res = status" "out_error res = err"
proof -
  obtain t where b: "handleP (run_body ops env e sys) (run_failure ops) (start_state c rec) = (Inr (status, err), t)"
    using assms(2) by (metis prod.collapse)
  obtain bundle' r' where f: "finalize (re_digests env) (re_completed_at env) status err (ru_recorder t) = (Inr bundle', r')"
    using finalize_succeeds [OF assms(3) [unfolded b snd_conv]] by metis
  show thesis
    by (rule that)
      (simp add: run_def assms(1) run_recorded_def bindP_def finallyP_def b on_recorder_def shutdown_all_def f,
        simp_all)
qed

definition demo_run_recorder :: recorder where
  "demo_run_recorder = projr (new_recorder 5 ''r1'' demo_plan demo_plant demo_files)"

lemma demo_run_recorder: "new_recorder (re_started_at demo_run_env) ''r1'' demo_plan demo_plant demo_files = Inr demo_run_recorder"
proof -
  have "isl (new_recorder 5 ''r1'' demo_plan demo_plant demo_files) = False" by code_simp
  then show ?thesis
    by (cases "new_recorder 5 ''r1'' demo_plan demo_plant demo_files") (auto simp: demo_run_env_def demo_run_recorder_def)
qed

lemma demo_run:
  obtains res s where "run synthetic_ops demo_run_env ''r1'' demo_plan demo_plant
      (demo_catalog BN_SYNTHETIC new_synthetic) demo_files = (Inr res, s)" "out_status res = RS_PASSED" "out_error res = None"
proof -
  let ?r = "handleP (run_body synthetic_ops demo_run_env demo_plan demo_plant) (run_failure synthetic_ops)
    (start_state (demo_catalog BN_SYNTHETIC new_synthetic) demo_run_recorder)"
  have "fst ?r = Inr (RS_PASSED, None)"
    "list_all (\<lambda>c. \<not> given (cmp_model c)) (sys_components (rec_system (ru_recorder (snd ?r))))"
    by code_simp+
  from run_from_body [OF demo_run_recorder this] that show thesis by metis
qed

text \<open>A native component without its model, and a worker that refuses every component.\<close>

definition native_demo :: "native_adapter adapter_ops" where
  "native_demo = native_ops [''ws''] (\<lambda>_. Inr PNone)"

definition demo_native_plant :: system_manifest where
  "demo_native_plant = demo_plant\<lparr>sys_components :=
     [(demo_component ''src'' (Some 6000) True)\<lparr>cmp_backend := BN_NATIVE, cmp_model := Some ''gone.json''\<rparr>]\<rparr>"

definition demo_spice_plant :: system_manifest where
  "demo_spice_plant = demo_plant\<lparr>sys_components := [demo_spice_component], sys_connections := []\<rparr>"

definition refusing :: "(backend_request + backend_response, bool) surroundings" where
  "refusing = demo_surroundings\<lparr>sur_link := (\<lambda>_. demo_link demo_host (\<lambda>_. PInt 0))\<rparr>"

section \<open>Properties\<close>

text \<open>C24. However a run ends, every adapter that was prepared for it is shut down: no synthetic or
  native adapter keeps its component, and no subprocess adapter keeps a worker process.\<close>

theorem run_releases_adapters:
  "list_all (\<lambda>(_, a). any_released a) (ru_adapters (snd (run (any_ops x) env run_id e sys c world)))"
  by (rule all_adapters.run_releases)

text \<open>C25. The verdict of a run without an error is the verdict of its assertions: each is judged once,
  in order, on the metrics the run ended with; the run passes exactly if every critical one holds
  and fails otherwise; and all metrics are finite.\<close>

theorem verdict_follows_assertions:
  assumes "run ops env run_id e sys c world = (Inr res, s)" and "out_error res = None"
  shows "out_status res = (if list_all (\<lambda>a. asr_critical a \<longrightarrow> holds_on (ru_metrics s) a) (exp_assertions e)
       then RS_PASSED else RS_FAILED) \<and>
     rec_assertion_results (ru_recorder s) = map (judged (ru_metrics s)) (exp_assertions e) \<and>
     finite_metrics s"
proof -
  obtain rec s1 s2 crit t where rec: "new_recorder (re_started_at env) run_id e sys world = Inr rec"
    and p: "forP (prepare_component ops env e) (sys_components sys) (start_state c rec) = (Inr (), s1)"
    and times: "run_times ops env e sys (grid (exp_duration_us e) (quantum e sys)) s1 = (Inr False, s2)"
    and checks: "foldP check_assertion (exp_assertions e) False s2 = (Inr crit, t)"
    and res: "out_status res = (if crit then RS_FAILED else RS_PASSED)" "ru_metrics s = ru_metrics t"
      "rec_assertion_results (ru_recorder s) = rec_assertion_results (ru_recorder t)"
    using run_completed [OF assms] by metis
  let ?J = "recorder_inv (\<lambda>r. rec_assertion_results r = [])"
  have "?J (start_state c rec)"
    using rec by (auto simp: new_recorder_def Let_def recorder_inv_def start_state_def split: if_splits)
  moreover have "keeps ?J (forP (prepare_component ops env e) (sys_components sys))"
    by (intro keeps_intros recorder_inv_prepare)
  ultimately have "?J s1" using p keepsD by fastforce
  moreover have "keeps ?J (run_times ops env e sys (grid (exp_duration_us e) (quantum e sys)))"
    by (rule recorder_inv_run_times) (simp add: event_inv_def report_inv_def)
  ultimately have "?J s2" using times keepsD by fastforce
  then have none: "rec_assertion_results (ru_recorder s2) = []" by (simp add: recorder_inv_def)
  have "finite_metrics (start_state c rec)" by (simp add: finite_metrics_def start_state_def)
  moreover have "keeps finite_metrics (forP (prepare_component ops env e) (sys_components sys))"
    by (intro keeps_intros finite_metrics_prepare)
  ultimately have "finite_metrics s1" using p keepsD by fastforce
  from keepsD [OF finite_metrics_run_times this] have "finite_metrics s2" by (metis times snd_conv)
  with check_assertions_Inr [OF checks] res none show ?thesis
    by (auto simp: finite_metrics_def list_ex_iff list_all_iff)
qed

theorem verdict_follows_assertions_witness:
  "\<exists>res s. run synthetic_ops demo_run_env ''r1'' demo_plan demo_plant
      (demo_catalog BN_SYNTHETIC new_synthetic) demo_files = (Inr res, s) \<and> out_status res = RS_PASSED \<and>
     rec_assertion_results (ru_recorder s) = map (judged (ru_metrics s)) (exp_assertions demo_plan)"
proof -
  obtain res s where r: "run synthetic_ops demo_run_env ''r1'' demo_plan demo_plant
      (demo_catalog BN_SYNTHETIC new_synthetic) demo_files = (Inr res, s)" "out_status res = RS_PASSED" "out_error res = None"
    by (rule demo_run)
  with verdict_follows_assertions [OF r(1,3)] show ?thesis by blast
qed



text \<open>Stimuli and faults off the time grid are silently dropped: with or without the ones whose
  time is at the end of the run or no multiple of the common step, the run does exactly the same,
  although validation accepts them.\<close>

theorem off_timeline_items_ignored:
  assumes "0 < exp_macro_step_us e"
  shows "run_body ops env (timeline_only e sys) sys s = run_body ops env e sys s"
  by (simp add: run_body_timeline_only [OF assms])

theorem off_timeline_items_ignored_witness:
  "run_body synthetic_ops demo_run_env (timeline_only demo_plan demo_plant) demo_plant =
     run_body synthetic_ops demo_run_env demo_plan demo_plant \<and>
   exp_stimuli (timeline_only demo_plan demo_plant) = [demo_stimulus 6000] \<and>
   validate_experiment_spec demo_plan = Inr demo_plan"
proof -
  have "0 < exp_macro_step_us demo_plan" by (simp add: demo_plan_def demo_experiment_def)
  then have "run_body synthetic_ops demo_run_env (timeline_only demo_plan demo_plant) demo_plant =
      run_body synthetic_ops demo_run_env demo_plan demo_plant"
    by (intro ext off_timeline_items_ignored)
  moreover have "exp_stimuli (timeline_only demo_plan demo_plant) = [demo_stimulus 6000]"
    "validate_experiment_spec demo_plan = Inr demo_plan" by code_simp+
  ultimately show ?thesis by blast
qed

text \<open>Outputs are never left behind: in a run without an error, whatever is still waiting to be
  injected at its end is due at the end or later, on the time grid; every output that was due before
  was taken out of the queue at its time.\<close>

theorem outputs_due_are_delivered:
  assumes "run ops env run_id e sys c world = (Inr res, s)" and "out_error res = None"
    and "validate_experiment_spec e = Inr e" and "list_all (\<lambda>x. validate_component x = Inr x) (sys_components sys)"
  shows "due_from (quantum e sys) (exp_duration_us e) s"
proof -
  let ?q = "quantum e sys" and ?n = "nat ((exp_duration_us e + quantum e sys - 1) div quantum e sys)"
  obtain rec s1 s2 crit t where
    p: "forP (prepare_component ops env e) (sys_components sys) (start_state c rec) = (Inr (), s1)"
    and times: "run_times ops env e sys (grid (exp_duration_us e) ?q) s1 = (Inr False, s2)"
    and checks: "foldP check_assertion (exp_assertions e) False s2 = (Inr crit, t)"
    and same: "ru_pending s = ru_pending t"
    using run_completed [OF assms(1,2)] by metis
  have q: "0 < ?q" using validated_experimentD [OF assms(3)] by (simp add: quantum_pos)
  have steps: "0 < component_step_us ?q x" if "x \<in> set (sys_components sys)" for x
    using validated_component_step [of x x] assms(4) that q
    by (auto simp: list_all_iff component_step_us_def split: option.splits)
  have "due_from ?q (int 0 * ?q) (start_state c rec)" by (simp add: due_from_def start_state_def)
  moreover have "keeps (due_from ?q (int 0 * ?q)) (forP (prepare_component ops env e) (sys_components sys))"
    by (intro keeps_intros due_from_prepare)
  ultimately have "due_from ?q (int 0 * ?q) s1" using p keepsD by fastforce
  from run_times_due_from [OF times [unfolded grid_def] this refl q _ steps]
  have "due_from ?q (int ?n * ?q) s2" by simp
  then have due: "due_from ?q (int ?n * ?q) s"
    using check_assertions_Inr [OF checks] same by (simp add: due_from_def)
  have "exp_duration_us e \<le> int ?n * ?q"
  proof (rule ccontr)
    assume "\<not> exp_duration_us e \<le> int ?n * ?q"
    then have "int ?n * ?q \<in> set (grid (exp_duration_us e) ?q)"
      using q by (simp add: in_grid)
    then obtain i where i: "i < ?n" "int ?n * ?q = int i * ?q" unfolding grid_def by fastforce
    have cancel: "a = b" if "a * ?q = b * ?q" for a b :: int using that q by simp
    from cancel [OF i(2)] have "?n = i" by (simp only: of_nat_eq_iff)
    with i(1) show False by (simp only: less_irrefl)
  qed
  with due show ?thesis unfolding due_from_def by (meson order_trans)
qed

theorem outputs_due_are_delivered_witness:
  "\<exists>res s. run synthetic_ops demo_run_env ''r1'' demo_plan demo_plant
      (demo_catalog BN_SYNTHETIC new_synthetic) demo_files = (Inr res, s) \<and>
     due_from (quantum demo_plan demo_plant) 12000 s"
proof -
  obtain res s where r: "run synthetic_ops demo_run_env ''r1'' demo_plan demo_plant
      (demo_catalog BN_SYNTHETIC new_synthetic) demo_files = (Inr res, s)" "out_status res = RS_PASSED" "out_error res = None"
    by (rule demo_run)
  have "validate_experiment_spec demo_plan = Inr demo_plan"
    "list_all (\<lambda>x. validate_component x = Inr x) (sys_components demo_plant)" "exp_duration_us demo_plan = 12000"
    by code_simp+
  with outputs_due_are_delivered [OF r(1,3)] r(1) show ?thesis by auto
qed

text \<open>A blocked run did nothing: where the verdict is that a backend is missing, some component's
  backend does probe as unavailable, and no event, assertion result or metric was recorded, so a
  missing simulator is never replaced by a partial run.\<close>

theorem blocked_run_did_nothing:
  assumes "run ops env run_id e sys c world = (Inr res, s)" and "out_status res = RS_BLOCKED" and "polite ops"
  shows "rec_events (ru_recorder s) = [] \<and> rec_assertion_results (ru_recorder s) = [] \<and> ru_metrics s = [] \<and>
    list_ex (\<lambda>x. \<not> prb_available (probe_value ops (re_host env) c (cmp_backend x))) (sys_components sys)"
proof -
  obtain rec where rec: "new_recorder (re_started_at env) run_id e sys world = Inr rec"
    and r: "run_recorded ops env e sys (start_state c rec) = (Inr res, s)"
    using assms(1) by (auto simp: run_def split: sum.splits)
  from r obtain err t b where
    body: "handleP (run_body ops env e sys) (run_failure ops) (start_state c rec) = (Inr (RS_BLOCKED, err), t)"
    and fin: "on_recorder (finalize (re_digests env) (re_completed_at env) RS_BLOCKED err) (shutdown_all ops t) =
      (Inr b, s)"
    using assms(2) by (auto simp: run_recorded_def bindP_eq_Inr finallyP_def split: prod.splits)
  have other: "run_body ops env e sys u \<noteq> (Inr (RS_BLOCKED, err), t)" for u
    by (auto simp: run_body_def bindP_eq_Inr split: if_splits)
  have "run_failure ops ex u \<noteq> (Inr (RS_BLOCKED, err), t)" if "\<not> is_blocked ex" for ex u
    using that by (cases ex) (auto simp: bindP_eq_Inr)
  with body other obtain ex u where ex: "run_body ops env e sys (start_state c rec) = (Inl ex, u)" "is_blocked ex"
    and t: "run_failure ops ex u = (Inr (RS_BLOCKED, err), t)"
    by (auto simp: handleP_def split: prod.splits sum.splits)
  from ex(2) t have "t = u" by (cases ex) auto
  moreover have "rec_events rec = []" "rec_assertion_results rec = []"
    using rec by (auto simp: new_recorder_def Let_def split: if_splits)
  note blocked_body [OF ex assms(3) this]
  moreover from fin obtain rec' where
    "finalize (re_digests env) (re_completed_at env) RS_BLOCKED err (ru_recorder t) = (Inr b, rec')"
    and "s = (shutdown_all ops t)\<lparr>ru_recorder := rec'\<rparr>"
    by (auto simp: on_recorder_def shutdown_all_def split: prod.splits)
  ultimately show ?thesis
    by (auto simp: untouched_def shutdown_all_def dest: finalize_keeps_reports)
qed

theorem blocked_run_did_nothing_witness:
  "\<exists>res s. run synthetic_ops demo_run_env ''r1'' demo_plan demo_plant
      (demo_catalog BN_NATIVE new_synthetic) demo_files = (Inr res, s) \<and> out_status res = RS_BLOCKED \<and>
     rec_events (ru_recorder s) = []"
proof -
  let ?r = "handleP (run_body synthetic_ops demo_run_env demo_plan demo_plant) (run_failure synthetic_ops)
    (start_state (demo_catalog BN_NATIVE new_synthetic) demo_run_recorder)"
  have "fst ?r = Inr (RS_BLOCKED, Some ''src/synthetic: unknown backend'')"
    "list_all (\<lambda>c. \<not> given (cmp_model c)) (sys_components (rec_system (ru_recorder (snd ?r))))"
    by code_simp+
  then obtain res s where "run synthetic_ops demo_run_env ''r1'' demo_plan demo_plant
      (demo_catalog BN_NATIVE new_synthetic) demo_files = (Inr res, s)" "out_status res = RS_BLOCKED"
    by (rule run_from_body [OF demo_run_recorder])
  with blocked_run_did_nothing [OF this synthetic_polite] show ?thesis by blast
qed

text \<open>The evidence of a run can be lost: where a component's model file is missing, preparation fails
  and the scheduler turns the failure into a failed run to keep its evidence, but finalization asks
  for the same file and raises, so the run ends with an exception and without a bundle.\<close>

theorem missing_model_loses_bundle:
  "\<exists>s. run native_demo demo_run_env ''r1'' demo_plan demo_native_plant (demo_catalog BN_NATIVE new_native) demo_files =
      (Inl (FileNotFoundError ''/ws/gone.json''), s) \<and>
     dict_get (rec_files (ru_recorder s)) [''ws'', ''runs'', ''r1'', ''summary.md''] \<noteq> None \<and>
     dict_get (rec_files (ru_recorder s)) [''ws'', ''runs'', ''r1'', ''bundle.json''] = None"
proof -
  let ?rec = "projr (new_recorder 5 ''r1'' demo_plan demo_native_plant demo_files)"
  let ?r = "handleP (run_body native_demo demo_run_env demo_plan demo_native_plant) (run_failure native_demo)
    (start_state (demo_catalog BN_NATIVE new_native) ?rec)"
  let ?err = "Some ''FileNotFoundError: /ws/gone.json''"
  let ?w = "with_reports demo_digests 9 RS_FAILED ?err (ru_recorder (snd ?r))"
  let ?c = "(demo_component ''src'' (Some 6000) True)\<lparr>cmp_backend := BN_NATIVE, cmp_model := Some ''gone.json''\<rparr>"
  have "isl (new_recorder 5 ''r1'' demo_plan demo_native_plant demo_files) = False" by code_simp
  then have rec: "new_recorder (re_started_at demo_run_env) ''r1'' demo_plan demo_native_plant demo_files = Inr ?rec"
    by (cases "new_recorder 5 ''r1'' demo_plan demo_native_plant demo_files") (auto simp: demo_run_env_def)
  have body: "fst ?r = Inr (RS_FAILED, ?err)" by code_simp
  have c: "sys_components (rec_system (ru_recorder (snd ?r))) = [?c]" by code_simp
  have "resolve_workspace_path (rec_fs ?w) (layout_root (rec_layout (ru_recorder (snd ?r)))) ''gone.json'' True =
      Inl (FileNotFoundError ''/ws/gone.json'')" by code_simp
  with finalize_missing_model [OF c, of demo_digests 9 RS_FAILED ?err] obtain rec' where
    f: "finalize demo_digests 9 RS_FAILED ?err (ru_recorder (snd ?r)) = (Inl (FileNotFoundError ''/ws/gone.json''), rec')"
    and files: "rec_files rec' = rec_files ?w" by (auto simp: given_def)
  have "dict_get (rec_files ?w) [''ws'', ''runs'', ''r1'', ''summary.md''] \<noteq> None"
    "dict_get (rec_files ?w) [''ws'', ''runs'', ''r1'', ''bundle.json''] = None" by code_simp+
  moreover obtain t where "?r = (Inr (RS_FAILED, ?err), t)" using body by (metis prod.collapse)
  ultimately show ?thesis
    using f files
    by (simp add: run_def rec run_recorded_def bindP_def finallyP_def on_recorder_def shutdown_all_def)
qed

text \<open>A worker process can outlive its run: an adapter whose preparation fails is not among the
  adapters that are shut down, and the subprocess it has started keeps running after the run.\<close>

theorem refused_worker_outlives_run:
  "\<exists>a. ru_abandoned (snd (run (any_ops refusing) demo_run_env ''r1'' demo_plan demo_spice_plant new_catalog demo_files)) = [a] \<and>
     \<not> any_released a"
proof -
  let ?rec = "projr (new_recorder 5 ''r1'' demo_plan demo_spice_plant demo_files)"
  let ?r = "handleP (run_body (any_ops refusing) demo_run_env demo_plan demo_spice_plant) (run_failure (any_ops refusing))
    (start_state new_catalog ?rec)"
  have "isl (new_recorder 5 ''r1'' demo_plan demo_spice_plant demo_files) = False" by code_simp
  then have rec: "new_recorder (re_started_at demo_run_env) ''r1'' demo_plan demo_spice_plant demo_files = Inr ?rec"
    by (cases "new_recorder 5 ''r1'' demo_plan demo_spice_plant demo_files") (auto simp: demo_run_env_def)
  have "list_all (\<lambda>a. \<not> any_released a) (ru_abandoned (snd ?r)) \<and> length (ru_abandoned (snd ?r)) = 1" by code_simp
  then obtain a where "ru_abandoned (snd ?r) = [a]" "\<not> any_released a"
    by (cases "ru_abandoned (snd ?r)") auto
  then show ?thesis using run_abandoned [of "any_ops refusing" demo_run_env demo_plan demo_spice_plant "start_state new_catalog ?rec"]
    by (simp add: run_def rec)
qed

end
