(* ===== verification/Importers.thy ===== *)
theory Importers
  imports Contracts_Models Texts
begin

text \<open>
  From hardware descriptions to the behaviour IR and back to text (\<open>src/src/ael/modeling.py\<close>,
  the functions outside the registry): the CMSIS-SVD importer over a parsed XML tree, the SystemRDL
  importer over the elaborated tree that the third-party compiler hands over, and the generator of
  Renode peripherals.
\<close>

section \<open>The IR the importers build\<close>

text \<open>\<open>HardwareBehaviorIR(name=..., size=..., registers=...)\<close>: every other field has its default.\<close>

definition imported_ir :: "string \<Rightarrow> int \<Rightarrow> behavior_register list \<Rightarrow> hardware_behavior_ir" where
  "imported_ir name sz registers = \<lparr>ir_name = name, ir_bus_width = 32, ir_size = sz,
     ir_registers = registers, ir_state_machines = [], ir_clocks = [], ir_timers = [],
     ir_interrupts = [], ir_dma_requests = [], ir_transactions = [], ir_faults = [], ir_timing = [],
     ir_power_states = [], ir_fmi_ports = [], ir_grounding = []\<rparr>"

text \<open>The running maximum \<open>max_end\<close> over the registers, and the size \<open>max(4, max_end)\<close>.\<close>

definition max_end :: "behavior_register list \<Rightarrow> int" where
  "max_end rs = fold (\<lambda>r m. max m (register_end r)) rs 0"

definition build_ir :: "string \<Rightarrow> exn \<Rightarrow> behavior_register list \<Rightarrow> hardware_behavior_ir result" where
  "build_ir name none registers =
     (if registers = [] then Inl none
      else validate_ir (imported_ir name (max 4 (max_end registers)) registers))"

section \<open>CMSIS-SVD\<close>

datatype xml = Elem (xml_tag: string) (xml_text: "string option") (xml_children: "xml list")

text \<open>\<open>element.iter()\<close>: the element and all below it, in document order.\<close>

fun xml_iter :: "xml \<Rightarrow> xml list" where
  "xml_iter (Elem t x cs) = Elem t x cs # concat (map xml_iter cs)"

definition local_tag :: "string \<Rightarrow> string" where
  "local_tag tag = after_last CHR ''}'' tag"

definition child_text :: "xml \<Rightarrow> string \<Rightarrow> string \<Rightarrow> string" where
  "child_text element child_name dflt =
     (case find (\<lambda>c. local_tag (xml_tag c) = child_name) (xml_children element) of
        None \<Rightarrow> dflt
      | Some c \<Rightarrow> strip (case xml_text c of None \<Rightarrow> dflt | Some t \<Rightarrow> if t = [] then dflt else t))"

definition svd_access :: "string \<Rightarrow> access" where
  "svd_access s =
     (if s = ''read-only'' then AC_ro
      else if s = ''write-only'' then AC_wo
      else if s = ''read-write'' then AC_rw
      else if s = ''read-writeOnce'' then AC_rw
      else if s = ''writeOnce'' then AC_wo
      else AC_rw)"

definition import_svd_field :: "xml \<Rightarrow> behavior_field result" where
  "import_svd_field candidate =
     andThen (int_base0 (child_text candidate ''bitOffset'' ''0'')) (\<lambda>offset.
     andThen (int_base0 (child_text candidate ''bitWidth'' ''1'')) (\<lambda>width.
     validate_bits \<lparr>bf_name = child_text candidate ''name'' [], bf_lsb = offset, bf_width = width,
       bf_access = svd_access (child_text candidate ''access'' ''read-write''), bf_reset = 0,
       bf_side_effect = None\<rparr>))"

definition import_svd_register :: "xml \<Rightarrow> behavior_register result" where
  "import_svd_register element =
     andThen (int_base0 (child_text element ''size'' ''32'')) (\<lambda>bits.
     let width = if bits \<in> set bus_widths then bits else 32 in
     andThen (map_result import_svd_field
       (filter (\<lambda>c. local_tag (xml_tag c) = ''field'') (xml_iter element))) (\<lambda>fields.
     andThen (int_base0 (child_text element ''addressOffset'' ''0'')) (\<lambda>offset.
     andThen (int_base0 (child_text element ''resetValue'' ''0'')) (\<lambda>reset.
     validate_register \<lparr>br_name = child_text element ''name'' [], br_offset = offset,
       br_width = width, br_reset = reset, br_fields = fields\<rparr>))))"

definition import_svd :: "xml \<Rightarrow> string \<Rightarrow> hardware_behavior_ir result" where
  "import_svd doc name =
     andThen (map_result import_svd_register
       (filter (\<lambda>e. local_tag (xml_tag e) = ''register'') (xml_iter doc)))
     (build_ir name (ValueError ''SVD contains no registers''))"

section \<open>SystemRDL\<close>

text \<open>What the code reads of the elaborated tree: the fields and registers below the top node.\<close>

record rdl_field =
  rf_inst_name :: string
  rf_low :: int
  rf_width :: int
  rf_sw :: string
  rf_reset :: "int option"

datatype rdl_item = FieldNode rdl_field | OtherItem

record rdl_reg =
  rg_inst_name :: string
  rg_absolute_address :: int
  rg_regwidth :: "int option"
  rg_items :: "rdl_item list"

datatype rdl_node = RegNode rdl_reg | OtherNode

record rdl_top =
  top_absolute_address :: int
  top_descendants :: "rdl_node list"

definition rdl_access :: "string \<Rightarrow> access" where
  "rdl_access sw =
     (if sw = ''r'' then AC_ro else if sw = ''w'' then AC_wo
      else if sw = ''rw'' then AC_rw else if sw = ''r/w'' then AC_rw else AC_rw)"

text \<open>\<open>int(value or dflt)\<close>.\<close>

definition int_or :: "int option \<Rightarrow> int \<Rightarrow> int" where
  "int_or v dflt = (case v of None \<Rightarrow> dflt | Some i \<Rightarrow> if i = 0 then dflt else i)"

text \<open>The loop over a register's fields: the reset value so far and the fields so far.\<close>

definition import_rdl_field ::
    "rdl_item \<Rightarrow> int \<times> behavior_field list \<Rightarrow> (int \<times> behavior_field list) result" where
  "import_rdl_field item acc =
     (case item of
        OtherItem \<Rightarrow> Inr acc
      | FieldNode f \<Rightarrow>
          let field_reset = int_or (rf_reset f) 0 in
          andThen (check (0 \<le> rf_low f) (ValueError ''negative shift count'')) (\<lambda>_.
          andThen (validate_bits \<lparr>bf_name = rf_inst_name f, bf_lsb = rf_low f, bf_width = rf_width f,
            bf_access = rdl_access (rf_sw f), bf_reset = field_reset, bf_side_effect = None\<rparr>) (\<lambda>field.
          Inr (or (fst acc) (push_bit (nat (rf_low f)) field_reset), snd acc @ [field]))))"

definition import_rdl_register :: "int \<Rightarrow> rdl_reg \<Rightarrow> behavior_register result" where
  "import_rdl_register base node =
     andThen (fold_result import_rdl_field (rg_items node) (0, [])) (\<lambda>(register_reset, fields).
     let offset = rg_absolute_address node - base; width = int_or (rg_regwidth node) 32 in
     if width \<notin> set bus_widths then Inl (ValueError ''unsupported SystemRDL register width'')
     else validate_register \<lparr>br_name = rg_inst_name node, br_offset = offset, br_width = width,
       br_reset = register_reset, br_fields = fields\<rparr>)"

definition rdl_registers :: "rdl_node list \<Rightarrow> rdl_reg list" where
  "rdl_registers ns = List.map_filter (\<lambda>n. case n of RegNode r \<Rightarrow> Some r | OtherNode \<Rightarrow> None) ns"

definition import_systemrdl :: "rdl_top \<Rightarrow> string \<Rightarrow> hardware_behavior_ir result" where
  "import_systemrdl doc name =
     andThen (map_result (import_rdl_register (top_absolute_address doc))
       (rdl_registers (top_descendants doc)))
     (build_ir name (ValueError ''SystemRDL contains no registers''))"

section \<open>Renode peripherals\<close>

abbreviation nl :: string where "nl \<equiv> [CHR 0x0A]"
abbreviation dq :: string where "dq \<equiv> [CHR 0x22]"

text \<open>\<open>re.split(r"[^A-Za-z0-9]+", value)\<close> without the empty parts: the runs of letters and digits.\<close>

definition re_split_identifier :: "string \<Rightarrow> string list" where
  "re_split_identifier value = runs_of is_alnum value"

definition class_name :: "hardware_behavior_ir \<Rightarrow> string" where
  "class_name ir = concat (map title (re_split_identifier (ir_name ir)))"

fun field_mode :: "access \<Rightarrow> string" where
  "field_mode AC_ro = ''FieldMode.Read''"
| "field_mode AC_wo = ''FieldMode.Write''"
| "field_mode AC_rw = ''FieldMode.Read | FieldMode.Write''"
| "field_mode AC_w1c = ''FieldMode.Read | FieldMode.WriteOneToClear''"
| "field_mode AC_w1s = ''FieldMode.Read | FieldMode.Set''"

definition field_variable :: "behavior_register \<Rightarrow> behavior_field \<Rightarrow> string" where
  "field_variable r f =
     map lower_char (take 1 (br_name r)) @ drop 1 (br_name r) @
     map upper_char (take 1 (bf_name f)) @ drop 1 (bf_name f)"

definition field_declaration :: "behavior_register \<Rightarrow> behavior_field \<Rightarrow> string" where
  "field_declaration r f =
     ''        private '' @
     (if bf_width f = 1 then ''IFlagRegisterField'' else ''IValueRegisterField'') @
     '' '' @ field_variable r f @ '';''"

definition field_builder :: "behavior_register \<Rightarrow> behavior_field \<Rightarrow> string" where
  "field_builder r f =
     ''                .'' @ (if bf_width f = 1 then ''WithFlag'' else ''WithValueField'') @ ''('' @
     show_int (bf_lsb f) @ (if bf_width f = 1 then [] else '', '' @ show_int (bf_width f)) @
     '', out '' @ field_variable r f @ '', mode: '' @ field_mode (bf_access f) @ '', name: '' @
     dq @ bf_name f @ dq @ '')''"

definition register_definition :: "behavior_register \<Rightarrow> string" where
  "register_definition r =
     join_with nl ((''            Registers.'' @ br_name r @ ''.Define(this, 0x'' @
       show_hex (br_reset r) @ '')'') # map (field_builder r) (br_fields r)) @ '';''"

definition enum_entry :: "behavior_register \<Rightarrow> string" where
  "enum_entry r = ''            '' @ br_name r @ '' = 0x'' @ show_hex (br_offset r) @ '',''"

definition field_declarations :: "hardware_behavior_ir \<Rightarrow> string list" where
  "field_declarations ir =
     concat (map (\<lambda>r. map (field_declaration r) (br_fields r)) (ir_registers ir))"

definition generate_renode_csharp :: "hardware_behavior_ir \<Rightarrow> string \<Rightarrow> string" where
  "generate_renode_csharp ir namespace = join_with nl
     [''// SPDX-License-Identifier: Apache-2.0'',
      ''using Antmicro.Renode.Core;'',
      ''using Antmicro.Renode.Core.Structure.Registers;'',
      ''using Antmicro.Renode.Peripherals.Bus;'',
      [],
      ''namespace '' @ namespace,
      ''{'',
      ''    public sealed class '' @ class_name ir @ '' : BasicDoubleWordPeripheral, IKnownSize'',
      ''    {'',
      ''        public '' @ class_name ir @ ''(IMachine machine) : base(machine)'',
      ''        {'',
      join_with nl (map register_definition (ir_registers ir)),
      ''        }'',
      [],
      ''        public long Size => 0x'' @ show_hex (ir_size ir) @ '';'',
      [],
      join_with nl (field_declarations ir),
      [],
      ''        private enum Registers : long'',
      ''        {'',
      join_with nl (map enum_entry (ir_registers ir)),
      ''        }'',
      ''    }'',
      ''}'',
      []]"

section \<open>What an import establishes\<close>

lemma fold_max_ge: "(m :: int) \<le> fold (\<lambda>r m. max m (f r)) rs m"
  by (induction rs arbitrary: m) (auto intro: order_trans [OF max.cobounded1])

lemma max_end_ge: "r \<in> set rs \<Longrightarrow> register_end r \<le> max_end rs"
proof -
  have "r \<in> set rs \<Longrightarrow> register_end r \<le> fold (\<lambda>r m. max m (register_end r)) rs m" for m
    by (induction rs arbitrary: m) (auto intro: order_trans [OF max.cobounded2 fold_max_ge])
  then show "r \<in> set rs \<Longrightarrow> register_end r \<le> max_end rs" by (simp add: max_end_def)
qed

lemma validate_ir_layout: "validate_ir ir = Inr ir' \<Longrightarrow> ir' = ir \<and> layout_ok ir"
  by (auto simp: validate_ir_def andThen_eq_Inr validate_register_layout_iff)

lemma build_irD:
  assumes "build_ir name e rs = Inr ir"
  shows "rs \<noteq> [] \<and> ir = imported_ir name (max 4 (max_end rs)) rs \<and> layout_ok ir \<and> ir_registers ir = rs"
proof -
  from assms have "rs \<noteq> []" "validate_ir (imported_ir name (max 4 (max_end rs)) rs) = Inr ir"
    by (auto simp: build_ir_def)
  with validate_ir_layout [OF this(2)] show ?thesis by (auto simp: imported_ir_def)
qed

lemma import_svdD:
  assumes "import_svd doc name = Inr ir"
  shows "layout_ok ir \<and> ir_registers ir \<noteq> [] \<and> ir_name ir = name \<and>
     list_all2 (\<lambda>e r. import_svd_register e = Inr r)
       (filter (\<lambda>e. local_tag (xml_tag e) = ''register'') (xml_iter doc)) (ir_registers ir)"
  using assms by (auto simp: import_svd_def andThen_eq_Inr map_result_eq_Inr imported_ir_def dest!: build_irD)

lemma import_systemrdlD:
  assumes "import_systemrdl doc name = Inr ir"
  shows "layout_ok ir \<and> ir_registers ir \<noteq> [] \<and> ir_name ir = name \<and>
     list_all2 (\<lambda>e r. import_rdl_register (top_absolute_address doc) e = Inr r)
       (rdl_registers (top_descendants doc)) (ir_registers ir)"
  using assms by (auto simp: import_systemrdl_def andThen_eq_Inr map_result_eq_Inr imported_ir_def
      dest!: build_irD)

text \<open>
  The reset value a SystemRDL register gets, bit by bit: a bit is set when some field has it set.
\<close>

definition field_ok :: "behavior_field \<Rightarrow> bool" where
  "field_ok f \<longleftrightarrow> 0 \<le> bf_lsb f \<and> 0 < bf_width f \<and> 0 \<le> bf_reset f \<and>
     bf_reset f < 2 ^ nat (bf_width f)"

lemma validate_bitsD: "validate_bits f = Inr f' \<Longrightarrow> f' = f \<and> field_ok f"
  by (auto simp: validate_bits_def andThen_eq_Inr first_failure_eq_Inr field_ok_def)

definition reset_bit :: "behavior_field list \<Rightarrow> nat \<Rightarrow> bool" where
  "reset_bit fs n \<longleftrightarrow> (\<exists>f \<in> set fs. nat (bf_lsb f) \<le> n \<and> bit (bf_reset f) (n - nat (bf_lsb f)))"

lemma import_rdl_fields:
  assumes "fold_result import_rdl_field items acc = Inr (reset, flds)"
    and "\<forall>n. bit (fst acc) n \<longleftrightarrow> reset_bit (snd acc) n" and "list_all field_ok (snd acc)"
  shows "(\<forall>n. bit reset n \<longleftrightarrow> reset_bit flds n) \<and> list_all field_ok flds"
proof -
  have "(\<lambda>acc. (\<forall>n. bit (fst acc) n \<longleftrightarrow> reset_bit (snd acc) n) \<and> list_all field_ok (snd acc))
      (reset, flds)"
    using assms(1)
  proof (rule fold_result_invariant)
    show "(\<forall>n. bit (fst acc) n \<longleftrightarrow> reset_bit (snd acc) n) \<and> list_all field_ok (snd acc)"
      using assms(2,3) by blast
  next
    fix item and s s' :: "int \<times> behavior_field list"
    assume inv: "(\<forall>n. bit (fst s) n \<longleftrightarrow> reset_bit (snd s) n) \<and> list_all field_ok (snd s)"
      and step: "import_rdl_field item s = Inr s'"
    show "(\<forall>n. bit (fst s') n \<longleftrightarrow> reset_bit (snd s') n) \<and> list_all field_ok (snd s')"
    proof (cases item)
      case OtherItem
      with step inv show ?thesis by (simp add: import_rdl_field_def)
    next
      case (FieldNode f)
      with step obtain field where low: "0 \<le> rf_low f"
        and field: "validate_bits \<lparr>bf_name = rf_inst_name f, bf_lsb = rf_low f, bf_width = rf_width f,
            bf_access = rdl_access (rf_sw f), bf_reset = int_or (rf_reset f) 0,
            bf_side_effect = None\<rparr> = Inr field"
        and s': "s' = (or (fst s) (push_bit (nat (rf_low f)) (int_or (rf_reset f) 0)), snd s @ [field])"
        by (auto simp: import_rdl_field_def Let_def andThen_eq_Inr)
      from validate_bitsD [OF field] have "bf_lsb field = rf_low f"
        "bf_reset field = int_or (rf_reset f) 0" "field_ok field" by auto
      with inv s' show ?thesis
        by (auto simp: bit_or_iff bit_push_bit_iff reset_bit_def possible_bit_def)
    qed
  qed
  then show ?thesis by simp
qed

lemma reset_of_disjoint:
  assumes "\<forall>n. bit reset n \<longleftrightarrow> reset_bit fs n" "list_all field_ok fs"
    and "sorted_wrt disjoint_fields fs" and f: "f \<in> set fs"
  shows "take_bit (nat (bf_width f)) (drop_bit (nat (bf_lsb f)) reset) = bf_reset f"
proof (rule bit_eqI)
  fix n
  assume "possible_bit TYPE(int) n"
  have ok: "field_ok f" using assms(2) f by (auto simp: list_all_iff)
  have small: "bit (bf_reset g) m \<Longrightarrow> m < nat (bf_width g)" if "g \<in> set fs" for g m
  proof -
    assume b: "bit (bf_reset g) m"
    have "field_ok g" using assms(2) that by (auto simp: list_all_iff)
    then have "take_bit (nat (bf_width g)) (bf_reset g) = bf_reset g"
      by (simp add: field_ok_def take_bit_int_eq_self)
    with b show "m < nat (bf_width g)" by (metis bit_take_bit_iff)
  qed
  have other: "g = f" if g: "g \<in> set fs" "nat (bf_lsb g) \<le> k" "bit (bf_reset g) (k - nat (bf_lsb g))"
    and k: "nat (bf_lsb f) \<le> k" "k < nat (bf_lsb f) + nat (bf_width f)" for g k
  proof (rule ccontr)
    assume "g \<noteq> f"
    have okg: "field_ok g" using assms(2) g(1) by (auto simp: list_all_iff)
    have "int k \<in> set (field_range g)" "int k \<in> set (field_range f)"
      using small [OF g(1,3)] g(2) k ok okg by (auto simp: field_range_def field_ok_def)
    moreover have "disjoint_fields f g \<or> disjoint_fields g f"
      using assms(3) f g(1) \<open>g \<noteq> f\<close> by (metis in_set_conv_nth linorder_neqE_nat sorted_wrt_iff_nth_less)
    ultimately show False by (auto simp: disjoint_fields_def)
  qed
  show "bit (take_bit (nat (bf_width f)) (drop_bit (nat (bf_lsb f)) reset)) n = bit (bf_reset f) n"
    (is "?l = ?r")
  proof
    assume ?l
    then have n: "n < nat (bf_width f)" "reset_bit fs (nat (bf_lsb f) + n)"
      using assms(1) by (auto simp: bit_take_bit_iff bit_drop_bit_eq)
    then obtain g where g: "g \<in> set fs" "nat (bf_lsb g) \<le> nat (bf_lsb f) + n"
      "bit (bf_reset g) (nat (bf_lsb f) + n - nat (bf_lsb g))" by (auto simp: reset_bit_def)
    from other [OF g] n(1) have "g = f" by simp
    with g(3) show ?r by simp
  next
    assume ?r
    with small [OF f this] assms(1) f show ?l
      by (auto simp: bit_take_bit_iff bit_drop_bit_eq reset_bit_def intro!: bexI [of _ f])
  qed
qed

lemma svd_register_source:
  "import_svd_register e = Inr r \<Longrightarrow>
     br_name r = child_text e ''name'' [] \<and>
     int_base0 (child_text e ''addressOffset'' ''0'') = Inr (br_offset r) \<and>
     int_base0 (child_text e ''resetValue'' ''0'') = Inr (br_reset r)"
  by (auto simp: import_svd_register_def validate_register_def andThen_eq_Inr Let_def)

lemma rdl_register_reset:
  assumes "import_rdl_register base node = Inr r" and "sorted_wrt disjoint_fields (br_fields r)"
    and "f \<in> set (br_fields r)"
  shows "take_bit (nat (bf_width f)) (drop_bit (nat (bf_lsb f)) (br_reset r)) = bf_reset f"
proof -
  from assms(1) have "fold_result import_rdl_field (rg_items node) (0, []) =
      Inr (br_reset r, br_fields r)"
    by (auto simp: import_rdl_register_def andThen_eq_Inr Let_def validate_register_def
        split: prod.splits if_splits)
  from import_rdl_fields [OF this] have "\<forall>n. bit (br_reset r) n \<longleftrightarrow> reset_bit (br_fields r) n"
    "list_all field_ok (br_fields r)" by (auto simp: reset_bit_def)
  from reset_of_disjoint [OF this assms(2,3)] show ?thesis .
qed

section \<open>Properties\<close>

text \<open>A UART with a control register of two fields, as SVD and as SystemRDL.\<close>

definition demo_svd :: xml where
  "demo_svd = Elem ''device'' None
     [Elem ''registers'' None
       [Elem ''register'' None
         [Elem ''name'' (Some ''CTRL'') [], Elem ''addressOffset'' (Some '' 0x10 '') [],
          Elem ''size'' (Some ''0x20'') [], Elem ''resetValue'' (Some ''5'') [],
          Elem ''fields'' None
           [Elem ''field'' None [Elem ''name'' (Some ''EN'') [], Elem ''bitOffset'' (Some ''0'') []],
            Elem ''field'' None [Elem ''name'' (Some ''MODE'') [], Elem ''bitOffset'' (Some ''1'') [],
              Elem ''bitWidth'' (Some ''3'') [], Elem ''access'' (Some ''read-only'') []]]]]]"

definition demo_rdl :: rdl_top where
  "demo_rdl = \<lparr>top_absolute_address = 4096, top_descendants =
     [OtherNode, RegNode \<lparr>rg_inst_name = ''CTRL'', rg_absolute_address = 4100, rg_regwidth = None,
        rg_items = [FieldNode \<lparr>rf_inst_name = ''EN'', rf_low = 0, rf_width = 1, rf_sw = ''rw'',
            rf_reset = Some 1\<rparr>, OtherItem,
          FieldNode \<lparr>rf_inst_name = ''MODE'', rf_low = 4, rf_width = 3, rf_sw = ''r'',
            rf_reset = Some 5\<rparr>]\<rparr>]\<rparr>"

text \<open>C11. An SVD import that succeeds gives a well formed layout (registers inside the peripheral,
  named apart, not overlapping, fields disjoint and in range) with exactly one register for every
  \<open>register\<close> element of the document, in document order, with its name, its offset and its
  reset value.\<close>

theorem import_svd_registers:
  assumes "import_svd doc name = Inr ir"
  shows "layout_ok ir \<and> ir_name ir = name \<and>
     list_all2 (\<lambda>e r. br_name r = child_text e ''name'' [] \<and>
          int_base0 (child_text e ''addressOffset'' ''0'') = Inr (br_offset r) \<and>
          int_base0 (child_text e ''resetValue'' ''0'') = Inr (br_reset r))
       (filter (\<lambda>e. local_tag (xml_tag e) = ''register'') (xml_iter doc)) (ir_registers ir)"
proof -
  note d = import_svdD [OF assms]
  have "list_all2 (\<lambda>e r. br_name r = child_text e ''name'' [] \<and>
          int_base0 (child_text e ''addressOffset'' ''0'') = Inr (br_offset r) \<and>
          int_base0 (child_text e ''resetValue'' ''0'') = Inr (br_reset r))
       (filter (\<lambda>e. local_tag (xml_tag e) = ''register'') (xml_iter doc)) (ir_registers ir)"
    by (rule list_all2_mono [OF conjunct2 [OF conjunct2 [OF conjunct2 [OF d]]]])
      (rule svd_register_source)
  with d show ?thesis by simp
qed

theorem import_svd_registers_witness:
  "\<exists>ir. import_svd demo_svd ''uart'' = Inr ir \<and> layout_ok ir \<and>
     map (\<lambda>r. (br_name r, br_offset r, br_reset r)) (ir_registers ir) = [(''CTRL'', 16, 5)]"
proof -
  have "map_sum id (\<lambda>ir. map (\<lambda>r. (br_name r, br_offset r, br_reset r)) (ir_registers ir))
      (import_svd demo_svd ''uart'') = Inr [(''CTRL'', 16, 5)]" by code_simp
  then obtain ir where ir: "import_svd demo_svd ''uart'' = Inr ir"
    "map (\<lambda>r. (br_name r, br_offset r, br_reset r)) (ir_registers ir) = [(''CTRL'', 16, 5)]"
    by (cases "import_svd demo_svd ''uart''") auto
  from import_svd_registers [OF ir(1)] have "layout_ok ir" by (rule conjunct1)
  with ir show ?thesis by (intro exI [of _ ir] conjI)
qed

text \<open>C12. The reset value the SystemRDL importer assembles for a register agrees with its fields:
  the bits of every field, read back from the register's reset value, are the field's reset value,
  in every import that is accepted.\<close>

theorem systemrdl_reset_matches_fields:
  assumes "import_systemrdl doc name = Inr ir" and "r \<in> set (ir_registers ir)"
    and "f \<in> set (br_fields r)"
  shows "take_bit (nat (bf_width f)) (drop_bit (nat (bf_lsb f)) (br_reset r)) = bf_reset f"
proof -
  note d = import_systemrdlD [OF assms(1)]
  with assms(2) obtain node where "import_rdl_register (top_absolute_address doc) node = Inr r"
    by (auto simp: list_all2_conv_all_nth in_set_conv_nth)
  moreover have "sorted_wrt disjoint_fields (br_fields r)"
    using d assms(2) by (auto simp: layout_ok_def well_formed_register_def)
  ultimately show ?thesis by (rule rdl_register_reset [OF _ _ assms(3)])
qed

theorem systemrdl_reset_matches_fields_witness:
  "\<exists>ir r. import_systemrdl demo_rdl ''uart'' = Inr ir \<and> ir_registers ir = [r] \<and>
     br_reset r = 81 \<and> take_bit 3 (drop_bit 4 (br_reset r)) = (5 :: int)"
proof -
  have "map_sum id (\<lambda>ir. map (\<lambda>r. (br_reset r, map (\<lambda>f. (bf_lsb f, bf_width f, bf_reset f)) (br_fields r)))
        (ir_registers ir)) (import_systemrdl demo_rdl ''uart'') =
      Inr [(81, [(0, 1, 1), (4, 3, 5)])]" by code_simp
  then obtain ir r where ir: "import_systemrdl demo_rdl ''uart'' = Inr ir" "ir_registers ir = [r]"
    and r: "br_reset r = 81" "map (\<lambda>f. (bf_lsb f, bf_width f, bf_reset f)) (br_fields r) =
      [(0, 1, 1), (4, 3, 5)]"
    by (cases "import_systemrdl demo_rdl ''uart''") auto
  from r(2) obtain g f where "br_fields r = [g, f]"
    and f': "bf_lsb f = 4" "bf_width f = 3" "bf_reset f = 5"
    by (auto simp: map_eq_Cons_conv)
  then have "f \<in> set (br_fields r)" by simp
  note f = this f'
  from systemrdl_reset_matches_fields [OF ir(1) _ f(1)] f ir r show ?thesis by auto
qed

section \<open>Name clashes of the generated peripheral\<close>

text \<open>
  The variable of a field joins the names of its register and of the field, so two fields of
  different registers of a well formed layout can get the same variable, and the generated class
  declares it twice.
\<close>

definition clash_ir :: hardware_behavior_ir where
  "clash_ir = imported_ir ''clash'' 8
     [\<lparr>br_name = ''A'', br_offset = 0, br_width = 32, br_reset = 0, br_fields =
        [\<lparr>bf_name = ''bC'', bf_lsb = 0, bf_width = 1, bf_access = AC_rw, bf_reset = 0,
          bf_side_effect = None\<rparr>]\<rparr>,
      \<lparr>br_name = ''AB'', br_offset = 4, br_width = 32, br_reset = 0, br_fields =
        [\<lparr>bf_name = ''C'', bf_lsb = 0, bf_width = 1, bf_access = AC_rw, bf_reset = 0,
          bf_side_effect = None\<rparr>]\<rparr>]"

lemma csharp_variable_clash:
  "validate_ir clash_ir = Inr clash_ir \<and> field_declarations clash_ir =
     [''        private IFlagRegisterField aBC;'', ''        private IFlagRegisterField aBC;'']"
  by (rule conjI; code_simp)

end
