(* ===== verification/Modeling.thy ===== *)
theory Modeling
  imports Storage Importers
begin

text \<open>
  The model registry (\<open>src/src/ael/modeling.py\<close>): models are generated from hardware
  descriptions or by a provider from documents, and move through their life cycle with evidence.
  The state is the workspace's files, whose contents are the documents they hold, and the state
  store. What lies outside the sources is the record \<open>ext\<close>: the digest, the SystemRDL compiler,
  the decoding of files as text and the model provider.
\<close>

section \<open>Files\<close>

datatype document =
    Doc_Request model_generation_request
  | Doc_IR hardware_behavior_ir
  | Doc_Package model_package
  | Doc_Conformance model_conformance_evidence
  | Doc_Grounding "grounding_reference list"
  | Doc_Receipt generation_receipt
  | Doc_Xml xml
  | Doc_Pdf "string list"
  | Doc_Text string

record generation_response =
  gen_ir :: hardware_behavior_ir
  gen_raw_text :: string
  gen_request_id :: "string option"
  gen_recorded :: bool

record ext =
  ext_sha256 :: "document \<Rightarrow> string"
  ext_rdl :: "document \<Rightarrow> rdl_top result"
  ext_text :: "document \<Rightarrow> string"
  ext_provider :: "model_generation_config \<Rightarrow> string \<Rightarrow> nat \<Rightarrow> generation_response result"

type_synonym registry = "document fsys \<times> state_store"

text \<open>Writing a file creates the directories above it.\<close>

definition write_doc :: "path \<Rightarrow> document \<Rightarrow> (document fsys, unit) prog" where
  "write_doc p d = bindP (reads (\<lambda>fs. resolve fs p)) (\<lambda>q.
     bindP (gets (\<lambda>fs. \<not> is_dir fs q \<and> list_all (\<lambda>i. files fs (take i q) = None) [0..<length q])) (\<lambda>ok.
     bindP (guardP ok (OSError ''cannot write'')) (\<lambda>_.
     modify (\<lambda>fs. fs\<lparr>files := (files fs)(q \<mapsto> d),
       is_dir := (\<lambda>x. is_dir fs x \<or> strict_prefix x q)\<rparr>))))"

definition workspace_path :: "workspace_layout \<Rightarrow> string \<Rightarrow> (registry, path) prog" where
  "workspace_path l candidate =
     reads (\<lambda>s. resolve_workspace_path (fst s) (layout_root l) candidate True)"

text \<open>Reading a directory as a file is an \<open>OSError\<close>.\<close>

definition read_doc :: "path \<Rightarrow> (registry, document) prog" where
  "read_doc p = reads (\<lambda>s. require (files (fst s) p) (OSError ''cannot read''))"

text \<open>\<open>p / s\<close>: an absolute right operand replaces the path.\<close>

definition path_join :: "path \<Rightarrow> string \<Rightarrow> path" where
  "path_join p s = (case parse_path s of (absolute, cs) \<Rightarrow> if absolute then cs else p @ cs)"

definition relative_path :: "workspace_layout \<Rightarrow> path \<Rightarrow> string result" where
  "relative_path l p =
     (if prefix (layout_root l) p then Inr (relative_to (layout_root l) p)
      else Inl (ValueError ''path is not in the subpath''))"

text \<open>\<open>Path.suffix\<close> of a file name.\<close>

definition path_suffix :: "string \<Rightarrow> string" where
  "path_suffix name =
     (let ext = after_last CHR ''.'' name in
      if CHR ''.'' \<in> set name \<and> ext \<noteq> [] \<and> length ext + 1 < length name then CHR ''.'' # ext else [])"

definition last_name :: "path \<Rightarrow> string" where
  "last_name p = (if p = [] then [] else last p)"

text \<open>\<open>load_document(path, ModelGenerationRequest, workspace)\<close>.\<close>

definition load_request :: "workspace_layout \<Rightarrow> string \<Rightarrow> (registry, model_generation_request) prog" where
  "load_request l candidate =
     bindP (workspace_path l candidate) (\<lambda>p.
     bindP (read_doc p) (\<lambda>d.
     if lower (path_suffix (last_name p)) \<notin> {''.json'', ''.yaml'', ''.yml''}
     then raise (ValueError ''unsupported document extension'')
     else case d of
            Doc_Request r \<Rightarrow>
              if is_identifier (mg_id r) then lift (require_grounding r) else raise (ValueError ''id'')
          | _ \<Rightarrow> raise (ValueError ''not a ModelGenerationRequest'')))"

text \<open>\<open>model_validate_json\<close> of the contracts the registry reads back.\<close>

fun parse_package :: "document \<Rightarrow> model_package result" where
  "parse_package (Doc_Package m) = Inr m"
| "parse_package d = Inl (ValueError ''not a ModelPackage'')"

fun parse_ir :: "document \<Rightarrow> hardware_behavior_ir result" where
  "parse_ir (Doc_IR ir) = validate_ir ir"
| "parse_ir d = Inl (ValueError ''not a HardwareBehaviorIR'')"

fun parse_conformance :: "document \<Rightarrow> model_conformance_evidence option" where
  "parse_conformance (Doc_Conformance r) =
     (if ce_validator r \<noteq> [] \<and> ce_artifact_hashes r \<noteq> [] then Some r else None)"
| "parse_conformance d = None"

fun parse_xml :: "document \<Rightarrow> xml result" where
  "parse_xml (Doc_Xml x) = Inr x"
| "parse_xml d = Inl (SyntaxError ''not well-formed'')"

section \<open>The life cycle\<close>

fun state_transitions :: "model_state \<Rightarrow> model_state list" where
  "state_transitions MS_DRAFT = [MS_GENERATED, MS_DEPRECATED]"
| "state_transitions MS_GENERATED = [MS_STATIC_VALIDATED, MS_DEPRECATED]"
| "state_transitions MS_STATIC_VALIDATED = [MS_CONFORMANCE_VALIDATED, MS_DEPRECATED]"
| "state_transitions MS_CONFORMANCE_VALIDATED = [MS_HARDWARE_VALIDATED, MS_DEPRECATED]"
| "state_transitions MS_HARDWARE_VALIDATED = [MS_PRODUCTION_APPROVED, MS_DEPRECATED]"
| "state_transitions MS_PRODUCTION_APPROVED = [MS_DEPRECATED]"
| "state_transitions MS_DEPRECATED = []"

definition agent_max_state :: model_state where
  "agent_max_state = MS_CONFORMANCE_VALIDATED"

definition audit_p :: "int \<Rightarrow> string \<Rightarrow> string \<Rightarrow> string \<Rightarrow> string \<Rightarrow> (registry, unit) prog" where
  "audit_p now actor action subject details =
     modify (\<lambda>(fs, st). (fs, audit now actor action subject details st))"

definition save_package ::
    "int \<Rightarrow> workspace_layout \<Rightarrow> model_package \<Rightarrow> path \<Rightarrow> (registry, unit) prog" where
  "save_package now l = save_model now l (\<lambda>p m. write_doc p (Doc_Package m))"

definition load :: "workspace_layout \<Rightarrow> string \<Rightarrow> (registry, model_package \<times> path) prog" where
  "load l model_id =
     bindP (reads (\<lambda>s. require (get_model_record model_id (snd s)) (KeyError ''unknown model''))) (\<lambda>r.
     bindP (workspace_path l (mr_package_path r)) (\<lambda>p.
     bindP (read_doc p) (\<lambda>d.
     bindP (lift (parse_package d)) (\<lambda>m. ret (m, p)))))"

definition first_given :: "string option \<Rightarrow> string option \<Rightarrow> string option" where
  "first_given a b = (if given a then a else b)"

definition transition ::
    "int \<Rightarrow> workspace_layout \<Rightarrow> string \<Rightarrow> model_state \<Rightarrow> string \<Rightarrow> bool \<Rightarrow> string list \<Rightarrow>
       string option \<Rightarrow> bool \<Rightarrow> (registry, model_package) prog" where
  "transition now l model_id target actor human_approved evidence signature conformance_checked =
     bindP (load l model_id) (\<lambda>(package, p).
     bindP (guardP (target \<in> set (state_transitions (mp_state package)))
       (ValueError ''invalid model transition'')) (\<lambda>_.
     bindP (guardP (\<not> (target \<in> {MS_HARDWARE_VALIDATED, MS_PRODUCTION_APPROVED} \<and> \<not> human_approved))
       (PermissionError ''requires explicit human approval'')) (\<lambda>_.
     bindP (guardP (\<not> (target \<in> {MS_HARDWARE_VALIDATED, MS_PRODUCTION_APPROVED} \<and> evidence = []))
       (ValueError ''requires independent validation evidence'')) (\<lambda>_.
     bindP (guardP (\<not> (target = MS_PRODUCTION_APPROVED \<and> \<not> given signature))
       (ValueError ''production approval requires a signature'')) (\<lambda>_.
     bindP (guardP (\<not> (target = MS_CONFORMANCE_VALIDATED \<and> \<not> conformance_checked))
       (PermissionError ''use conformance_validate with an independent evidence report'')) (\<lambda>_.
     bindP (forP (\<lambda>e. bindP (workspace_path l e) (\<lambda>_. ret ())) evidence) (\<lambda>_.
     let updated = package\<lparr>mp_state := target,
           mp_validation_evidence := mp_validation_evidence package @ evidence,
           mp_signature := first_given signature (mp_signature package)\<rparr>
     in bindP (save_package now l updated p) (\<lambda>_.
        bindP (audit_p now actor ''model.transition'' model_id
          (model_state_value (mp_state package) @ ''->'' @ model_state_value target)) (\<lambda>_.
        ret updated)))))))))"

definition static_validate ::
    "ext \<Rightarrow> int \<Rightarrow> workspace_layout \<Rightarrow> string \<Rightarrow> string \<Rightarrow> (registry, model_package) prog" where
  "static_validate x now l model_id actor =
     bindP (load l model_id) (\<lambda>(package, _).
     bindP (guardP (mp_state package = MS_GENERATED)
       (ValueError ''static validation requires a generated model'')) (\<lambda>_.
     bindP (lift (require (mp_ir_path package)
       (ValueError ''generated model has no Hardware Behavior IR''))) (\<lambda>ir_name.
     bindP (workspace_path l ir_name) (\<lambda>ir_path.
     bindP (read_doc ir_path) (\<lambda>d.
     bindP (lift (parse_ir d)) (\<lambda>_.
     bindP (forP (\<lambda>(source, expected_hash).
         bindP (workspace_path l source) (\<lambda>source_path.
         bindP (read_doc source_path) (\<lambda>src.
         guardP (ext_sha256 x src = expected_hash)
           (ValueError ''grounding source changed after generation''))))
       (mp_source_hashes package)) (\<lambda>_.
     bindP (lift (relative_path l ir_path)) (\<lambda>evidence.
     transition now l model_id MS_STATIC_VALIDATED actor False [evidence] None False))))))))"

text \<open>The checks of a conformance report.\<close>

definition conformance_checks :: "model_conformance_evidence \<Rightarrow> bool list" where
  "conformance_checks r =
     [ce_source_independent r, ce_register_layout_passed r, ce_compile_passed r,
      ce_driver_tests_passed r, ce_property_tests_passed r, ce_reference_trace_passed r,
      \<not> ce_generated_tests_are_only_evidence r, ce_sandbox_read_only r]"

text \<open>
  The loop over the evidence of \<open>conformance_validate\<close>: the paths resolved so far, whether one
  lies outside the model's directory, and whether a report passed.
\<close>

definition conformance_step ::
    "workspace_layout \<Rightarrow> string \<Rightarrow> path \<Rightarrow> string \<Rightarrow> string list \<times> bool \<times> bool \<Rightarrow>
       (registry, string list \<times> bool \<times> bool) prog" where
  "conformance_step l model_id model_root item acc =
     (case acc of (resolved, indep, validated_report) \<Rightarrow>
     bindP (workspace_path l item) (\<lambda>p.
     bindP (gets (\<lambda>s. is_dir (fst s) p)) (\<lambda>dir.
     bindP (guardP (\<not> dir) (ValueError ''conformance evidence must be a file'')) (\<lambda>_.
     let indep = (indep \<or> \<not> strict_prefix model_root p) in
     bindP (read_doc p) (\<lambda>d.
     let report = parse_conformance d in
     bindP (guardP (case report of None \<Rightarrow> True | Some r \<Rightarrow> ce_model_id r = model_id)
       (ValueError ''conformance evidence model_id does not match package'')) (\<lambda>_.
     let validated_report = (case report of None \<Rightarrow> validated_report
           | Some r \<Rightarrow> validated_report \<or> list_all id (conformance_checks r)) in
     bindP (lift (relative_path l p)) (\<lambda>rel.
     ret (resolved @ [rel], indep, validated_report))))))))"

definition conformance_validate ::
    "int \<Rightarrow> workspace_layout \<Rightarrow> string \<Rightarrow> string \<Rightarrow> string list \<Rightarrow> (registry, model_package) prog" where
  "conformance_validate now l model_id actor evidence =
     bindP (load l model_id) (\<lambda>(package, package_path).
     bindP (guardP (mp_state package = MS_STATIC_VALIDATED)
       (ValueError ''conformance validation requires a static_validated model'')) (\<lambda>_.
     bindP (guardP (evidence \<noteq> [])
       (ValueError ''conformance validation requires independent evidence'')) (\<lambda>_.
     bindP (reads (\<lambda>s. resolve (fst s) (butlast package_path))) (\<lambda>model_root.
     bindP (foldP (conformance_step l model_id model_root) evidence ([], False, False))
       (\<lambda>(resolved, indep, validated_report).
     bindP (guardP indep
       (ValueError ''at least one conformance artifact must be independent of the model package'')) (\<lambda>_.
     bindP (guardP validated_report
       (ValueError ''conformance requires an independent ModelConformanceEvidence report'')) (\<lambda>_.
     transition now l model_id MS_CONFORMANCE_VALIDATED actor False resolved None True)))))))"

section \<open>Generation\<close>

text \<open>\<open>f"lines:1-{max(1, len(text.splitlines()))}"\<close> and the pages of a PDF.\<close>

fun pdf_pages :: "nat \<Rightarrow> string list \<Rightarrow> string list" where
  "pdf_pages n [] = []"
| "pdf_pages n (p # ps) = (''[page '' @ show_nat n @ '']'' @ nl @ p) # pdf_pages (Suc n) ps"

definition read_grounding_source :: "ext \<Rightarrow> path \<Rightarrow> document \<Rightarrow> (string \<times> string) result" where
  "read_grounding_source x p d =
     andThen
       (if lower (path_suffix (last_name p)) = ''.pdf''
        then case d of
               Doc_Pdf pages \<Rightarrow> Inr (join_with (nl @ nl) (pdf_pages 1 pages),
                 ''pages:1-'' @ show_nat (length pages))
             | _ \<Rightarrow> Inl (RuntimeError ''not a PDF'')
        else let text = ext_text x d in
          Inr (text, ''lines:1-'' @ show_nat (max 1 (length (splitlines text)))))
     (\<lambda>(text, locator).
       if 500000 < length text then Inl (ValueError ''grounding source is too large after extraction'')
       else Inr (text, locator))"

text \<open>The pointers the grounding map must cover.\<close>

definition required_pointers :: "hardware_behavior_ir \<Rightarrow> string list" where
  "required_pointers ir =
     map (\<lambda>i. ''/registers/'' @ show_nat i) [0..<length (ir_registers ir)] @
     map (\<lambda>i. ''/interrupts/'' @ show_nat i) [0..<length (ir_interrupts ir)] @
     map (\<lambda>i. ''/dma_requests/'' @ show_nat i) [0..<length (ir_dma_requests ir)] @
     map (\<lambda>i. ''/transactions/'' @ show_nat i) [0..<length (ir_transactions ir)]"

definition check_citations :: "string list \<Rightarrow> string \<times> string list \<Rightarrow> unit result" where
  "check_citations valid_prefixes entry =
     (case entry of (pointer, citations) \<Rightarrow>
        if \<not> starts_with pointer ''/'' \<or> citations = []
        then Inl (ValueError ''grounding entries require a JSON pointer and at least one citation'')
        else if \<not> list_all (\<lambda>c. list_ex (starts_with c) valid_prefixes) citations
        then Inl (ValueError ''grounding citation does not reference an input source'')
        else Inr ())"

definition validate_grounding_map ::
    "hardware_behavior_ir \<Rightarrow> grounding_reference list \<Rightarrow> unit result" where
  "validate_grounding_map ir references =
     (if ir_grounding ir = []
      then Inl (ValueError ''Agent-generated HardwareBehaviorIR must include a grounding map'')
      else
        let valid_prefixes = map (\<lambda>r. gr_source_path r @ ''#'') references in
        andThen (fold_result (\<lambda>e _. check_citations valid_prefixes e) (ir_grounding ir) ()) (\<lambda>_.
        if filter (\<lambda>p. p \<notin> set (dict_keys (ir_grounding ir))) (required_pointers ir) \<noteq> []
        then Inl (ValueError ''Agent-generated IR has ungrounded modeled behavior'')
        else Inr ()))"

text \<open>The exceptions \<open>except (RuntimeError, ValueError)\<close> catches.\<close>

fun runtime_or_value :: "exn \<Rightarrow> bool" where
  "runtime_or_value (RuntimeError _) = True"
| "runtime_or_value (NotImplementedError _) = True"
| "runtime_or_value (ValueError _) = True"
| "runtime_or_value (UnicodeDecodeError _) = True"
| "runtime_or_value _ = False"

text \<open>The attempts from number \<open>k\<close> on, with the number of the one that succeeded.\<close>

fun attempts :: "(nat \<Rightarrow> 'r result) \<Rightarrow> nat \<Rightarrow> nat \<Rightarrow> (nat \<times> 'r) result" where
  "attempts gen k 0 = Inl (RuntimeError ''grounded model generation failed'')"
| "attempts gen k (Suc n) =
     (case gen k of
        Inr r \<Rightarrow> Inr (k, r)
      | Inl e \<Rightarrow> if runtime_or_value e then attempts gen (Suc k) n else Inl e)"

definition model_dir :: "workspace_layout \<Rightarrow> model_generation_request \<Rightarrow> path" where
  "model_dir l r = path_join (path_join (models_dir l) (mg_id r)) (mg_version r)"

definition generated_package ::
    "int \<Rightarrow> model_generation_request \<Rightarrow> string list \<Rightarrow> (string, string) dict \<Rightarrow> string \<Rightarrow>
       string list \<Rightarrow> string \<Rightarrow> model_package" where
  "generated_package now r sources hashes ir_path artifacts generated_by =
     \<lparr>mp_id = mg_id r, mp_name = mg_name r, mp_version = mg_version r, mp_backend = mg_backend r,
      mp_state = MS_GENERATED, mp_source_paths = sources, mp_source_hashes = hashes,
      mp_ir_path = Some ir_path, mp_artifact_paths = artifacts, mp_test_paths = [],
      mp_validation_evidence = [], mp_signature = None, mp_generated_by = Some generated_by,
      mp_grounding_manifest_path = None, mp_generation_receipt_path = None, mp_created_at = now\<rparr>"

type_synonym generation_result = "model_package \<times> path \<times> path"

definition json_pair :: "string \<Rightarrow> string \<Rightarrow> string" where
  "json_pair k v = json_string k @ '': '' @ json_string v"

definition generate_svd ::
    "ext \<Rightarrow> int \<Rightarrow> workspace_layout \<Rightarrow> string \<Rightarrow> model_generation_request \<Rightarrow> string \<Rightarrow>
       (registry, generation_result) prog" where
  "generate_svd x now l actor r svd =
     bindP (workspace_path l svd) (\<lambda>svd_path.
     bindP (read_doc svd_path) (\<lambda>d.
     bindP (lift (andThen (parse_xml d) (\<lambda>doc. import_svd doc (mg_name r)))) (\<lambda>ir.
     let dir = model_dir l r; ir_path = dir @ [''behavior.ir.json'']; package_path = dir @ [''package.json'']
     in bindP (on_fst (write_doc ir_path (Doc_IR ir))) (\<lambda>_.
        bindP (read_doc svd_path) (\<lambda>d'.
        bindP (lift (relative_path l ir_path)) (\<lambda>ir_name.
        let package = generated_package now r (svd # mg_datasheets r @ mg_drivers r)
              [(svd, ext_sha256 x d')] ir_name [] (mg_generator r)
        in bindP (save_package now l package package_path) (\<lambda>_.
           bindP (audit_p now actor ''model.generate'' (mp_id package)
             (''{'' @ json_pair ''version'' (mp_version package) @ ''}'')) (\<lambda>_.
           ret (package, package_path, ir_path)))))))))"

definition rdl_source :: "model_generation_request \<Rightarrow> string option" where
  "rdl_source r =
     (if given (mg_systemrdl r) then mg_systemrdl r
      else find (\<lambda>s. ends_with s ''.rdl'' \<or> ends_with s ''.systemrdl'') (mg_datasheets r @ mg_drivers r))"

definition generate_systemrdl ::
    "ext \<Rightarrow> int \<Rightarrow> workspace_layout \<Rightarrow> string \<Rightarrow> model_generation_request \<Rightarrow>
       (registry, generation_result) prog" where
  "generate_systemrdl x now l actor r =
     bindP (lift (require (rdl_source r)
       (ValueError ''SystemRDL generation requires a .rdl source path''))) (\<lambda>source.
     bindP (workspace_path l source) (\<lambda>source_path.
     bindP (read_doc source_path) (\<lambda>d.
     bindP (lift (andThen (ext_rdl x d) (\<lambda>doc. import_systemrdl doc (mg_name r)))) (\<lambda>ir.
     let dir = model_dir l r; ir_path = dir @ [''behavior.ir.json''];
         source_path_cs = dir @ [''GeneratedPeripheral.cs'']; package_path = dir @ [''package.json'']
     in bindP (on_fst (write_doc ir_path (Doc_IR ir))) (\<lambda>_.
        bindP (on_fst (write_doc source_path_cs
          (Doc_Text (generate_renode_csharp ir ''Ael.Generated'')))) (\<lambda>_.
        bindP (read_doc source_path) (\<lambda>d'.
        bindP (lift (relative_path l ir_path)) (\<lambda>ir_name.
        bindP (lift (relative_path l source_path_cs)) (\<lambda>cs_name.
        let package = generated_package now r [source] [(source, ext_sha256 x d')] ir_name [cs_name]
              (mg_generator r)
        in bindP (save_package now l package package_path) (\<lambda>_.
           bindP (audit_p now actor ''model.generate'' (mp_id package) ''systemrdl'') (\<lambda>_.
           ret (package, package_path, ir_path))))))))))))"

fun provider_value :: "provider \<Rightarrow> string" where
  "provider_value PROV_openai = ''openai''"
| "provider_value PROV_anthropic = ''anthropic''"

text \<open>
  The loop over the grounding sources: the documents of the prompt, the references and the hashes.
\<close>

definition ground_source ::
    "ext \<Rightarrow> workspace_layout \<Rightarrow> string \<Rightarrow>
       string list \<times> grounding_reference list \<times> (string, string) dict \<Rightarrow>
       (registry, string list \<times> grounding_reference list \<times> (string, string) dict) prog" where
  "ground_source x l source_name acc =
     (case acc of (documents, references, hashes) \<Rightarrow>
      bindP (workspace_path l source_name) (\<lambda>p.
      bindP (read_doc p) (\<lambda>d.
      let digest = ext_sha256 x d in
      bindP (lift (read_grounding_source x p d)) (\<lambda>(text, locator).
      bindP (guardP (is_sha256 digest) (ValueError ''source_sha256'')) (\<lambda>_.
      ret (documents @ [''<source path='' @ json_string source_name @ '' sha256='' @ json_string digest @
             '' locator='' @ json_string locator @ ''>'' @ nl @ text @ nl @ ''</source>''],
           references @ [\<lparr>gr_source_path = source_name, gr_source_sha256 = digest, gr_locator = locator,
             gr_purpose = ''datasheet/driver/reference evidence for Hardware Behavior IR''\<rparr>],
           dict_set source_name digest hashes))))))"

definition grounded_prompt :: "string \<Rightarrow> string list \<Rightarrow> string" where
  "grounded_prompt name documents =
     ''Target model name: '' @ name @ nl @
     ''Return a strict HardwareBehaviorIR. The grounding map must map every modeled '' @
     ''register, interrupt, DMA request, transaction, fault, clock, timer, and power state '' @
     ''JSON pointer to one or more `path#locator` entries present below. Omit behavior that '' @
     ''is not established by the sources. SI/UCUM units are required.'' @ nl @ nl @
     join_with (nl @ nl) documents"

definition generate_grounded ::
    "ext \<Rightarrow> int \<Rightarrow> workspace_layout \<Rightarrow> string \<Rightarrow> model_generation_request \<Rightarrow>
       (registry, generation_result) prog" where
  "generate_grounded x now l actor r =
     bindP (lift (require (mg_generation r) (ValueError
       ''document-only generation requires generation.provider, model, and template version''))) (\<lambda>g.
     let source_names = mg_datasheets r @ mg_drivers r @ mg_reference_models r @ mg_hardware_traces r in
     bindP (guardP (source_names \<noteq> []) (ValueError
       ''grounded Agent generation requires document, driver, model, or trace input'')) (\<lambda>_.
     bindP (foldP (ground_source x l) source_names ([], [], [])) (\<lambda>(documents, references, hashes).
     let prompt = grounded_prompt (mg_name r) documents in
     bindP (guardP (\<not> 1500000 < length prompt)
       (ValueError ''grounding input exceeds the 1,500,000 character safety limit'')) (\<lambda>_.
     bindP (lift (attempts (ext_provider x g prompt) 1 (nat (gc_max_attempts g)))) (\<lambda>(attempt, response).
     bindP (lift (validate_grounding_map (gen_ir response) references)) (\<lambda>_.
     let dir = model_dir l r; ir_path = dir @ [''behavior.ir.json'']; package_path = dir @ [''package.json''];
         grounding_path = dir @ [''grounding-manifest.json''];
         receipt_path = dir @ [''generation-receipt.json'']; generated = dir @ [''GeneratedPeripheral.cs'']
     in bindP (on_fst (write_doc ir_path (Doc_IR (gen_ir response)))) (\<lambda>_.
        bindP (on_fst (write_doc grounding_path (Doc_Grounding references))) (\<lambda>_.
        bindP (on_fst (write_doc receipt_path (Doc_Receipt
          \<lparr>rc_provider = provider_value (gc_provider g), rc_model = gc_model g,
           rc_prompt_template_version = gc_prompt_template_version g,
           rc_request_sha256 = ext_sha256 x (Doc_Text prompt),
           rc_response_sha256 = ext_sha256 x (Doc_Text (gen_raw_text response)),
           rc_provider_request_id = gen_request_id response, rc_attempts = int attempt,
           rc_recorded = gen_recorded response\<rparr>))) (\<lambda>_.
        bindP (if mg_backend r = BN_RENODE
               then bindP (on_fst (write_doc generated
                   (Doc_Text (generate_renode_csharp (gen_ir response) ''Ael.Generated'')))) (\<lambda>_.
                 bindP (lift (relative_path l generated)) (\<lambda>n. ret [n]))
               else ret []) (\<lambda>artifact_paths.
        bindP (lift (relative_path l ir_path)) (\<lambda>ir_name.
        bindP (lift (relative_path l grounding_path)) (\<lambda>grounding_name.
        bindP (lift (relative_path l receipt_path)) (\<lambda>receipt_name.
        let package = (generated_package now r source_names hashes ir_name artifact_paths
              (provider_value (gc_provider g) @ '':'' @ gc_model g))
              \<lparr>mp_grounding_manifest_path := Some grounding_name,
               mp_generation_receipt_path := Some receipt_name\<rparr>
        in bindP (save_package now l package package_path) (\<lambda>_.
           bindP (audit_p now actor ''model.generate.grounded'' (mp_id package)
             (''{'' @ json_pair ''provider'' (provider_value (gc_provider g)) @ '', '' @
              json_pair ''version'' (mp_version package) @ ''}'')) (\<lambda>_.
           ret (package, package_path, ir_path))))))))))))))))"

definition generate ::
    "ext \<Rightarrow> int \<Rightarrow> workspace_layout \<Rightarrow> string \<Rightarrow> string \<Rightarrow> (registry, generation_result) prog" where
  "generate x now l request_path actor =
     bindP (load_request l request_path) (\<lambda>r.
     if mg_systemrdl r \<noteq> None then generate_systemrdl x now l actor r
     else case mg_svd r of
            None \<Rightarrow> generate_grounded x now l actor r
          | Some svd \<Rightarrow> generate_svd x now l actor r svd)"

definition generate_from_systemrdl ::
    "ext \<Rightarrow> int \<Rightarrow> workspace_layout \<Rightarrow> string \<Rightarrow> string \<Rightarrow> (registry, generation_result) prog" where
  "generate_from_systemrdl x now l request_path actor =
     bindP (load_request l request_path) (generate_systemrdl x now l actor)"

definition generate_renode_source ::
    "int \<Rightarrow> workspace_layout \<Rightarrow> string \<Rightarrow> (registry, path) prog" where
  "generate_renode_source now l model_id =
     bindP (load l model_id) (\<lambda>(package, package_path).
     bindP (lift (require (mp_ir_path package) (ValueError ''model has no Hardware Behavior IR''))) (\<lambda>ir_name.
     bindP (workspace_path l ir_name) (\<lambda>ir_path.
     bindP (read_doc ir_path) (\<lambda>d.
     bindP (lift (parse_ir d)) (\<lambda>ir.
     let destination = butlast package_path @ [''GeneratedPeripheral.cs''] in
     bindP (on_fst (write_doc destination
       (Doc_Text (generate_renode_csharp ir ''Ael.Generated'')))) (\<lambda>_.
     bindP (lift (relative_path l destination)) (\<lambda>relative.
     bindP (if relative \<notin> set (mp_artifact_paths package)
            then save_package now l
              (package\<lparr>mp_artifact_paths := mp_artifact_paths package @ [relative]\<rparr>) package_path
            else ret ()) (\<lambda>_.
     ret destination))))))))"

section \<open>Requests to the registry\<close>

datatype registry_op =
    Generate string string
  | Generate_RDL string string
  | Renode_Source string
  | Static_Validate string string
  | Conformance_Validate string string "string list"
  | Transition string model_state string bool "string list" "string option" bool

fun registry_step :: "ext \<Rightarrow> workspace_layout \<Rightarrow> int \<Rightarrow> registry_op \<Rightarrow> registry \<Rightarrow> registry" where
  "registry_step x l now (Generate p actor) s = snd (generate x now l p actor s)"
| "registry_step x l now (Generate_RDL p actor) s = snd (generate_from_systemrdl x now l p actor s)"
| "registry_step x l now (Renode_Source i) s = snd (generate_renode_source now l i s)"
| "registry_step x l now (Static_Validate i actor) s = snd (static_validate x now l i actor s)"
| "registry_step x l now (Conformance_Validate i actor ev) s =
     snd (conformance_validate now l i actor ev s)"
| "registry_step x l now (Transition i target actor human ev sig checked) s =
     snd (transition now l i target actor human ev sig checked s)"

fun run_registry :: "ext \<Rightarrow> workspace_layout \<Rightarrow> (int \<times> registry_op) list \<Rightarrow> registry \<Rightarrow> registry" where
  "run_registry x l [] s = s"
| "run_registry x l ((now, op) # ops) s = run_registry x l ops (registry_step x l now op s)"

section \<open>Approval needs a human\<close>

definition approved :: "model_state \<Rightarrow> bool" where
  "approved m \<longleftrightarrow> m \<in> {MS_HARDWARE_VALIDATED, MS_PRODUCTION_APPROVED}"

text \<open>Neither a package file nor a row of the store is in an approved state.\<close>

definition unapproved :: "registry \<Rightarrow> bool" where
  "unapproved s \<longleftrightarrow>
     (\<forall>p m. files (fst s) p = Some (Doc_Package m) \<longrightarrow> \<not> approved (mp_state m)) \<and>
     (\<forall>r \<in> set (ss_models (snd s)). \<not> approved (mr_state r))"

lemma workspace_path_read_only: "read_only (workspace_path l c)"
  by (simp add: workspace_path_def read_only_intros)

lemma read_doc_read_only: "read_only (read_doc p)"
  by (simp add: read_doc_def read_only_intros)

lemma keeps_reads_of_registry [keeps_intros]:
  "keeps I (workspace_path l c)" "keeps I (read_doc p)"
  by (simp_all add: workspace_path_def read_doc_def)

lemma load_read_only: "read_only (load l i)"
  unfolding load_def
  by (intro read_only_bind read_only_intros workspace_path_read_only read_doc_read_only)

lemma keeps_load [keeps_intros]: "keeps I (load l i)"
  by (rule keeps_read_only [OF load_read_only])

lemma load_yields: "yields unapproved (load l i) (\<lambda>(m, p). \<not> approved (mp_state m))"
  by (auto simp: yields_def load_def read_doc_def workspace_path_def bindP_eq_Inr unapproved_def
      require_eq_Inr elim!: parse_package.elims)

lemma write_doc_unapproved:
  assumes "\<And>m. d = Doc_Package m \<Longrightarrow> \<not> approved (mp_state m)"
  shows "keeps unapproved (on_fst (write_doc p d))"
  using assms by (auto simp: keeps_def write_doc_def on_fst_def bindP_def guardP_def check_def
      unapproved_def split: prod.splits sum.splits if_splits)

lemma keeps_write_other [keeps_intros]:
  "keeps unapproved (on_fst (write_doc p (Doc_IR ir)))"
  "keeps unapproved (on_fst (write_doc p (Doc_Text t)))"
  "keeps unapproved (on_fst (write_doc p (Doc_Grounding g)))"
  "keeps unapproved (on_fst (write_doc p (Doc_Receipt rc)))"
  by (rule write_doc_unapproved; simp)+

lemma upsert_states:
  "r \<in> set (upsert_model row rows) \<Longrightarrow> mr_state r = mr_state row \<or> r \<in> set rows"
  by (auto simp: upsert_model_def update_where_def split: if_splits)

lemma save_package_unapproved:
  assumes "\<not> approved (mp_state m)"
  shows "keeps unapproved (save_package now l m p)"
proof -
  have "keeps unapproved (on_fst (write_doc p (Doc_Package m)))"
    by (rule write_doc_unapproved) (use assms in simp)
  then show ?thesis
    unfolding save_package_def save_model_def
    by (intro keeps_intros) (use assms in \<open>auto simp: unapproved_def dest!: upsert_states\<close>)
qed

lemma audit_unapproved [keeps_intros]: "keeps unapproved (audit_p now who what on details)"
  unfolding audit_p_def by (rule keeps_modify) (auto simp: unapproved_def audit_def)

lemma transition_unapproved:
  "keeps unapproved (transition now l i target actor False ev sig checked)"
  unfolding transition_def Let_def
  by (rule keeps_bind_yields [OF keeps_load load_yields])
    (auto simp: approved_def split_beta intro!: keeps_intros save_package_unapproved)

lemma static_validate_unapproved: "keeps unapproved (static_validate x now l i actor)"
  unfolding static_validate_def by (intro keeps_intros transition_unapproved)

lemma conformance_step_keeps [keeps_intros]: "keeps I (conformance_step l i mr item acc)"
  unfolding conformance_step_def Let_def by (intro keeps_intros)

lemma conformance_validate_unapproved: "keeps unapproved (conformance_validate now l i actor ev)"
  unfolding conformance_validate_def by (intro keeps_intros transition_unapproved)

lemma ground_source_keeps [keeps_intros]: "keeps I (ground_source x l n acc)"
  unfolding ground_source_def Let_def by (intro keeps_intros)

lemma generated_package_state: "mp_state (generated_package now r src h i a g) = MS_GENERATED"
  by (simp add: generated_package_def)

lemma generate_unapproved:
  "keeps unapproved (generate_svd x now l actor r svd)"
  "keeps unapproved (generate_systemrdl x now l actor r)"
  "keeps unapproved (generate_grounded x now l actor r)"
  unfolding generate_svd_def generate_systemrdl_def generate_grounded_def Let_def
  by (intro keeps_intros save_package_unapproved; simp add: generated_package_state approved_def)+

lemma load_request_keeps [keeps_intros]: "keeps I (load_request l c)"
  unfolding load_request_def
  by (intro keeps_intros) (auto split: document.split intro: keeps_intros)

lemma generate_renode_source_unapproved: "keeps unapproved (generate_renode_source now l i)"
  unfolding generate_renode_source_def Let_def
  by (rule keeps_bind_yields [OF keeps_load load_yields])
    (auto simp: split_beta intro!: keeps_intros save_package_unapproved)

text \<open>An operation in which no human approves.\<close>

fun by_agent :: "registry_op \<Rightarrow> bool" where
  "by_agent (Transition i target actor human ev sig checked) \<longleftrightarrow> \<not> human"
| "by_agent op \<longleftrightarrow> True"

lemma registry_step_unapproved:
  "by_agent op \<Longrightarrow> unapproved s \<Longrightarrow> unapproved (registry_step x l now op s)"
proof (cases op)
  case (Generate p actor)
  assume "unapproved s"
  moreover have "keeps unapproved (generate x now l p actor)"
    unfolding generate_def by (intro keeps_intros generate_unapproved)
  ultimately show ?thesis by (simp only: Generate registry_step.simps keepsD)
next
  case (Generate_RDL p actor)
  assume "unapproved s"
  moreover have "keeps unapproved (generate_from_systemrdl x now l p actor)"
    unfolding generate_from_systemrdl_def by (intro keeps_intros generate_unapproved)
  ultimately show ?thesis by (simp only: Generate_RDL registry_step.simps keepsD)
qed (auto intro: keepsD generate_renode_source_unapproved static_validate_unapproved
    conformance_validate_unapproved transition_unapproved)

lemma run_registry_unapproved:
  "list_all (by_agent \<circ> snd) ops \<Longrightarrow> unapproved s \<Longrightarrow> unapproved (run_registry x l ops s)"
  by (induction x l ops s rule: run_registry.induct) (auto simp: registry_step_unapproved)

section \<open>What an accepted transition establishes\<close>

definition rank :: "model_state \<Rightarrow> nat" where
  "rank m = (case m of MS_DRAFT \<Rightarrow> 0 | MS_GENERATED \<Rightarrow> 1 | MS_STATIC_VALIDATED \<Rightarrow> 2
     | MS_CONFORMANCE_VALIDATED \<Rightarrow> 3 | MS_HARDWARE_VALIDATED \<Rightarrow> 4 | MS_PRODUCTION_APPROVED \<Rightarrow> 5
     | MS_DEPRECATED \<Rightarrow> 6)"

lemma state_transitions_rank: "t \<in> set (state_transitions m) \<Longrightarrow> rank m < rank t"
  by (cases m) (auto simp: rank_def)

lemma forP_read_only: "(\<And>x. read_only (f x)) \<Longrightarrow> read_only (forP f xs)"
  by (induction xs) (auto intro: read_only_bind read_only_intros)

lemma load_Inr: "load l i s = (Inr (m, p), t) \<Longrightarrow> t = s"
  using read_only_result [OF load_read_only] .

lemma audit_p_Inr: "audit_p now who what on details s = (Inr u, t) \<Longrightarrow>
    fst t = fst s \<and> ss_models (snd t) = ss_models (snd s) \<and>
    (\<exists>e. ss_audit (snd t) = ss_audit (snd s) @ [e] \<and> au_actor e = who \<and> au_action e = what \<and>
       au_subject e = on \<and> au_details e = details)"
  by (cases s) (auto simp: audit_p_def audit_def)

lemma write_doc_Inr:
  "write_doc p d fs = (Inr u, fs') \<Longrightarrow> \<exists>q. resolve fs p = Inr q \<and> files fs' = (files fs)(q \<mapsto> d) \<and>
     links fs' = links fs \<and> link_budget fs' = link_budget fs"
  by (auto simp: write_doc_def bindP_eq_Inr guardP_eq_Inr)

lemma save_package_Inr:
  assumes "save_package now l m p s = (Inr u, t)"
  shows "\<exists>q. resolve (fst s) p = Inr q \<and> files (fst t) = (files (fst s))(q \<mapsto> Doc_Package m) \<and>
     links (fst t) = links (fst s) \<and> link_budget (fst t) = link_budget (fst s) \<and>
     prefix (layout_root l) p \<and>
     get_model_record (mp_id m) (snd t) = Some \<lparr>mr_model_id = mp_id m, mr_state = mp_state m,
       mr_package_path = relative_to (layout_root l) p, mr_updated_at = now\<rparr> \<and>
     ss_audit (snd t) = ss_audit (snd s)"
proof -
  from assms obtain v fs where w: "write_doc p (Doc_Package m) (fst s) = (Inr v, fs)"
    and pre: "prefix (layout_root l) p"
    and t: "t = (fs, (snd s)\<lparr>ss_models := upsert_model \<lparr>mr_model_id = mp_id m, mr_state = mp_state m,
       mr_package_path = relative_to (layout_root l) p, mr_updated_at = now\<rparr> (ss_models (snd s))\<rparr>)"
    by (auto simp: save_package_def save_model_def bindP_eq_Inr on_fst_def guardP_eq_Inr
        split: prod.splits)
  have "get_model_record (mp_id m) (snd t) = Some \<lparr>mr_model_id = mp_id m, mr_state = mp_state m,
       mr_package_path = relative_to (layout_root l) p, mr_updated_at = now\<rparr>"
  proof (cases "find_by mr_model_id (mp_id m) (ss_models (snd s))")
    case None
    then show ?thesis by (simp add: t get_model_record_def upsert_model_def find_by_append)
  next
    case (Some r)
    from find_by_SomeD [OF Some] have "mr_model_id r = mp_id m" by simp
    with Some show ?thesis
      by (simp add: t get_model_record_def upsert_model_def find_by_update_where)
  qed
  with write_doc_Inr [OF w] pre t show ?thesis by auto
qed

text \<open>The package \<open>transition\<close> saves.\<close>

definition moved :: "model_package \<Rightarrow> model_state \<Rightarrow> string list \<Rightarrow> string option \<Rightarrow> model_package" where
  "moved m target evidence signature =
     m\<lparr>mp_state := target, mp_validation_evidence := mp_validation_evidence m @ evidence,
       mp_signature := first_given signature (mp_signature m)\<rparr>"

lemma transition_Inr:
  assumes "transition now l i target actor human ev sig checked s = (Inr u, t)"
  shows "\<exists>m p q. load l i s = (Inr (m, p), s) \<and> target \<in> set (state_transitions (mp_state m)) \<and>
     (approved target \<longrightarrow> human \<and> ev \<noteq> []) \<and> (target = MS_PRODUCTION_APPROVED \<longrightarrow> given sig) \<and>
     (target = MS_CONFORMANCE_VALIDATED \<longrightarrow> checked) \<and> u = moved m target ev sig \<and>
     resolve (fst s) p = Inr q \<and> files (fst t) = (files (fst s))(q \<mapsto> Doc_Package u) \<and>
     get_model_record (mp_id m) (snd t) = Some \<lparr>mr_model_id = mp_id m, mr_state = target,
       mr_package_path = relative_to (layout_root l) p, mr_updated_at = now\<rparr> \<and>
     (\<exists>e. ss_audit (snd t) = ss_audit (snd s) @ [e] \<and> au_actor e = actor \<and> au_subject e = i \<and>
        au_action e = ''model.transition'' \<and>
        au_details e = model_state_value (mp_state m) @ ''->'' @ model_state_value target)"
proof -
  from assms obtain m p s1 where l: "load l i s = (Inr (m, p), s1)"
    and g: "target \<in> set (state_transitions (mp_state m))"
      "approved target \<longrightarrow> human \<and> ev \<noteq> []" "target = MS_PRODUCTION_APPROVED \<longrightarrow> given sig"
      "target = MS_CONFORMANCE_VALIDATED \<longrightarrow> checked"
    and r: "bindP (forP (\<lambda>e. bindP (workspace_path l e) (\<lambda>_. ret ())) ev) (\<lambda>_.
        bindP (save_package now l (moved m target ev sig) p) (\<lambda>_.
        bindP (audit_p now actor ''model.transition'' i
          (model_state_value (mp_state m) @ ''->'' @ model_state_value target)) (\<lambda>_.
        ret (moved m target ev sig)))) s1 = (Inr u, t)"
    unfolding transition_def Let_def moved_def
    by (auto simp: bindP_eq_Inr [of "load l i"] approved_def split: if_splits)
  have s1: "s1 = s" by (rule load_Inr [OF l])
  have ro: "read_only (forP (\<lambda>e. bindP (workspace_path l e) (\<lambda>_. ret ())) ev)"
    by (intro forP_read_only read_only_bind workspace_path_read_only read_only_intros)
  from r obtain s2 where "save_package now l (moved m target ev sig) p s = (Inr (), s2)"
    and a: "audit_p now actor ''model.transition'' i
      (model_state_value (mp_state m) @ ''->'' @ model_state_value target) s2 = (Inr (), t)"
    and u: "u = moved m target ev sig"
    by (auto simp: bindP_eq_Inr s1 dest!: read_only_result [OF ro])
  from save_package_Inr [OF this(1)] audit_p_Inr [OF a] l g u s1 show ?thesis
    by (auto simp: moved_def get_model_record_def)
qed

text \<open>The evidence loop of \<open>conformance_validate\<close>.\<close>

definition conformance_evidence ::
    "workspace_layout \<Rightarrow> string \<Rightarrow> registry \<Rightarrow> path \<Rightarrow> string list \<Rightarrow> bool \<Rightarrow> bool \<Rightarrow> bool" where
  "conformance_evidence l i s model_root evidence indep validated \<longleftrightarrow>
     (indep \<longrightarrow> (\<exists>c \<in> set evidence. \<exists>p. resolve_workspace_path (fst s) (layout_root l) c True = Inr p \<and>
        \<not> strict_prefix model_root p)) \<and>
     (validated \<longrightarrow> (\<exists>c \<in> set evidence. \<exists>p r. resolve_workspace_path (fst s) (layout_root l) c True = Inr p \<and>
        files (fst s) p = Some (Doc_Conformance r) \<and> ce_model_id r = i \<and>
        list_all id (conformance_checks r)))"

lemma parse_conformance_Some: "parse_conformance d = Some r \<Longrightarrow> d = Doc_Conformance r"
  by (cases d) (auto split: if_splits)

lemma conformance_step_Inr:
  assumes "conformance_step l i mr c (rs, indep, val) s = (Inr (rs', indep', val'), t)"
  shows "t = s \<and> (\<exists>p. resolve_workspace_path (fst s) (layout_root l) c True = Inr p \<and>
     indep' = (indep \<or> \<not> strict_prefix mr p) \<and>
     (val' \<longrightarrow> val \<or> (\<exists>r. files (fst s) p = Some (Doc_Conformance r) \<and> ce_model_id r = i \<and>
        list_all id (conformance_checks r))))"
  using assms
  by (auto simp: conformance_step_def workspace_path_def read_doc_def bindP_eq_Inr guardP_eq_Inr
      require_eq_Inr Let_def split: option.splits dest!: parse_conformance_Some)

lemma conformance_loop:
  assumes "foldP (conformance_step l i mr) evs (rs, indep, val) s = (Inr (rs', indep', val'), t)"
    and "conformance_evidence l i s mr before indep val"
  shows "t = s \<and> conformance_evidence l i s mr (before @ evs) indep' val'"
  using assms
proof (induction evs arbitrary: before rs indep val)
  case Nil
  then show ?case by simp
next
  case (Cons c evs)
  from Cons.prems(1) obtain rs1 i1 v1 s1
    where step: "conformance_step l i mr c (rs, indep, val) s = (Inr (rs1, i1, v1), s1)"
    and rest: "foldP (conformance_step l i mr) evs (rs1, i1, v1) s1 = (Inr (rs', indep', val'), t)"
    by (auto simp: bindP_eq_Inr)
  note st = conformance_step_Inr [OF step]
  have "conformance_evidence l i s mr (before @ [c]) i1 v1"
    using st Cons.prems(2) by (auto simp: conformance_evidence_def)
  from Cons.IH [OF _ this, of rs1] rest st show ?case by simp
qed

lemma conformance_validate_Inr:
  assumes "conformance_validate now l i actor evs s = (Inr u, t)"
  shows "\<exists>m p root. load l i s = (Inr (m, p), s) \<and> mp_state m = MS_STATIC_VALIDATED \<and>
     resolve (fst s) (butlast p) = Inr root \<and> conformance_evidence l i s root evs True True \<and>
     mp_state u = MS_CONFORMANCE_VALIDATED"
proof -
  from assms obtain m p root rs s1 s2 s3 where l: "load l i s = (Inr (m, p), s1)"
    and st: "mp_state m = MS_STATIC_VALIDATED"
    and r: "resolve (fst s1) (butlast p) = Inr root" "s2 = s1"
    and loop: "foldP (conformance_step l i root) evs ([], False, False) s2 = (Inr (rs, True, True), s3)"
    and tr: "transition now l i MS_CONFORMANCE_VALIDATED actor False rs None True s3 = (Inr u, t)"
    unfolding conformance_validate_def
    by (auto simp: bindP_eq_Inr guardP_eq_Inr split: prod.splits)
  have s1: "s1 = s" by (rule load_Inr [OF l])
  have "conformance_evidence l i s root [] False False" by (simp add: conformance_evidence_def)
  from conformance_loop [OF loop [unfolded r(2) s1] this]
  have "conformance_evidence l i s root evs True True" by simp
  moreover have "mp_state u = MS_CONFORMANCE_VALIDATED"
    using transition_Inr [OF tr] by (auto simp: moved_def)
  ultimately show ?thesis using l st r s1 by blast
qed

text \<open>The grounding check, without its loops.\<close>

definition grounded :: "hardware_behavior_ir \<Rightarrow> grounding_reference list \<Rightarrow> bool" where
  "grounded ir references \<longleftrightarrow> ir_grounding ir \<noteq> [] \<and>
     (\<forall>(pointer, citations) \<in> set (ir_grounding ir). starts_with pointer ''/'' \<and> citations \<noteq> [] \<and>
        (\<forall>c \<in> set citations. \<exists>r \<in> set references. starts_with c (gr_source_path r @ ''#''))) \<and>
     set (required_pointers ir) \<subseteq> fst ` set (ir_grounding ir)"

lemma fold_check_iff:
  "fold_result (\<lambda>e _. f e) es () = Inr () \<longleftrightarrow> (\<forall>e \<in> set es. f e = Inr ())"
  by (induction es) (auto simp: andThen_eq_Inr)

lemma check_citations_iff:
  "check_citations ps (pointer, cs) = Inr () \<longleftrightarrow> starts_with pointer ''/'' \<and> cs \<noteq> [] \<and>
     (\<forall>c \<in> set cs. \<exists>p \<in> set ps. starts_with c p)"
  by (auto simp: check_citations_def list_all_iff list_ex_iff)

lemma validate_grounding_map_grounded:
  "validate_grounding_map ir refs = Inr () \<longleftrightarrow> grounded ir refs"
  unfolding validate_grounding_map_def grounded_def Let_def
  by (auto simp: andThen_eq_Inr fold_check_iff check_citations_iff filter_empty_conv split_beta)

section \<open>A workspace for the witnesses\<close>

definition demo_layout :: workspace_layout where
  "demo_layout = \<lparr>layout_root = [''ws'']\<rparr>"

definition demo_request :: "string \<Rightarrow> model_generation_request" where
  "demo_request version = \<lparr>mg_id = ''uart'', mg_name = ''uart'', mg_version = version,
     mg_backend = BN_RENODE, mg_svd = Some ''chip.svd'', mg_systemrdl = None, mg_datasheets = [],
     mg_drivers = [], mg_reference_models = [], mg_hardware_traces = [],
     mg_generator = ''ael.svd-importer/v1'', mg_generation = None\<rparr>"

definition demo_report :: model_conformance_evidence where
  "demo_report = \<lparr>ce_model_id = ''uart'', ce_validator = ''lab'', ce_source_independent = True,
     ce_register_layout_passed = True, ce_compile_passed = True, ce_driver_tests_passed = True,
     ce_property_tests_passed = True, ce_reference_trace_passed = True,
     ce_generated_tests_are_only_evidence = False, ce_sandbox_read_only = True,
     ce_artifact_hashes = [(''a'', ''b'')]\<rparr>"

text \<open>
  A workspace with a request, an SVD file, two notes, a report in a directory of the laboratory and
  one in the directory the model will be generated into.
\<close>

definition demo_fs :: "string \<Rightarrow> document fsys" where
  "demo_fs version = \<lparr>links = (\<lambda>_. None),
     files = Map.empty([''ws'', ''req.json''] \<mapsto> Doc_Request (demo_request version),
       [''ws'', ''chip.svd''] \<mapsto> Doc_Xml demo_svd, [''ws'', ''notes.txt''] \<mapsto> Doc_Text ''notes'',
       [''ws'', ''lab'', ''report.json''] \<mapsto> Doc_Conformance demo_report,
       [''ws'', ''models'', ''uart'', ''1'', ''self.json''] \<mapsto> Doc_Conformance demo_report),
     is_dir = (\<lambda>p. p \<in> {[], [''ws''], [''ws'', ''lab'']}), link_budget = 0\<rparr>"

definition demo_ext :: ext where
  "demo_ext = \<lparr>ext_sha256 = (\<lambda>_. replicate 64 CHR ''a''), ext_rdl = (\<lambda>_. Inl (RuntimeError [])),
     ext_text = (\<lambda>_. []), ext_provider = (\<lambda>_ _ _. Inl (RuntimeError []))\<rparr>"

definition demo_registry :: registry where
  "demo_registry = run_registry demo_ext demo_layout
     [(1, Generate ''req.json'' ''agent''), (2, Static_Validate ''uart'' ''agent'')]
     (demo_fs ''1'', migrated)"

definition demo_conformant :: registry where
  "demo_conformant = run_registry demo_ext demo_layout
     [(3, Conformance_Validate ''uart'' ''ci'' [''lab/report.json''])] demo_registry"

definition model_state_in :: "string \<Rightarrow> registry \<Rightarrow> model_state option" where
  "model_state_in i s = map_option mr_state (get_model_record i (snd s))"

lemma demo_states:
  "model_state_in ''uart'' demo_registry = Some MS_STATIC_VALIDATED"
  "model_state_in ''uart'' demo_conformant = Some MS_CONFORMANCE_VALIDATED"
  by code_simp+

lemma demo_fs_unapproved: "unapproved (demo_fs v, migrated)"
  by (auto simp: unapproved_def demo_fs_def migrated_def split: if_splits)

section \<open>Properties\<close>

text \<open>C10. No sequence of registry operations in which no human approves (generation, static and
  conformance validation, transitions an agent asks for) brings any model into the hardware
  validated or production approved state, in its package file or in the store, whatever the files,
  the evidence and the provider say, as long as none was there before.\<close>

theorem approval_needs_human:
  assumes "unapproved s" and "list_all (by_agent \<circ> snd) ops"
  shows "unapproved (run_registry x l ops s)"
  by (rule run_registry_unapproved [OF assms(2,1)])

theorem approval_needs_human_witness:
  "unapproved (run_registry demo_ext demo_layout
     [(1, Generate ''req.json'' ''agent''), (2, Static_Validate ''uart'' ''agent''),
      (3, Conformance_Validate ''uart'' ''ci'' [''lab/report.json'']),
      (4, Transition ''uart'' MS_HARDWARE_VALIDATED ''agent'' False [''lab/report.json''] None True)]
     (demo_fs ''1'', migrated))"
  by (rule approval_needs_human [OF demo_fs_unapproved]) simp

text \<open>What an accepted transition means: it follows an edge of the life cycle (so the rank of
  the state grows and a deprecated model never moves again), approvals were made by a human with
  evidence and production with a signature, conformance only from the conformance check, and the
  new package is on disk, in the store and in the audit log.\<close>

theorem transition_sound:
  assumes "transition now l i target actor human ev sig checked s = (Inr u, t)"
  shows "\<exists>m p q. load l i s = (Inr (m, p), s) \<and> mp_state m \<noteq> MS_DEPRECATED \<and>
     rank (mp_state m) < rank target \<and>
     (approved target \<longrightarrow> human \<and> ev \<noteq> []) \<and> (target = MS_PRODUCTION_APPROVED \<longrightarrow> given sig) \<and>
     (target = MS_CONFORMANCE_VALIDATED \<longrightarrow> checked) \<and> u = moved m target ev sig \<and>
     resolve (fst s) p = Inr q \<and> files (fst t) = (files (fst s))(q \<mapsto> Doc_Package u) \<and>
     map_option mr_state (get_model_record (mp_id m) (snd t)) = Some target \<and>
     (\<exists>e. ss_audit (snd t) = ss_audit (snd s) @ [e] \<and> au_actor e = actor \<and> au_subject e = i)"
proof -
  from transition_Inr [OF assms] obtain m p q e
    where *: "load l i s = (Inr (m, p), s)" "target \<in> set (state_transitions (mp_state m))"
      "approved target \<longrightarrow> human \<and> ev \<noteq> []" "target = MS_PRODUCTION_APPROVED \<longrightarrow> given sig"
      "target = MS_CONFORMANCE_VALIDATED \<longrightarrow> checked" "u = moved m target ev sig"
      "resolve (fst s) p = Inr q" "files (fst t) = (files (fst s))(q \<mapsto> Doc_Package u)"
      "map_option mr_state (get_model_record (mp_id m) (snd t)) = Some target"
      "ss_audit (snd t) = ss_audit (snd s) @ [e] \<and> au_actor e = actor \<and> au_subject e = i" by auto
  have "mp_state m \<noteq> MS_DEPRECATED" using *(2) by auto
  moreover have "rank (mp_state m) < rank target" by (rule state_transitions_rank [OF *(2)])
  ultimately show ?thesis using * by blast
qed

theorem transition_sound_witness:
  "\<exists>u t. transition 9 demo_layout ''uart'' MS_HARDWARE_VALIDATED ''alice'' True
      [''lab/report.json''] None False demo_conformant = (Inr u, t) \<and>
     (\<exists>e. ss_audit (snd t) = ss_audit (snd demo_conformant) @ [e] \<and> au_actor e = ''alice'')"
proof -
  have "map_sum id mp_state (fst (transition 9 demo_layout ''uart'' MS_HARDWARE_VALIDATED ''alice''
      True [''lab/report.json''] None False demo_conformant)) = Inr MS_HARDWARE_VALIDATED"
    by code_simp
  then obtain u t where "transition 9 demo_layout ''uart'' MS_HARDWARE_VALIDATED ''alice'' True
      [''lab/report.json''] None False demo_conformant = (Inr u, t)"
    by (cases "transition 9 demo_layout ''uart'' MS_HARDWARE_VALIDATED ''alice'' True
      [''lab/report.json''] None False demo_conformant", cases "fst (transition 9 demo_layout
      ''uart'' MS_HARDWARE_VALIDATED ''alice'' True [''lab/report.json''] None False demo_conformant)") auto
  with transition_sound [OF this] show ?thesis by blast
qed

text \<open>A model becomes conformance validated only from the static validated state and with
  evidence that holds in the workspace: some file outside the model's own directory, and some
  report about this very model in which every check passed.\<close>

theorem conformance_needs_evidence:
  assumes "conformance_validate now l i actor evs s = (Inr u, t)"
  shows "\<exists>m p root. load l i s = (Inr (m, p), s) \<and> mp_state m = MS_STATIC_VALIDATED \<and>
     resolve (fst s) (butlast p) = Inr root \<and>
     (\<exists>c \<in> set evs. \<exists>q. resolve_workspace_path (fst s) (layout_root l) c True = Inr q \<and>
        \<not> strict_prefix root q) \<and>
     (\<exists>c \<in> set evs. \<exists>q r. resolve_workspace_path (fst s) (layout_root l) c True = Inr q \<and>
        files (fst s) q = Some (Doc_Conformance r) \<and> ce_model_id r = i \<and>
        list_all id (conformance_checks r))"
  using conformance_validate_Inr [OF assms] unfolding conformance_evidence_def by blast

theorem conformance_needs_evidence_witness:
  "\<exists>u t m p. conformance_validate 3 demo_layout ''uart'' ''ci'' [''lab/report.json''] demo_registry =
       (Inr u, t) \<and> load demo_layout ''uart'' demo_registry = (Inr (m, p), demo_registry) \<and>
     mp_state m = MS_STATIC_VALIDATED"
proof -
  have "map_sum id mp_state (fst (conformance_validate 3 demo_layout ''uart'' ''ci''
      [''lab/report.json''] demo_registry)) = Inr MS_CONFORMANCE_VALIDATED"
    by code_simp
  then obtain u t where "conformance_validate 3 demo_layout ''uart'' ''ci'' [''lab/report.json'']
      demo_registry = (Inr u, t)"
    by (cases "conformance_validate 3 demo_layout ''uart'' ''ci'' [''lab/report.json''] demo_registry",
        cases "fst (conformance_validate 3 demo_layout ''uart'' ''ci'' [''lab/report.json'']
          demo_registry)") auto
  with conformance_needs_evidence [OF this] show ?thesis by blast
qed

text \<open>The two demands of the conformance check need not be met by one file: a report that lies
  in the model's own directory, next to any unrelated file of the workspace, is accepted, although
  the check asks for an independent report.\<close>

theorem conformance_report_need_not_be_independent:
  "model_state_in ''uart'' (snd (conformance_validate 3 demo_layout ''uart'' ''agent''
     [''models/uart/1/self.json'', ''notes.txt''] demo_registry)) = Some MS_CONFORMANCE_VALIDATED"
  by code_simp

text \<open>The check of the provider's grounding map accepts exactly the maps that are grounded:
  every entry is a JSON pointer with at least one citation, every citation refers to an input
  source, and every register, interrupt, DMA request and transaction of the IR has an entry.\<close>

theorem grounding_map_exact:
  "validate_grounding_map ir references = Inr () \<longleftrightarrow> grounded ir references"
  by (rule validate_grounding_map_grounded)

text \<open>The version of a generation request is not confined: a request whose version climbs out
  of the models directory makes the generator write the behaviour IR outside the workspace.\<close>

theorem generate_escapes_workspace:
  "\<not> prefix (layout_root demo_layout) [''etc'', ''behavior.ir.json''] \<and>
   files (demo_fs ''../../../etc'') [''etc'', ''behavior.ir.json''] = None \<and>
   files (fst (snd (generate demo_ext 1 demo_layout ''req.json'' ''agent''
     (demo_fs ''../../../etc'', migrated)))) [''etc'', ''behavior.ir.json''] \<noteq> None"
  by (intro conjI; code_simp)

end
