(* ===== verification/Acceptance.thy ===== *)
theory Acceptance
  imports Runs Modeling
begin

text \<open>
  Release acceptance: documents of the workspace (\<open>src/src/ael/io.py\<close>), the execution environment
  that may issue evidence (\<open>src/src/ael/provenance.py\<close>), and the benchmark catalog and acceptance
  manifests with their checks (\<open>src/src/ael/benchmarks.py\<close>).
\<close>

section \<open>Documents\<close>

text \<open>
  What the libraries make of a file: its text, its JSON value, and the contract a YAML or JSON file
  decodes to, before the validators of the contract.
\<close>

record benchmark_mechanism =
  bm_trigger :: string
  bm_execution_backend :: backend_name
  bm_faulty_assets :: "string list"
  bm_fixed_assets :: "string list"
  bm_oracle :: string
  bm_required_evidence :: "string list"

record benchmark_case =
  bc_id :: int
  bc_slug :: string
  bc_title :: string
  bc_category :: problem_category
  bc_backends :: "backend_name list"
  bc_readiness :: string
  bc_faulty_asset :: "string option"
  bc_fixed_asset :: "string option"
  bc_experiment :: "string option"
  bc_faulty_experiment :: "string option"
  bc_fixed_experiment :: "string option"
  bc_causal_chain :: "string list"
  bc_seed :: int
  bc_hardware_target :: "string option"
  bc_fidelity_boundary :: string
  bc_mechanism :: benchmark_mechanism

record benchmark_catalog =
  bct_version :: string
  bct_cases :: "benchmark_case list"

record decoders =
  dc_text :: "evidence_file \<Rightarrow> string"
  dc_json :: "evidence_file \<Rightarrow> pyval result"
  dc_experiment :: "evidence_file \<Rightarrow> experiment_spec result"
  dc_system :: "evidence_file \<Rightarrow> system_manifest result"
  dc_problem :: "evidence_file \<Rightarrow> problem_spec result"
  dc_catalog :: "evidence_file \<Rightarrow> benchmark_catalog result"
  dc_acceptance :: "evidence_file \<Rightarrow> acceptance_manifest result"

definition read_file :: "evidence_file fsys \<Rightarrow> path \<Rightarrow> evidence_file result" where
  "read_file fs p = require (files fs p) (OSError ''Is a directory'')"

definition load_document :: "(evidence_file \<Rightarrow> 'd result) \<Rightarrow> evidence_file fsys \<Rightarrow> path \<Rightarrow> string \<Rightarrow> 'd result" where
  "load_document decode fs workspace candidate =
     andThen (resolve_workspace_path fs workspace candidate True) (\<lambda>p.
     andThen (read_file fs p) (\<lambda>c.
     if lower (path_suffix (last_name p)) \<in> {''.json'', ''.yaml'', ''.yml''} then decode c
     else Inl (ValueError (''unsupported document extension: '' @ path_suffix (last_name p)))))"

definition load_experiment :: "decoders \<Rightarrow> evidence_file fsys \<Rightarrow> path \<Rightarrow> string \<Rightarrow> experiment_spec result" where
  "load_experiment d fs ws = load_document (\<lambda>c. andThen (dc_experiment d c) validate_experiment_spec) fs ws"

definition load_system :: "decoders \<Rightarrow> evidence_file fsys \<Rightarrow> path \<Rightarrow> string \<Rightarrow> system_manifest result" where
  "load_system d fs ws = load_document (\<lambda>c. andThen (dc_system d c) validate_system) fs ws"

definition load_acceptance :: "decoders \<Rightarrow> evidence_file fsys \<Rightarrow> path \<Rightarrow> string \<Rightarrow> acceptance_manifest result" where
  "load_acceptance d fs ws = load_document (\<lambda>c. andThen (dc_acceptance d c) require_unique_entries) fs ws"

definition validate_mechanism :: "benchmark_mechanism \<Rightarrow> unit result" where
  "validate_mechanism m = check (bm_faulty_assets m \<noteq> [] \<and> bm_fixed_assets m \<noteq> [] \<and> bm_required_evidence m \<noteq> [])
     (ValueError ''List should have at least 1 item'')"

definition validate_case :: "benchmark_case \<Rightarrow> unit result" where
  "validate_case c = first_failure
     [(1 \<le> bc_id c \<and> bc_id c \<le> 24, ValueError ''id''), (bc_backends c \<noteq> [], ValueError ''backends''),
      (0 \<le> bc_seed c, ValueError ''seed''), (isl (validate_mechanism (bc_mechanism c)) = False, ValueError ''mechanism'')]"

definition load_catalog :: "decoders \<Rightarrow> evidence_file fsys \<Rightarrow> path \<Rightarrow> benchmark_catalog result" where
  "load_catalog d fs ws = load_document (\<lambda>c. andThen (dc_catalog d c) (\<lambda>k.
     andThen (map_result validate_case (bct_cases k)) (\<lambda>_. Inr k)))
     fs ws (path_text (ws @ [''benchmarks'', ''catalog.yaml'']))"

section \<open>The benchmark catalog\<close>

text \<open>\<open>f"{case.id:02d}-{case.slug}"\<close>.\<close>

definition case_label :: "benchmark_case \<Rightarrow> string" where
  "case_label c = pad_left 2 (show_int (bc_id c)) @ ''-'' @ bc_slug c"

text \<open>The exceptions a check turns into a failure of the release.\<close>

fun is_lookup_error :: "exn \<Rightarrow> bool" where
  "is_lookup_error (FileNotFoundError m) = True"
| "is_lookup_error (ValueError m) = True"
| "is_lookup_error _ = False"

fun is_access_error :: "exn \<Rightarrow> bool" where
  "is_access_error (PermissionError m) = True"
| "is_access_error ex = is_lookup_error ex"

fun is_json_error :: "exn \<Rightarrow> bool" where
  "is_json_error (UnicodeDecodeError m) = True"
| "is_json_error (ValueError m) = True"
| "is_json_error _ = False"

definition failed_if :: "bool \<Rightarrow> string \<Rightarrow> string list" where
  "failed_if b m = (if b then [m] else [])"

definition case_claims :: "benchmark_case \<Rightarrow> string list" where
  "case_claims c =
     (let m = bc_mechanism c; l = case_label c in
      failed_if (bc_readiness c \<noteq> ''executable'') (l @ '': readiness='' @ bc_readiness c) @
      failed_if (\<not> (given (bc_faulty_asset c) \<and> given (bc_fixed_asset c) \<and> given (bc_faulty_experiment c) \<and>
          given (bc_fixed_experiment c) \<and> bc_causal_chain c \<noteq> []))
        (l @ '': missing executable assets'') @
      failed_if (bm_execution_backend m \<notin> set (bc_backends c)) (l @ '': mechanism backend is not declared'') @
      failed_if (BN_NATIVE \<in> set (bc_backends c)) (l @ '': native is not a formal benchmark backend'') @
      failed_if (set (bm_faulty_assets m) = set (bm_fixed_assets m))
        (l @ '': faulty/fixed mechanism assets are identical''))"

definition asset_failures :: "evidence_file fsys \<Rightarrow> path \<Rightarrow> benchmark_case \<Rightarrow> string \<Rightarrow> string list result" where
  "asset_failures fs ws c asset =
     (case resolve_workspace_path fs ws asset True of
        Inr _ \<Rightarrow> Inr []
      | Inl ex \<Rightarrow>
          if is_lookup_error ex then Inr [case_label c @ '': mechanism asset: '' @ exn_message ex] else Inl ex)"

definition forbidden_properties :: "string list" where
  "forbidden_properties = [''fixed'', ''fault_scale'', ''preset_failure'', ''expected_failure'',
     ''declared_result'', ''mock_backend'', ''fallback_backend'']"

definition show_names :: "string list \<Rightarrow> string" where
  "show_names ns = ''['' @ join_with '', '' (map (\<lambda>n. [CHR 0x27] @ n @ [CHR 0x27]) ns) @ '']''"

definition component_controls :: "benchmark_case \<Rightarrow> system_component \<Rightarrow> string list" where
  "component_controls c x =
     (let found = filter (\<lambda>n. n \<in> set (dict_keys (cmp_properties x))) forbidden_properties in
      failed_if (found \<noteq> []) (case_label c @ '': component '' @ cmp_id x @ '' contains result/fallback controls: '' @
        show_names (sort found)))"

definition experiment_failures ::
    "decoders \<Rightarrow> evidence_file fsys \<Rightarrow> path \<Rightarrow> benchmark_case \<Rightarrow> string option \<Rightarrow> string list result" where
  "experiment_failures d fs ws c candidate =
     (if \<not> given candidate then Inr []
      else
        andThen (resolve_workspace_path fs ws (the candidate) True) (\<lambda>p.
        andThen (read_file fs p) (\<lambda>text.
        andThen (load_experiment d fs ws (path_text p)) (\<lambda>spec.
        andThen (resolve_workspace_path fs ws (exp_system spec) True) (\<lambda>q.
        andThen (load_system d fs ws (path_text q)) (\<lambda>sys.
        Inr (failed_if (sublist ''mcu.fixed'' (dc_text d text) \<or> sublist ''fault_scale'' (dc_text d text))
               (case_label c @ '': forbidden result selector in '' @ the candidate) @
             concat (map (component_controls c) (sys_components sys)))))))))"

definition case_failures :: "decoders \<Rightarrow> evidence_file fsys \<Rightarrow> path \<Rightarrow> benchmark_case \<Rightarrow> string list result" where
  "case_failures d fs ws c =
     andThen (map_result (asset_failures fs ws c) (bm_faulty_assets (bc_mechanism c) @ bm_fixed_assets (bc_mechanism c))) (\<lambda>assets.
     andThen (map_result (experiment_failures d fs ws c) [bc_faulty_experiment c, bc_fixed_experiment c]) (\<lambda>experiments.
     Inr (case_claims c @ concat assets @ concat experiments)))"

definition validate_release :: "decoders \<Rightarrow> evidence_file fsys \<Rightarrow> path \<Rightarrow> benchmark_catalog \<Rightarrow> string list result" where
  "validate_release d fs ws k =
     andThen (map_result (case_failures d fs ws) (bct_cases k)) (\<lambda>cases.
     Inr (failed_if (map bc_id (bct_cases k) \<noteq> map int [1..<25]) ''catalog must contain ordered benchmark ids 1..24'' @
          concat cases))"

section \<open>The execution environment\<close>

definition release_authority_policy :: string where
  "release_authority_policy = ''qualified-execution-evidence''"

definition backend_image_environments :: "(string, string) dict" where
  "backend_image_environments =
     [(''zephyr_build'', ''AEL_ZEPHYR_BUILD_IMAGE''), (''renode'', ''AEL_RENODE_IMAGE''),
      (''ngspice'', ''AEL_NGSPICE_IMAGE''), (''openmodelica'', ''AEL_OPENMODELICA_IMAGE''),
      (''omsimulator'', ''AEL_OMSIMULATOR_IMAGE''), (''ns3'', ''AEL_NS3_IMAGE''), (''openems'', ''AEL_OPENEMS_IMAGE'')]"

text \<open>
  What the interpreter tells of the machine, the text of \<open>/etc/os-release\<close>, and the answer of
  \<open>image inspect\<close>: its exit code and output, where it ran.
\<close>

record machine =
  mc_system :: string
  mc_machine :: string
  mc_release :: string
  mc_mac_version :: string
  mc_os_release :: "string option"
  mc_inspect :: "string \<Rightarrow> string \<Rightarrow> (int \<times> string) option"
  mc_parse_json :: "string \<Rightarrow> pyval option"

definition or_else :: "string \<Rightarrow> string \<Rightarrow> string" where
  "or_else s t = (if s = [] then t else s)"

definition strip_quotes :: "string \<Rightarrow> string" where
  "strip_quotes s = (let q = \<lambda>c. c = char_of (34 :: nat) in rev (dropWhile q (rev (dropWhile q s))))"

definition os_release_line :: "string \<Rightarrow> (string, string) dict \<Rightarrow> (string, string) dict" where
  "os_release_line line values =
     (if CHR ''='' \<notin> set line \<or> starts_with line ''#'' then values
      else dict_set (before_first CHR ''='' line) (strip_quotes (strip (case after_first CHR ''='' line of None \<Rightarrow> [] | Some v \<Rightarrow> v))) values)"

definition linux_release :: "machine \<Rightarrow> string" where
  "linux_release m =
     (case mc_os_release m of
        None \<Rightarrow> ''Linux''
      | Some text \<Rightarrow>
          let values = fold os_release_line (splitlines text) [] in
          strip (dict_get_or values ''NAME'' ''Linux'' @ '' '' @
            dict_get_or values ''VERSION_ID'' (dict_get_or values ''VERSION'' [])))"

definition detect_platform :: "machine \<Rightarrow> string" where
  "detect_platform m =
     (let machine = or_else (mc_machine m) ''unknown'' in
      if mc_system m = ''Linux'' then linux_release m @ '' '' @ machine
      else if mc_system m = ''Darwin'' then ''macOS '' @ or_else (mc_mac_version m) ''unknown'' @ '' '' @ machine
      else or_else (mc_system m) ''unknown'' @ '' '' @ or_else (mc_release m) ''unknown'' @ '' '' @ machine)"

definition inspect_image :: "machine \<Rightarrow> string \<Rightarrow> string \<Rightarrow> pyval option" where
  "inspect_image m runtime img =
     (case mc_inspect m runtime img of
        None \<Rightarrow> None
      | Some (code, out) \<Rightarrow>
          if code \<noteq> 0 then None
          else case mc_parse_json m out of
            Some (PList (x # xs)) \<Rightarrow> Some x
          | _ \<Rightarrow> None)"

fun members :: "pyval \<Rightarrow> (string, pyval) dict result" where
  "members (PDict d) = Inr d"
| "members _ = Inl (AttributeError ''object has no attribute get'')"

definition or_empty :: "pyval \<Rightarrow> pyval" where
  "or_empty v = (if truthy v then v else PList [])"

definition oci_target :: "string \<Rightarrow> (string, pyval) dict \<Rightarrow> (string, pyval) dict" where
  "oci_target img d =
     [(''mode'', PStr ''oci''), (''image'', PStr img), (''image_id'', dict_get_or d ''Id'' PNone),
      (''repo_digests'', or_empty (dict_get_or d ''RepoDigests'' PNone)),
      (''os'', dict_get_or d ''Os'' PNone), (''architecture'', dict_get_or d ''Architecture'' PNone)]"

definition native_target :: "machine \<Rightarrow> (string, pyval) dict" where
  "native_target m = [(''mode'', PStr ''native-linux''), (''os'', PStr ''linux''),
     (''architecture'', PStr (or_else (mc_machine m) ''unknown''))]"

definition container_runtime :: "host \<Rightarrow> string option" where
  "container_runtime h =
     (case nonempty (host_which h (case host_env h ''AEL_OCI_RUNTIME'' of None \<Rightarrow> ''podman'' | Some r \<Rightarrow> r)) of
        Some r \<Rightarrow> Some r
      | None \<Rightarrow> host_which h ''docker'')"

type_synonym environment_state = "(string, pyval) dict \<times> string list"

text \<open>One probe of the loop; the state is the execution targets and the failures.\<close>

definition capture_probe :: "host \<Rightarrow> machine \<Rightarrow> adapter_probe \<Rightarrow> environment_state \<Rightarrow> environment_state result" where
  "capture_probe h m p st =
     (case st of (targets, failures) \<Rightarrow>
      let b = backend_value (prb_backend p);
          failures = failures @ failed_if (\<not> prb_available p)
            (b @ '': unavailable: '' @ (case nonempty (prb_reason p) of None \<Rightarrow> ''unknown reason'' | Some r \<Rightarrow> r));
          img = (case dict_get backend_image_environments b of
            None \<Rightarrow> [] | Some v \<Rightarrow> (case host_env h v of None \<Rightarrow> [] | Some i \<Rightarrow> i)) in
      if img \<noteq> []
      then (case container_runtime h of
              None \<Rightarrow> Inr (targets, failures @ [b @ '': OCI image configured but runtime is unavailable''])
            | Some runtime \<Rightarrow>
                (case inspect_image m runtime img of
                   None \<Rightarrow> Inr (targets, failures @
                     [b @ '': cannot inspect OCI image '' @ [CHR 0x27] @ img @ [CHR 0x27]])
                 | Some v \<Rightarrow>
                     andThen (members v) (\<lambda>d.
                     let target = oci_target img d in
                     Inr (dict_set b (PDict target) targets,
                       failures @ failed_if (\<not> py_eq (dict_get_or target ''os'' PNone) (PStr ''linux'') \<or>
                           \<not> truthy (dict_get_or target ''image_id'' PNone))
                         (b @ '': inspected image is not an identified Linux image'')))))
      else if mc_system m = ''Linux''
      then Inr (dict_set b (PDict (native_target m)) targets, failures)
      else Inr (targets, failures @ [b @ '': non-Linux host execution requires an inspected Linux OCI image'']))"

definition opt_value :: "string option \<Rightarrow> pyval" where
  "opt_value s = (case s of None \<Rightarrow> PNone | Some s \<Rightarrow> PStr s)"

text \<open>The dictionary \<open>doctor\<close> makes of a probe.\<close>

definition probe_value_dict :: "adapter_probe \<Rightarrow> pyval" where
  "probe_value_dict p = PDict [(''backend'', PStr (backend_value (prb_backend p))),
     (''available'', PBool (prb_available p)), (''command'', opt_value (prb_command p)),
     (''detected_version'', opt_value (prb_detected_version p)),
     (''expected_version'', opt_value (prb_expected_version p)), (''reason'', opt_value (prb_reason p))]"

definition environment_record ::
    "machine \<Rightarrow> adapter_probe list \<Rightarrow> string \<Rightarrow> environment_state \<Rightarrow> pyval" where
  "environment_record m prs source_revision st =
     (case st of (targets, failures) \<Rightarrow>
      let failures = failures @ failed_if (source_revision = [] \<or> source_revision = ''working-tree'')
            ''source revision is not immutable'' in
      PDict [(''policy'', PStr release_authority_policy), (''qualified'', PBool (failures = [])),
        (''ci_required'', PBool False), (''source_revision'', PStr source_revision),
        (''control_platform'', PStr (detect_platform m)),
        (''backend_probes'', PList (map probe_value_dict prs)), (''execution_targets'', PDict targets),
        (''failures'', PList (map PStr failures)), (''hardware_validated'', PBool False)])"

definition capture_execution_environment ::
    "host \<Rightarrow> machine \<Rightarrow> adapter_probe list \<Rightarrow> string \<Rightarrow> pyval result" where
  "capture_execution_environment h m prs source_revision =
     andThen (fold_result (capture_probe h m) prs ([], []))
       (\<lambda>st. Inr (environment_record m prs source_revision st))"

text \<open>\<open>target.get("os") != "linux"\<close>, or not an object at all.\<close>

definition runs_on_linux :: "pyval \<Rightarrow> bool" where
  "runs_on_linux t = (case t of PDict d \<Rightarrow> py_eq (dict_get_or d ''os'' PNone) (PStr ''linux'') | _ \<Rightarrow> False)"

definition environment_failures :: "(string, pyval) dict \<Rightarrow> string \<Rightarrow> string list" where
  "environment_failures d source_revision =
     (let get = \<lambda>k. dict_get_or d k PNone in
      failed_if (\<not> py_eq (get ''policy'') (PStr release_authority_policy))
        ''execution environment uses an unsupported authority policy'' @
      failed_if (get ''qualified'' \<noteq> PBool True) ''execution environment is not qualified'' @
      failed_if (get ''ci_required'' \<noteq> PBool False) ''execution environment incorrectly requires a CI provider'' @
      failed_if (\<not> py_eq (get ''source_revision'') (PStr source_revision))
        ''execution environment source revision does not match acceptance'' @
      failed_if (get ''hardware_validated'' \<noteq> PBool False)
        ''software execution evidence must not claim hardware validation'' @
      (case get ''execution_targets'' of
         PDict (t # ts) \<Rightarrow> failed_if (\<not> list_all (\<lambda>(_, v). runs_on_linux v) (t # ts))
           ''all qualified backend targets must execute on Linux''
       | _ \<Rightarrow> [''execution environment has no qualified backend targets'']))"

definition validate_execution_environment :: "pyval \<Rightarrow> string \<Rightarrow> string list" where
  "validate_execution_environment payload source_revision =
     (case payload of
        PDict d \<Rightarrow> environment_failures (case dict_get_or d ''checks'' PNone of PDict e \<Rightarrow> e | _ \<Rightarrow> d) source_revision
      | _ \<Rightarrow> [''execution environment evidence is not an object''])"

section \<open>Acceptance manifests\<close>

fun acceptance_status_value :: "acceptance_status \<Rightarrow> string" where
  "acceptance_status_value AS_passed = ''passed''"
| "acceptance_status_value AS_failed = ''failed''"
| "acceptance_status_value AS_blocked = ''blocked''"

definition entry_of :: "acceptance_manifest \<Rightarrow> string \<Rightarrow> acceptance_entry option" where
  "entry_of m name = dict_get (dict_of (map (\<lambda>e. (ae_name e, e)) (am_entries m))) name"

text \<open>What is wrong with the entry of one expected name; at most one thing is reported.\<close>

definition entry_failures ::
    "decoders \<Rightarrow> digests \<Rightarrow> evidence_file fsys \<Rightarrow> path \<Rightarrow> acceptance_manifest \<Rightarrow> string \<Rightarrow> string list result" where
  "entry_failures d dg fs ws m name =
     (case entry_of m name of
        None \<Rightarrow> Inr [''missing acceptance entry: '' @ name]
      | Some e \<Rightarrow>
          if ae_status e \<noteq> AS_passed
          then Inr [''acceptance entry not passed: '' @ name @ ''='' @ acceptance_status_value (ae_status e)]
          else if \<not> given (ae_evidence_path e) \<or> \<not> given (ae_evidence_sha256 e)
          then Inr [''acceptance entry has no hashed evidence: '' @ name]
          else
            (case resolve_workspace_path fs ws (the (ae_evidence_path e)) True of
               Inl ex \<Rightarrow> if is_access_error ex
                 then Inr [''acceptance evidence is unavailable: '' @ name @ '': '' @ exn_message ex] else Inl ex
             | Inr p \<Rightarrow>
                 andThen (read_file fs p) (\<lambda>c.
                 if dg_file dg c \<noteq> the (ae_evidence_sha256 e)
                 then Inr [''acceptance evidence digest mismatch: '' @ name]
                 else (case dc_json d c of
                         Inr _ \<Rightarrow> Inr []
                       | Inl ex \<Rightarrow> if is_json_error ex
                           then Inr [''acceptance evidence is not valid JSON: '' @ name @ '': '' @ exn_message ex]
                           else Inl ex))))"

definition validate_acceptance_manifest ::
    "decoders \<Rightarrow> digests \<Rightarrow> evidence_file fsys \<Rightarrow> path \<Rightarrow> acceptance_manifest \<Rightarrow> string list \<Rightarrow> string list result" where
  "validate_acceptance_manifest d dg fs ws m expected =
     andThen (map_result (entry_failures d dg fs ws m) (sort (remdups expected))) (\<lambda>fs. Inr (concat fs))"

section \<open>What acceptance means\<close>

lemma failed_if_simps [simp]: "failed_if b m = [] \<longleftrightarrow> \<not> b" "failed_if False m = []" "failed_if True m = [m]"
  by (simp_all add: failed_if_def)

lemma map_result_concat_Nil:
  "(\<exists>yss. map_result f xs = Inr yss \<and> concat yss = []) \<longleftrightarrow> (\<forall>x \<in> set xs. f x = Inr [])"
  by (induction xs) (auto simp: andThen_eq_Inr)

text \<open>The evidence of a passed entry is there, unchanged, and JSON.\<close>

definition attested ::
    "decoders \<Rightarrow> digests \<Rightarrow> evidence_file fsys \<Rightarrow> path \<Rightarrow> acceptance_entry \<Rightarrow> bool" where
  "attested d dg fs ws e \<longleftrightarrow> ae_status e = AS_passed \<and> given (ae_evidence_path e) \<and> given (ae_evidence_sha256 e) \<and>
     (\<exists>p c. resolve_workspace_path fs ws (the (ae_evidence_path e)) True = Inr p \<and> files fs p = Some c \<and>
       ae_evidence_sha256 e = Some (dg_file dg c) \<and> isl (dc_json d c) = False)"

lemma entry_failures_Nil:
  "entry_failures d dg fs ws m name = Inr [] \<longleftrightarrow> (\<exists>e. entry_of m name = Some e \<and> attested d dg fs ws e)"
proof (cases "entry_of m name")
  case (Some e)
  show ?thesis
  proof (cases "ae_status e = AS_passed \<and> given (ae_evidence_path e) \<and> given (ae_evidence_sha256 e)")
    case ok: True
    then obtain sha where sha: "ae_evidence_sha256 e = Some sha" by (auto simp: given_def split: option.splits)
    show ?thesis
    proof (cases "resolve_workspace_path fs ws (the (ae_evidence_path e)) True")
      case (Inr p)
      with Some ok sha show ?thesis
        by (cases "files fs p"; cases "dc_json d (the (files fs p))")
          (auto simp: entry_failures_def attested_def read_file_def)
    qed (use Some ok in \<open>simp add: entry_failures_def attested_def\<close>)
  qed (use Some in \<open>auto simp: entry_failures_def attested_def\<close>)
qed (simp add: entry_failures_def)

lemma entry_of_unique:
  assumes "require_unique_entries m = Inr m"
  shows "entry_of m name = Some e \<longleftrightarrow> e \<in> set (am_entries m) \<and> ae_name e = name"
proof -
  have d: "distinct (map fst (map (\<lambda>e. (ae_name e, e)) (am_entries m)))"
    using assms by (simp add: require_unique_entries_def comp_def split: if_splits)
  show ?thesis
    unfolding entry_of_def dict_of_distinct [OF d] map_of_eq_Some_iff [OF d] by auto
qed

lemma accepted_names:
  assumes "require_unique_entries m = Inr m"
  shows "validate_acceptance_manifest d dg fs ws m expected = Inr [] \<longleftrightarrow>
     list_all (\<lambda>name. \<exists>e \<in> set (am_entries m). ae_name e = name \<and> attested d dg fs ws e) expected"
proof -
  have "validate_acceptance_manifest d dg fs ws m expected = Inr [] \<longleftrightarrow>
      (\<exists>yss. map_result (entry_failures d dg fs ws m) (sort (remdups expected)) = Inr yss \<and> concat yss = [])"
    by (auto simp: validate_acceptance_manifest_def andThen_eq_Inr)
  also have "\<dots> \<longleftrightarrow> (\<forall>name \<in> set expected. \<exists>e. entry_of m name = Some e \<and> attested d dg fs ws e)"
    by (simp only: map_result_concat_Nil entry_failures_Nil set_sort set_remdups)
  finally show ?thesis by (auto simp: list_all_iff entry_of_unique [OF assms])
qed

text \<open>C33. An acceptance manifest is accepted for a set of required names exactly if each of them has an
  entry that passed and whose evidence file lies in the workspace, has the recorded digest and is
  JSON; entries are looked up by name, and no other entry counts.\<close>

theorem acceptance_manifest_exact:
  assumes "require_unique_entries m = Inr m"
  shows "validate_acceptance_manifest d dg fs ws m expected = Inr [] \<longleftrightarrow>
     list_all (\<lambda>name. \<exists>e \<in> set (am_entries m). ae_name e = name \<and> attested d dg fs ws e) expected"
  by (rule accepted_names [OF assms])

definition demo_acceptance :: acceptance_manifest where
  "demo_acceptance = \<lparr>am_profile = RP_SIMULATION, am_source_revision = ''abc'', am_platform = ''Linux'',
     am_entries = [\<lparr>ae_name = ''fmi:five-domain'', ae_status = AS_passed, ae_evidence_path = Some ''out/log.txt'',
       ae_evidence_sha256 = Some ''blog'', ae_limitations = []\<rparr>], am_created_at = 0, am_signature = None\<rparr>"

definition demo_decoders :: decoders where
  "demo_decoders = \<lparr>dc_text = (\<lambda>c. case c of EF_Blob t \<Rightarrow> t | _ \<Rightarrow> []), dc_json = (\<lambda>_. Inr PNone),
     dc_experiment = (\<lambda>c. case c of EF_Experiment e \<Rightarrow> Inr e | _ \<Rightarrow> Inl (ValueError ''not an experiment'')),
     dc_system = (\<lambda>c. case c of EF_Manifest m \<Rightarrow> Inr m | _ \<Rightarrow> Inl (ValueError ''not a system'')),
     dc_problem = (\<lambda>_. Inl (ValueError ''not a problem'')), dc_catalog = (\<lambda>_. Inl (ValueError ''not a catalog'')),
     dc_acceptance = (\<lambda>_. Inl (ValueError ''not a manifest''))\<rparr>"

theorem acceptance_manifest_exact_witness:
  "validate_acceptance_manifest demo_decoders demo_digests (rec_fs demo_world) [''ws''] demo_acceptance [''fmi:five-domain''] = Inr [] \<and>
   list_all (\<lambda>name. \<exists>e \<in> set (am_entries demo_acceptance). ae_name e = name \<and>
     attested demo_decoders demo_digests (rec_fs demo_world) [''ws''] e) [''fmi:five-domain'']"
proof -
  have "require_unique_entries demo_acceptance = Inr demo_acceptance"
    "validate_acceptance_manifest demo_decoders demo_digests (rec_fs demo_world) [''ws''] demo_acceptance [''fmi:five-domain''] = Inr []"
    by code_simp+
  with acceptance_manifest_exact show ?thesis by blast
qed

section \<open>Environment records\<close>

lemma capture_probe_targets:
  assumes "capture_probe h m p (targets, failures) = Inr (targets', failures')" and "failures' = []"
  shows "failures = [] \<and> prb_available p \<and> (\<exists>v. targets' = dict_set (backend_value (prb_backend p)) v targets \<and> runs_on_linux v)"
  using assms
  by (auto simp: capture_probe_def Let_def andThen_eq_Inr runs_on_linux_def native_target_def dict_get_or_def
      split: if_splits option.splits)

lemma capture_probes_targets:
  assumes "fold_result (capture_probe h m) ps (targets, failures) = Inr (targets', [])"
  shows "failures = [] \<and> list_all prb_available ps \<and> (ps \<noteq> [] \<or> targets \<noteq> [] \<longrightarrow> targets' \<noteq> []) \<and> (ps = [] \<longrightarrow> targets' = targets) \<and>
    (list_all (\<lambda>(_, v). runs_on_linux v) targets \<longrightarrow> list_all (\<lambda>(_, v). runs_on_linux v) targets')"
  using assms
proof (induction ps arbitrary: targets failures)
  case (Cons p ps)
  then obtain t f where one: "capture_probe h m p (targets, failures) = Inr (t, f)"
    and rest: "fold_result (capture_probe h m) ps (t, f) = Inr (targets', [])"
    by (auto simp: andThen_eq_Inr)
  note ih = Cons.IH [OF rest]
  from capture_probe_targets [OF one] ih obtain v where
    v: "failures = []" "prb_available p" "t = dict_set (backend_value (prb_backend p)) v targets" "runs_on_linux v"
    by blast
  have sub: "set (dict_set k v d) \<subseteq> insert (k, v) (set d)" "dict_set k v d \<noteq> []" for k and d :: "(string, pyval) dict"
    by (induction d) auto
  from sub(1) [of "backend_value (prb_backend p)" targets] sub(2) [of "backend_value (prb_backend p)" targets] v ih
  show ?case by (auto simp: list_all_iff)
qed simp

text \<open>An execution environment record is accepted for the revision it was captured at exactly if it
  is qualified and there was a backend to qualify; a qualified record says that every backend was
  available and that the revision is not the working tree.\<close>

theorem environment_round_trip:
  assumes "capture_execution_environment h m prs commit = Inr made"
  shows "(validate_execution_environment made commit = [] \<longleftrightarrow>
      (\<exists>d. made = PDict d \<and> dict_get d ''qualified'' = Some (PBool True)) \<and> prs \<noteq> []) \<and>
    (if \<exists>d. made = PDict d \<and> dict_get d ''qualified'' = Some (PBool True)
     then list_all prb_available prs \<and> commit \<noteq> ''working-tree'' else True)"
proof -
  from assms obtain targets failures where loop: "fold_result (capture_probe h m) prs ([], []) = Inr (targets, failures)"
    and made: "made = environment_record m prs commit (targets, failures)"
    by (auto simp: capture_execution_environment_def andThen_eq_Inr)
  let ?ok = "failures = [] \<and> commit \<noteq> [] \<and> commit \<noteq> ''working-tree''"
  have q: "(\<exists>d. made = PDict d \<and> dict_get d ''qualified'' = Some (PBool True)) \<longleftrightarrow> ?ok"
    by (auto simp: made environment_record_def Let_def)
  have v: "validate_execution_environment made commit = [] \<longleftrightarrow> ?ok \<and> targets \<noteq> [] \<and> list_all (\<lambda>(_, v). runs_on_linux v) targets"
    by (cases targets)
      (auto simp: made environment_record_def validate_execution_environment_def environment_failures_def
        dict_get_or_def Let_def)
  show ?thesis
    unfolding q v using capture_probes_targets [of h m prs "[]" "[]" targets] loop by auto
qed

definition demo_machine :: machine where
  "demo_machine = \<lparr>mc_system = ''Linux'', mc_machine = ''x86_64'', mc_release = ''6.1'', mc_mac_version = [],
     mc_os_release = None, mc_inspect = (\<lambda>_ _. None), mc_parse_json = (\<lambda>_. None)\<rparr>"

definition demo_probe :: adapter_probe where
  "demo_probe = \<lparr>prb_backend = BN_NGSPICE, prb_available = True, prb_command = None,
     prb_detected_version = Some ''46'', prb_expected_version = Some ''46'', prb_reason = None\<rparr>"

theorem environment_round_trip_witness:
  "\<exists>made. capture_execution_environment demo_host demo_machine [demo_probe] ''abc'' = Inr made \<and>
     validate_execution_environment made ''abc'' = []"
proof -
  let ?made = "environment_record demo_machine [demo_probe] ''abc'' ([(''ngspice'', PDict (native_target demo_machine))], [])"
  have c: "capture_execution_environment demo_host demo_machine [demo_probe] ''abc'' = Inr ?made"
    by (simp add: capture_execution_environment_def capture_probe_def demo_probe_def demo_host_def
        demo_machine_def backend_image_environments_def Let_def)
  have "\<exists>d. ?made = PDict d \<and> dict_get d ''qualified'' = Some (PBool True)"
    by (simp add: environment_record_def)
  with environment_round_trip [OF c] c show ?thesis by blast
qed

end
