(* ===== verification/Storage_Server.thy ===== *)
theory Storage_Server
  imports Storage
begin

text \<open>
  The server's state store (\<open>src/src/ael/storage_server.py\<close>): the S3 content addressed
  store, and the PostgreSQL tables behind the same interface as the local store's. The tables have
  the same columns, so they are the same record; the operations are translated from this file, and
  where they differ from the local ones (\<open>register_worker\<close>, \<open>lease_task\<close>) the difference is
  theirs. A lease request also sees the rows that concurrent transactions hold locked
  (\<open>with_for_update(skip_locked=True)\<close>), given by their ids.
\<close>

section \<open>S3 content addressed store\<close>

text \<open>\<open>prefix.strip("/")\<close>.\<close>

definition strip_slashes :: "string \<Rightarrow> string" where
  "strip_slashes s =
     rev (dropWhile (\<lambda>c. c = CHR ''/'') (rev (dropWhile (\<lambda>c. c = CHR ''/'') s)))"

definition object_key :: "string \<Rightarrow> string \<Rightarrow> string" where
  "object_key pre digest = pre @ ''/'' @ take 2 digest @ ''/'' @ drop 2 digest"

text \<open>A bucket maps keys to objects; \<open>head_object\<close> raises for a key without one.\<close>

definition s3_put_bytes ::
    "('b \<Rightarrow> string) \<Rightarrow> string \<Rightarrow> 'b \<Rightarrow> (string \<rightharpoonup> 'b) \<Rightarrow> (string \<times> string) \<times> (string \<rightharpoonup> 'b)" where
  "s3_put_bytes sha pre payload bucket =
     (let digest = sha payload; key = object_key pre digest in
      ((digest, key), if bucket key = None then bucket(key \<mapsto> payload) else bucket))"

definition s3_get_bytes ::
    "('b \<Rightarrow> string) \<Rightarrow> string \<Rightarrow> string \<Rightarrow> (string \<rightharpoonup> 'b) \<Rightarrow> 'b result" where
  "s3_get_bytes sha pre digest bucket =
     andThen (require (bucket (object_key pre digest)) (KeyError ''NoSuchKey'')) (\<lambda>payload.
     if sha payload \<noteq> digest then Inl (ValueError ''S3 artifact digest mismatch'')
     else Inr payload)"

section \<open>Runs, models, audit\<close>

definition server_create_run :: "int \<Rightarrow> string \<Rightarrow> string \<Rightarrow> state_store \<Rightarrow> state_store result" where
  "server_create_run now run_id experiment_path st =
     (if find_by rr_run_id run_id (ss_runs st) \<noteq> None
      then Inl (IntegrityError ''duplicate key value violates unique constraint'')
      else Inr (st\<lparr>ss_runs := ss_runs st @
        [\<lparr>rr_run_id = run_id, rr_status = RS_QUEUED, rr_experiment_path = experiment_path,
          rr_evidence_path = None, rr_error = None, rr_created_at = now, rr_updated_at = now\<rparr>]\<rparr>))"

text \<open>The evidence path is among the values only when it is given.\<close>

definition server_update_run ::
    "int \<Rightarrow> string \<Rightarrow> run_status \<Rightarrow> string option \<Rightarrow> string option \<Rightarrow> state_store \<Rightarrow> state_store" where
  "server_update_run now run_id status evidence_path err st =
     (let values = (\<lambda>r. r\<lparr>rr_status := status, rr_error := err, rr_updated_at := now\<rparr>);
          values' = (case evidence_path of None \<Rightarrow> values
                     | Some p \<Rightarrow> (\<lambda>r. (values r)\<lparr>rr_evidence_path := Some p\<rparr>))
      in st\<lparr>ss_runs := update_where (\<lambda>r. rr_run_id r = run_id) values' (ss_runs st)\<rparr>)"

definition server_get_run :: "string \<Rightarrow> state_store \<Rightarrow> run_row option" where
  "server_get_run run_id st = find_by rr_run_id run_id (ss_runs st)"

text \<open>PostgreSQL refuses a negative limit.\<close>

definition server_list_runs :: "int \<Rightarrow> state_store \<Rightarrow> run_row list result" where
  "server_list_runs limit st =
     (if limit < 0 then Inl (ValueError ''LIMIT must not be negative'')
      else Inr (take (nat limit) (sort_key (\<lambda>r. - rr_created_at r) (ss_runs st))))"

text \<open>\<open>save_model\<close>: the file first, then a select that decides between update and insert.\<close>

definition server_save_model ::
    "int \<Rightarrow> workspace_layout \<Rightarrow> (path \<Rightarrow> model_package \<Rightarrow> ('f, unit) prog) \<Rightarrow> model_package \<Rightarrow> path \<Rightarrow>
       ('f \<times> state_store, unit) prog" where
  "server_save_model now l write package package_path =
     bindP (on_fst (write package_path package)) (\<lambda>_.
     bindP (guardP (prefix (layout_root l) package_path) (ValueError ''path is not in the subpath'')) (\<lambda>_.
     let values = \<lparr>mr_model_id = mp_id package, mr_state = mp_state package,
           mr_package_path = relative_to (layout_root l) package_path, mr_updated_at = now\<rparr>
     in modify (\<lambda>(fs, st). (fs, st\<lparr>ss_models :=
          (case find_by mr_model_id (mp_id package) (ss_models st) of
             Some _ \<Rightarrow> update_where (\<lambda>r. mr_model_id r = mp_id package) (\<lambda>_. values) (ss_models st)
           | None \<Rightarrow> ss_models st @ [values])\<rparr>))))"

definition server_get_model_record :: "string \<Rightarrow> state_store \<Rightarrow> model_row option" where
  "server_get_model_record model_id st = find_by mr_model_id model_id (ss_models st)"

definition server_list_models :: "state_store \<Rightarrow> model_row list" where
  "server_list_models st = sort_key mr_model_id (ss_models st)"

definition server_count_models :: "model_state \<Rightarrow> state_store \<Rightarrow> nat" where
  "server_count_models state st = rowcount (\<lambda>r. mr_state r = state) (ss_models st)"

definition server_audit :: "int \<Rightarrow> string \<Rightarrow> string \<Rightarrow> string \<Rightarrow> string \<Rightarrow> state_store \<Rightarrow> state_store" where
  "server_audit now actor action subject details st =
     st\<lparr>ss_audit := ss_audit st @
          [\<lparr>au_sequence = ss_next_sequence st, au_timestamp = now, au_actor = actor,
            au_action = action, au_subject = subject, au_details = details\<rparr>],
        ss_next_sequence := ss_next_sequence st + 1\<rparr>"

section \<open>Workers and tasks\<close>

text \<open>Here \<open>enabled\<close> is one of the values, so registering again enables the worker.\<close>

definition server_register_worker :: "int \<Rightarrow> worker_registration \<Rightarrow> state_store \<Rightarrow> state_store" where
  "server_register_worker now r st =
     (let values = \<lparr>wk_worker_id = wr_worker_id r, wk_kind = wr_worker_kind r,
            wk_registration = r, wk_fingerprint = lower (wr_certificate_fingerprint r),
            wk_last_seen_at = now, wk_enabled = True\<rparr>
      in st\<lparr>ss_workers :=
        (case find_by wk_worker_id (wr_worker_id r) (ss_workers st) of
           Some _ \<Rightarrow> update_where (\<lambda>w. wk_worker_id w = wr_worker_id r) (\<lambda>_. values) (ss_workers st)
         | None \<Rightarrow> ss_workers st @ [values])\<rparr>)"

definition server_worker :: "string \<Rightarrow> worker_row list \<Rightarrow> worker_registration option" where
  "server_worker worker_id rows =
     map_option wk_registration (find (\<lambda>w. wk_worker_id w = worker_id \<and> wk_enabled w) rows)"

definition server_enqueue_task ::
    "int \<Rightarrow> worker_task \<Rightarrow> state_store \<Rightarrow> (worker_task \<times> state_store) result" where
  "server_enqueue_task now t st =
     (case find_by wt_idempotency_key (wt_idempotency_key t) (ss_tasks st) of
        Some existing \<Rightarrow> Inr (task_from_row existing, st)
      | None \<Rightarrow>
          if find_by wt_task_id (wt_task_id t) (ss_tasks st) \<noteq> None
          then Inl (IntegrityError ''duplicate key value violates unique constraint'')
          else Inr (t, st\<lparr>ss_tasks := ss_tasks st @ [task_insert now t]\<rparr>))"

text \<open>\<open>.limit(20).with_for_update(skip_locked=True)\<close>: at most 20 unlocked queued rows.\<close>

definition candidates :: "string list \<Rightarrow> task_row list \<Rightarrow> task_row list" where
  "candidates locked rows = take 20 (filter (\<lambda>r. wt_task_id r \<notin> set locked) (queued_rows rows))"

text \<open>The update is by task id alone; the answer is the selected row with the values set.\<close>

definition server_lease_task ::
    "int \<Rightarrow> string \<Rightarrow> string \<Rightarrow> int \<Rightarrow> string list \<Rightarrow> state_store \<Rightarrow>
       (worker_task option \<times> state_store) result" where
  "server_lease_task now token worker_id secs locked st =
     andThen (positive_seconds secs) (\<lambda>_.
     andThen (require (server_worker worker_id (ss_workers st))
       (PermissionError ''worker is not registered or enabled'')) (\<lambda>registration.
     let capability_names = map wc_name (wr_capabilities registration);
         rows = reclaim_expired now (ss_tasks st)
     in case find (can_run capability_names) (candidates locked rows) of
          None \<Rightarrow> Inr (None, st\<lparr>ss_tasks := rows\<rparr>)
        | Some row \<Rightarrow>
            let values = leased worker_id token (now + seconds secs);
                rows' = update_where (\<lambda>r. wt_task_id r = wt_task_id row)
                  (\<lambda>r. touched now (leased worker_id token (now + seconds secs) r)) rows
            in Inr (Some (values (task_from_row row)), st\<lparr>ss_tasks := rows'\<rparr>)))"

definition no_result :: exn where
  "no_result = RuntimeError ''No row was found when one was required''"

definition server_heartbeat_task ::
    "int \<Rightarrow> string \<Rightarrow> worker_heartbeat \<Rightarrow> int \<Rightarrow> state_store \<Rightarrow> (worker_task \<times> state_store) result" where
  "server_heartbeat_task now worker_id hb secs st =
     andThen (positive_seconds secs) (\<lambda>_.
     andThen (update_one (lease_matches (hb_task_id hb) worker_id (hb_lease_token hb))
       (\<lambda>r. touched now (beaten (now + seconds secs) hb r)) lease_invalid no_result
       (hb_task_id hb) (ss_tasks st)) (\<lambda>(t, rows).
     Inr (t, st\<lparr>ss_tasks := rows\<rparr>)))"

definition server_complete_task ::
    "int \<Rightarrow> string \<Rightarrow> worker_task_result \<Rightarrow> state_store \<Rightarrow> (worker_task \<times> state_store) result" where
  "server_complete_task now worker_id res st =
     andThen (update_one (lease_matches (tr_task_id res) worker_id (tr_lease_token res))
       (\<lambda>r. touched now (completed res r)) lease_invalid no_result (tr_task_id res) (ss_tasks st))
     (\<lambda>(t, rows). Inr (t, st\<lparr>ss_tasks := rows\<rparr>))"

definition server_cancel_task ::
    "int \<Rightarrow> string \<Rightarrow> state_store \<Rightarrow> (worker_task \<times> state_store) result" where
  "server_cancel_task now i st =
     andThen (update_one (\<lambda>r. wt_task_id r = i \<and> cancellable r) (\<lambda>r. touched now (cancelled r))
       (ValueError ''task is not cancellable'') no_result i (ss_tasks st))
     (\<lambda>(t, rows). Inr (t, st\<lparr>ss_tasks := rows\<rparr>))"

fun server_step ::
    "int \<Rightarrow> task_op \<Rightarrow> state_store \<Rightarrow> (worker_task option \<times> state_store) result" where
  "server_step now (Enqueue t) st =
     andThen (server_enqueue_task now t st) (\<lambda>(u, st'). Inr (Some u, st'))"
| "server_step now (Lease w secs token lk) st = server_lease_task now token w secs lk st"
| "server_step now (Heartbeat w hb secs) st =
     andThen (server_heartbeat_task now w hb secs st) (\<lambda>(u, st'). Inr (Some u, st'))"
| "server_step now (Complete w res) st =
     andThen (server_complete_task now w res st) (\<lambda>(u, st'). Inr (Some u, st'))"
| "server_step now (Cancel i) st =
     andThen (server_cancel_task now i st) (\<lambda>(u, st'). Inr (Some u, st'))"

section \<open>Agreement with the local store\<close>

lemma update_one_missing:
  assumes "task_table_ok rows" "\<And>r. wt_task_id (f r) = wt_task_id r"
  shows "update_one (\<lambda>r. wt_task_id r = i \<and> q r) f e m i rows =
     update_one (\<lambda>r. wt_task_id r = i \<and> q r) f e m' i rows"
  by (simp add: update_one_key [OF assms])

lemma update_one_lease_missing:
  assumes "task_table_ok rows" "\<And>r. wt_task_id (f r) = wt_task_id r"
  shows "update_one (lease_matches i w tok) f e m i rows =
     update_one (lease_matches i w tok) f e m' i rows"
  unfolding lease_matches_def [abs_def] by (rule update_one_missing [OF assms])

lemma server_ops_agree:
  assumes ok: "task_table_ok (ss_tasks st)"
  shows "server_heartbeat_task now w hb secs st = heartbeat_task now w hb secs st"
    and "server_complete_task now w res st = complete_task now w res st"
    and "server_cancel_task now i st = cancel_task now i st"
  unfolding server_heartbeat_task_def heartbeat_task_def server_complete_task_def
    complete_task_def server_cancel_task_def cancel_task_def
  by (simp_all add: update_one_missing [OF ok, of _ _ _ _ no_result no_row]
      update_one_lease_missing [OF ok, of _ _ _ _ _ no_result no_row] row_simps)

lemma server_enqueue_agree:
  "server_enqueue_task now t st = Inr r \<longleftrightarrow> enqueue_task now t st = Inr r"
  by (auto simp: server_enqueue_task_def enqueue_task_def split: option.split)

text \<open>An accepted operation other than a lease is one of the local store.\<close>

lemma server_step_local:
  assumes ok: "task_table_ok (ss_tasks st)" and step: "server_step now op st = Inr (r, st')"
    and op: "\<And>w secs token lk. op \<noteq> Lease w secs token lk"
  shows "store_step now op st = Inr (r, st')"
  using step op
  by (cases op) (auto simp: server_ops_agree [OF ok] andThen_eq_Inr server_enqueue_agree)

lemma server_worker_eq: "server_worker = worker"
  by (rule ext)+ (simp add: server_worker_def worker_def)

text \<open>The candidates are queued rows, and on a well formed table the update by id hits the queued row.\<close>

lemma candidates_in: "r \<in> set (candidates locked rows) \<Longrightarrow> r \<in> set rows \<and> wt_status r = TS_QUEUED"
  by (auto simp: candidates_def queued_rows_def dest: in_set_takeD)

lemma update_by_id_queued:
  assumes ok: "task_table_ok rows" and sel: "sel \<in> set rows" "wt_status sel = TS_QUEUED"
  shows "update_where (\<lambda>r. wt_task_id r = wt_task_id sel) f rows =
     update_where (\<lambda>r. wt_task_id r = wt_task_id sel \<and> wt_status r = TS_QUEUED) f rows"
  unfolding update_where_def
proof (rule map_cong [OF refl])
  fix r assume "r \<in> set rows"
  with ok sel have "wt_task_id r = wt_task_id sel \<longrightarrow> wt_status r = TS_QUEUED"
    by (auto simp: task_table_ok_def distinct_map inj_on_def)
  then show "(if wt_task_id r = wt_task_id sel then f r else r) =
      (if wt_task_id r = wt_task_id sel \<and> wt_status r = TS_QUEUED then f r else r)" by simp
qed

lemma find_in_set: "find p xs = Some x \<Longrightarrow> x \<in> set xs"
  by (metis find_Some_iff nth_mem)

lemma server_lease_outcome:
  assumes ok: "task_table_ok (ss_tasks st)"
    and step: "server_lease_task now token w secs lk st = Inr (r, st')"
  shows "lease_outcome now token w secs st r st'"
proof -
  let ?rows = "reclaim_expired now (ss_tasks st)"
  have ok': "task_table_ok ?rows" by (rule task_table_ok_reclaim [OF ok])
  from step obtain reg where reg: "worker w (ss_workers st) = Some reg" and secs: "0 < secs"
    by (auto simp: server_lease_task_def andThen_eq_Inr positive_seconds_def require_eq_Inr
        server_worker_eq)
  let ?caps = "map wc_name (wr_capabilities reg)"
  show ?thesis
  proof (cases "find (can_run ?caps) (candidates lk ?rows)")
    case None
    with step reg secs show ?thesis
      by (auto simp: server_lease_task_def positive_seconds_def server_worker_eq
          lease_outcome_def Let_def)
  next
    case (Some sel)
    note sel = candidates_in [OF find_in_set [OF Some]]
    from Some step reg secs sel show ?thesis
      by (auto simp: server_lease_task_def positive_seconds_def server_worker_eq
          lease_outcome_def Let_def update_by_id_queued [OF ok'])
  qed
qed

lemma server_step_split:
  assumes ok: "task_table_ok (ss_tasks st)" and step: "server_step now op st = Inr (r, st')"
  obtains (lease) w secs token lk where "op = Lease w secs token lk"
      "lease_outcome now token w secs st r st'"
  | (other) "store_step now op st = Inr (r, st')" "\<And>w secs token lk. op \<noteq> Lease w secs token lk"
proof (cases "\<exists>w secs token lk. op = Lease w secs token lk")
  case True
  then obtain w secs token lk where op: "op = Lease w secs token lk" by blast
  with step have "server_lease_task now token w secs lk st = Inr (r, st')" by simp
  from lease [OF op server_lease_outcome [OF ok this]] show thesis .
next
  case False
  with other server_step_local [OF ok step] show thesis by blast
qed

lemma server_step_ok:
  assumes "store_ok st" "server_step now op st = Inr (r, st')" shows "store_ok st'"
  using store_okD [OF assms(1)] assms(2)
proof (cases rule: server_step_split)
  case (lease w secs token lk)
  from outcome_tasks_only [OF this(2)] obtain rows where "st' = st\<lparr>ss_tasks := rows\<rparr>" by blast
  with outcome_table_ok [OF store_okD [OF assms(1)] lease(2)] show ?thesis
    using store_ok_tasks [OF assms(1)] by simp
next
  case other
  from store_step_ok [OF assms(1) other(1)] show ?thesis .
qed

lemma server_step_edge:
  assumes ok: "task_table_ok (ss_tasks st)" and step: "server_step now op st = Inr (r, st')"
    and t: "get_task st i = Some t"
  shows "\<exists>t'. get_task st' i = Some t' \<and> task_edge now op t t'"
  using ok step
proof (cases rule: server_step_split)
  case (lease w secs token lk)
  show ?thesis unfolding lease(1) by (rule outcome_edge [OF ok lease(2) t])
next
  case other
  from store_step_edge [OF ok other(1) t] show ?thesis .
qed

lemma server_step_new:
  assumes ok: "task_table_ok (ss_tasks st)" and step: "server_step now op st = Inr (r, st')"
    and t: "get_task st i = None" "get_task st' i = Some t'"
  shows "\<exists>t. op = Enqueue t \<and> t' = enqueued t"
  using ok step
proof (cases rule: server_step_split)
  case (lease w secs token lk)
  with outcome_new [OF ok lease(2) t(1)] t(2) show ?thesis by simp
next
  case other
  from store_step_new [OF ok other(1) t] show ?thesis .
qed

interpretation server_store: task_store store_ok get_task server_step
proof
  fix st now op r st' assume "store_ok st" "server_step now op st = Inr (r, st')"
  then show "store_ok st'" by (rule server_step_ok)
next
  fix st i t assume "get_task st i = Some t"
  then show "wt_task_id t = i" by (rule local_store.lookup_id)
next
  fix st now op r st' i t
  assume "store_ok st" "server_step now op st = Inr (r, st')" "get_task st i = Some t"
  then show "\<exists>t'. get_task st' i = Some t' \<and> task_edge now op t t'"
    using server_step_edge store_okD by blast
next
  fix st now op r st' i t'
  assume "store_ok st" "server_step now op st = Inr (r, st')" "get_task st i = None"
    "get_task st' i = Some t'"
  then show "\<exists>t. op = Enqueue t \<and> t' = enqueued t"
    using server_step_new store_okD by blast
next
  fix st now w r st' and res :: worker_task_result
  assume ok: "store_ok st" and "server_step now (Complete w res) st = Inr (r, st')"
  then have "store_step now (Complete w res) st = Inr (r, st')"
    using server_step_local [OF store_okD [OF ok]] by blast
  then show "\<exists>t. get_task st (tr_task_id res) = Some t \<and> holds_lease w (tr_lease_token res) t \<and>
      get_task st' (tr_task_id res) = Some (completed res t)"
    by (rule local_store.complete_effect [OF ok])
next
  fix st now w t and res :: worker_task_result
  assume ok: "store_ok st" and "get_task st (tr_task_id res) = Some t"
    "holds_lease w (tr_lease_token res) t"
  then show "\<exists>r st'. server_step now (Complete w res) st = Inr (r, st')"
    using local_store.complete_accepts [OF ok, of res t w now]
    by (simp add: server_ops_agree [OF store_okD [OF ok]])
next
  fix st now w secs r st' and hb :: worker_heartbeat
  assume ok: "store_ok st" and "server_step now (Heartbeat w hb secs) st = Inr (r, st')"
  then have "store_step now (Heartbeat w hb secs) st = Inr (r, st')"
    using server_step_local [OF store_okD [OF ok]] by blast
  then show "\<exists>t. get_task st (hb_task_id hb) = Some t \<and> holds_lease w (hb_lease_token hb) t \<and>
      get_task st' (hb_task_id hb) = Some (beaten (now + seconds secs) hb t)"
    by (rule local_store.heartbeat_effect [OF ok])
next
  fix st now w secs token lk t st'
  assume ok: "store_ok st" and step: "server_step now (Lease w secs token lk) st = Inr (Some t, st')"
  then show "get_task st' (wt_task_id t) = Some t \<and> holds_lease w token t \<and>
      (\<forall>i. i \<noteq> wt_task_id t \<longrightarrow> (\<exists>t'. get_task st' i = Some t' \<and> wt_lease_token t' = Some token) \<longrightarrow>
         (\<exists>t'. get_task st i = Some t' \<and> wt_lease_token t' = Some token))"
    using outcome_grant [OF store_okD [OF ok] server_lease_outcome [OF store_okD [OF ok]]] by simp
qed

text \<open>With few enough queued tasks and no contention the candidates are all the queued rows.\<close>

lemma candidates_all:
  "length (queued_rows rows) \<le> 20 \<Longrightarrow> candidates [] rows = queued_rows rows"
  by (simp add: candidates_def)

lemma server_lease_agree:
  assumes ok: "task_table_ok (ss_tasks st)"
    and few: "length (queued_rows (reclaim_expired now (ss_tasks st))) \<le> 20"
  shows "server_lease_task now token w secs [] st = lease_task now token w secs st"
proof (cases "0 < secs \<and> worker w (ss_workers st) \<noteq> None")
  case False
  then show ?thesis
    by (cases "worker w (ss_workers st)")
      (auto simp: server_lease_task_def lease_task_def positive_seconds_def server_worker_eq)
next
  case True
  then obtain reg where reg: "worker w (ss_workers st) = Some reg" and secs: "0 < secs" by auto
  have ps: "positive_seconds secs = Inr ()" using secs by (simp add: positive_seconds_def)
  let ?rows = "reclaim_expired now (ss_tasks st)"
  note q = queued_rows_find(1,2) [of "can_run (map wc_name (wr_capabilities reg))" ?rows]
  show ?thesis
  proof (cases "find (can_run (map wc_name (wr_capabilities reg))) (queued_rows ?rows)")
    case None
    then show ?thesis
      by (simp add: lease_task_eq [OF ok reg secs] server_lease_task_def ps
          server_worker_eq reg candidates_all [OF few])
  next
    case (Some sel)
    with update_by_id_queued [OF task_table_ok_reclaim [OF ok] q [OF Some]] show ?thesis
      by (simp add: lease_task_eq [OF ok reg secs] server_lease_task_def ps
          server_worker_eq reg candidates_all [OF few])
  qed
qed

section \<open>Properties of the server store\<close>



text \<open>Fencing on the server: a result under a token that is no longer a task's current one
  is refused whatever operations follow, also under contention.\<close>

theorem server_stale_token_refused:
  assumes "store_ok st" and "get_task st (tr_task_id res) = Some t"
    and "wt_lease_token t \<noteq> Some (tr_lease_token res)" and "\<not> draws (tr_lease_token res) ops"
  shows "\<exists>e. server_complete_task now w res (run_ops server_step ops st) = Inl e"
proof -
  from server_store.stale_complete [OF assms] obtain e
    where "server_step now (Complete w res) (run_ops server_step ops st) = Inl e" by blast
  then show ?thesis by (auto simp: andThen_eq_Inl)
qed

theorem server_stale_token_refused_witness:
  "\<exists>e. server_complete_task 90000000 ''sim1'' (demo_result ''old'')
     (run_ops server_step [(80000000, Lease ''sim1'' 60 ''tok2'' [''t1''])] demo_leased) = Inl e"
proof (rule server_stale_token_refused [OF demo_leased_ok])
  show "get_task demo_leased (tr_task_id (demo_result ''old'')) =
      Some (leased ''sim1'' ''tok'' 60000010 (enqueued (demo_task ''t2'' ''k2'' 2 [''renode''])))"
    using demo_leased_task by (simp add: demo_result_def)
qed (simp_all add: leased_def demo_result_def draws_def)

text \<open>
  Twenty older tasks that need a board, and one that the registered simulation worker can run.
\<close>

definition crowded_store :: state_store where
  "crowded_store = run_ops server_step
     (map (\<lambda>n. (1, Enqueue (demo_task (replicate n CHR ''x'') (replicate n CHR ''k'') 1 [''board''])))
        [0..<20] @ [(2, Enqueue (demo_task ''t2'' ''k2'' 2 [''renode'']))])
     (server_register_worker 0 demo_worker migrated)"

text \<open>The limit of twenty candidates starves workers: with twenty older tasks the worker
  cannot run, the server answers that there is no work although a queued task fits the worker,
  and the local store, on the same tables, hands that task out.\<close>

theorem server_lease_head_of_line:
  "map_sum id (map_option wt_task_id \<circ> fst)
     (server_lease_task 10 ''tok'' ''sim1'' 60 [] crowded_store) = Inr None \<and>
   map_sum id (map_option wt_task_id \<circ> fst)
     (lease_task 10 ''tok'' ''sim1'' 60 crowded_store) = Inr (Some ''t2'')"
  by (rule conjI; code_simp)

end
