(* ===== verification/Service.thy ===== *)
theory Service
  imports Acceptance Storage_Server
begin

text \<open>
  The control plane service (\<open>src/src/ael/service.py\<close>): it loads and checks an experiment, runs it
  through the scheduler, keeps the run's row in the store, reads its evidence back in pages, and
  decides whether a release is ready. Runs that were started in the background are a queue, and
  executing one is a step of its own.
\<close>

section \<open>State\<close>

text \<open>The files of the workspace are those of the recorder the next run starts from.\<close>

record 'a service =
  sv_store :: state_store
  sv_world :: recorder
  sv_catalog :: "'a catalog"
  sv_queue :: "(string \<times> path) list"

record 'a service_env =
  se_decoders :: decoders
  se_ops :: "'a adapter_ops"
  se_run :: "'a run_env"
  se_now :: "state_store \<Rightarrow> int"
  se_parse_line :: "string \<Rightarrow> pyval result"
  se_bundle :: "evidence_file \<Rightarrow> evidence_bundle result"

definition workspace_root :: "'a service \<Rightarrow> path" where
  "workspace_root s = layout_root (rec_layout (sv_world s))"

definition workspace_files :: "'a service \<Rightarrow> evidence_file fsys" where
  "workspace_files s = rec_fs (sv_world s)"

definition resolve_in :: "string \<Rightarrow> ('a service, path) prog" where
  "resolve_in candidate = reads (\<lambda>s. resolve_workspace_path (workspace_files s) (workspace_root s) candidate True)"

section \<open>Experiments\<close>

definition validate_model_states :: "system_manifest \<Rightarrow> experiment_spec \<Rightarrow> unit result" where
  "validate_model_states sys e = fold_result (\<lambda>c _.
     case dict_get_or (cmp_properties c) ''model_state'' PNone of
       PNone \<Rightarrow> Inr ()
     | raw \<Rightarrow>
         andThen (model_state_of raw) (\<lambda>state.
         check (state \<in> set (exp_allowed_model_states e))
           (PermissionError (''component '' @ cmp_id c @ '' uses model state '' @ model_state_value state @
             '', not allowed by experiment''))))
     (sys_components sys) ()"

definition check_rollback :: "string \<Rightarrow> experiment_spec \<Rightarrow> multi_rate_schedule \<Rightarrow> unit result" where
  "check_rollback message e schedule =
     check (\<not> (exp_requires_rollback e \<and> mrs_non_rollback schedule \<noteq> []))
       (ValueError (message @ '': '' @ join_with '', '' (sort (mrs_non_rollback schedule))))"

text \<open>\<open>_execute\<close> up to the scheduler: the documents, and every check before a run.\<close>

definition load_run :: "decoders \<Rightarrow> evidence_file fsys \<Rightarrow> path \<Rightarrow> path \<Rightarrow> (experiment_spec \<times> system_manifest) result" where
  "load_run d fs ws p =
     andThen (load_experiment d fs ws (path_text p)) (\<lambda>e.
     andThen (resolve_workspace_path fs ws (exp_system e) True) (\<lambda>q.
     andThen (load_system d fs ws (path_text q)) (\<lambda>sys.
     andThen (validate_fmi_topology sys) (\<lambda>_.
     andThen (check_rollback ''rollback requested for non-rollback components'' e
       (build_schedule sys (exp_macro_step_us e))) (\<lambda>_.
     andThen (validate_model_states sys e) (\<lambda>_. Inr (e, sys)))))))"

definition schedule_run :: "'a service_env \<Rightarrow> string \<Rightarrow> experiment_spec \<Rightarrow> system_manifest \<Rightarrow> ('a service, run_result) prog" where
  "schedule_run env run_id e sys s =
     (case run (se_ops env) (se_run env) run_id e sys (sv_catalog s) (sv_world s) of
        (r, t) \<Rightarrow> (r, s\<lparr>sv_world := ru_recorder t, sv_catalog := ru_catalog t\<rparr>))"

definition set_run ::
    "'a service_env \<Rightarrow> string \<Rightarrow> run_status \<Rightarrow> string option \<Rightarrow> string option \<Rightarrow> ('a service, unit) prog" where
  "set_run env run_id status evidence err =
     modify (\<lambda>s. s\<lparr>sv_store := update_run (se_now env (sv_store s)) run_id status evidence err (sv_store s)\<rparr>)"

definition execute :: "'a service_env \<Rightarrow> string \<Rightarrow> path \<Rightarrow> ('a service, run_result) prog" where
  "execute env run_id p =
     bindP (set_run env run_id RS_RUNNING None None) (\<lambda>_.
     handleP
       (bindP (reads (\<lambda>s. load_run (se_decoders env) (workspace_files s) (workspace_root s) p)) (\<lambda>(e, sys).
        bindP (schedule_run env run_id e sys) (\<lambda>res.
        bindP (reads (\<lambda>s. relative_path (rec_layout (sv_world s)) (out_evidence_dir res))) (\<lambda>dir.
        bindP (set_run env run_id (out_status res) (Some dir) (out_error res)) (\<lambda>_. ret res)))))
       (\<lambda>ex.
        bindP (set_run env run_id RS_FAILED None (Some (exn_text ex))) (\<lambda>_.
        gets (\<lambda>s. \<lparr>out_run_id = run_id, out_status = RS_FAILED,
          out_evidence_dir = runs_dir (rec_layout (sv_world s)) @ [run_id], out_error = Some (exn_text ex)\<rparr>))))"

definition insert_run :: "'a service_env \<Rightarrow> string \<Rightarrow> path \<Rightarrow> ('a service, unit) prog" where
  "insert_run env run_id p =
     bindP (reads (\<lambda>s. relative_path (rec_layout (sv_world s)) p)) (\<lambda>name.
     (\<lambda>s. case create_run (se_now env (sv_store s)) run_id name (sv_store s) of
        Inl ex \<Rightarrow> (Inl ex, s) | Inr st \<Rightarrow> (Inr (), s\<lparr>sv_store := st\<rparr>)))"

text \<open>\<open>run_id\<close> is the identifier \<open>uuid4\<close> draws.\<close>

definition run_experiment :: "'a service_env \<Rightarrow> string \<Rightarrow> string \<Rightarrow> ('a service, run_result) prog" where
  "run_experiment env run_id candidate =
     bindP (resolve_in candidate) (\<lambda>p.
     bindP (insert_run env run_id p) (\<lambda>_. execute env run_id p))"

definition start_experiment :: "'a service_env \<Rightarrow> string \<Rightarrow> string \<Rightarrow> ('a service, string) prog" where
  "start_experiment env run_id candidate =
     bindP (resolve_in candidate) (\<lambda>p.
     bindP (insert_run env run_id p) (\<lambda>_.
     bindP (modify (\<lambda>s. s\<lparr>sv_queue := sv_queue s @ [(run_id, p)]\<rparr>)) (\<lambda>_. ret run_id)))"

text \<open>A thread of the pool takes the oldest run that was started.\<close>

definition work_off :: "'a service_env \<Rightarrow> ('a service, run_result option) prog" where
  "work_off env =
     bindP (gets sv_queue) (\<lambda>queue.
     case queue of
       [] \<Rightarrow> ret None
     | (run_id, p) # rest \<Rightarrow>
         bindP (modify (\<lambda>s. s\<lparr>sv_queue := rest\<rparr>)) (\<lambda>_.
         bindP (execute env run_id p) (\<lambda>res. ret (Some res))))"

record experiment_check =
  ec_runnable :: bool
  ec_experiment :: string
  ec_system :: string
  ec_communication_step_us :: int
  ec_event_driven :: "string list"
  ec_non_rollback :: "string list"
  ec_missing :: "(string, string option) dict"
  ec_warnings :: "string list"

fun probe_components ::
    "'a adapter_ops \<Rightarrow> host \<Rightarrow> system_component list \<Rightarrow> 'a catalog \<Rightarrow> (string, adapter_probe) dict \<Rightarrow>
     (string, adapter_probe) dict \<times> 'a catalog" where
  "probe_components ops h [] c found = (found, c)"
| "probe_components ops h (x # xs) c found =
     (case probe_backend ops h (cmp_backend x) c of (p, c) \<Rightarrow>
        probe_components ops h xs c (dict_set (cmp_id x) p found))"

definition validate_experiment :: "'a service_env \<Rightarrow> string \<Rightarrow> ('a service, experiment_check) prog" where
  "validate_experiment env candidate =
     bindP (reads (\<lambda>s. load_experiment (se_decoders env) (workspace_files s) (workspace_root s) candidate)) (\<lambda>e.
     bindP (resolve_in (exp_system e)) (\<lambda>q.
     bindP (reads (\<lambda>s. load_system (se_decoders env) (workspace_files s) (workspace_root s) (path_text q))) (\<lambda>sys.
     bindP (lift (validate_fmi_topology sys)) (\<lambda>warnings.
     let schedule = build_schedule sys (exp_macro_step_us e) in
     bindP (lift (check_rollback ''experiment requires rollback but components are non-rollback'' e schedule)) (\<lambda>_.
     bindP (\<lambda>s. case probe_components (se_ops env) (re_host (se_run env)) (sys_components sys) (sv_catalog s) [] of
       (found, c) \<Rightarrow> (Inr found, s\<lparr>sv_catalog := c\<rparr>)) (\<lambda>found.
     let missing = map (\<lambda>(i, p). (i, prb_reason p)) (filter (\<lambda>(_, p). \<not> prb_available p) found) in
     bindP (lift (validate_model_states sys e)) (\<lambda>_.
     ret \<lparr>ec_runnable = (missing = []), ec_experiment = exp_name e, ec_system = sys_name sys,
       ec_communication_step_us = mrs_communication_step_us schedule,
       ec_event_driven = sort (mrs_event_driven schedule), ec_non_rollback = sort (mrs_non_rollback schedule),
       ec_missing = missing, ec_warnings = warnings\<rparr>)))))))"

definition classify :: "'a service_env \<Rightarrow> string \<Rightarrow> ('a service, route_result) prog" where
  "classify env candidate =
     bindP (reads (\<lambda>s. load_document (\<lambda>c. andThen (dc_problem (se_decoders env) c) validate_problem_spec)
       (workspace_files s) (workspace_root s) candidate)) (\<lambda>problem.
     (\<lambda>s. case classify_problem (se_ops env) (re_host (se_run env)) problem (sv_catalog s) of
        (r, c) \<Rightarrow> (Inr r, s\<lparr>sv_catalog := c\<rparr>)))"

section \<open>Evidence\<close>

definition run_status_of :: "string \<Rightarrow> ('a service, run_row) prog" where
  "run_status_of run_id = reads (\<lambda>s. require (get_run run_id (sv_store s))
     (KeyError ([CHR 0x27] @ ''unknown run: '' @ run_id @ [CHR 0x27])))"

datatype evidence_answer = Not_Ready run_status | Json_Answer pyval | Text_Answer string

text \<open>\<open>Path(record["evidence_path"]) / artifact\<close>.\<close>

definition join_text :: "string \<Rightarrow> string \<Rightarrow> string" where
  "join_text a b = (if starts_with b ''/'' then b else a @ ''/'' @ b)"

definition open_artifact :: "string \<Rightarrow> string \<Rightarrow> ('a service, path \<times> evidence_file) prog" where
  "open_artifact dir artifact =
     bindP (resolve_in (join_text dir artifact)) (\<lambda>p.
     reads (\<lambda>s. andThen (read_file (workspace_files s) p) (\<lambda>c. Inr (p, c))))"

definition get_evidence :: "'a service_env \<Rightarrow> string \<Rightarrow> string \<Rightarrow> ('a service, evidence_answer) prog" where
  "get_evidence env run_id artifact =
     bindP (run_status_of run_id) (\<lambda>row.
     if \<not> given (rr_evidence_path row) then ret (Not_Ready (rr_status row))
     else
       bindP (open_artifact (the (rr_evidence_path row)) artifact) (\<lambda>(p, c).
       if path_suffix (last_name p) = ''.json''
       then bindP (lift (dc_json (se_decoders env) c)) (\<lambda>v. ret (Json_Answer v))
       else ret (Text_Answer (dc_text (se_decoders env) c))))"

record event_page =
  pg_events :: "pyval list"
  pg_next_offset :: "nat option"
  pg_total :: "nat option"

text \<open>The page of a list of lines from an offset.\<close>

definition event_slice :: "('a service_env) \<Rightarrow> string list \<Rightarrow> nat \<Rightarrow> nat \<Rightarrow> event_page result" where
  "event_slice env lines offset limit =
     andThen (map_result (se_parse_line env) (take limit (drop offset lines))) (\<lambda>page.
     Inr \<lparr>pg_events = page,
       pg_next_offset = (if offset + length page < length lines then Some (offset + length page) else None),
       pg_total = Some (length lines)\<rparr>)"

definition get_event_page :: "'a service_env \<Rightarrow> string \<Rightarrow> int \<Rightarrow> int \<Rightarrow> ('a service, event_page) prog" where
  "get_event_page env run_id offset limit =
     bindP (guardP (0 \<le> offset \<and> 1 \<le> limit \<and> limit \<le> 1000)
       (ValueError ''offset must be >= 0 and limit must be 1..1000'')) (\<lambda>_.
     bindP (run_status_of run_id) (\<lambda>row.
     if \<not> given (rr_evidence_path row)
     then ret \<lparr>pg_events = [], pg_next_offset = None, pg_total = None\<rparr>
     else
       bindP (open_artifact (the (rr_evidence_path row)) ''events.jsonl'') (\<lambda>(p, c).
       lift (event_slice env (splitlines (dc_text (se_decoders env) c)) (nat offset) (nat limit)))))"

definition replay :: "'a service_env \<Rightarrow> string \<Rightarrow> string \<Rightarrow> ('a service, run_result) prog" where
  "replay env new_id run_id =
     bindP (run_status_of run_id) (\<lambda>row.
     bindP (guardP (given (rr_evidence_path row)) (RuntimeError ''run has no resolved evidence to replay'')) (\<lambda>_.
     run_experiment env new_id (join_text (the (rr_evidence_path row)) ''experiment.resolved.json'')))"

text \<open>\<open>EvidenceBundle.model_validate(self.get_evidence(run_id))\<close>.\<close>

definition load_bundle :: "'a service_env \<Rightarrow> string \<Rightarrow> ('a service, evidence_bundle) prog" where
  "load_bundle env run_id =
     bindP (run_status_of run_id) (\<lambda>row.
     bindP (guardP (given (rr_evidence_path row)) (ValueError ''validation error for EvidenceBundle'')) (\<lambda>_.
     bindP (open_artifact (the (rr_evidence_path row)) ''bundle.json'') (\<lambda>(p, c).
     lift (se_bundle env c))))"

definition load_trace :: "'a service_env \<Rightarrow> string \<Rightarrow> ('a service, string) prog" where
  "load_trace env run_id =
     bindP (get_evidence env run_id ''events.jsonl'') (\<lambda>a.
     case a of Text_Answer t \<Rightarrow> ret t | _ \<Rightarrow> raise (AttributeError ''object has no attribute encode''))"

record comparison =
  cp_status_changed :: bool
  cp_left_status :: run_status
  cp_right_status :: run_status
  cp_event_count_delta :: int
  cp_trace_hash_equal :: bool
  cp_assertions_changed :: bool

definition compare_runs :: "'a service_env \<Rightarrow> (string \<Rightarrow> string) \<Rightarrow> string \<Rightarrow> string \<Rightarrow> ('a service, comparison) prog" where
  "compare_runs env sha left right =
     bindP (load_bundle env left) (\<lambda>l.
     bindP (load_bundle env right) (\<lambda>r.
     bindP (load_trace env left) (\<lambda>lt.
     bindP (load_trace env right) (\<lambda>rt.
     ret \<lparr>cp_status_changed = (eb_status l \<noteq> eb_status r), cp_left_status = eb_status l,
       cp_right_status = eb_status r, cp_event_count_delta = eb_event_count r - eb_event_count l,
       cp_trace_hash_equal = (sha lt = sha rt),
       cp_assertions_changed = (eb_assertion_results l \<noteq> eb_assertion_results r)\<rparr>))))"

datatype explanation =
    No_Evidence run_status "string option"
  | Explained run_status "assertion_result list" "pyval list" "string list"

definition explain :: "'a service_env \<Rightarrow> string \<Rightarrow> ('a service, explanation) prog" where
  "explain env run_id =
     bindP (run_status_of run_id) (\<lambda>row.
     if \<not> given (rr_evidence_path row) then ret (No_Evidence (rr_status row) (rr_error row))
     else
       bindP (load_bundle env run_id) (\<lambda>b.
       bindP (get_event_page env run_id (max 0 (eb_event_count b - 20)) 20) (\<lambda>page.
       ret (Explained (eb_status b) (filter (\<lambda>a. \<not> ar_passed a) (eb_assertion_results b))
         (pg_events page) (eb_fidelity_boundaries b)))))"

section \<open>Releases\<close>

definition schema_names :: "string list" where
  "schema_names = [''acceptance-manifest'', ''benchmark-catalog'', ''benchmark-mechanism'', ''calibration-record'',
     ''instrument-evidence'',
     ''instrument-operation-request'', ''problem-spec'', ''system-manifest'',
     ''experiment-spec'', ''hardware-behavior-ir'', ''model-generation-request'', ''model-conformance-evidence'', ''model-package'', ''validation-envelope'', ''event'', ''claim'', ''evidence-bundle'',
     ''worker-registration'', ''worker-task'', ''worker-heartbeat'', ''worker-task-result'']"

definition simulation_names :: "benchmark_catalog \<Rightarrow> string list" where
  "simulation_names k = map (\<lambda>c. ''benchmark:'' @ case_label c) (bct_cases k) @
    [''environment:qualified'', ''firmware:arm-riscv'', ''cross-domain:five-backend'', ''fmi:five-domain'', ''backend:zephyr_build'', ''backend:renode'', ''backend:ngspice'',
     ''backend:openmodelica'', ''backend:ns3'', ''backend:openems'']"

definition software_names :: "string list" where
  "software_names = [''environment:qualified'', ''deployment:compose'', ''storage:postgres-s3'', ''security:oidc-mtls'',
     ''worker:lease-recovery'', ''supply-chain:sbom-signature'']"

definition production_names :: "string list" where
  "production_names = [''hardware:stm32f407g-disc1'', ''hardware:hifive1-revb'', ''hardware:nrf52840-dk'',
     ''hardware:esp32-s3-devkitc-1'', ''hardware:rp2040-pico'', ''calibration:lab'', ''deployment:server-worker'', ''security:mtls-oidc-recovery'', ''license:approved'']"

text \<open>\<open>path.is_file()\<close>.\<close>

definition is_file :: "evidence_file fsys \<Rightarrow> path \<Rightarrow> bool" where
  "is_file fs p = (case resolve fs p of Inl _ \<Rightarrow> False | Inr q \<Rightarrow> files fs q \<noteq> None)"

definition foundation_failures :: "evidence_file fsys \<Rightarrow> path \<Rightarrow> string list" where
  "foundation_failures fs ws =
     map (\<lambda>p. ''foundation artifact missing: '' @ join_with ''/'' p)
       (filter (\<lambda>p. \<not> is_file fs (ws @ p))
         ([[''LICENSE''], [''pyproject.toml''], [''AGENTS.md'']] @
          map (\<lambda>n. [''schemas'', ''v1'', n @ ''.schema.json'']) schema_names))"

definition environment_entry_failures ::
    "decoders \<Rightarrow> evidence_file fsys \<Rightarrow> path \<Rightarrow> acceptance_manifest \<Rightarrow> string list result" where
  "environment_entry_failures d fs ws m =
     (case find (\<lambda>e. ae_name e = ''environment:qualified'') (am_entries m) of
        None \<Rightarrow> Inr []
      | Some e \<Rightarrow>
          if \<not> given (ae_evidence_path e) then Inr []
          else
            (case andThen (resolve_workspace_path fs ws (the (ae_evidence_path e)) True)
                (\<lambda>p. andThen (read_file fs p) (dc_json d)) of
               Inl ex \<Rightarrow> if is_access_error ex \<or> is_json_error ex
                 then Inr [''execution environment evidence is unavailable: '' @ exn_message ex] else Inl ex
             | Inr v \<Rightarrow> Inr (validate_execution_environment v (am_source_revision m))))"

definition acceptance_path :: "path \<Rightarrow> string \<Rightarrow> path" where
  "acceptance_path ws name = ws @ [''acceptance'', name]"

definition simulation_failures ::
    "decoders \<Rightarrow> digests \<Rightarrow> evidence_file fsys \<Rightarrow> path \<Rightarrow> benchmark_catalog \<Rightarrow> string list result" where
  "simulation_failures d dg fs ws k =
     andThen (validate_release d fs ws k) (\<lambda>catalog.
     if \<not> is_file fs (acceptance_path ws ''simulation.json'')
     then Inr (catalog @ [''simulation acceptance manifest is missing''])
     else
       andThen (load_acceptance d fs ws (path_text (acceptance_path ws ''simulation.json''))) (\<lambda>m.
       andThen (validate_acceptance_manifest d dg fs ws m (simulation_names k)) (\<lambda>entries.
       andThen (environment_entry_failures d fs ws m) (\<lambda>environment.
       Inr (catalog @ failed_if (am_profile m \<noteq> RP_SIMULATION) ''simulation acceptance has the wrong profile'' @
         entries @ environment)))))"

definition software_failures ::
    "decoders \<Rightarrow> digests \<Rightarrow> evidence_file fsys \<Rightarrow> path \<Rightarrow> string list result" where
  "software_failures d dg fs ws =
     (if \<not> is_file fs (acceptance_path ws ''software.json'')
      then Inr [''software production-topology acceptance manifest is missing'']
      else
        andThen (load_acceptance d fs ws (path_text (acceptance_path ws ''software.json''))) (\<lambda>m.
        andThen (validate_acceptance_manifest d dg fs ws m software_names) (\<lambda>entries.
        andThen (environment_entry_failures d fs ws m) (\<lambda>environment.
        Inr (failed_if (am_profile m \<noteq> RP_SOFTWARE) ''software acceptance has the wrong profile'' @
          entries @ environment)))))"

definition production_failures ::
    "decoders \<Rightarrow> digests \<Rightarrow> evidence_file fsys \<Rightarrow> path \<Rightarrow> state_store \<Rightarrow> string list result" where
  "production_failures d dg fs ws st =
     (let n = count_models MS_PRODUCTION_APPROVED st;
          models = failed_if (n < 5) (''production-approved capability packages: '' @ show_nat n @ ''/5'') in
      if \<not> is_file fs (acceptance_path ws ''production.json'')
      then Inr (models @ [''five reference platforms have no current hardware differential bundles'',
        ''instrument calibration and validation envelopes are unavailable'',
        ''hardware and production capability packages require human approval''])
      else
        andThen (load_acceptance d fs ws (path_text (acceptance_path ws ''production.json''))) (\<lambda>m.
        andThen (validate_acceptance_manifest d dg fs ws m production_names) (\<lambda>entries.
        Inr (models @ failed_if (am_profile m \<noteq> RP_PRODUCTION) ''production acceptance has the wrong profile'' @
          failed_if (\<not> given (am_signature m)) ''production acceptance manifest is unsigned'' @ entries))))"

definition release_failures ::
    "decoders \<Rightarrow> digests \<Rightarrow> evidence_file fsys \<Rightarrow> path \<Rightarrow> state_store \<Rightarrow> release_profile \<Rightarrow> string list result" where
  "release_failures d dg fs ws st profile =
     andThen (load_catalog d fs ws) (\<lambda>k.
     andThen (if profile \<in> {RP_SIMULATION, RP_SOFTWARE, RP_PRODUCTION} then simulation_failures d dg fs ws k else Inr []) (\<lambda>sim.
     andThen (if profile \<in> {RP_SOFTWARE, RP_PRODUCTION} then software_failures d dg fs ws else Inr []) (\<lambda>soft.
     andThen (if profile = RP_PRODUCTION then production_failures d dg fs ws st else Inr []) (\<lambda>prod.
     Inr ((if profile = RP_FOUNDATION then foundation_failures fs ws else []) @ sim @ soft @ prod)))))"

text \<open>The answer of \<open>release_check\<close>: whether the release is ready, and why not.\<close>

definition release_check :: "'a service_env \<Rightarrow> release_profile \<Rightarrow> ('a service, bool \<times> string list) prog" where
  "release_check env profile =
     bindP (reads (\<lambda>s. release_failures (se_decoders env) (re_digests (se_run env)) (workspace_files s)
       (workspace_root s) (sv_store s) profile)) (\<lambda>failures. ret (failures = [], failures))"

section \<open>Reports and the task protocol\<close>

text \<open>The tools of \<open>doctor\<close>; probing may start workers, so the catalog changes.\<close>

definition doctor :: "'a service_env \<Rightarrow> ('a service, adapter_probe list) prog" where
  "doctor env s = (case probes (se_ops env) (re_host (se_run env)) (sv_catalog s) of (ps, c) \<Rightarrow> (Inr ps, s\<lparr>sv_catalog := c\<rparr>))"

record inspection =
  in_runs :: "run_row list"
  in_models :: "model_row list"
  in_tools :: "adapter_probe list"
  in_total :: nat
  in_executable :: nat
  in_gap_count :: nat

definition inspect :: "'a service_env \<Rightarrow> ('a service, inspection) prog" where
  "inspect env =
     bindP (gets (\<lambda>s. list_models (sv_store s))) (\<lambda>models.
     bindP (reads (\<lambda>s. load_catalog (se_decoders env) (workspace_files s) (workspace_root s))) (\<lambda>k.
     bindP (reads (\<lambda>s. validate_release (se_decoders env) (workspace_files s) (workspace_root s) k)) (\<lambda>gaps.
     bindP (gets (\<lambda>s. list_runs 50 (sv_store s))) (\<lambda>runs.
     bindP (doctor env) (\<lambda>tools.
     ret \<lparr>in_runs = runs, in_models = models, in_tools = tools, in_total = length (bct_cases k),
       in_executable = length (filter (\<lambda>c. bc_readiness c = ''executable'') (bct_cases k)),
       in_gap_count = length gaps\<rparr>)))))"

text \<open>\<open>json.dumps({"capabilities": [...]})\<close>.\<close>

definition capabilities_text :: "worker_registration \<Rightarrow> string" where
  "capabilities_text r = ''{'' @ json_string ''capabilities'' @ '': ['' @
     join_with '', '' (map (json_string \<circ> wc_name) (wr_capabilities r)) @ '']}''"

definition on_store :: "(state_store \<Rightarrow> ('r \<times> state_store) result) \<Rightarrow> ('a service, 'r) prog" where
  "on_store f s = (case f (sv_store s) of Inl ex \<Rightarrow> (Inl ex, s) | Inr (r, st) \<Rightarrow> (Inr r, s\<lparr>sv_store := st\<rparr>))"

definition audit_entry :: "'a service_env \<Rightarrow> string \<Rightarrow> string \<Rightarrow> string \<Rightarrow> string \<Rightarrow> ('a service, unit) prog" where
  "audit_entry env actor action subject details =
     modify (\<lambda>s. s\<lparr>sv_store := audit (se_now env (sv_store s)) actor action subject details (sv_store s)\<rparr>)"

definition service_register_worker :: "'a service_env \<Rightarrow> worker_registration \<Rightarrow> ('a service, string) prog" where
  "service_register_worker env r =
     bindP (modify (\<lambda>s. s\<lparr>sv_store := register_worker (se_now env (sv_store s)) r (sv_store s)\<rparr>)) (\<lambda>_.
     bindP (audit_entry env (wr_worker_id r) ''worker.register'' (wr_worker_id r) (capabilities_text r)) (\<lambda>_.
     ret (wr_worker_id r)))"

definition service_enqueue_task :: "'a service_env \<Rightarrow> worker_task \<Rightarrow> ('a service, worker_task) prog" where
  "service_enqueue_task env t = on_store (\<lambda>st. enqueue_task (se_now env st) t st)"

definition service_task_status :: "string \<Rightarrow> ('a service, worker_task) prog" where
  "service_task_status i = reads (\<lambda>s. require (task_in (ss_tasks (sv_store s)) i)
     (KeyError ([CHR 0x27] @ ''unknown task: '' @ i @ [CHR 0x27])))"

text \<open>\<open>token\<close> is the lease token \<open>secrets\<close> draws.\<close>

definition service_lease_task :: "'a service_env \<Rightarrow> string \<Rightarrow> string \<Rightarrow> int \<Rightarrow> ('a service, worker_task option) prog" where
  "service_lease_task env token worker_id secs = on_store (\<lambda>st. lease_task (se_now env st) token worker_id secs st)"

definition service_heartbeat_task :: "'a service_env \<Rightarrow> string \<Rightarrow> worker_heartbeat \<Rightarrow> int \<Rightarrow> ('a service, worker_task) prog" where
  "service_heartbeat_task env worker_id hb secs = on_store (\<lambda>st. heartbeat_task (se_now env st) worker_id hb secs st)"

definition service_complete_task :: "'a service_env \<Rightarrow> string \<Rightarrow> worker_task_result \<Rightarrow> ('a service, worker_task) prog" where
  "service_complete_task env worker_id res =
     bindP (on_store (\<lambda>st. complete_task (se_now env st) worker_id res st)) (\<lambda>t.
     bindP (audit_entry env worker_id ''task.complete'' (tr_task_id res) (result_status_value (tr_status res))) (\<lambda>_. ret t))"

definition service_cancel_task :: "'a service_env \<Rightarrow> string \<Rightarrow> ('a service, worker_task) prog" where
  "service_cancel_task env i = on_store (\<lambda>st. cancel_task (se_now env st) i st)"

end
