(* ===== verification/Control.thy ===== *)
theory Control
  imports Service
begin

text \<open>
  What the control plane promises: an experiment that was accepted comes to a row with its outcome,
  in the background as in the foreground, its evidence can be read back, the pages of its events
  give every line once, and a release is ready only with all its evidence.
\<close>

section \<open>Rows of runs\<close>

definition finished :: "run_status \<Rightarrow> bool" where
  "finished status \<longleftrightarrow> status \<notin> {RS_QUEUED, RS_RUNNING}"

lemma find_by_update_other:
  assumes "\<And>r. key r = k \<Longrightarrow> key (f r) = key r" "j \<noteq> k"
  shows "find_by key j (update_where (\<lambda>r. key r = k) f rs) = find_by key j rs"
  using assms(2) by (induction rs) (auto simp: update_where_def assms(1))

lemma find_by_update_same:
  assumes "\<And>r. key (f r) = key r"
  shows "find_by key k (update_where (\<lambda>r. key r = k) f rs) = map_option f (find_by key k rs)"
  by (induction rs) (auto simp: update_where_def assms)

lemma get_run_update:
  "get_run j (update_run now i status evidence err st) =
     (if j = i
      then map_option (\<lambda>r. r\<lparr>rr_status := status, rr_evidence_path := coalesce evidence (rr_evidence_path r),
        rr_error := err, rr_updated_at := now\<rparr>) (get_run i st)
      else get_run j st)"
  by (simp add: get_run_def update_run_def find_by_update_same find_by_update_other)

lemma run_ends_finished:
  assumes "run ops env run_id e sys c world = (Inr res, s)"
  shows "finished (out_status res) \<and> out_run_id res = rec_run_id (ru_recorder s) \<and> out_evidence_dir res = run_dir (ru_recorder s)"
proof -
  have b: "finished status" if "run_body ops env e sys u = (Inr (status, err), t)" for status err u t
    using that by (auto simp: run_body_def bindP_eq_Inr guardP_eq_Inr finished_def split: if_splits)
  have f: "finished status" if "run_failure ops ex u = (Inr (status, err), t)" for ex status err u t
    using that by (cases ex) (auto simp: bindP_eq_Inr finished_def)
  from assms obtain status err u t where
    "handleP (run_body ops env e sys) (run_failure ops) u = (Inr (status, err), t)" "out_status res = status"
    "out_run_id res = rec_run_id (ru_recorder s) \<and> out_evidence_dir res = run_dir (ru_recorder s)"
    by (auto simp: run_def run_recorded_def bindP_eq_Inr finallyP_def split: sum.splits prod.splits)
  with b f show ?thesis by (auto simp: handleP_def split: prod.splits sum.splits)
qed

section \<open>Execution\<close>

text \<open>Everything of a state but its row of a run, which is the outcome.\<close>

definition settled :: "string \<Rightarrow> run_result \<Rightarrow> 'a service \<Rightarrow> 'a service \<Rightarrow> bool" where
  "settled run_id res s t \<longleftrightarrow> finished (out_status res) \<and> sv_queue t = sv_queue s \<and>
     (\<forall>j. j \<noteq> run_id \<longrightarrow> get_run j (sv_store t) = get_run j (sv_store s)) \<and>
     map_option (\<lambda>r. (rr_status r, rr_error r, rr_experiment_path r, rr_created_at r)) (get_run run_id (sv_store t)) =
       map_option (\<lambda>r. (out_status res, out_error res, rr_experiment_path r, rr_created_at r)) (get_run run_id (sv_store s))"

lemma set_run_eq: "set_run env run_id status evidence err s =
    (Inr (), s\<lparr>sv_store := update_run (se_now env (sv_store s)) run_id status evidence err (sv_store s)\<rparr>)"
  by (simp add: set_run_def)

lemma schedule_run_frame:
  "sv_store (snd (schedule_run env run_id e sys s)) = sv_store s \<and> sv_queue (snd (schedule_run env run_id e sys s)) = sv_queue s"
  by (simp add: schedule_run_def split: prod.split)

lemma execute_settles: "\<exists>res t. execute env run_id p s = (Inr res, t) \<and> settled run_id res s t"
proof -
  let ?s = "s\<lparr>sv_store := update_run (se_now env (sv_store s)) run_id RS_RUNNING None None (sv_store s)\<rparr>"
  let ?body = "bindP (reads (\<lambda>s. load_run (se_decoders env) (workspace_files s) (workspace_root s) p)) (\<lambda>(e, sys).
        bindP (schedule_run env run_id e sys) (\<lambda>res.
        bindP (reads (\<lambda>s. relative_path (rec_layout (sv_world s)) (out_evidence_dir res))) (\<lambda>dir.
        bindP (set_run env run_id (out_status res) (Some dir) (out_error res)) (\<lambda>_. ret res))))"
  note defs = execute_def bindP_Inr [OF set_run_eq] handleP_def
  obtain r t where body: "?body ?s = (r, t)" by fastforce
  have fail: "sv_store t = sv_store ?s \<and> sv_queue t = sv_queue s" if "r = Inl ex" for ex
  proof -
    have "?body ?s = (Inl ex, t)" using body that by simp
    then show ?thesis
      using schedule_run_frame [of env run_id _ _ ?s]
      by (auto simp: bindP_eq_Inl set_run_eq)
        (metis snd_conv service.select_convs service.simps)+
  qed
  show ?thesis
  proof (cases r)
    case (Inl ex)
    with fail [OF this] body show ?thesis
      by (auto simp: defs settled_def get_run_update set_run_eq finished_def bindP_def comp_def option.map_comp)
  next
    case (Inr res)
    with body obtain e sys u dir where u: "schedule_run env run_id e sys ?s = (Inr res, u)"
      "t = u\<lparr>sv_store := update_run (se_now env (sv_store u)) run_id (out_status res) (Some dir) (out_error res) (sv_store u)\<rparr>"
      by (auto simp: bindP_eq_Inr set_run_eq)
    moreover have "sv_store u = sv_store ?s" "sv_queue u = sv_queue s"
      using schedule_run_frame [of env run_id e sys ?s] u(1) by auto
    moreover have "finished (out_status res)"
      using u(1) by (auto simp: schedule_run_def split: prod.splits dest: run_ends_finished)
    ultimately show ?thesis
      using Inr body by (auto simp: defs settled_def get_run_update comp_def option.map_comp)
  qed
qed

text \<open>A waiting run of the queue does not matter to the run that is executed.\<close>

definition queued_with :: "(string \<times> path) list \<Rightarrow> 'r \<times> 'a service \<Rightarrow> 'r \<times> 'a service" where
  "queued_with q rs = (fst rs, (snd rs)\<lparr>sv_queue := q\<rparr>)"

lemma execute_queue: "execute env run_id p (s\<lparr>sv_queue := q\<rparr>) = queued_with q (execute env run_id p s)"
  by (auto simp: execute_def queued_with_def bindP_def handleP_def set_run_def schedule_run_def workspace_files_def
      workspace_root_def split: prod.splits sum.splits)

section \<open>Reading a run's evidence\<close>

definition of_run :: "workspace_layout \<Rightarrow> (path \<Rightarrow> (bool \<times> string list) option) \<Rightarrow> string \<Rightarrow> recorder \<Rightarrow> bool" where
  "of_run l K i r \<longleftrightarrow> rec_layout r = l \<and> rec_links r = K \<and> rec_run_id r = i"

lemma of_run_event_inv: "event_inv (of_run l K i)"
  by (simp add: event_inv_def report_inv_def of_run_def)

lemma of_run_report_inv: "report_inv (of_run l K i)"
  using of_run_event_inv by (simp add: event_inv_def)

lemma keeps_of_run_body: "keeps (recorder_inv (of_run l K i)) (run_body ops env e sys)"
proof -
  have "keeps (recorder_inv (of_run l K i)) (check_assertion a crit)" for a crit
    unfolding check_assertion_def
    by (intro keeps_intros) (simp add: add_assertion_def keeps_def of_run_def)
  then show ?thesis
    unfolding run_body_def
    by (intro keeps_intros recorder_inv_prepare recorder_inv_run_times of_run_event_inv)
qed

lemma keeps_of_run_failure: "keeps (recorder_inv (of_run l K i)) (run_failure ops ex)"
proof -
  have "keeps (recorder_inv (of_run l K i)) (bindP (bindP adapter_ids (forP (snapshot_quietly ops)))
      (\<lambda>_. ret (RS_FAILED, Some m)))" for m
    unfolding snapshot_quietly_def adapter_ids_def
    by (intro keeps_intros recorder_inv_snapshot_adapter of_run_report_inv)
  then show ?thesis by (cases ex) simp_all
qed

lemma hash_keeps_files:
  "keeps (\<lambda>q. rec_files q = F \<and> of_run l K i q \<and> rec_events q = es) (foldP (hash_file dg) pcs h)"
  "keeps (\<lambda>q. rec_files q = F \<and> of_run l K i q \<and> rec_events q = es) (foldP (hash_model dg) cs h)"
  unfolding hash_file_def hash_model_def
  by (intro keeps_intros; simp add: put_cas_def keeps_def of_run_def split: prod.split)+

text \<open>The files of a finished run, and what its bundle says.\<close>

definition holds_evidence :: "run_status \<Rightarrow> recorder \<Rightarrow> bool" where
  "holds_evidence status r \<longleftrightarrow>
     dict_get (rec_files r) (run_dir r @ [''events.jsonl'']) = Some (EF_Events (rec_events r)) \<and>
     (\<exists>b. dict_get (rec_files r) (run_dir r @ [''bundle.json'']) = Some (EF_Bundle b) \<and> eb_run_id b = rec_run_id r \<and>
       eb_status b = status \<and> eb_event_count b = int (length (rec_events r)) \<and>
       eb_assertion_results b = rec_assertion_results r)"

lemma finalize_holds_evidence:
  assumes "finalize dg now status err r = (Inr b, r')"
  shows "holds_evidence status r'"
proof -
  let ?w = "with_reports dg now status err r"
  have I: "of_run (rec_layout r) (rec_links r) (rec_run_id r) ?w" "rec_events ?w = rec_events r"
    by (simp_all add: with_reports_def of_run_def)
  from assms obtain ah r2 mh r3 where h: "foldP (hash_file dg) (hashed_files ?w) [] ?w = (Inr ah, r2)"
    and m: "foldP (hash_model dg) (sys_components (rec_system r2)) [] r2 = (Inr mh, r3)"
    and b: "eb_run_id b = rec_run_id r3" "eb_status b = status" "eb_event_count b = int (length (rec_events r3))"
      "eb_assertion_results b = rec_assertion_results r3"
    and r': "r' = r3\<lparr>rec_files := dict_set (run_dir r @ [''bundle.json'']) (EF_Bundle b) (rec_files r3)\<rparr>"
    by (auto simp: finalize_def bindP_eq_Inr put_file_def with_reports_def)
  let ?I = "\<lambda>q. rec_files q = rec_files ?w \<and> of_run (rec_layout r) (rec_links r) (rec_run_id r) q \<and> rec_events q = rec_events r"
  have "?I r2" using keepsD [OF hash_keeps_files(1), of ?w "rec_files ?w" "rec_layout r" "rec_links r" "rec_run_id r" "rec_events r" dg "hashed_files ?w" "[]"] I h
    by simp
  then have "?I r3" using keepsD [OF hash_keeps_files(2), of r2 "rec_files ?w" "rec_layout r" "rec_links r" "rec_run_id r" "rec_events r" dg "sys_components (rec_system r2)" "[]"] m
    by simp
  then show ?thesis
    using b by (simp add: holds_evidence_def r' of_run_def run_dir_def with_reports_def)
qed

lemma run_holds_evidence:
  assumes "run ops env run_id e sys c world = (Inr res, s)"
  shows "holds_evidence (out_status res) (ru_recorder s) \<and> of_run (rec_layout world) (rec_links world) run_id (ru_recorder s)"
proof -
  let ?J = "recorder_inv (of_run (rec_layout world) (rec_links world) run_id)"
  from assms obtain rec where rec: "new_recorder (re_started_at env) run_id e sys world = Inr rec"
    and r: "run_recorded ops env e sys (start_state c rec) = (Inr res, s)"
    by (auto simp: run_def split: sum.splits)
  have "?J (start_state c rec)"
    using rec by (auto simp: new_recorder_def Let_def recorder_inv_def of_run_def start_state_def split: if_splits)
  moreover have "keeps ?J (handleP (run_body ops env e sys) (run_failure ops))"
    by (intro keeps_intros keeps_of_run_body keeps_of_run_failure)
  moreover from r obtain status err t b where
    "handleP (run_body ops env e sys) (run_failure ops) (start_state c rec) = (Inr (status, err), t)"
    and fin: "on_recorder (finalize (re_digests env) (re_completed_at env) status err) (shutdown_all ops t) = (Inr b, s)"
    and status: "out_status res = status"
    by (auto simp: run_recorded_def bindP_eq_Inr finallyP_def split: prod.splits)
  moreover from fin obtain r' where f: "finalize (re_digests env) (re_completed_at env) status err (ru_recorder t) = (Inr b, r')"
    and s: "ru_recorder s = r'"
    by (auto simp: on_recorder_def shutdown_all_def split: prod.splits)
  ultimately have "?J t" using keepsD by fastforce
  then have "of_run (rec_layout world) (rec_links world) run_id r'"
    using keepsD [OF report_inv_finalize [OF of_run_report_inv]] f by (metis recorder_inv_def snd_conv)
  with finalize_holds_evidence [OF f] s status show ?thesis by simp
qed

text \<open>The path of a file below the workspace finds it again.\<close>

lemma resolve_plain_below:
  assumes "canonical (links fs) (ws @ cs)" and "cs \<noteq> []" and "list_all plain_component cs" and "path_exists fs (ws @ cs)"
  shows "resolve_workspace_path fs ws (join_with ''/'' cs) True = Inr (ws @ cs)"
proof -
  have "canonical (links fs) ws" using assms(1) by (rule canonical_prefix) simp
  moreover have "parse_path (join_with ''/'' cs) = (False, cs)"
    using assms(2,3) by (intro parse_join) (auto simp: list_all_iff)
  ultimately show ?thesis
    using assms by (simp add: resolve_workspace_path_def resolve_idem strict_prefix_def)
qed

text \<open>A run of the service whose row names its evidence has that evidence.\<close>

lemma execute_evidence:
  assumes "execute env run_id p s = (Inr res, t)" and "get_run run_id (sv_store s) = Some old"
    and "rr_evidence_path old = None" and "get_run run_id (sv_store t) = Some row" and "given (rr_evidence_path row)"
  shows "rr_status row = out_status res \<and> holds_evidence (out_status res) (sv_world t) \<and>
    of_run (rec_layout (sv_world s)) (rec_links (sv_world s)) run_id (sv_world t) \<and>
    rr_evidence_path row = Some (relative_to (workspace_root s) (runs_dir (rec_layout (sv_world s)) @ [run_id]))"
proof -
  let ?s = "s\<lparr>sv_store := update_run (se_now env (sv_store s)) run_id RS_RUNNING None None (sv_store s)\<rparr>"
  let ?body = "bindP (reads (\<lambda>s. load_run (se_decoders env) (workspace_files s) (workspace_root s) p)) (\<lambda>(e, sys).
        bindP (schedule_run env run_id e sys) (\<lambda>res.
        bindP (reads (\<lambda>s. relative_path (rec_layout (sv_world s)) (out_evidence_dir res))) (\<lambda>dir.
        bindP (set_run env run_id (out_status res) (Some dir) (out_error res)) (\<lambda>_. ret res))))"
  obtain r u where body: "?body ?s = (r, u)" by fastforce
  show ?thesis
  proof (cases r)
    case (Inl ex)
    have "sv_store u = sv_store ?s"
      using body Inl schedule_run_frame [of env run_id _ _ ?s]
      by (auto simp: bindP_eq_Inl set_run_eq) (metis snd_conv service.select_convs service.simps)+
    with Inl body assms show ?thesis
      by (auto simp: execute_def bindP_Inr [OF set_run_eq] handleP_def bindP_def set_run_eq get_run_update coalesce_def given_def)
  next
    case (Inr res')
    with body assms(1) have "res' = res" "u = t"
      by (auto simp: execute_def bindP_Inr [OF set_run_eq] handleP_def)
    with Inr body obtain e sys v dir where v: "schedule_run env run_id e sys ?s = (Inr res, v)"
      "relative_path (rec_layout (sv_world v)) (out_evidence_dir res) = Inr dir"
      "t = v\<lparr>sv_store := update_run (se_now env (sv_store v)) run_id (out_status res) (Some dir) (out_error res) (sv_store v)\<rparr>"
      by (auto simp: bindP_eq_Inr set_run_eq)
    from v(1) obtain w where w: "run (se_ops env) (se_run env) run_id e sys (sv_catalog s) (sv_world s) = (Inr res, w)"
      "sv_world v = ru_recorder w" "sv_store v = sv_store ?s"
      by (auto simp: schedule_run_def split: prod.splits)
    note ev = run_holds_evidence [OF w(1)] run_ends_finished [OF w(1)]
    have "out_evidence_dir res = runs_dir (rec_layout (sv_world s)) @ [run_id]"
      using ev by (simp add: run_dir_def of_run_def)
    moreover have "rec_layout (sv_world v) = rec_layout (sv_world s)" using ev w(2) by (simp add: of_run_def)
    ultimately show ?thesis
      using ev v(2,3) w(2,3) assms(2-4)
      by (auto simp: get_run_update coalesce_def relative_path_def workspace_root_def of_run_def split: if_splits)
  qed
qed

section \<open>Accepted experiments\<close>

lemma insert_run_fresh:
  assumes "canonical (links (workspace_files s)) (workspace_root s)" and "get_run run_id (sv_store s) = None"
    and "resolve_workspace_path (workspace_files s) (workspace_root s) candidate True = Inr p"
  shows "insert_run env run_id p s = (Inr (), s\<lparr>sv_store := (sv_store s)\<lparr>ss_runs := ss_runs (sv_store s) @
    [\<lparr>rr_run_id = run_id, rr_status = RS_QUEUED, rr_experiment_path = relative_to (workspace_root s) p,
      rr_evidence_path = None, rr_error = None, rr_created_at = se_now env (sv_store s),
      rr_updated_at = se_now env (sv_store s)\<rparr>]\<rparr>\<rparr>)"
proof -
  from assms(3) obtain r where "resolve (workspace_files s) (workspace_root s) = Inr r" "prefix r p"
    by (rule resolve_workspace_pathD)
  with resolve_idem [OF assms(1)] have "prefix (workspace_root s) p" by simp
  with assms(2) show ?thesis
    by (simp add: insert_run_def bindP_reads relative_path_def workspace_root_def create_run_def get_run_def)
qed

lemma insert_run_row:
  assumes "insert_run env run_id p s = (Inr (), t)"
  shows "\<exists>name. t = s\<lparr>sv_store := (sv_store s)\<lparr>ss_runs := ss_runs (sv_store s) @
    [\<lparr>rr_run_id = run_id, rr_status = RS_QUEUED, rr_experiment_path = name,
      rr_evidence_path = None, rr_error = None, rr_created_at = se_now env (sv_store s),
      rr_updated_at = se_now env (sv_store s)\<rparr>]\<rparr>\<rparr> \<and> get_run run_id (sv_store s) = None"
  using assms
  by (auto simp: insert_run_def bindP_eq_Inr create_run_def get_run_def split: sum.splits if_splits)

lemma get_run_appended:
  "get_run j (st\<lparr>ss_runs := ss_runs st @ [row]\<rparr>) =
     (case get_run j st of None \<Rightarrow> if rr_run_id row = j then Some row else None | Some r \<Rightarrow> Some r)"
  by (simp add: get_run_def find_by_append split: option.split)

text \<open>C27. An experiment file that lies in the workspace is always run to an outcome: nothing is raised,
  whatever its documents hold and whatever fails, and the new row has the status and the error that
  are returned. No other row changes.\<close>

theorem accepted_run_settles:
  assumes "canonical (links (workspace_files s)) (workspace_root s)" and "get_run run_id (sv_store s) = None"
    and "resolve_workspace_path (workspace_files s) (workspace_root s) candidate True = Inr p"
  shows "\<exists>res t row. run_experiment env run_id candidate s = (Inr res, t) \<and> get_run run_id (sv_store t) = Some row \<and>
    finished (rr_status row) \<and> rr_status row = out_status res \<and> rr_error row = out_error res \<and>
    rr_experiment_path row = relative_to (workspace_root s) p \<and>
    (\<forall>j. j \<noteq> run_id \<longrightarrow> get_run j (sv_store t) = get_run j (sv_store s))"
proof -
  note ins = insert_run_fresh [OF assms, of env]
  obtain u where u: "insert_run env run_id p s = (Inr (), u)" and store: "sv_store u = (sv_store s)\<lparr>ss_runs := ss_runs (sv_store s) @
    [\<lparr>rr_run_id = run_id, rr_status = RS_QUEUED, rr_experiment_path = relative_to (workspace_root s) p,
      rr_evidence_path = None, rr_error = None, rr_created_at = se_now env (sv_store s),
      rr_updated_at = se_now env (sv_store s)\<rparr>]\<rparr>" using ins by simp
  obtain res t where t: "execute env run_id p u = (Inr res, t)" "settled run_id res u t"
    using execute_settles by blast
  have "run_experiment env run_id candidate s = (Inr res, t)"
    by (simp add: run_experiment_def resolve_in_def bindP_reads assms(3) bindP_def u t(1))
  with t(2) assms(2) show ?thesis
    by (auto simp: settled_def store get_run_appended split: option.splits)
qed

text \<open>A run in the background comes to the same outcome as one in the foreground: starting an
  experiment and letting a thread take it gives the result and the state of running it at once.\<close>

theorem background_equals_foreground:
  assumes "start_experiment env run_id candidate s = (Inr i, t)" and "sv_queue s = []"
  shows "case run_experiment env run_id candidate s of
      (Inr res, u) \<Rightarrow> work_off env t = (Inr (Some res), u) \<and> i = run_id
    | (Inl ex, u) \<Rightarrow> False"
proof -
  from assms obtain p v where p: "resolve_in candidate s = (Inr p, s)" and v: "insert_run env run_id p s = (Inr (), v)"
    and t: "t = v\<lparr>sv_queue := sv_queue v @ [(run_id, p)]\<rparr>" and i: "i = run_id"
    by (auto simp: start_experiment_def bindP_eq_Inr resolve_in_def)
  have q: "sv_queue v = []" using insert_run_row [OF v] assms(2) by auto
  obtain res u where u: "execute env run_id p v = (Inr res, u)" "sv_queue u = []"
    using execute_settles [of env run_id p v] q by (auto simp: settled_def)
  have "v\<lparr>sv_queue := []\<rparr> = v" using q by (cases v) simp
  then have "execute env run_id p (v\<lparr>sv_queue := []\<rparr>) = (Inr res, u)" using u(1) by (rule ssubst)
  then have "work_off env t = (Inr (Some res), u)" by (simp add: work_off_def t q bindP_def)
  moreover have "run_experiment env run_id candidate s = (Inr res, u)"
    by (simp add: run_experiment_def bindP_def p v u)
  ultimately show ?thesis by (simp add: i)
qed

text \<open>C28. A run whose row names evidence has it, where the row says: the bundle read back is that of
  this run, with the status of the row and as many events as the trace it hashed.\<close>

theorem evidence_reads_back:
  assumes "run_experiment env run_id candidate s = (Inr res, t)" and "get_run run_id (sv_store t) = Some row"
    and "given (rr_evidence_path row)" and "plain_component run_id"
    and "canonical (links (workspace_files s)) (runs_dir (rec_layout (sv_world s)) @ [run_id, ''bundle.json''])"
    and "\<And>b. se_bundle env (EF_Bundle b) = Inr b"
  shows "\<exists>b. open_artifact (the (rr_evidence_path row)) ''bundle.json'' t =
      (Inr (runs_dir (rec_layout (sv_world s)) @ [run_id, ''bundle.json''], EF_Bundle b), t) \<and>
    eb_run_id b = run_id \<and> eb_status b = rr_status row \<and> eb_event_count b = int (length (rec_events (sv_world t))) \<and>
    load_bundle env run_id t = (Inr b, t)"
proof -
  from assms(1) obtain p u where u: "insert_run env run_id p s = (Inr (), u)" "execute env run_id p u = (Inr res, t)"
    by (auto simp: run_experiment_def bindP_eq_Inr resolve_in_def)
  from insert_run_row [OF u(1)] obtain old where old: "get_run run_id (sv_store u) = Some old" "rr_evidence_path old = None"
    "sv_world u = sv_world s"
    by (auto simp: get_run_appended)
  from execute_evidence [OF u(2) old(1,2) assms(2,3)] have ev:
    "rr_status row = out_status res" "holds_evidence (out_status res) (sv_world t)"
    "of_run (rec_layout (sv_world s)) (rec_links (sv_world s)) run_id (sv_world t)"
    "rr_evidence_path row = Some (relative_to (workspace_root s) (runs_dir (rec_layout (sv_world s)) @ [run_id]))"
    using old(3) by (simp_all add: workspace_root_def)
  let ?cs = "[''runs'', run_id, ''bundle.json'']"
  have path: "runs_dir (rec_layout (sv_world s)) @ [run_id, ''bundle.json''] = workspace_root s @ ?cs"
    by (simp add: runs_dir_def workspace_root_def)
  have same: "workspace_root t = workspace_root s" "links (workspace_files t) = links (workspace_files s)"
    "run_dir (sv_world t) @ [''bundle.json''] = workspace_root s @ ?cs"
    using ev(3) by (simp_all add: of_run_def workspace_root_def workspace_files_def rec_fs_def run_dir_def runs_dir_def)
  from ev(2) obtain b where b: "dict_get (rec_files (sv_world t)) (workspace_root s @ ?cs) = Some (EF_Bundle b)"
    "eb_run_id b = run_id" "eb_status b = out_status res" "eb_event_count b = int (length (rec_events (sv_world t)))"
    using ev(3) unfolding holds_evidence_def same(3) of_run_def by auto
  have "join_text (the (rr_evidence_path row)) ''bundle.json'' = join_with ''/'' ?cs"
    using ev(4) by (simp add: join_text_def relative_to_def runs_dir_def workspace_root_def)
  moreover have "resolve_workspace_path (workspace_files t) (workspace_root s) (join_with ''/'' ?cs) True = Inr (workspace_root s @ ?cs)"
    using assms(4,5) same(2) b(1) unfolding path
    by (intro resolve_plain_below) (auto simp: workspace_files_def rec_fs_def path_exists_def plain_component_def)
  ultimately have opened: "open_artifact (the (rr_evidence_path row)) ''bundle.json'' t = (Inr (workspace_root s @ ?cs, EF_Bundle b), t)"
    using b(1) by (simp add: open_artifact_def resolve_in_def bindP_reads same(1) read_file_def workspace_files_def rec_fs_def)
  have read: "load_bundle env run_id t = (Inr b, t)"
    using opened assms(2,3,6)
    by (simp add: load_bundle_def run_status_of_def bindP_def opened)
  with opened read b ev(1) show ?thesis unfolding path by auto
qed

section \<open>Validation before a run\<close>

lemma parse_path_text: "list_all plain_component p \<Longrightarrow> parse_path (path_text p) = (True, p)"
proof (cases p)
  case Nil
  then show ?thesis by (simp add: parse_path_def path_text_def)
next
  case (Cons c cs)
  assume "list_all plain_component p"
  then have "parse_path (join_with ''/'' p) = (False, p)"
    by (intro parse_join) (auto simp: list_all_iff Cons)
  moreover have "p \<noteq> []" using Cons by simp
  ultimately show ?thesis by (simp add: parse_path_def path_text_def)
qed

lemma resolve_path_text:
  assumes "resolve_workspace_path fs ws candidate True = Inr p" and "list_all plain_component p"
  shows "resolve_workspace_path fs ws (path_text p) True = Inr p"
proof -
  from assms(1) obtain r where "resolve fs ws = Inr r" "prefix r p" "canonical (links fs) p" "path_exists fs p"
    by (rule resolve_workspace_pathD) blast
  then show ?thesis
    by (auto simp: resolve_workspace_path_def parse_path_text [OF assms(2)] resolve_idem strict_prefix_def)
qed

lemma quantum_schedule: "quantum e sys = mrs_communication_step_us (build_schedule sys (exp_macro_step_us e))"
proof -
  let ?m = "exp_macro_step_us e" and ?xs = "List.map_filter cmp_step_us (sys_components sys)"
    and ?ys = "periodic_steps (sys_components sys)"
  have sub: "set ?ys \<subseteq> set ?xs" "set ?xs \<subseteq> insert 0 (set ?ys)"
    by (auto simp: periodic_steps_def map_filter_def image_iff)
  have pos: "0 \<le> gcd_all x xs" for x :: int and xs
  proof -
    have "0 \<le> fold gcd xs a" if "0 \<le> a" for a :: int using that by (induction xs arbitrary: a) auto
    then show ?thesis by (simp add: gcd_all_def)
  qed
  have "gcd_all ?m ?xs dvd y" if "y \<in> set (?m # ?ys)" for y
    using that sub(1) by (intro gcd_all_dvd) auto
  then have "gcd_all ?m ?xs dvd gcd_all ?m ?ys" by (rule gcd_all_greatest)
  moreover have "gcd_all ?m ?ys dvd y" if "y \<in> set (?m # ?xs)" for y
    using that sub(2) gcd_all_dvd [of y ?m ?ys] by (cases "y = 0") auto
  then have "gcd_all ?m ?ys dvd gcd_all ?m ?xs" by (rule gcd_all_greatest)
  ultimately show ?thesis using pos zdvd_antisym_nonneg by (simp add: quantum_def build_schedule_def)
qed

lemma load_experiment_path_text:
  assumes "resolve_workspace_path fs ws candidate True = Inr p" and "list_all plain_component p"
  shows "load_experiment d fs ws (path_text p) = load_experiment d fs ws candidate"
  by (simp add: load_experiment_def load_document_def assms resolve_path_text [OF assms])

text \<open>C29. Validating an experiment decides whether a run of it reaches the scheduler: it succeeds
  exactly if the checks before a run do, on the same documents, and the communication step it
  reports is the one the scheduler advances by.\<close>

theorem validation_predicts_execution:
  assumes "resolve_workspace_path (workspace_files s) (workspace_root s) candidate True = Inr p"
    and "list_all plain_component p"
  shows "case load_run (se_decoders env) (workspace_files s) (workspace_root s) p of
      Inr (e, sys) \<Rightarrow> \<exists>chk t. validate_experiment env candidate s = (Inr chk, t) \<and> ec_experiment chk = exp_name e \<and>
        ec_system chk = sys_name sys \<and> ec_communication_step_us chk = quantum e sys \<and>
        (ec_runnable chk \<longleftrightarrow> ec_missing chk = [])
    | Inl ex \<Rightarrow> \<exists>ex' t. validate_experiment env candidate s = (Inl ex', t)"
proof -
  let ?d = "se_decoders env" and ?fs = "workspace_files s" and ?ws = "workspace_root s"
  note load = load_experiment_path_text [OF assms, of ?d]
  note defs = load_run_def validate_experiment_def resolve_in_def load bindP_def Let_def quantum_schedule
  show ?thesis
  proof (cases "load_experiment ?d ?fs ?ws candidate")
    case (Inr e)
    show ?thesis
    proof (cases "resolve_workspace_path ?fs ?ws (exp_system e) True")
      case q: (Inr q)
      show ?thesis
      proof (cases "load_system ?d ?fs ?ws (path_text q)")
        case sys: (Inr sys)
        show ?thesis
          by (cases "validate_fmi_topology sys"; cases "validate_model_states sys e";
              cases "exp_requires_rollback e \<and> mrs_non_rollback (build_schedule sys (exp_macro_step_us e)) \<noteq> []")
            (auto simp: defs Inr q sys check_rollback_def check_def split: prod.split)
      qed (simp add: defs Inr q)
    qed (simp add: defs Inr)
  qed (simp add: defs)
qed

section \<open>Pages of events\<close>

text \<open>A reader that asks for the next page until there is none, at most \<open>n\<close> times.\<close>

fun read_pages :: "'a service_env \<Rightarrow> string \<Rightarrow> int \<Rightarrow> nat \<Rightarrow> nat \<Rightarrow> ('a service, pyval list) prog" where
  "read_pages env run_id limit 0 offset = raise (RuntimeError ''more pages'')"
| "read_pages env run_id limit (Suc n) offset =
     bindP (get_event_page env run_id (int offset) limit) (\<lambda>page.
     case pg_next_offset page of
       None \<Rightarrow> ret (pg_events page)
     | Some next \<Rightarrow> bindP (read_pages env run_id limit n next) (\<lambda>rest. ret (pg_events page @ rest)))"

lemma map_result_slice: "map_result f xs = Inr ys \<Longrightarrow> map_result f (take n (drop m xs)) = Inr (take n (drop m ys))"
  by (simp add: map_result_eq_Inr)

lemma page_of_trace:
  assumes "get_run run_id (sv_store s) = Some row" and "given (rr_evidence_path row)"
    and "open_artifact (the (rr_evidence_path row)) ''events.jsonl'' s = (Inr (p, c), s)"
    and "map_result (se_parse_line env) (splitlines (dc_text (se_decoders env) c)) = Inr vs"
    and "1 \<le> limit" "limit \<le> 1000"
  shows "get_event_page env run_id (int m) limit s = (Inr \<lparr>pg_events = take (nat limit) (drop m vs),
     pg_next_offset = (if m + min (nat limit) (length vs - m) < length vs
       then Some (m + min (nat limit) (length vs - m)) else None), pg_total = Some (length vs)\<rparr>, s)"
proof -
  have "length (splitlines (dc_text (se_decoders env) c)) = length vs"
    using assms(4) by (auto simp: map_result_eq_Inr dest: list_all2_lengthD)
  then show ?thesis
    using assms
    by (simp add: get_event_page_def run_status_of_def bindP_def guardP_def check_def event_slice_def
        map_result_slice [OF assms(4)] min.commute)
qed

lemma read_all_pages:
  assumes "get_run run_id (sv_store s) = Some row" and "given (rr_evidence_path row)"
    and "open_artifact (the (rr_evidence_path row)) ''events.jsonl'' s = (Inr (p, c), s)"
    and "map_result (se_parse_line env) (splitlines (dc_text (se_decoders env) c)) = Inr vs"
    and "1 \<le> limit" "limit \<le> 1000"
  shows "read_pages env run_id limit (length vs div nat limit + 1) 0 s = (Inr vs, s)"
proof -
  note page = page_of_trace [OF assms]
  let ?k = "nat limit"
  have k: "0 < ?k" using assms(5) by simp
  have "read_pages env run_id limit (Suc n) m s = (Inr (drop m vs), s)"
    if "length vs - m < Suc n * ?k" for n m
    using that
  proof (induction n arbitrary: m)
    case 0
    then show ?case by (simp add: bindP_def page)
  next
    case (Suc n)
    show ?case
    proof (cases "m + min ?k (length vs - m) < length vs")
      case True
      then have m: "min ?k (length vs - m) = ?k" "m + ?k < length vs" by linarith+
      then have "length vs - (m + ?k) < Suc n * ?k" using Suc.prems by simp
      from Suc.IH [OF this] m show ?thesis
        by (simp add: bindP_def page del: read_pages.simps(2))
          (subst read_pages.simps(2), simp add: bindP_def page, metis add.commute append_take_drop_id drop_drop)
    next
      case False
      then have "length vs - m \<le> ?k" by linarith
      with False show ?thesis by (simp add: bindP_def page)
    qed
  qed
  from this [of 0 "length vs div ?k"] show ?thesis
    using dividend_less_div_times [OF k, of "length vs"] by (simp add: algebra_simps)
qed

text \<open>C30. Following the offsets a page gives ends, after at most one page more than the trace has full
  pages, and has then read every event of the trace once, in order.\<close>

theorem pages_end_with_every_event:
  assumes "get_run run_id (sv_store s) = Some row" and "given (rr_evidence_path row)"
    and "open_artifact (the (rr_evidence_path row)) ''events.jsonl'' s = (Inr (p, c), s)"
    and "map_result (se_parse_line env) (splitlines (dc_text (se_decoders env) c)) = Inr vs"
    and "1 \<le> limit" "limit \<le> 1000"
  shows "read_pages env run_id limit (length vs div nat limit + 1) 0 s = (Inr vs, s)"
  by (rule read_all_pages [OF assms])

section \<open>Traces as text\<close>

lemma splitlines_acc_line:
  assumes "list_all (\<lambda>c. \<not> is_line_end c) l"
  shows "splitlines_acc acc (l @ CHR 0x0A # rest) = (rev acc @ l) # splitlines_acc [] rest"
  using assms
proof (induction l arbitrary: acc)
  case Nil
  then show ?case by (cases rest) (simp_all add: is_line_end_def)
next
  case (Cons c l)
  then have c: "\<not> is_line_end c" by simp
  then have "(of_char c :: nat) \<noteq> 13" by (auto simp: is_line_end_def)
  with Cons c show ?case by (cases l) simp_all
qed

lemma splitlines_of_lines:
  assumes "list_all (list_all (\<lambda>c. \<not> is_line_end c)) ls"
  shows "splitlines (concat (map (\<lambda>l. l @ [CHR 0x0A]) ls)) = ls"
  using assms
proof (induction ls)
  case (Cons l ls)
  then show ?case using splitlines_acc_line [of l "[]"] by (simp add: splitlines_def)
qed (simp add: splitlines_def)


section \<open>Releases\<close>

text \<open>The manifest of a profile was accepted: every name it needs is attested by a file of the workspace.\<close>

definition accepted ::
    "decoders \<Rightarrow> digests \<Rightarrow> evidence_file fsys \<Rightarrow> path \<Rightarrow> string \<Rightarrow> release_profile \<Rightarrow> string list \<Rightarrow>
     acceptance_manifest \<Rightarrow> bool" where
  "accepted d dg fs ws name profile names m \<longleftrightarrow>
     load_acceptance d fs ws (path_text (acceptance_path ws name)) = Inr m \<and> am_profile m = profile \<and>
     list_all (\<lambda>n. \<exists>e \<in> set (am_entries m). ae_name e = n \<and> attested d dg fs ws e) names"

text \<open>The environment the evidence was made in was qualified, for the revision of the manifest.\<close>

definition in_qualified_environment ::
    "decoders \<Rightarrow> evidence_file fsys \<Rightarrow> path \<Rightarrow> acceptance_manifest \<Rightarrow> bool" where
  "in_qualified_environment d fs ws m \<longleftrightarrow>
     (\<exists>e p c v. e \<in> set (am_entries m) \<and> ae_name e = ''environment:qualified'' \<and>
       resolve_workspace_path fs ws (the (ae_evidence_path e)) True = Inr p \<and> files fs p = Some c \<and>
       dc_json d c = Inr v \<and> validate_execution_environment v (am_source_revision m) = [])"

lemma load_acceptance_unique: "load_acceptance d fs ws p = Inr m \<Longrightarrow> require_unique_entries m = Inr m"
  by (auto simp: load_acceptance_def load_document_def andThen_eq_Inr require_unique_entries_def split: if_splits)

lemma accepted_if_no_failures:
  assumes "load_acceptance d fs ws (path_text (acceptance_path ws name)) = Inr m"
    and "validate_acceptance_manifest d dg fs ws m names = Inr []" and "am_profile m = profile"
  shows "accepted d dg fs ws name profile names m"
  using assms accepted_names [OF load_acceptance_unique [OF assms(1)], of d dg fs ws names]
  by (simp add: accepted_def)

lemma environment_entry_qualified:
  assumes "environment_entry_failures d fs ws m = Inr []"
    and "accepted d dg fs ws name profile names m" and "''environment:qualified'' \<in> set names"
  shows "in_qualified_environment d fs ws m"
proof -
  let ?env = "''environment:qualified''"
  have u: "distinct (map ae_name (am_entries m))"
    using assms(2) load_acceptance_unique [of d fs ws "path_text (acceptance_path ws name)" m]
    by (simp add: accepted_def require_unique_entries_def split: if_splits)
  from assms(2,3) obtain e where e: "e \<in> set (am_entries m)" "ae_name e = ?env" "attested d dg fs ws e"
    by (auto simp: accepted_def list_all_iff)
  then have "find (\<lambda>e. ae_name e = ?env) (am_entries m) = Some e"
    using find_by_distinct [OF u e(1)] by (simp add: find_by_def)
  with assms(1) e show ?thesis
    by (auto simp: environment_entry_failures_def attested_def read_file_def in_qualified_environment_def
        split: sum.splits if_splits option.splits)
qed

lemma simulation_failures_Nil:
  assumes "simulation_failures d dg fs ws k = Inr []"
  shows "validate_release d fs ws k = Inr [] \<and>
    (\<exists>m. accepted d dg fs ws ''simulation.json'' RP_SIMULATION (simulation_names k) m \<and> in_qualified_environment d fs ws m)"
proof -
  from assms obtain m where m: "validate_release d fs ws k = Inr []"
    "load_acceptance d fs ws (path_text (acceptance_path ws ''simulation.json'')) = Inr m"
    "validate_acceptance_manifest d dg fs ws m (simulation_names k) = Inr []" "am_profile m = RP_SIMULATION"
    "environment_entry_failures d fs ws m = Inr []"
    by (auto simp: simulation_failures_def andThen_eq_Inr split: if_splits)
  from accepted_if_no_failures [OF m(2-4)] have a: "accepted d dg fs ws ''simulation.json'' RP_SIMULATION (simulation_names k) m" .
  have "''environment:qualified'' \<in> set (simulation_names k)" by (simp add: simulation_names_def)
  from environment_entry_qualified [OF m(5) a this] a m(1) show ?thesis by blast
qed

lemma software_failures_Nil:
  assumes "software_failures d dg fs ws = Inr []"
  shows "\<exists>m. accepted d dg fs ws ''software.json'' RP_SOFTWARE software_names m \<and> in_qualified_environment d fs ws m"
proof -
  from assms obtain m where m:
    "load_acceptance d fs ws (path_text (acceptance_path ws ''software.json'')) = Inr m"
    "validate_acceptance_manifest d dg fs ws m software_names = Inr []" "am_profile m = RP_SOFTWARE"
    "environment_entry_failures d fs ws m = Inr []"
    by (auto simp: software_failures_def andThen_eq_Inr split: if_splits)
  from accepted_if_no_failures [OF m(1-3)] have a: "accepted d dg fs ws ''software.json'' RP_SOFTWARE software_names m" .
  have "''environment:qualified'' \<in> set software_names" by (simp add: software_names_def)
  from environment_entry_qualified [OF m(4) a this] a show ?thesis by blast
qed

text \<open>C32. A production release is ready only with all its evidence: the catalog has the 24 benchmarks, in
  order and without a failure; the manifests of simulation, software and production each attest
  every name of their profile; simulation and software were accepted in a qualified environment;
  the production manifest is signed; and five models are approved for production.\<close>

theorem production_needs_all_evidence:
  assumes "release_check env RP_PRODUCTION s = (Inr (True, failures), t)"
  shows "\<exists>k sim soft prod.
    load_catalog (se_decoders env) (workspace_files s) (workspace_root s) = Inr k \<and> map bc_id (bct_cases k) = map int [1..<25] \<and>
    validate_release (se_decoders env) (workspace_files s) (workspace_root s) k = Inr [] \<and>
    accepted (se_decoders env) (re_digests (se_run env)) (workspace_files s) (workspace_root s) ''simulation.json''
      RP_SIMULATION (simulation_names k) sim \<and>
    in_qualified_environment (se_decoders env) (workspace_files s) (workspace_root s) sim \<and>
    accepted (se_decoders env) (re_digests (se_run env)) (workspace_files s) (workspace_root s) ''software.json''
      RP_SOFTWARE software_names soft \<and>
    in_qualified_environment (se_decoders env) (workspace_files s) (workspace_root s) soft \<and>
    accepted (se_decoders env) (re_digests (se_run env)) (workspace_files s) (workspace_root s) ''production.json''
      RP_PRODUCTION production_names prod \<and>
    given (am_signature prod) \<and> 5 \<le> count_models MS_PRODUCTION_APPROVED (sv_store s)"
proof -
  let ?d = "se_decoders env" and ?dg = "re_digests (se_run env)" and ?fs = "workspace_files s" and ?ws = "workspace_root s"
  from assms obtain k where k: "load_catalog ?d ?fs ?ws = Inr k" and sim: "simulation_failures ?d ?dg ?fs ?ws k = Inr []"
    and soft: "software_failures ?d ?dg ?fs ?ws = Inr []" and prod: "production_failures ?d ?dg ?fs ?ws (sv_store s) = Inr []"
    by (auto simp: release_check_def bindP_eq_Inr release_failures_def andThen_eq_Inr split: if_splits)
  from prod obtain m where m:
    "load_acceptance ?d ?fs ?ws (path_text (acceptance_path ?ws ''production.json'')) = Inr m"
    "validate_acceptance_manifest ?d ?dg ?fs ?ws m production_names = Inr []" "am_profile m = RP_PRODUCTION"
    "given (am_signature m)" "5 \<le> count_models MS_PRODUCTION_APPROVED (sv_store s)"
    by (auto simp: production_failures_def andThen_eq_Inr Let_def split: if_splits)
  have "map bc_id (bct_cases k) = map int [1..<25]"
    using simulation_failures_Nil [OF sim] by (auto simp: validate_release_def andThen_eq_Inr)
  with k simulation_failures_Nil [OF sim] software_failures_Nil [OF soft] accepted_if_no_failures [OF m(1-3)] m(4,5)
  show ?thesis by blast
qed

section \<open>An example service\<close>

definition demo_lines :: "event list \<Rightarrow> string" where
  "demo_lines es = concat (map (\<lambda>e. ev_type e @ [CHR 0x0A]) es)"

definition demo_service_env :: "synthetic_adapter service_env" where
  "demo_service_env = \<lparr>se_decoders = demo_decoders\<lparr>dc_text := (\<lambda>c. case c of EF_Events es \<Rightarrow> demo_lines es | _ \<Rightarrow> [])\<rparr>,
     se_ops = synthetic_ops, se_run = demo_run_env, se_now = (\<lambda>_. 3), se_parse_line = (\<lambda>l. Inr (PStr l)),
     se_bundle = (\<lambda>c. case c of EF_Bundle b \<Rightarrow> Inr b | _ \<Rightarrow> Inl (ValueError ''not a bundle''))\<rparr>"

definition demo_service_plant :: system_manifest where
  "demo_service_plant = demo_plant\<lparr>sys_connections := []\<rparr>"

definition demo_service :: "synthetic_adapter service" where
  "demo_service = \<lparr>sv_store = migrated,
     sv_world = demo_files\<lparr>rec_files := [([''ws'', ''system.yaml''], EF_Manifest demo_service_plant),
       ([''ws'', ''plan.json''], EF_Experiment demo_plan)]\<rparr>,
     sv_catalog = demo_catalog BN_SYNTHETIC new_synthetic, sv_queue = []\<rparr>"

lemma demo_service_links: "canonical (links (workspace_files demo_service)) p \<longleftrightarrow> (\<forall>q. prefix q p \<and> q \<noteq> [] \<longrightarrow> last q \<noteq> ''..'')"
  by (simp add: canonical_def demo_service_def workspace_files_def rec_fs_def demo_files_def demo_world_def)

lemma demo_service_root: "workspace_root demo_service = [''ws'']"
  by (simp add: demo_service_def workspace_root_def demo_files_def demo_world_def)

lemma demo_plan_path:
  "resolve_workspace_path (workspace_files demo_service) (workspace_root demo_service) ''plan.json'' True = Inr [''ws'', ''plan.json'']"
  by code_simp

theorem accepted_run_settles_witness:
  "\<exists>res t row. run_experiment demo_service_env ''r1'' ''plan.json'' demo_service = (Inr res, t) \<and>
     get_run ''r1'' (sv_store t) = Some row \<and> finished (rr_status row) \<and> rr_experiment_path row = ''plan.json''"
proof -
  have "canonical (links (workspace_files demo_service)) (workspace_root demo_service)"
    unfolding demo_service_links demo_service_root by (auto simp: prefix_Cons)
  moreover have "get_run ''r1'' (sv_store demo_service) = None" by code_simp
  ultimately have "\<exists>res t row. run_experiment demo_service_env ''r1'' ''plan.json'' demo_service = (Inr res, t) \<and>
      get_run ''r1'' (sv_store t) = Some row \<and> finished (rr_status row) \<and> rr_status row = out_status res \<and>
      rr_error row = out_error res \<and> rr_experiment_path row = relative_to (workspace_root demo_service) [''ws'', ''plan.json''] \<and>
      (\<forall>j. j \<noteq> ''r1'' \<longrightarrow> get_run j (sv_store t) = get_run j (sv_store demo_service))"
    by (rule accepted_run_settles [OF _ _ demo_plan_path])
  moreover have "relative_to (workspace_root demo_service) [''ws'', ''plan.json''] = ''plan.json''"
    by (simp add: demo_service_root relative_to_def)
  ultimately show ?thesis by metis
qed

theorem background_equals_foreground_witness:
  "\<exists>t res u. start_experiment demo_service_env ''r1'' ''plan.json'' demo_service = (Inr ''r1'', t) \<and>
     run_experiment demo_service_env ''r1'' ''plan.json'' demo_service = (Inr res, u) \<and>
     work_off demo_service_env t = (Inr (Some res), u)"
proof -
  have "fst (start_experiment demo_service_env ''r1'' ''plan.json'' demo_service) = Inr ''r1''" by code_simp
  then obtain t where t: "start_experiment demo_service_env ''r1'' ''plan.json'' demo_service = (Inr ''r1'', t)"
    by (metis prod.collapse)
  have "sv_queue demo_service = []" by (simp add: demo_service_def)
  from background_equals_foreground [OF t this] t show ?thesis
    by (auto split: prod.splits sum.splits)
qed

lemma execute_scheduled:
  assumes "load_run (se_decoders env) (workspace_files s) (workspace_root s) p = Inr (e, sys)"
    and "run (se_ops env) (se_run env) run_id e sys (sv_catalog s) (sv_world s) = (Inr res, w)"
    and "get_run run_id (sv_store s) = Some old"
  obtains t row where "execute env run_id p s = (Inr res, t)" "get_run run_id (sv_store t) = Some row"
    "rr_evidence_path row = Some (relative_to (workspace_root s) (runs_dir (rec_layout (sv_world s)) @ [run_id]))"
    "rr_status row = out_status res"
proof -
  have d: "out_evidence_dir res = runs_dir (rec_layout (sv_world s)) @ [run_id]" "rec_layout (ru_recorder w) = rec_layout (sv_world s)"
    using run_holds_evidence [OF assms(2)] run_ends_finished [OF assms(2)] by (simp_all add: run_dir_def of_run_def)
  have p: "prefix (layout_root l) (runs_dir l)" for l by (simp add: runs_dir_def)
  have frame: "workspace_files (s\<lparr>sv_store := st\<rparr>) = workspace_files s" "workspace_root (s\<lparr>sv_store := st\<rparr>) = workspace_root s" for st
    by (simp_all add: workspace_files_def workspace_root_def)
  let ?t = "s\<lparr>sv_store := update_run (se_now env (sv_store s)) run_id RS_RUNNING None None (sv_store s)\<rparr>"
  let ?name = "relative_to (workspace_root s) (runs_dir (rec_layout (sv_world s)) @ [run_id])"
  let ?u = "(?t\<lparr>sv_world := ru_recorder w, sv_catalog := ru_catalog w\<rparr>)"
  have "execute env run_id p s = (Inr res, ?u\<lparr>sv_store := update_run (se_now env (sv_store ?u)) run_id (out_status res)
      (Some ?name) (out_error res) (sv_store ?u)\<rparr>)"
    using assms(1,2) d
    by (simp add: execute_def bindP_def handleP_def set_run_def frame schedule_run_def relative_path_def p workspace_root_def)
  from that [OF this] assms(3) show thesis by (simp add: get_run_update coalesce_def)
qed

lemma demo_service_run:
  obtains res t row where "run_experiment demo_service_env ''r1'' ''plan.json'' demo_service = (Inr res, t)"
    "get_run ''r1'' (sv_store t) = Some row" "rr_evidence_path row = Some ''runs/r1''" "rr_status row = RS_PASSED"
proof -
  let ?w = "sv_world demo_service"
  let ?rec = "projr (new_recorder (re_started_at (demo_run_env :: synthetic_adapter run_env)) ''r1'' demo_plan demo_service_plant ?w)"
  let ?r = "handleP (run_body synthetic_ops demo_run_env demo_plan demo_service_plant) (run_failure synthetic_ops)
    (start_state (demo_catalog BN_SYNTHETIC new_synthetic) ?rec)"
  have "isl (new_recorder (re_started_at (demo_run_env :: synthetic_adapter run_env)) ''r1'' demo_plan demo_service_plant ?w) = False" by code_simp
  then have rec: "new_recorder (re_started_at (demo_run_env :: synthetic_adapter run_env)) ''r1'' demo_plan demo_service_plant ?w = Inr ?rec"
    by (cases "new_recorder (re_started_at (demo_run_env :: synthetic_adapter run_env)) ''r1'' demo_plan demo_service_plant ?w") simp_all
  have "fst ?r = Inr (RS_PASSED, None)"
    "list_all (\<lambda>c. \<not> given (cmp_model c)) (sys_components (rec_system (ru_recorder (snd ?r))))"
    by code_simp+
  from run_from_body [OF rec this] obtain res w where
    w: "run synthetic_ops demo_run_env ''r1'' demo_plan demo_service_plant (demo_catalog BN_SYNTHETIC new_synthetic) ?w = (Inr res, w)"
      "out_status res = RS_PASSED" by metis
  have l: "load_run (se_decoders demo_service_env) (workspace_files demo_service) (workspace_root demo_service)
      [''ws'', ''plan.json''] = Inr (demo_plan, demo_service_plant)" by code_simp
  obtain v where i: "insert_run demo_service_env ''r1'' [''ws'', ''plan.json''] demo_service = (Inr (), v)"
    "sv_world v = ?w" "sv_catalog v = demo_catalog BN_SYNTHETIC new_synthetic" "\<exists>old. get_run ''r1'' (sv_store v) = Some old"
  proof -
    have "isl (fst (insert_run demo_service_env ''r1'' [''ws'', ''plan.json''] demo_service)) = False" by code_simp
    then obtain v where v: "insert_run demo_service_env ''r1'' [''ws'', ''plan.json''] demo_service = (Inr (), v)"
      by (cases "insert_run demo_service_env ''r1'' [''ws'', ''plan.json''] demo_service";
          cases "fst (insert_run demo_service_env ''r1'' [''ws'', ''plan.json''] demo_service)") auto
    from insert_run_row [OF v] show thesis by (intro that [OF v]) (auto simp: get_run_appended demo_service_def)
  qed
  then obtain old where old: "get_run ''r1'' (sv_store v) = Some old" by blast
  have env: "se_ops demo_service_env = synthetic_ops" "se_run demo_service_env = demo_run_env" by (simp_all add: demo_service_env_def)
  have same: "workspace_files v = workspace_files demo_service" "workspace_root v = workspace_root demo_service"
    by (simp_all add: workspace_files_def workspace_root_def i(2))
  obtain t row where "execute demo_service_env ''r1'' [''ws'', ''plan.json''] v = (Inr res, t)" "get_run ''r1'' (sv_store t) = Some row"
    "rr_evidence_path row = Some (relative_to (workspace_root v) (runs_dir (rec_layout (sv_world v)) @ [''r1'']))" "rr_status row = out_status res"
    by (rule execute_scheduled [of demo_service_env v "[''ws'', ''plan.json'']" demo_plan demo_service_plant "''r1''" res w old])
      (simp_all add: same l i(2,3) env w(1) old)
  moreover have "relative_to (workspace_root v) (runs_dir (rec_layout (sv_world v)) @ [''r1'']) = ''runs/r1''"
    by (simp add: i(2) same demo_service_root relative_to_def runs_dir_def)
      (simp add: demo_service_def demo_files_def demo_world_def)
  moreover have "resolve_in ''plan.json'' demo_service = (Inr [''ws'', ''plan.json''], demo_service)"
    by (simp add: resolve_in_def demo_plan_path)
  ultimately show thesis using w(2) i(1) by (intro that) (simp_all add: run_experiment_def bindP_def)
qed

theorem evidence_reads_back_witness:
  "\<exists>t b. load_bundle demo_service_env ''r1'' t = (Inr b, t) \<and> eb_run_id b = ''r1'' \<and> eb_status b = RS_PASSED \<and>
     snd (run_experiment demo_service_env ''r1'' ''plan.json'' demo_service) = t"
proof -
  obtain res t row where r: "run_experiment demo_service_env ''r1'' ''plan.json'' demo_service = (Inr res, t)"
    "get_run ''r1'' (sv_store t) = Some row" and e: "rr_evidence_path row = Some ''runs/r1''" "rr_status row = RS_PASSED"
    by (rule demo_service_run)
  have g: "given (rr_evidence_path row)" by (simp add: e given_def)
  have p: "plain_component ''r1''" by code_simp
  have c: "canonical (links (workspace_files demo_service)) (runs_dir (rec_layout (sv_world demo_service)) @ [''r1'', ''bundle.json''])"
    unfolding demo_service_links
    by (auto simp: demo_service_def demo_files_def demo_world_def runs_dir_def prefix_Cons)
  have b: "\<And>b. se_bundle demo_service_env (EF_Bundle b) = Inr b" by (simp add: demo_service_env_def)
  from evidence_reads_back [OF r g p c b] r(1) e(2) show ?thesis by auto
qed

theorem validation_predicts_execution_witness:
  "\<exists>chk t. validate_experiment demo_service_env ''plan.json'' demo_service = (Inr chk, t) \<and>
     ec_communication_step_us chk = quantum demo_plan demo_service_plant"
proof -
  have l: "load_run (se_decoders demo_service_env) (workspace_files demo_service) (workspace_root demo_service)
      [''ws'', ''plan.json''] = Inr (demo_plan, demo_service_plant)" by code_simp
  have "list_all plain_component [''ws'', ''plan.json'']" by code_simp
  from validation_predicts_execution [OF demo_plan_path this, of demo_service_env] show ?thesis
    unfolding l by auto
qed

text \<open>A service with the trace of a run, of five events.\<close>

definition demo_trace :: "event list" where
  "demo_trace = replicate 5 \<lparr>ev_sequence = 0, ev_virtual_time_us = 0, ev_source = ''src'', ev_type = ''step'',
     ev_payload = [], ev_parent_sequence = None, ev_fidelity_ref = None\<rparr>"

definition demo_row :: run_row where
  "demo_row = \<lparr>rr_run_id = ''r1'', rr_status = RS_PASSED, rr_experiment_path = ''plan.json'',
     rr_evidence_path = Some ''runs/r1'', rr_error = None, rr_created_at = 3, rr_updated_at = 3\<rparr>"

definition demo_reader :: "synthetic_adapter service" where
  "demo_reader = demo_service\<lparr>sv_store := migrated\<lparr>ss_runs := [demo_row]\<rparr>,
     sv_world := demo_files\<lparr>rec_files := [([''ws'', ''runs'', ''r1'', ''events.jsonl''], EF_Events demo_trace)]\<rparr>\<rparr>"

lemma demo_reader_row: "get_run ''r1'' (sv_store demo_reader) = Some demo_row" "given (rr_evidence_path demo_row)"
  by (simp_all add: demo_reader_def demo_row_def get_run_def migrated_def given_def)

lemma demo_reader_open: "open_artifact (the (rr_evidence_path demo_row)) ''events.jsonl'' demo_reader =
    (Inr ([''ws'', ''runs'', ''r1'', ''events.jsonl''], EF_Events demo_trace), demo_reader)"
proof -
  have "fst (open_artifact (the (rr_evidence_path demo_row)) ''events.jsonl'' demo_reader) =
      Inr ([''ws'', ''runs'', ''r1'', ''events.jsonl''], EF_Events demo_trace)" by code_simp
  moreover have "read_only (open_artifact a b)" for a b
    unfolding open_artifact_def resolve_in_def by (intro read_only_bind read_only_intros)
  ultimately show ?thesis by (metis prod.collapse read_only_result)
qed

theorem pages_end_with_every_event_witness:
  "read_pages demo_service_env ''r1'' 2 3 0 demo_reader = (Inr (replicate 5 (PStr ''step'')), demo_reader)"
proof -
  have "map_result (se_parse_line demo_service_env) (splitlines (dc_text (se_decoders demo_service_env) (EF_Events demo_trace))) =
      Inr (replicate 5 (PStr ''step''))" by code_simp
  from pages_end_with_every_event [OF demo_reader_row demo_reader_open this, of 2]
  have "read_pages demo_service_env ''r1'' 2 (length (replicate 5 (PStr ''step'')) div nat 2 + 1) 0 demo_reader =
      (Inr (replicate 5 (PStr ''step'')), demo_reader)" by linarith
  moreover have "length (replicate 5 (PStr ''step'')) div nat 2 + 1 = 3" by simp
  ultimately show ?thesis by (simp only:)
qed


section \<open>An example release\<close>

definition demo_names :: "benchmark_catalog \<Rightarrow> release_profile \<Rightarrow> string list" where
  "demo_names k profile = (if profile = RP_SIMULATION then simulation_names k
     else if profile = RP_SOFTWARE then software_names else production_names)"

definition demo_manifest :: "benchmark_catalog \<Rightarrow> release_profile \<Rightarrow> acceptance_manifest" where
  "demo_manifest k profile = \<lparr>am_profile = profile, am_source_revision = ''abc'', am_platform = ''Linux'',
     am_entries = map (\<lambda>n. \<lparr>ae_name = n, ae_status = AS_passed, ae_evidence_path = Some ''log.txt'',
       ae_evidence_sha256 = Some ''blog'', ae_limitations = []\<rparr>) (demo_names k profile),
     am_created_at = 0, am_signature = Some ''sig''\<rparr>"

definition demo_case :: "int \<Rightarrow> benchmark_case" where
  "demo_case i = \<lparr>bc_id = i, bc_slug = ''c'', bc_title = ''c'', bc_category = PC_BOOT, bc_backends = [BN_NGSPICE],
     bc_readiness = ''executable'', bc_faulty_asset = Some ''log.txt'', bc_fixed_asset = Some ''log.txt'', bc_experiment = None,
     bc_faulty_experiment = Some ''plan.json'', bc_fixed_experiment = Some ''plan.json'', bc_causal_chain = [''x''],
     bc_seed = 1, bc_hardware_target = None, bc_fidelity_boundary = [],
     bc_mechanism = \<lparr>bm_trigger = [], bm_execution_backend = BN_NGSPICE, bm_faulty_assets = [''log.txt''],
       bm_fixed_assets = [''plan.json''], bm_oracle = [], bm_required_evidence = [''x'']\<rparr>\<rparr>"

definition demo_benchmarks :: benchmark_catalog where
  "demo_benchmarks = \<lparr>bct_version = ''1'', bct_cases = map demo_case [1..24]\<rparr>"

definition demo_environment :: pyval where
  "demo_environment = PDict [(''policy'', PStr release_authority_policy), (''qualified'', PBool True),
     (''ci_required'', PBool False), (''source_revision'', PStr ''abc''), (''hardware_validated'', PBool False),
     (''execution_targets'', PDict [(''ngspice'', PDict [(''os'', PStr ''linux'')])])]"

definition demo_release_env :: "synthetic_adapter service_env" where
  "demo_release_env = demo_service_env\<lparr>se_decoders := demo_decoders\<lparr>dc_json := (\<lambda>_. Inr demo_environment),
     dc_catalog := (\<lambda>_. Inr demo_benchmarks),
     dc_acceptance := (\<lambda>c. Inr (demo_manifest demo_benchmarks
       (if c = EF_Blob ''simulation'' then RP_SIMULATION else if c = EF_Blob ''software'' then RP_SOFTWARE else RP_PRODUCTION)))\<rparr>\<rparr>"

definition demo_release :: "synthetic_adapter service" where
  "demo_release = demo_service\<lparr>
     sv_store := migrated\<lparr>ss_models := map (\<lambda>i. \<lparr>mr_model_id = i, mr_state = MS_PRODUCTION_APPROVED,
       mr_package_path = [], mr_updated_at = 0\<rparr>) [''a'', ''b'', ''c'', ''d'', ''e'']\<rparr>,
     sv_world := demo_files\<lparr>rec_files := [([''ws'', ''system.yaml''], EF_Manifest demo_service_plant),
       ([''ws'', ''plan.json''], EF_Experiment demo_plan), ([''ws'', ''log.txt''], EF_Blob ''log''),
       ([''ws'', ''benchmarks'', ''catalog.yaml''], EF_Blob ''catalog''),
       ([''ws'', ''acceptance'', ''simulation.json''], EF_Blob ''simulation''),
       ([''ws'', ''acceptance'', ''software.json''], EF_Blob ''software''),
       ([''ws'', ''acceptance'', ''production.json''], EF_Blob ''production'')]\<rparr>\<rparr>"

theorem production_needs_all_evidence_witness:
  "fst (release_check demo_release_env RP_PRODUCTION demo_release) = Inr (True, []) \<and>
   5 \<le> count_models MS_PRODUCTION_APPROVED (sv_store demo_release)"
proof -
  let ?d = "se_decoders demo_release_env" and ?fs = "workspace_files demo_release"
    and ?dg = "re_digests (se_run demo_release_env)"
  have root: "workspace_root demo_release = [''ws'']"
    by (simp add: demo_release_def workspace_root_def demo_files_def demo_world_def)
  have k: "load_catalog ?d ?fs [''ws''] = Inr demo_benchmarks" by code_simp
  have found: "resolve_workspace_path ?fs [''ws''] ''log.txt'' True = Inr [''ws'', ''log.txt'']"
    "resolve_workspace_path ?fs [''ws''] ''plan.json'' True = Inr [''ws'', ''plan.json'']"
    "resolve_workspace_path ?fs [''ws''] ''system.yaml'' True = Inr [''ws'', ''system.yaml'']"
    "files ?fs [''ws'', ''plan.json''] = Some (EF_Experiment demo_plan)"
    "load_experiment ?d ?fs [''ws''] (path_text [''ws'', ''plan.json'']) = Inr demo_plan"
    "load_system ?d ?fs [''ws''] (path_text [''ws'', ''system.yaml'']) = Inr demo_service_plant"
    "exp_system demo_plan = ''system.yaml''" "dc_text ?d (EF_Experiment demo_plan) = []"
    by code_simp+
  have clean: "experiment_failures ?d ?fs [''ws''] c (Some ''plan.json'') = Inr []" for c
    by (simp add: experiment_failures_def given_def read_file_def found)
      (simp add: demo_service_plant_def demo_plant_def demo_component_def component_controls_def)
  have "case_failures ?d ?fs [''ws''] (demo_case i) = Inr []" for i
    by (simp add: case_failures_def asset_failures_def case_claims_def demo_case_def Let_def given_def found clean)
  moreover have "map bc_id (bct_cases demo_benchmarks) = map int [1..<25]" by code_simp
  ultimately have v: "validate_release ?d ?fs [''ws''] demo_benchmarks = Inr []"
    using map_result_concat_Nil [of "case_failures ?d ?fs [''ws'']" "bct_cases demo_benchmarks"]
    by (auto simp: validate_release_def andThen_eq_Inr) (auto simp: demo_benchmarks_def)
  have u: "distinct (simulation_names demo_benchmarks)" "distinct software_names" "distinct production_names" by code_simp+
  have unique: "require_unique_entries (demo_manifest demo_benchmarks profile) = Inr (demo_manifest demo_benchmarks profile)" for profile
    using u by (simp add: require_unique_entries_def demo_manifest_def comp_def demo_names_def)
  have log: "resolve_workspace_path ?fs [''ws''] ''log.txt'' True = Inr [''ws'', ''log.txt'']"
    "files ?fs [''ws'', ''log.txt''] = Some (EF_Blob ''log'')" "dg_file ?dg (EF_Blob ''log'') = ''blog''"
    by code_simp+
  have names: "validate_acceptance_manifest ?d ?dg ?fs [''ws''] (demo_manifest demo_benchmarks profile)
      (demo_names demo_benchmarks profile) = Inr []" for profile
    unfolding accepted_names [OF unique] using log
    by (auto simp: list_all_iff demo_manifest_def attested_def given_def demo_release_env_def)
  let ?path = "\<lambda>name. acceptance_path [''ws''] name"
  have there: "is_file ?fs (?path ''simulation.json'')" "is_file ?fs (?path ''software.json'')" "is_file ?fs (?path ''production.json'')"
    by code_simp+
  have path: "resolve_workspace_path ?fs [''ws''] (path_text (?path ''simulation.json'')) True = Inr (?path ''simulation.json'')"
    "resolve_workspace_path ?fs [''ws''] (path_text (?path ''software.json'')) True = Inr (?path ''software.json'')"
    "resolve_workspace_path ?fs [''ws''] (path_text (?path ''production.json'')) True = Inr (?path ''production.json'')"
    by code_simp+
  have content: "files ?fs (?path ''simulation.json'') = Some (EF_Blob ''simulation'')"
    "files ?fs (?path ''software.json'') = Some (EF_Blob ''software'')"
    "files ?fs (?path ''production.json'') = Some (EF_Blob ''production'')"
    by code_simp+
  have suffix: "lower (path_suffix (last_name (?path ''simulation.json''))) = ''.json''"
    "lower (path_suffix (last_name (?path ''software.json''))) = ''.json''"
    "lower (path_suffix (last_name (?path ''production.json''))) = ''.json''"
    by code_simp+
  have decoded: "dc_acceptance ?d (EF_Blob ''simulation'') = Inr (demo_manifest demo_benchmarks RP_SIMULATION)"
    "dc_acceptance ?d (EF_Blob ''software'') = Inr (demo_manifest demo_benchmarks RP_SOFTWARE)"
    "dc_acceptance ?d (EF_Blob ''production'') = Inr (demo_manifest demo_benchmarks RP_PRODUCTION)"
    by (simp_all add: demo_release_env_def)
  have loaded: "load_acceptance ?d ?fs [''ws''] (path_text (?path ''simulation.json'')) = Inr (demo_manifest demo_benchmarks RP_SIMULATION)"
    "load_acceptance ?d ?fs [''ws''] (path_text (?path ''software.json'')) = Inr (demo_manifest demo_benchmarks RP_SOFTWARE)"
    "load_acceptance ?d ?fs [''ws''] (path_text (?path ''production.json'')) = Inr (demo_manifest demo_benchmarks RP_PRODUCTION)"
    by (simp_all add: load_acceptance_def load_document_def path read_file_def content suffix decoded unique)
  have environment: "environment_entry_failures ?d ?fs [''ws''] (demo_manifest demo_benchmarks RP_SIMULATION) = Inr []"
    "environment_entry_failures ?d ?fs [''ws''] (demo_manifest demo_benchmarks RP_SOFTWARE) = Inr []"
    by code_simp+
  have fields: "am_profile (demo_manifest demo_benchmarks profile) = profile"
    "am_signature (demo_manifest demo_benchmarks profile) = Some ''sig''" for profile
    by (simp_all add: demo_manifest_def)
  have sim: "simulation_failures ?d ?dg ?fs [''ws''] demo_benchmarks = Inr []"
    using names [of RP_SIMULATION] by (simp add: simulation_failures_def v there loaded environment fields demo_names_def)
  have soft: "software_failures ?d ?dg ?fs [''ws''] = Inr []"
    using names [of RP_SOFTWARE] by (simp add: software_failures_def there loaded environment fields demo_names_def)
  have count: "5 \<le> count_models MS_PRODUCTION_APPROVED (sv_store demo_release)"
    by (simp add: demo_release_def count_models_def migrated_def)
  have prod: "production_failures ?d ?dg ?fs [''ws''] (sv_store demo_release) = Inr []"
    using names [of RP_PRODUCTION] count
    by (simp add: production_failures_def there loaded fields demo_names_def given_def Let_def)
  have "release_check demo_release_env RP_PRODUCTION demo_release = (Inr (True, []), demo_release)"
    by (simp add: release_check_def bindP_def release_failures_def root k sim soft prod)
  with production_needs_all_evidence [OF this] show ?thesis by auto
qed

end
