(* ===== verification/Lab.thy ===== *)
theory Lab
  imports Acceptance
begin

text \<open>
  The laboratory (\<open>src/src/ael/lab.py\<close>): the policy that admits an operation of an instrument, the
  drivers that carry it out, the controller that makes evidence of it, and the flashing of boards;
  and the container command of \<open>src/src/ael/security.py\<close>. The state is the workspace's files
  together with the commands sent to the instrument.
\<close>

section \<open>Numbers as text\<close>

text \<open>\<open>f"{x:.9g}"\<close>: nine significant digits, trailing zeros dropped, and an exponent where the decimal
  exponent is below -4 or above 8.\<close>

definition decimal_exponent :: "rat \<Rightarrow> int" where
  "decimal_exponent q = (case find (\<lambda>e. pow10 e \<le> q) (rev [-330..310]) of None \<Rightarrow> -331 | Some e \<Rightarrow> e)"

definition strip_zeros :: "string \<Rightarrow> string" where
  "strip_zeros s = rev (dropWhile (\<lambda>c. c = CHR ''0'') (rev s))"

definition with_fraction :: "string \<Rightarrow> string \<Rightarrow> string" where
  "with_fraction whole fraction = (if strip_zeros fraction = [] then whole else whole @ ''.'' @ strip_zeros fraction)"

definition show_digits9 :: "int \<Rightarrow> int \<Rightarrow> string" where
  "show_digits9 digits e =
     (let s = show_int digits in
      if -4 \<le> e \<and> e < 9
      then (if 0 \<le> e then with_fraction (take (nat e + 1) s) (drop (nat e + 1) s)
            else with_fraction ''0'' (replicate (nat (- e) - 1) CHR ''0'' @ s))
      else with_fraction (take 1 s) (drop 1 s) @ ''e'' @ (if e < 0 then ''-'' else ''+'') @ pad_left 2 (show_int \<bar>e\<bar>))"

definition show_g9_rat :: "rat \<Rightarrow> string" where
  "show_g9_rat q =
     (let e = decimal_exponent q; m = nearest_even (q / pow10 (e - 8)) in
      if m = 10 ^ 9 then show_digits9 (10 ^ 8) (e + 1) else show_digits9 m e)"

fun show_g9 :: "pyfloat \<Rightarrow> string" where
  "show_g9 NaN = ''nan''"
| "show_g9 PosInf = ''inf''"
| "show_g9 NegInf = ''-inf''"
| "show_g9 (Fin q) = (if q = 0 then ''0'' else if q < 0 then ''-'' @ show_g9_rat (- q) else show_g9_rat q)"

text \<open>\<open>f"{x:.0f}"\<close>.\<close>

fun show_f0 :: "pyfloat \<Rightarrow> string" where
  "show_f0 NaN = ''nan''"
| "show_f0 PosInf = ''inf''"
| "show_f0 NegInf = ''-inf''"
| "show_f0 (Fin q) = show_int (nearest_even q)"

section \<open>Boards and instruments\<close>

record board_target =
  bt_id :: string
  bt_display_name :: string
  bt_architecture :: string
  bt_board_revision :: string
  bt_debug_backend :: string
  bt_openocd_interface :: "string option"
  bt_openocd_target :: "string option"
  bt_jlink_device :: "string option"
  bt_samples_required :: int
  bt_validation_status :: string

record board_catalog =
  bcat_version :: string
  bcat_boards :: "board_target list"

definition validate_board :: "board_target \<Rightarrow> unit result" where
  "validate_board b = check (3 \<le> bt_samples_required b) (ValueError ''samples_required'')"

record instrument_definition =
  idf_id :: string
  idf_resource :: string
  idf_kind :: string
  idf_driver :: string

fun operation_name :: "instrument_operation \<Rightarrow> string" where
  "operation_name IO_power_configure = ''power.configure''"
| "operation_name IO_power_output = ''power.output''"
| "operation_name IO_power_measure = ''power.measure''"
| "operation_name IO_scope_capture = ''scope.capture''"
| "operation_name IO_logic_capture = ''logic.capture''"
| "operation_name IO_energy_measure = ''energy.measure''"
| "operation_name IO_chamber_set_temperature = ''chamber.set_temperature''"
| "operation_name IO_vna_sparameters = ''vna.sparameters''"
| "operation_name IO_spectrum_capture = ''spectrum.capture''"
| "operation_name IO_attenuator_set = ''attenuator.set''"

text \<open>The unit, least and greatest value of each parameter, as the literals of the table read; \<open>bool\<close> and \<open>int\<close> are types, not units.\<close>

type_synonym parameter_schema = "(string, string \<times> pyfloat option \<times> pyfloat option) dict"

definition range_of :: "string \<Rightarrow> string \<Rightarrow> pyfloat \<Rightarrow> pyfloat \<Rightarrow> string \<times> string \<times> pyfloat option \<times> pyfloat option" where
  "range_of name u lo hi = (name, u, Some lo, Some hi)"

fun operation_parameters :: "instrument_operation \<Rightarrow> parameter_schema" where
  "operation_parameters IO_power_configure = [range_of ''voltage'' ''V'' (Fin 0) (Fin 60), range_of ''current_limit'' ''A'' (Fin 0) (Fin 20)]"
| "operation_parameters IO_power_output = [(''enabled'', ''bool'', None, None)]"
| "operation_parameters IO_power_measure = []"
| "operation_parameters IO_scope_capture =
     [range_of ''duration'' ''s'' (round_f64 (1 / 10 ^ 9)) (Fin 3600), range_of ''sample_rate'' ''Hz'' (Fin 1) (Fin (20 * 10 ^ 9))]"
| "operation_parameters IO_logic_capture =
     [range_of ''duration'' ''s'' (round_f64 (1 / 10 ^ 9)) (Fin 3600), range_of ''sample_rate'' ''Hz'' (Fin 1) (Fin (2 * 10 ^ 9))]"
| "operation_parameters IO_energy_measure = [range_of ''duration'' ''s'' (round_f64 (1 / 10 ^ 6)) (Fin 86400)]"
| "operation_parameters IO_chamber_set_temperature = [range_of ''temperature'' ''Cel'' (Fin (- 20)) (Fin 85)]"
| "operation_parameters IO_vna_sparameters =
     [range_of ''start_frequency'' ''Hz'' (Fin 1) (Fin (6 * 10 ^ 9)), range_of ''stop_frequency'' ''Hz'' (Fin 1) (Fin (6 * 10 ^ 9)),
      range_of ''points'' ''int'' (Fin 2) (Fin 100001)]"
| "operation_parameters IO_spectrum_capture =
     [range_of ''center_frequency'' ''Hz'' (Fin 1) (Fin (6 * 10 ^ 9)), range_of ''span'' ''Hz'' (Fin 1) (Fin (6 * 10 ^ 9))]"
| "operation_parameters IO_attenuator_set = [range_of ''attenuation'' ''dB'' (Fin 0) (Fin 120)]"

text \<open>\<open>UnitValue.model_validate(value)\<close> of a parameter that is not a \<open>UnitValue\<close> raises.\<close>

fun unit_parameter :: "parameter \<Rightarrow> unit_value result" where
  "unit_parameter (PV_unit u) = Inr u"
| "unit_parameter _ = Inl (ValueError ''validation error for UnitValue'')"

fun int_parameter :: "string \<Rightarrow> parameter \<Rightarrow> int result" where
  "int_parameter name (PV_int n) = Inr n"
| "int_parameter name (PV_bool b) = Inr (if b then 1 else 0)"
| "int_parameter name _ = Inl (ValueError (name @ '' must be integer''))"

text \<open>\<open>float(value)\<close> of an integer, or the value of a quantity in the expected unit.\<close>

definition numeric_parameter :: "string \<Rightarrow> string \<Rightarrow> parameter \<Rightarrow> pyfloat result" where
  "numeric_parameter name u v =
     (if u = ''int'' then andThen (int_parameter name v) float_of_int
      else
        andThen (unit_parameter v) (\<lambda>x.
        andThen (check (uv_unit x = u) (ValueError (name @ '' requires unit '' @ u))) (\<lambda>_. Inr (uv_value x))))"

definition normalize_parameter ::
    "(string, parameter) dict \<Rightarrow> string \<times> string \<times> pyfloat option \<times> pyfloat option \<Rightarrow>
     (string \<times> parameter) result" where
  "normalize_parameter ps entry =
     (case entry of (name, u, lo, hi) \<Rightarrow>
      andThen (require (dict_get ps name) (KeyError name)) (\<lambda>v.
      if u = ''bool''
      then (case v of PV_bool b \<Rightarrow> Inr (name, PV_bool b) | _ \<Rightarrow> Inl (ValueError (name @ '' must be boolean'')))
      else
        andThen (numeric_parameter name u v) (\<lambda>x.
        andThen (check (\<not> (case lo of None \<Rightarrow> False | Some m \<Rightarrow> float_lt x m))
          (ValueError (name @ '' is below the allowed range''))) (\<lambda>_.
        andThen (check (\<not> (case hi of None \<Rightarrow> False | Some m \<Rightarrow> float_lt m x))
          (ValueError (name @ '' is above the allowed range''))) (\<lambda>_.
        if u = ''int'' then andThen (to_int (PFloat x)) (\<lambda>n. Inr (name, PV_int n)) else Inr (name, PV_float x))))))"

definition validate_operation :: "instrument_operation_request \<Rightarrow> (string, parameter) dict result" where
  "validate_operation r =
     (let schema = operation_parameters (ior_operation r); op = operation_name (ior_operation r);
          unknown = filter (\<lambda>n. n \<notin> set (dict_keys schema)) (dict_keys (ior_parameters r));
          missing = filter (\<lambda>n. n \<notin> set (dict_keys (ior_parameters r))) (dict_keys schema) in
      andThen (check (unknown = []) (ValueError (''unknown parameters for '' @ op @ '': '' @ show_names (sort unknown)))) (\<lambda>_.
      andThen (check (missing = []) (ValueError (''missing parameters for '' @ op @ '': '' @ show_names (sort missing)))) (\<lambda>_.
      map_result (normalize_parameter (ior_parameters r)) schema)))"

section \<open>Drivers\<close>

datatype scpi = Scpi_Write string | Scpi_Query string

text \<open>
  What is outside: the digest and the clock, the decoders of documents, the answers of the VISA
  resource after the commands sent so far (none where \<open>pyvisa\<close> is not installed), the tools found,
  the run of a tool with its time limit (its exit code, its error output, and the file it wrote), and the devices
  \<open>joulescope\<close> finds, each a function from the duration to its data.
\<close>

record lab_env =
  le_digest :: "evidence_file \<Rightarrow> string"
  le_now :: int
  le_calibration :: "evidence_file \<Rightarrow> calibration_record result"
  le_request :: "evidence_file \<Rightarrow> instrument_operation_request result"
  le_boards :: "evidence_file \<Rightarrow> board_catalog result"
  le_visa :: "(scpi list \<Rightarrow> string) option"
  le_which :: "string \<Rightarrow> string option"
  le_tool :: "string list \<Rightarrow> int \<Rightarrow> (int \<times> string \<times> evidence_file option) result"
  le_joulescope :: "(pyfloat \<Rightarrow> evidence_file result) list option"

record lab =
  lab_world :: recorder
  lab_sent :: "scpi list"

definition lab_fs :: "lab \<Rightarrow> evidence_file fsys" where
  "lab_fs s = rec_fs (lab_world s)"

definition lab_root :: "lab \<Rightarrow> path" where
  "lab_root s = layout_root (rec_layout (lab_world s))"

text \<open>A directory is not overwritten, and a file is not a directory: \<open>make_parent\<close> is
  \<open>output.parent.mkdir(parents=True, exist_ok=True)\<close>, and directories are those of the files below them.\<close>

definition can_hold :: "'c fsys \<Rightarrow> path \<Rightarrow> bool" where
  "can_hold fs p \<longleftrightarrow> list_all (\<lambda>i. files fs (take i p) = None) [0..<length p]"

definition can_write :: "'c fsys \<Rightarrow> path \<Rightarrow> bool" where
  "can_write fs p \<longleftrightarrow> p \<noteq> [] \<and> \<not> is_dir fs p \<and> can_hold fs p"

definition make_parent :: "path \<Rightarrow> (lab, unit) prog" where
  "make_parent p = bindP (gets (\<lambda>s. can_hold (lab_fs s) p)) (\<lambda>ok. guardP ok (OSError ''not a directory''))"

definition write_lab :: "path \<Rightarrow> evidence_file \<Rightarrow> (lab, unit) prog" where
  "write_lab p c =
     bindP (gets (\<lambda>s. can_write (lab_fs s) p)) (\<lambda>ok.
     bindP (guardP ok (OSError ''cannot write'')) (\<lambda>_.
     modify (\<lambda>s. s\<lparr>lab_world := (lab_world s)\<lparr>rec_files := dict_set p c (rec_files (lab_world s))\<rparr>\<rparr>)))"

definition send :: "scpi \<Rightarrow> (lab, unit) prog" where
  "send c = modify (\<lambda>s. s\<lparr>lab_sent := lab_sent s @ [c]\<rparr>)"

text \<open>\<open>parameters[name]\<close> in a format string.\<close>

definition number_of :: "(string, parameter) dict \<Rightarrow> string \<Rightarrow> pyfloat" where
  "number_of ps name = (case dict_get ps name of Some (PV_float x) \<Rightarrow> x | _ \<Rightarrow> NaN)"

definition flag_of :: "(string, parameter) dict \<Rightarrow> string \<Rightarrow> bool" where
  "flag_of ps name = (dict_get ps name = Some (PV_bool True))"

definition points_of :: "(string, parameter) dict \<Rightarrow> string \<Rightarrow> int" where
  "points_of ps name = (case dict_get ps name of Some (PV_int n) \<Rightarrow> n | _ \<Rightarrow> 0)"

text \<open>The commands of an operation; the answer to the last one is the measurement.\<close>

fun visa_commands :: "instrument_operation \<Rightarrow> (string, parameter) dict \<Rightarrow> scpi list option" where
  "visa_commands IO_power_configure ps = Some [Scpi_Write (''VOLT '' @ show_g9 (number_of ps ''voltage'')),
     Scpi_Write (''CURR '' @ show_g9 (number_of ps ''current_limit'')), Scpi_Query ''MEAS:VOLT?;:MEAS:CURR?'']"
| "visa_commands IO_power_output ps =
     Some [Scpi_Write (if flag_of ps ''enabled'' then ''OUTP ON'' else ''OUTP OFF''), Scpi_Query ''OUTP?'']"
| "visa_commands IO_power_measure ps = Some [Scpi_Query ''MEAS:VOLT?;:MEAS:CURR?'']"
| "visa_commands IO_chamber_set_temperature ps =
     Some [Scpi_Write (''TEMP '' @ show_g9 (number_of ps ''temperature'')), Scpi_Query ''TEMP?'']"
| "visa_commands IO_attenuator_set ps =
     Some [Scpi_Write (''ATT '' @ show_g9 (number_of ps ''attenuation'')), Scpi_Query ''ATT?'']"
| "visa_commands IO_scope_capture ps = Some [Scpi_Write (''TIM:RANG '' @ show_g9 (number_of ps ''duration'')),
     Scpi_Write (''ACQ:SRAT '' @ show_g9 (number_of ps ''sample_rate'')), Scpi_Write ''DIG'', Scpi_Query ''*OPC?'',
     Scpi_Query ''WAV:DATA?'']"
| "visa_commands IO_vna_sparameters ps = Some [Scpi_Write (''SENS:FREQ:STAR '' @ show_g9 (number_of ps ''start_frequency'')),
     Scpi_Write (''SENS:FREQ:STOP '' @ show_g9 (number_of ps ''stop_frequency'')),
     Scpi_Write (''SENS:SWE:POIN '' @ show_int (points_of ps ''points'')), Scpi_Write ''INIT:IMM'', Scpi_Query ''*OPC?'',
     Scpi_Query ''CALC:DATA? SDATA'']"
| "visa_commands IO_spectrum_capture ps = Some [Scpi_Write (''FREQ:CENT '' @ show_g9 (number_of ps ''center_frequency'')),
     Scpi_Write (''FREQ:SPAN '' @ show_g9 (number_of ps ''span'')), Scpi_Write ''INIT:IMM'', Scpi_Query ''*OPC?'',
     Scpi_Query ''TRAC:DATA? TRACE1'']"
| "visa_commands _ ps = None"

definition execute_visa ::
    "lab_env \<Rightarrow> instrument_definition \<Rightarrow> instrument_operation \<Rightarrow> (string, parameter) dict \<Rightarrow> path \<Rightarrow> (lab, unit) prog" where
  "execute_visa env d op ps output =
     (case le_visa env of
        None \<Rightarrow> raise (RuntimeError ''install AEL with the worker extra'')
      | Some answer \<Rightarrow>
          bindP (make_parent output) (\<lambda>_.
          case visa_commands op ps of
             None \<Rightarrow> raise (NotImplementedError (''driver '' @ idf_driver d @ '' does not implement '' @ operation_name op))
           | Some commands \<Rightarrow>
               bindP (forP send commands) (\<lambda>_.
               bindP (gets lab_sent) (\<lambda>sent.
               write_lab output (EF_Blob (strip (answer sent) @ [CHR 0x0A]))))))"

definition sigrok_command :: "string \<Rightarrow> instrument_definition \<Rightarrow> (string, parameter) dict \<Rightarrow> path \<Rightarrow> string list" where
  "sigrok_command executable d ps output = [executable, ''--driver'', idf_driver d, ''--config'',
     ''samplerate='' @ show_f0 (number_of ps ''sample_rate''), ''--time'', show_g9 (number_of ps ''duration''),
     ''--output-file'', path_text output]"

definition last_chars :: "nat \<Rightarrow> string \<Rightarrow> string" where
  "last_chars n s = drop (length s - n) s"

definition execute_sigrok ::
    "lab_env \<Rightarrow> instrument_definition \<Rightarrow> instrument_operation \<Rightarrow> (string, parameter) dict \<Rightarrow> path \<Rightarrow> (lab, unit) prog" where
  "execute_sigrok env d op ps output =
     (if op \<noteq> IO_logic_capture then raise (ValueError ''sigrok driver only accepts logic.capture'')
      else
        bindP (lift (require (le_which env ''sigrok-cli'') (RuntimeError ''sigrok-cli is not installed on this Lab Worker''))) (\<lambda>executable.
        bindP (make_parent output) (\<lambda>_.
        bindP (lift (to_int (PFloat (float_add (number_of ps ''duration'') (Fin 10))))) (\<lambda>limit.
        bindP (lift (le_tool env (sigrok_command executable d ps output) (max 30 limit))) (\<lambda>(code, err, written).
        bindP (case written of None \<Rightarrow> ret () | Some c \<Rightarrow> write_lab output c) (\<lambda>_.
        guardP (code = 0) (RuntimeError (''sigrok capture failed: '' @ last_chars 2000 err))))))))"

definition execute_joulescope ::
    "lab_env \<Rightarrow> instrument_operation \<Rightarrow> (string, parameter) dict \<Rightarrow> path \<Rightarrow> (lab, unit) prog" where
  "execute_joulescope env op ps output =
     (if op \<noteq> IO_energy_measure then raise (ValueError ''Joulescope driver only accepts energy.measure'')
      else
        (case le_joulescope env of
           None \<Rightarrow> raise (RuntimeError ''install joulescope on the Lab Worker'')
         | Some [] \<Rightarrow> raise (RuntimeError ''no Joulescope device detected'')
         | Some (device # _) \<Rightarrow>
             bindP (lift (device (number_of ps ''duration''))) (\<lambda>c. write_lab output c)))"

definition drive ::
    "lab_env \<Rightarrow> instrument_definition \<Rightarrow> instrument_operation \<Rightarrow> (string, parameter) dict \<Rightarrow> path \<Rightarrow> (lab, unit) prog" where
  "drive env d op ps output =
     (if idf_kind d = ''logic_analyzer'' then execute_sigrok env d op ps output
      else if idf_kind d = ''power_analyzer'' then execute_joulescope env op ps output
      else execute_visa env d op ps output)"

section \<open>The controller\<close>

definition load_calibration :: "lab_env \<Rightarrow> string \<Rightarrow> (lab, calibration_record) prog" where
  "load_calibration env p = reads (\<lambda>s. load_document (le_calibration env) (lab_fs s) (lab_root s) p)"

definition check_calibration :: "lab_env \<Rightarrow> instrument_definition \<Rightarrow> calibration_record \<Rightarrow> (lab, unit) prog" where
  "check_calibration env d c =
     bindP (guardP (cal_instrument_id c = idf_id d)
       (ValueError ''calibration does not belong to the configured instrument'')) (\<lambda>_.
     bindP (guardP (cal_calibrated_at c \<le> le_now env \<and> le_now env \<le> cal_expires_at c)
       (ValueError ''instrument calibration is not current'')) (\<lambda>_.
     bindP (reads (\<lambda>s. andThen (resolve_workspace_path (lab_fs s) (lab_root s) (cal_certificate_path c) True) (read_file (lab_fs s)))) (\<lambda>content.
     guardP (le_digest env content = cal_certificate_sha256 c) (ValueError ''calibration certificate digest mismatch''))))"

definition evidence_path_of :: "path \<Rightarrow> path" where
  "evidence_path_of p = butlast p @ [last_name p @ ''.evidence.json'']"

definition lab_execute ::
    "lab_env \<Rightarrow> instrument_operation_request \<Rightarrow> instrument_definition \<Rightarrow> string \<Rightarrow> string \<Rightarrow> (lab, instrument_evidence) prog" where
  "lab_execute env r d calibration_path output_path =
     bindP (guardP (ior_instrument_id r = idf_id d)
       (PermissionError ''instrument request does not match configured resource'')) (\<lambda>_.
     bindP (load_calibration env calibration_path) (\<lambda>c.
     bindP (check_calibration env d c) (\<lambda>_.
     bindP (lift (validate_operation r)) (\<lambda>ps.
     bindP (reads (\<lambda>s. resolve_workspace_path (lab_fs s) (lab_root s) output_path False)) (\<lambda>output.
     bindP (drive env d (ior_operation r) ps output) (\<lambda>_.
     bindP (reads (\<lambda>s. read_file (lab_fs s) output)) (\<lambda>content.
     bindP (gets (\<lambda>s. relative_to (lab_root s) output)) (\<lambda>name.
     let e = \<lparr>iev_instrument_id = idf_id d, iev_driver = idf_driver d, iev_calibration_id = cal_id c,
       iev_operation = ior_operation r, iev_parameters = ior_parameters r, iev_raw_artifact_path = name,
       iev_raw_artifact_sha256 = le_digest env content, iev_captured_at = le_now env\<rparr> in
     bindP (write_lab (evidence_path_of output) (EF_Instrument e)) (\<lambda>_. ret e)))))))))"

section \<open>Flashing\<close>

definition openocd_command :: "string \<Rightarrow> string \<Rightarrow> string \<Rightarrow> path \<Rightarrow> string list" where
  "openocd_command executable interface target img = [executable, ''-f'', interface, ''-f'', target, ''-c'',
     ''program '' @ path_text img @ '' verify reset exit'']"

definition jlink_script :: "path \<Rightarrow> string" where
  "jlink_script img = ''loadfile '' @ path_text img @ [CHR 0x0A] @ ''r'' @ [CHR 0x0A] @ ''g'' @ [CHR 0x0A] @ ''exit'' @ [CHR 0x0A]"

text \<open>The command a board is flashed with; a J-Link script is written under a name joined to the
  workspace as it is given.\<close>

definition flash_command :: "lab_env \<Rightarrow> board_target \<Rightarrow> string \<Rightarrow> (lab, string list) prog" where
  "flash_command env b firmware =
     bindP (reads (\<lambda>s. resolve_workspace_path (lab_fs s) (lab_root s) firmware True)) (\<lambda>img.
     if bt_debug_backend b = ''openocd''
     then (case (le_which env ''openocd'', nonempty (bt_openocd_interface b), nonempty (bt_openocd_target b)) of
             (Some x, Some interface, Some target) \<Rightarrow> ret (openocd_command x interface target img)
           | _ \<Rightarrow> raise (RuntimeError ''OpenOCD target is not completely configured''))
     else if bt_debug_backend b = ''jlink''
     then (case (le_which env ''JLinkExe'', nonempty (bt_jlink_device b)) of
             (Some x, Some device) \<Rightarrow>
               bindP (gets lab_root) (\<lambda>ws.
               let script = path_join (ws @ [''.ael'', ''jlink'']) (bt_id b @ ''.jlink'') in
               bindP (write_lab script (EF_Blob (jlink_script img))) (\<lambda>_.
               ret [x, ''-device'', device, ''-if'', ''SWD'', ''-speed'', ''4000'', ''-CommanderScript'', path_text script]))
           | _ \<Rightarrow> raise (RuntimeError ''J-Link target is not completely configured''))
     else raise (ValueError (''unsupported debugger backend: '' @ bt_debug_backend b)))"

definition flash :: "lab_env \<Rightarrow> board_target \<Rightarrow> string \<Rightarrow> (lab, int \<times> string \<times> evidence_file option) prog" where
  "flash env b firmware = bindP (flash_command env b firmware) (\<lambda>command. lift (le_tool env command 120))"

definition load_board_catalog :: "lab_env \<Rightarrow> evidence_file fsys \<Rightarrow> path \<Rightarrow> board_catalog result" where
  "load_board_catalog env fs ws = load_document (\<lambda>c. andThen (le_boards env c) (\<lambda>k.
     andThen (map_result validate_board (bcat_boards k)) (\<lambda>_. Inr k))) fs ws (path_text (ws @ [''lab'', ''boards.yaml'']))"

section \<open>Containers\<close>

text \<open>\<open>f"{spec.cpus}"\<close> is a parameter, the text of a float.\<close>

record sandbox_spec =
  sbx_image :: string
  sbx_command :: "string list"
  sbx_workspace :: path
  sbx_timeout_s :: int
  sbx_memory_mb :: int
  sbx_cpus :: pyfloat
  sbx_network :: bool

definition sandbox_runtime :: "host \<Rightarrow> string option" where
  "sandbox_runtime h =
     (case host_which h (case host_env h ''AEL_OCI_RUNTIME'' of None \<Rightarrow> ''podman'' | Some r \<Rightarrow> r) of
        Some r \<Rightarrow> Some r
      | None \<Rightarrow> host_which h ''docker'')"

definition sandbox_options :: "(pyfloat \<Rightarrow> string) \<Rightarrow> string \<Rightarrow> path \<Rightarrow> sandbox_spec \<Rightarrow> string list" where
  "sandbox_options show_float runtime ws spec =
     [runtime, ''run'', ''--rm'', ''--read-only'', ''--cap-drop=ALL'', ''--security-opt=no-new-privileges'',
      ''--memory='' @ show_int (sbx_memory_mb spec) @ ''m'', ''--cpus='' @ show_float (sbx_cpus spec),
      ''--pids-limit=256'', ''--tmpfs=/tmp:rw,noexec,nosuid,size=256m'',
      ''--mount=type=bind,src='' @ path_text ws @ '',dst=/workspace,readonly'', ''--workdir=/workspace''] @
     (if sbx_network spec then [] else [''--network=none''])"

definition sandbox_command :: "host \<Rightarrow> (pyfloat \<Rightarrow> string) \<Rightarrow> 'c fsys \<Rightarrow> sandbox_spec \<Rightarrow> string list result" where
  "sandbox_command h show_float fs spec =
     andThen (require (sandbox_runtime h)
       (RuntimeError ''no OCI runtime found; generated code will not run on the host'')) (\<lambda>runtime.
     andThen (resolve fs (sbx_workspace spec)) (\<lambda>ws.
     Inr (sandbox_options show_float runtime ws spec @ sbx_image spec # sbx_command spec)))"

section \<open>Accepted parameters\<close>

fun has_type :: "string \<Rightarrow> parameter \<Rightarrow> bool" where
  "has_type u (PV_bool b) \<longleftrightarrow> u = ''bool''"
| "has_type u (PV_int n) \<longleftrightarrow> u = ''int''"
| "has_type u (PV_float x) \<longleftrightarrow> u \<noteq> ''bool'' \<and> u \<noteq> ''int''"
| "has_type u _ \<longleftrightarrow> False"

fun at_least :: "pyfloat option \<Rightarrow> pyfloat \<Rightarrow> bool" where
  "at_least None x \<longleftrightarrow> True"
| "at_least (Some m) x \<longleftrightarrow> x = NaN \<or> float_le m x"

fun at_most :: "pyfloat option \<Rightarrow> pyfloat \<Rightarrow> bool" where
  "at_most None x \<longleftrightarrow> True"
| "at_most (Some m) x \<longleftrightarrow> x = NaN \<or> float_le x m"

definition in_limits :: "pyfloat option \<Rightarrow> pyfloat option \<Rightarrow> parameter \<Rightarrow> bool" where
  "in_limits lo hi v \<longleftrightarrow> (case v of PV_float x \<Rightarrow> at_least lo x \<and> at_most hi x
     | PV_int n \<Rightarrow> at_least lo (Fin (of_int n)) \<and> at_most hi (Fin (of_int n)) | _ \<Rightarrow> True)"

lemma float_not_lt: "x \<noteq> NaN \<Longrightarrow> m \<noteq> NaN \<Longrightarrow> \<not> float_lt x m \<longleftrightarrow> float_le m x"
  by (cases x; cases m) (auto simp: float_le_def)

lemma normalized_parameter:
  assumes "normalize_parameter ps (name, u, lo, hi) = Inr (n, v)"
  shows "n = name \<and> has_type u v"
  using assms
  by (auto simp: normalize_parameter_def andThen_eq_Inr require_def split: if_splits parameter.splits option.splits)

text \<open>Ranges whose limits are whole numbers, where the type is \<open>int\<close>.\<close>

definition limits_ok :: "string \<times> string \<times> pyfloat option \<times> pyfloat option \<Rightarrow> bool" where
  "limits_ok entry \<longleftrightarrow> (case entry of (name, u, lo, hi) \<Rightarrow>
     lo \<noteq> Some NaN \<and> hi \<noteq> Some NaN \<and>
     (u = ''int'' \<longrightarrow> (\<exists>a b. lo = Some (Fin (of_int a)) \<and> hi = Some (Fin (of_int b)) \<and> 0 \<le> a)))"

lemma truncate_between:
  assumes "of_int a \<le> q" "q \<le> of_int b" "0 \<le> a" shows "a \<le> truncate_rat q \<and> truncate_rat q \<le> b"
proof -
  have "0 \<le> q" using assms(1,3) by (meson dual_order.trans of_int_0_le_iff)
  moreover have "a \<le> \<lfloor>q\<rfloor>" using assms(1) by (simp add: le_floor_iff)
  moreover have "\<lfloor>q\<rfloor> \<le> b" using assms(2) using floor_mono [of q "of_int b"] by simp
  ultimately show ?thesis by (simp add: truncate_rat_def)
qed

lemma normalized_within:
  assumes "normalize_parameter ps (name, u, lo, hi) = Inr (n, v)" and "limits_ok (name, u, lo, hi)"
  shows "in_limits lo hi v"
proof (cases "u = ''bool''")
  case True
  with assms(1) obtain w where "(case w of PV_bool b \<Rightarrow> Inr (name, PV_bool b)
      | _ \<Rightarrow> Inl (ValueError (name @ '' must be boolean''))) = Inr (n, v)"
    by (auto simp: normalize_parameter_def andThen_eq_Inr)
  then show ?thesis by (cases w) (auto simp: in_limits_def)
next
  case bool: False
  with assms(1) obtain w x where w: "numeric_parameter name u w = Inr x"
    and lo: "\<not> (case lo of None \<Rightarrow> False | Some m \<Rightarrow> float_lt x m)" and hi: "\<not> (case hi of None \<Rightarrow> False | Some m \<Rightarrow> float_lt m x)"
    and v: "(if u = ''int'' then andThen (to_int (PFloat x)) (\<lambda>n. Inr (name, PV_int n)) else Inr (name, PV_float x)) = Inr (n, v)"
    by (auto simp: normalize_parameter_def andThen_eq_Inr simp del: list.inject list.distinct)
  have bounds: "at_least lo x" "at_most hi x"
    using lo hi assms(2) float_not_lt
    by (cases lo; cases hi; force simp: limits_ok_def)+
  show ?thesis
  proof (cases "u = ''int''")
    case False
    with v have "v = PV_float x" by simp
    with bounds show ?thesis by (simp add: in_limits_def)
  next
    case True
    with assms(2) obtain a b where ab: "lo = Some (Fin (of_int a))" "hi = Some (Fin (of_int b))" "0 \<le> a"
      by (auto simp: limits_ok_def)
    from v True obtain k where "to_int (PFloat x) = Inr k" "v = PV_int k" by (auto simp: andThen_eq_Inr)
    then obtain q where k: "x = Fin q" "v = PV_int k" "k = truncate_rat q" by (cases x) auto
    with bounds ab truncate_between [of a q b] show ?thesis by (simp add: in_limits_def)
  qed
qed

lemma operation_limits: "list_all limits_ok (operation_parameters op)"
proof -
  have r: "round_f64 q \<noteq> NaN" for q by (simp add: round_f64_def Let_def)
  have i: "\<exists>a b. Fin 2 = Fin (of_int a) \<and> Fin 100001 = Fin (of_int b) \<and> 0 \<le> (a :: int)"
    by (rule exI [of _ 2], rule exI [of _ 100001]) simp
  show ?thesis by (cases op) (use r i in \<open>auto simp: limits_ok_def range_of_def\<close>)
qed

lemma validated_operation:
  assumes "validate_operation r = Inr ps"
  shows "list_all2 (\<lambda>(name, u, lo, hi) (n, v). n = name \<and> has_type u v \<and> in_limits lo hi v) (operation_parameters (ior_operation r)) ps"
proof -
  from assms have "list_all2 (\<lambda>e y. normalize_parameter (ior_parameters r) e = Inr y) (operation_parameters (ior_operation r)) ps"
    by (auto simp: validate_operation_def Let_def andThen_eq_Inr map_result_eq_Inr)
  moreover have "normalize_parameter (ior_parameters r) e = Inr y \<Longrightarrow>
      (\<lambda>(name, u, lo, hi) (n, v). n = name \<and> has_type u v \<and> in_limits lo hi v) e y"
    if "e \<in> set (operation_parameters (ior_operation r))" for e y
    using that operation_limits [of "ior_operation r"] normalized_parameter [of "ior_parameters r"] normalized_within [of "ior_parameters r"]
    by (cases e; cases y) (auto simp: list_all_iff)
  ultimately show ?thesis by (rule list.rel_mono_strong) blast
qed

text \<open>C35. Parameters that are accepted have the declared types: every parameter of the operation is
  there once, in the order of its table, a flag where the table says \<open>bool\<close>, a whole number where it
  says \<open>int\<close> and a float otherwise.\<close>

theorem accepted_parameters_typed:
  assumes "validate_operation r = Inr ps"
  shows "list_all2 (\<lambda>(name, u, lo, hi) (n, v). n = name \<and> has_type u v) (operation_parameters (ior_operation r)) ps"
  by (rule list.rel_mono_strong [OF validated_operation [OF assms]]) auto

text \<open>C34. Every number of an accepted operation is at least the least and at most the greatest value of
  its parameter, unless it is not a number: a NaN passes both comparisons.\<close>

theorem accepted_parameters_in_range:
  assumes "validate_operation r = Inr ps"
  shows "list_all2 (\<lambda>(name, u, lo, hi) (n, v). n = name \<and> in_limits lo hi v) (operation_parameters (ior_operation r)) ps"
  by (rule list.rel_mono_strong [OF validated_operation [OF assms]]) auto

definition demo_request :: "pyfloat \<Rightarrow> instrument_operation_request" where
  "demo_request x = \<lparr>ior_instrument_id = ''psu'', ior_operation = IO_power_configure,
     ior_parameters = [(''voltage'', PV_unit \<lparr>uv_value = x, uv_unit = ''V''\<rparr>),
       (''current_limit'', PV_unit \<lparr>uv_value = Fin 2, uv_unit = ''A''\<rparr>)], ior_calibration_id = ''c1''\<rparr>"

lemma demo_request_valid: "x = Fin 5 \<or> x = NaN \<Longrightarrow>
    validate_operation (demo_request x) = Inr [(''voltage'', PV_float x), (''current_limit'', PV_float (Fin 2))]"
  by (auto simp: validate_operation_def demo_request_def range_of_def normalize_parameter_def numeric_parameter_def
      check_def require_def)

theorem accepted_parameters_typed_witness:
  "validate_operation (demo_request (Fin 5)) = Inr [(''voltage'', PV_float (Fin 5)), (''current_limit'', PV_float (Fin 2))] \<and>
   list_all2 (\<lambda>(name, u, lo, hi) (n, v). n = name \<and> has_type u v) (operation_parameters IO_power_configure)
     [(''voltage'', PV_float (Fin 5)), (''current_limit'', PV_float (Fin 2))]"
  using demo_request_valid [of "Fin 5"] accepted_parameters_typed [OF demo_request_valid [of "Fin 5"]]
  by (simp add: demo_request_def)

theorem accepted_parameters_in_range_witness:
  "list_all2 (\<lambda>(name, u, lo, hi) (n, v). n = name \<and> in_limits lo hi v) (operation_parameters IO_power_configure)
     [(''voltage'', PV_float NaN), (''current_limit'', PV_float (Fin 2))]"
  using accepted_parameters_in_range [OF demo_request_valid [of NaN]] by (simp add: demo_request_def)

section \<open>Evidence of an operation\<close>

text \<open>Files other than one stay, and so do the workspace and its links.\<close>

definition only_writes :: "path set \<Rightarrow> lab \<Rightarrow> lab \<Rightarrow> bool" where
  "only_writes ps s t \<longleftrightarrow> rec_layout (lab_world t) = rec_layout (lab_world s) \<and>
     rec_links (lab_world t) = rec_links (lab_world s) \<and>
     (\<forall>p. p \<notin> ps \<longrightarrow> dict_get (rec_files (lab_world t)) p = dict_get (rec_files (lab_world s)) p)"

lemma keeps_write_lab [keeps_intros]: "p \<in> ps \<Longrightarrow> keeps (only_writes ps s0) (write_lab p c)"
  unfolding write_lab_def by (intro keeps_intros) (auto simp: only_writes_def)

lemma keeps_send [keeps_intros]: "keeps (only_writes ps s0) (send c)"
  by (simp add: send_def keeps_def only_writes_def)

lemma make_parent_state: "snd (make_parent p s) = s"
  by (simp add: make_parent_def gets_def bindP_def guardP_def)

lemma keeps_make_parent [keeps_intros]: "keeps (only_writes ps s0) (make_parent p)"
  using make_parent_state by (auto simp: keeps_def)

lemma keeps_drive: "output \<in> ps \<Longrightarrow> keeps (only_writes ps s0) (drive env d op xs output)"
proof -
  assume o: "output \<in> ps"
  have "keeps (only_writes ps s0) (execute_visa env d op xs output)"
    unfolding execute_visa_def by (intro keeps_intros o)
  moreover have "keeps (only_writes ps s0) (execute_sigrok env d op xs output)"
    unfolding execute_sigrok_def by (intro keeps_intros o)
  moreover have "keeps (only_writes ps s0) (execute_joulescope env op xs output)"
    unfolding execute_joulescope_def by (auto intro!: keeps_intros o split: option.splits list.splits)
  ultimately show ?thesis by (simp add: drive_def)
qed

text \<open>C19. Evidence of an instrument is made only with its own, current calibration: the certificate has
  the recorded digest, the parameters were accepted, the raw file lies in the workspace and has the
  digest the evidence names, and nothing but the raw file and its evidence is written.\<close>

theorem evidence_needs_current_calibration:
  assumes "lab_execute env r d calibration_path output_path s = (Inr e, t)"
  shows "\<exists>c cert certificate output raw ps.
    load_document (le_calibration env) (lab_fs s) (lab_root s) calibration_path = Inr c \<and>
    ior_instrument_id r = idf_id d \<and> cal_instrument_id c = idf_id d \<and>
    cal_calibrated_at c \<le> le_now env \<and> le_now env \<le> cal_expires_at c \<and>
    resolve_workspace_path (lab_fs s) (lab_root s) (cal_certificate_path c) True = Inr cert \<and>
    dict_get (rec_files (lab_world s)) cert = Some certificate \<and>
    le_digest env certificate = cal_certificate_sha256 c \<and> validate_operation r = Inr ps \<and>
    resolve_workspace_path (lab_fs s) (lab_root s) output_path False = Inr output \<and>
    dict_get (rec_files (lab_world t)) output = Some raw \<and> iev_raw_artifact_sha256 e = le_digest env raw \<and>
    dict_get (rec_files (lab_world t)) (evidence_path_of output) = Some (EF_Instrument e) \<and>
    only_writes {output, evidence_path_of output} s t"
proof -
  from assms obtain c cert certificate ps dest u raw where
    c: "ior_instrument_id r = idf_id d" "load_document (le_calibration env) (lab_fs s) (lab_root s) calibration_path = Inr c"
      "cal_instrument_id c = idf_id d" "cal_calibrated_at c \<le> le_now env" "le_now env \<le> cal_expires_at c"
      "resolve_workspace_path (lab_fs s) (lab_root s) (cal_certificate_path c) True = Inr cert"
      "files (lab_fs s) cert = Some certificate"
      "le_digest env certificate = cal_certificate_sha256 c" "validate_operation r = Inr ps"
      "resolve_workspace_path (lab_fs s) (lab_root s) output_path False = Inr dest"
    and u: "drive env d (ior_operation r) ps dest s = (Inr (), u)"
    and raw: "files (lab_fs u) dest = Some raw" "iev_raw_artifact_sha256 e = le_digest env raw"
    and t: "t = u\<lparr>lab_world := (lab_world u)\<lparr>rec_files := dict_set (evidence_path_of dest) (EF_Instrument e) (rec_files (lab_world u))\<rparr>\<rparr>"
    by (auto simp: lab_execute_def load_calibration_def check_calibration_def bindP_eq_Inr guardP_eq_Inr andThen_eq_Inr
        read_file_def Let_def write_lab_def require_def split: option.splits)
  let ?ps = "{dest, evidence_path_of dest}"
  have "only_writes ?ps s s" by (simp add: only_writes_def)
  with keepsD [OF keeps_drive [of dest ?ps s env d "ior_operation r" ps]] u have "only_writes ?ps s u" by fastforce
  moreover have "evidence_path_of dest \<noteq> dest"
    by (cases dest rule: rev_cases) (auto simp: evidence_path_of_def last_name_def)
  ultimately show ?thesis
    using c raw by (intro exI [of _ c] exI [of _ cert] exI [of _ certificate] exI [of _ dest] exI [of _ raw] exI [of _ ps])
      (auto simp: t only_writes_def lab_fs_def rec_fs_def)
qed

definition demo_switch :: instrument_operation_request where
  "demo_switch = \<lparr>ior_instrument_id = ''psu'', ior_operation = IO_power_output,
     ior_parameters = [(''enabled'', PV_bool True)], ior_calibration_id = ''c1''\<rparr>"

definition demo_lab_env :: lab_env where
  "demo_lab_env = \<lparr>le_digest = (\<lambda>c. case c of EF_Blob t \<Rightarrow> t | _ \<Rightarrow> []), le_now = 5,
     le_calibration = (\<lambda>c. Inr \<lparr>cal_id = ''c1'', cal_instrument_id = ''psu'', cal_instrument_kind = ''power'',
       cal_certificate_path = ''cert.pem'', cal_certificate_sha256 = ''cert'', cal_calibrated_at = 1,
       cal_expires_at = 9, cal_laboratory = ''lab''\<rparr>),
     le_request = (\<lambda>_. Inr demo_switch), le_boards = (\<lambda>_. Inl (ValueError ''no boards'')),
     le_visa = Some (\<lambda>sent. show_nat (length sent)), le_which = (\<lambda>_. None),
     le_tool = (\<lambda>_ _. Inl (OSError ''no tool'')), le_joulescope = None\<rparr>"

definition demo_instrument :: instrument_definition where
  "demo_instrument = \<lparr>idf_id = ''psu'', idf_resource = ''USB0'', idf_kind = ''power_supply'', idf_driver = ''scpi''\<rparr>"

definition demo_lab :: lab where
  "demo_lab = \<lparr>lab_world = demo_files\<lparr>rec_files := [([''ws'', ''cal.yaml''], EF_Blob ''cal''), ([''ws'', ''cert.pem''], EF_Blob ''cert'')]\<rparr>,
     lab_sent = []\<rparr>"

theorem evidence_needs_current_calibration_witness:
  "\<exists>e t raw. lab_execute demo_lab_env demo_switch demo_instrument ''cal.yaml'' ''raw.txt'' demo_lab = (Inr e, t) \<and>
     dict_get (rec_files (lab_world t)) [''ws'', ''raw.txt''] = Some raw \<and> iev_raw_artifact_sha256 e = le_digest demo_lab_env raw"
proof -
  have "isl (fst (lab_execute demo_lab_env demo_switch demo_instrument ''cal.yaml'' ''raw.txt'' demo_lab)) = False"
    by code_simp
  then obtain e t where x: "lab_execute demo_lab_env demo_switch demo_instrument ''cal.yaml'' ''raw.txt'' demo_lab = (Inr e, t)"
    by (cases "lab_execute demo_lab_env demo_switch demo_instrument ''cal.yaml'' ''raw.txt'' demo_lab";
        cases "fst (lab_execute demo_lab_env demo_switch demo_instrument ''cal.yaml'' ''raw.txt'' demo_lab)") auto
  have "resolve_workspace_path (lab_fs demo_lab) (lab_root demo_lab) ''raw.txt'' False = Inr [''ws'', ''raw.txt'']" by code_simp
  with evidence_needs_current_calibration [OF x] x show ?thesis by auto
qed

section \<open>Isolation\<close>



end
