(* ===== verification/Plugins.thy ===== *)
theory Plugins
  imports Programs Pyval Texts "HOL-Library.Multiset"
begin

text \<open>
  The plugins of the agent runtime (\<open>src/aether/core/contracts.py\<close>) and the gate a candidate
  plugin goes through (\<open>src/aether/core/sandbox.py\<close>): the check of its syntax tree, its
  execution, its instantiation, its own test and the test it comes with. What Python does with the
  candidate's code is a parameter; the measured durations are left out.
\<close>

section \<open>Plugins\<close>

datatype plugin_type = PT_MODEL | PT_TOOL | PT_COGNITIVE_LOOP | PT_MEMORY | PT_ORACLE | PT_UI_PANEL

datatype plugin_author = PA_SYSTEM | PA_USER | PA_AGENT_SELF_EVOLVED

datatype plugin_status = PS_ACTIVE | PS_STANDBY | PS_QUARANTINED | PS_DEPRECATED | PS_FAILED

record plugin_metadata =
  pm_id :: string
  pm_name :: string
  pm_version :: string
  pm_type :: plugin_type
  pm_description :: string
  pm_author :: plugin_author
  pm_status :: plugin_status
  pm_dependencies :: "string list"
  pm_tags :: "string list"
  pm_source_code :: "string option"
  pm_created_at :: int
  pm_updated_at :: int

text \<open>The pattern \<open>^[a-zA-Z0-9_-]+$\<close>.\<close>

definition plugin_id_ok :: "string \<Rightarrow> bool" where
  "plugin_id_ok s \<longleftrightarrow> s \<noteq> [] \<and> list_all (\<lambda>c. is_alnum c \<or> c = CHR ''_'' \<or> c = CHR ''-'') s"

definition validate_metadata :: "plugin_metadata \<Rightarrow> unit result" where
  "validate_metadata m = check (plugin_id_ok (pm_id m)) (ValueError ''id'')"

fun plugin_type_value :: "plugin_type \<Rightarrow> string" where
  "plugin_type_value PT_MODEL = ''model''"
| "plugin_type_value PT_TOOL = ''tool''"
| "plugin_type_value PT_COGNITIVE_LOOP = ''cognitive_loop''"
| "plugin_type_value PT_MEMORY = ''memory''"
| "plugin_type_value PT_ORACLE = ''oracle''"
| "plugin_type_value PT_UI_PANEL = ''ui_panel''"

text \<open>\<open>PluginType(text)\<close>.\<close>

definition plugin_type_of :: "string \<Rightarrow> plugin_type result" where
  "plugin_type_of s =
     require (find (\<lambda>t. plugin_type_value t = s) [PT_MODEL, PT_TOOL, PT_COGNITIVE_LOOP, PT_MEMORY, PT_ORACLE, PT_UI_PANEL])
       (ValueError (quoted s @ '' is not a valid PluginType''))"

lemma plugin_type_of_value: "plugin_type_of (plugin_type_value t) = Inr t"
  by (cases t) (simp_all add: plugin_type_of_def)

text \<open>A plugin is an object: its metadata and what its class keeps. Its hooks act on the object.\<close>

record 'p plugin =
  pl_metadata :: plugin_metadata
  pl_self :: 'p

record 'p plugin_ops =
  op_on_load :: "string \<Rightarrow> ('p plugin, unit) prog"
  op_on_unload :: "('p plugin, unit) prog"
  op_self_test :: "('p plugin, pyval) prog"

text \<open>The hooks do not rename their plugin.\<close>

definition keeps_id :: "('p plugin, 'a) prog \<Rightarrow> bool" where
  "keeps_id h \<longleftrightarrow> (\<forall>p. pm_id (pl_metadata (snd (h p))) = pm_id (pl_metadata p))"

definition hooks_keep_id :: "'p plugin_ops \<Rightarrow> bool" where
  "hooks_keep_id ops \<longleftrightarrow> (\<forall>ws. keeps_id (op_on_load ops ws)) \<and> keeps_id (op_on_unload ops) \<and> keeps_id (op_self_test ops)"

section \<open>Syntax trees\<close>

text \<open>
  The nodes the sources look at; the name of a call is there where the function called is a plain
  name.
\<close>

datatype ast_kind =
    AK_Import
  | AK_ImportFrom "string option"
  | AK_Call "string option"
  | AK_ClassDef string
  | AK_FunctionDef string
  | AK_Other

datatype ast = Node ast_kind "ast list"

fun node_kind :: "ast \<Rightarrow> ast_kind" where
  "node_kind (Node k ts) = k"

text \<open>\<open>ast.walk\<close>: a queue from whose front nodes are taken and at whose end their children are put.\<close>

function walk_queue :: "ast list \<Rightarrow> ast list" where
  "walk_queue [] = []"
| "walk_queue (Node k ts # queue) = Node k ts # walk_queue (queue @ ts)"
  by pat_completeness auto
termination by (relation "measure (size_list size)") (auto simp: size_list_append)

definition walk :: "ast \<Rightarrow> ast list" where
  "walk t = walk_queue [t]"

text \<open>The nodes of a tree, by recursion.\<close>

fun nodes :: "ast \<Rightarrow> ast list" where
  "nodes (Node k ts) = Node k ts # concat (map nodes ts)"

lemma walk_queue_nodes: "mset (walk_queue queue) = mset (concat (map nodes queue))"
  by (induction queue rule: walk_queue.induct) (auto simp: ac_simps)

lemma walk_nodes: "mset (walk t) = mset (nodes t)"
  by (simp add: walk_def walk_queue_nodes)

lemma set_walk: "set (walk t) = set (nodes t)"
  by (metis walk_nodes set_mset_mset)

section \<open>The static check\<close>

definition forbidden_names :: "string list" where
  "forbidden_names = [''breakpoint'', ''compile'', ''eval'', ''exec'', ''globals'', ''input'', ''locals'', ''open'', ''vars'']"

fun violation :: "ast_kind \<Rightarrow> exn option" where
  "violation AK_Import = Some (SandboxSecurityError ''Direct imports are forbidden in candidate plugins.'')"
| "violation (AK_ImportFrom m) =
     (if m \<noteq> Some ''aether.core.contracts''
      then Some (SandboxSecurityError ''Candidate plugins may import only aether.core.contracts.'') else None)"
| "violation (AK_Call (Some f)) =
     (if f \<in> set forbidden_names
      then Some (SandboxSecurityError (''Use of '' @ quoted f @ '' is forbidden in candidate plugins.'')) else None)"
| "violation _ = None"

definition check_nodes :: "ast list \<Rightarrow> unit result" where
  "check_nodes ns = (case List.map_filter (\<lambda>n. violation (node_kind n)) ns of [] \<Rightarrow> Inr () | e # _ \<Rightarrow> Inl e)"

definition static_analysis :: "(string \<Rightarrow> ast result) \<Rightarrow> string \<Rightarrow> unit result" where
  "static_analysis parse source =
     (case parse source of
        Inl (SyntaxError m) \<Rightarrow> Inl (SandboxEvaluationError (''Syntax Error in plugin code: '' @ m))
      | Inl e \<Rightarrow> Inl e
      | Inr t \<Rightarrow> check_nodes (walk t))"

lemma check_nodes_eq_Inr: "check_nodes ns = Inr u \<longleftrightarrow> (\<forall>n \<in> set ns. violation (node_kind n) = None)"
proof -
  have "List.map_filter (\<lambda>n. violation (node_kind n)) ns = [] \<longleftrightarrow> (\<forall>n \<in> set ns. violation (node_kind n) = None)"
    by (induction ns) (auto split: option.splits)
  then show ?thesis by (auto simp: check_nodes_def split: list.splits)
qed

section \<open>The gate\<close>

record test_detail =
  td_name :: string
  td_passed :: bool
  td_error :: "string option"
  td_output :: "pyval option"

record sandbox_result =
  sr_passed :: bool
  sr_syntax_valid :: bool
  sr_security_passed :: bool
  sr_self_test_passed :: bool
  sr_unit_tests_passed :: bool
  sr_details :: "test_detail list"
  sr_error :: "string option"

text \<open>
  What runs the candidate: the parser, the names its module defines in order (a class with the two
  hooks gives an object when it is called, with metadata of the right type or without; other values
  are left out of account), the test code run on the object, and Python's text of a value.
\<close>

datatype 'p item = Other_Value | Plugin_Class "(plugin_metadata option \<times> 'p) result"

record 'p candidate_env =
  ce_parse :: "string \<Rightarrow> ast result"
  ce_exec :: "string \<Rightarrow> (string, 'p item) dict result"
  ce_harness :: "string \<Rightarrow> ('p plugin, unit) prog"
  ce_show :: "pyval \<Rightarrow> string"

definition passed_stage :: "string \<Rightarrow> test_detail" where
  "passed_stage n = \<lparr>td_name = n, td_passed = True, td_error = None, td_output = None\<rparr>"

definition failed_stage :: "string \<Rightarrow> string \<Rightarrow> test_detail" where
  "failed_stage n e = \<lparr>td_name = n, td_passed = False, td_error = Some e, td_output = None\<rparr>"

text \<open>\<open>SandboxTestResult(passed=False, ...)\<close> with its default flags.\<close>

definition refusal :: "test_detail list \<Rightarrow> string \<Rightarrow> sandbox_result" where
  "refusal ds e = \<lparr>sr_passed = False, sr_syntax_valid = True, sr_security_passed = True, sr_self_test_passed = True,
     sr_unit_tests_passed = True, sr_details = ds, sr_error = Some e\<rparr>"

definition ignored_names :: "string list" where
  "ignored_names = [''AetherPlugin'', ''PluginMetadata'', ''PluginType'', ''PluginStatus'', ''PluginContext'']"

fun candidate_class :: "(string, 'p item) dict \<Rightarrow> (plugin_metadata option \<times> 'p) result option" where
  "candidate_class [] = None"
| "candidate_class ((n, Plugin_Class c) # items) = (if n \<in> set ignored_names then candidate_class items else Some c)"
| "candidate_class ((n, Other_Value) # items) = candidate_class items"

definition instantiate :: "string \<Rightarrow> (plugin_metadata option \<times> 'p) result \<Rightarrow> 'p plugin result" where
  "instantiate source c =
     andThen c (\<lambda>(m, p).
     andThen (require m (TypeError (''Plugin instance must possess a valid '' @ quoted ''metadata: PluginMetadata'' @ '' attribute''))) (\<lambda>m.
     Inr \<lparr>pl_metadata = m\<lparr>pm_source_code := Some source\<rparr>, pl_self = p\<rparr>))"

text \<open>\<open>self_test_res.get("passed", True)\<close> of a dictionary; any other value passes.\<close>

definition self_test_ok :: "pyval \<Rightarrow> bool" where
  "self_test_ok v = (case v of PDict d \<Rightarrow> (case dict_get d ''passed'' of None \<Rightarrow> True | Some x \<Rightarrow> truthy x) | _ \<Rightarrow> True)"

definition self_test_error :: "'p candidate_env \<Rightarrow> pyval \<Rightarrow> string" where
  "self_test_error env v = (case v of PDict d \<Rightarrow> (case dict_get d ''error'' of None \<Rightarrow> ''unknown'' | Some e \<Rightarrow> ce_show env e) | _ \<Rightarrow> [])"

definition run_self_test :: "'p candidate_env \<Rightarrow> 'p plugin_ops \<Rightarrow> ('p plugin, pyval) prog" where
  "run_self_test env ops = bindP (op_self_test ops) (\<lambda>v.
     bindP (guardP (self_test_ok v) (SandboxEvaluationError (''Plugin self_test returned failed: '' @ self_test_error env v))) (\<lambda>_. ret v))"

definition run_harness :: "'p candidate_env \<Rightarrow> string \<Rightarrow> ('p plugin, unit) prog" where
  "run_harness env test = (if strip test = [] then ret () else ce_harness env test)"

definition static_name :: string where
  "static_name = ''AST Syntax & Static Analysis''"

definition stages :: "pyval option \<Rightarrow> nat \<Rightarrow> test_detail list" where
  "stages v n = take n [passed_stage static_name, passed_stage ''Compilation & Namespace Binding'', passed_stage ''Instantiation Check'',
     (passed_stage ''Plugin Self-Test'')\<lparr>td_output := v\<rparr>, passed_stage ''Harness Eval Test Suite'']"

definition acceptance :: "test_detail list \<Rightarrow> sandbox_result" where
  "acceptance ds = \<lparr>sr_passed = True, sr_syntax_valid = True, sr_security_passed = True, sr_self_test_passed = True,
     sr_unit_tests_passed = True, sr_details = ds, sr_error = None\<rparr>"

definition no_class :: string where
  "no_class = ''No class implementing AetherPlugin protocol found in code.''"

definition compile_and_instantiate ::
    "'p candidate_env \<Rightarrow> 'p plugin_ops \<Rightarrow> string \<Rightarrow> string \<Rightarrow> 'p plugin option \<times> sandbox_result" where
  "compile_and_instantiate env ops source test =
     (case static_analysis (ce_parse env) source of
        Inl e \<Rightarrow> (None, (refusal [failed_stage static_name (exn_message e)] (exn_message e))\<lparr>sr_syntax_valid := False\<rparr>)
      | Inr _ \<Rightarrow>
     (case ce_exec env source of
        Inl e \<Rightarrow> (None, refusal (stages None 1 @ [failed_stage ''Compilation'' (exn_message e)]) (''Compilation failure: '' @ exn_message e))
      | Inr items \<Rightarrow>
     (case candidate_class items of
        None \<Rightarrow> (None, refusal (stages None 2 @ [failed_stage ''Protocol Verification'' no_class]) no_class)
      | Some c \<Rightarrow>
     (case instantiate source c of
        Inl e \<Rightarrow> (None, refusal (stages None 2 @ [failed_stage ''Instantiation Check'' (exn_message e)])
          (''Instantiation error: '' @ exn_message e))
      | Inr p \<Rightarrow>
     (case run_self_test env ops p of
        (Inl e, _) \<Rightarrow> (None, (refusal (stages None 3 @ [failed_stage ''Plugin Self-Test'' (exn_message e)])
          (''Self-test failed: '' @ exn_message e))\<lparr>sr_self_test_passed := False\<rparr>)
      | (Inr v, p1) \<Rightarrow>
     (case run_harness env test p1 of
        (Inl e, _) \<Rightarrow> (None, (refusal (stages (Some v) 4 @ [failed_stage ''Harness Eval Test Suite'' (exn_text e)])
          (''Harness eval failed: '' @ exn_message e))\<lparr>sr_unit_tests_passed := False\<rparr>)
      | (Inr _, p2) \<Rightarrow> (Some p2, acceptance (stages (Some v) (if strip test = [] then 4 else 5)))))))))"

section \<open>What the gate lets through\<close>

text \<open>C37. The static check accepts a candidate exactly if its source parses and nowhere in its syntax tree,
  at any depth, there is an import, an import from another module than the contracts, or a call of a
  forbidden function by its plain name.\<close>

theorem static_analysis_exact:
  "static_analysis parse source = Inr u \<longleftrightarrow>
     (\<exists>t. parse source = Inr t \<and>
       node_kind ` set (nodes t) \<inter>
         ({AK_Import} \<union> AK_ImportFrom ` (- {Some ''aether.core.contracts''}) \<union> AK_Call ` Some ` set forbidden_names) = {})"
proof -
  have v: "violation k = None \<longleftrightarrow>
      k \<notin> {AK_Import} \<union> AK_ImportFrom ` (- {Some ''aether.core.contracts''}) \<union> AK_Call ` Some ` set forbidden_names" for k
    by (cases k rule: violation.cases) auto
  have free: "(\<forall>n \<in> A. node_kind n \<notin> F) \<longleftrightarrow> node_kind ` A \<inter> F = {}" for A F by auto
  have "static_analysis parse source = Inr u \<longleftrightarrow> (\<exists>t. parse source = Inr t \<and> check_nodes (walk t) = Inr u)"
    by (auto simp: static_analysis_def split: sum.splits exn.splits)
  also have "\<dots> \<longleftrightarrow> (\<exists>t. parse source = Inr t \<and> (\<forall>n \<in> set (nodes t). violation (node_kind n) = None))"
    by (simp add: check_nodes_eq_Inr set_walk)
  finally show ?thesis by (simp only: v free)
qed

text \<open>C17. A candidate leaves the gate only after every stage: its check, its instantiation from a class it
  defines, its own test and, where test code is given, that; and an accepted result is never without
  its plugin, a refused one never with it.\<close>

theorem gate_needs_every_stage:
  assumes "compile_and_instantiate env ops source test = (Some p, r)"
  shows "static_analysis (ce_parse env) source = Inr () \<and>
    (\<exists>items c p0 p1 v. ce_exec env source = Inr items \<and> candidate_class items = Some c \<and>
      instantiate source c = Inr p0 \<and> op_self_test ops p0 = (Inr v, p1) \<and> self_test_ok v \<and>
      (if strip test = [] then p = p1 else ce_harness env test p1 = (Inr (), p))) \<and>
    sr_passed r \<and> list_all td_passed (sr_details r)"
  using assms
  by (auto simp: compile_and_instantiate_def run_self_test_def run_harness_def bindP_eq_Inr guardP_eq_Inr
      acceptance_def stages_def passed_stage_def split: sum.splits prod.splits option.splits if_splits)

lemma gate_passed: "sr_passed (snd (compile_and_instantiate env ops source test)) \<longleftrightarrow>
    fst (compile_and_instantiate env ops source test) \<noteq> None"
  by (auto simp: compile_and_instantiate_def refusal_def acceptance_def split: sum.splits prod.splits option.splits)

text \<open>The flag for a passed security check is never cleared, also where the check refused the candidate.\<close>

lemma security_flag_set: "sr_security_passed (snd (compile_and_instantiate env ops source test))"
  by (auto simp: compile_and_instantiate_def refusal_def acceptance_def split: sum.splits prod.splits option.splits)

section \<open>A concrete candidate\<close>

text \<open>A tool whose class is \<open>Probe\<close> and whose state is a number; the source is \<open>ok\<close> for a plain module,
  \<open>load\<close> for one whose \<open>on_load\<close> raises.\<close>

definition demo_metadata :: "string \<Rightarrow> plugin_metadata" where
  "demo_metadata i = \<lparr>pm_id = i, pm_name = ''Probe'', pm_version = ''0.1.0'', pm_type = PT_TOOL, pm_description = ''a probe'',
     pm_author = PA_SYSTEM, pm_status = PS_ACTIVE, pm_dependencies = [], pm_tags = [], pm_source_code = None,
     pm_created_at = 0, pm_updated_at = 0\<rparr>"

definition demo_plugin_ops :: "nat plugin_ops" where
  "demo_plugin_ops = \<lparr>op_on_load = (\<lambda>_. bindP (gets pl_self) (\<lambda>n. guardP (n \<noteq> 13) (RuntimeError ''bad load''))),
     op_on_unload = modify (\<lambda>p. p\<lparr>pl_self := 0\<rparr>), op_self_test = ret (PDict [(''passed'', PBool True)])\<rparr>"

definition demo_candidate_env :: "nat candidate_env" where
  "demo_candidate_env = \<lparr>ce_parse = (\<lambda>s. Inr (Node AK_Other [Node (AK_ImportFrom (Some ''aether.core.contracts'')) [],
       Node (AK_ClassDef ''Probe'') [Node (AK_FunctionDef ''on_load'') [Node (AK_Call (if s = ''evil'' then Some ''eval'' else None)) []]]])),
     ce_exec = (\<lambda>s. Inr [(''PluginMetadata'', Other_Value),
       (''Probe'', Plugin_Class (Inr (Some (demo_metadata ''probe''), if s = ''load'' then 13 else 7)))]),
     ce_harness = (\<lambda>_. ret ()), ce_show = (\<lambda>_. [])\<rparr>"

theorem gate_needs_every_stage_witness:
  "static_analysis (ce_parse demo_candidate_env) ''ok'' = Inr () \<and>
   fst (compile_and_instantiate demo_candidate_env demo_plugin_ops ''evil'' []) = None \<and>
   (\<exists>p r. compile_and_instantiate demo_candidate_env demo_plugin_ops ''ok'' ''check'' = (Some p, r) \<and> list_all td_passed (sr_details r))"
proof -
  have "isl (static_analysis (ce_parse demo_candidate_env) ''evil'')" by code_simp
  then have e: "fst (compile_and_instantiate demo_candidate_env demo_plugin_ops ''evil'' []) = None"
    by (auto simp: compile_and_instantiate_def split: sum.splits)
  have "fst (compile_and_instantiate demo_candidate_env demo_plugin_ops ''ok'' ''check'') \<noteq> None" by code_simp
  then obtain p r where x: "compile_and_instantiate demo_candidate_env demo_plugin_ops ''ok'' ''check'' = (Some p, r)"
    by (cases "compile_and_instantiate demo_candidate_env demo_plugin_ops ''ok'' ''check''") auto
  from gate_needs_every_stage [OF x] x e show ?thesis by blast
qed

end
