(* ===== verification/Evolution.thy ===== *)
theory Evolution
  imports Plugins Modeling Adapters
begin

text \<open>
  The plugin registry (\<open>src/aether/core/registry.py\<close>) and the manager that lets the agent change
  its own plugins (\<open>src/aether/core/evolution.py\<close>). Plugins are objects that the registry, its
  snapshots and callers share, so they are kept by address; a snapshot holds a copy of the metadata
  and the address. Hooks act on their own plugin; listeners are the list of what they are told.
\<close>

section \<open>The registry\<close>

record snapshot =
  sn_id :: string
  sn_plugin_id :: string
  sn_metadata :: plugin_metadata
  sn_instance :: nat
  sn_created_at :: int

record evolution_request =
  eq_target_plugin_id :: string
  eq_plugin_name :: string
  eq_plugin_type :: plugin_type
  eq_description :: string
  eq_plugin_code :: string
  eq_test_code :: string
  eq_author :: plugin_author

record evolution_result =
  er_request_id :: string
  er_target_plugin_id :: string
  er_success :: bool
  er_status :: string
  er_message :: string
  er_test_results :: "sandbox_result option"
  er_snapshot_id :: "string option"
  er_metadata :: "plugin_metadata option"

text \<open>
  The registry with the manager's history, the files it wrote and the number of identifiers drawn
  so far.
\<close>

record 'p mesh =
  ms_workspace :: string
  ms_objects :: "'p plugin list"
  ms_plugins :: "(string, nat) dict"
  ms_snapshots :: "(string, snapshot list) dict"
  ms_notices :: "(string \<times> plugin_metadata) list"
  ms_history :: "evolution_result list"
  ms_files :: "(path, string) dict"
  ms_drawn :: nat

record 'p mesh_env =
  me_ops :: "'p plugin_ops"
  me_candidate :: "'p candidate_env"
  me_uuid :: "nat \<Rightarrow> string"
  me_now :: int
  me_writable :: "path \<Rightarrow> bool"
  me_unsafe :: bool

definition empty_mesh :: "string \<Rightarrow> 'p mesh" where
  "empty_mesh ws = \<lparr>ms_workspace = ws, ms_objects = [], ms_plugins = [], ms_snapshots = [], ms_notices = [],
     ms_history = [], ms_files = [], ms_drawn = 0\<rparr>"

definition object :: "nat \<Rightarrow> 'p mesh \<Rightarrow> 'p plugin" where
  "object a s = ms_objects s ! a"

definition metadata_at :: "nat \<Rightarrow> 'p mesh \<Rightarrow> plugin_metadata" where
  "metadata_at a s = pl_metadata (object a s)"

text \<open>A method of the object at an address; its other fields of the mesh stay.\<close>

definition invoke :: "nat \<Rightarrow> ('p plugin, 'a) prog \<Rightarrow> ('p mesh, 'a) prog" where
  "invoke a h s = (case h (object a s) of (r, p) \<Rightarrow> (r, s\<lparr>ms_objects := (ms_objects s)[a := p]\<rparr>))"

definition set_metadata :: "nat \<Rightarrow> (plugin_metadata \<Rightarrow> plugin_metadata) \<Rightarrow> ('p mesh, unit) prog" where
  "set_metadata a f = invoke a (modify (\<lambda>p. p\<lparr>pl_metadata := f (pl_metadata p)\<rparr>))"

definition allocate :: "'p plugin \<Rightarrow> ('p mesh, nat) prog" where
  "allocate p = bindP (gets (\<lambda>s. length (ms_objects s))) (\<lambda>a.
     bindP (modify (\<lambda>s. s\<lparr>ms_objects := ms_objects s @ [p]\<rparr>)) (\<lambda>_. ret a))"

definition draw :: "'p mesh_env \<Rightarrow> ('p mesh, string) prog" where
  "draw env = bindP (gets (\<lambda>s. me_uuid env (ms_drawn s))) (\<lambda>i.
     bindP (modify (\<lambda>s. s\<lparr>ms_drawn := ms_drawn s + 1\<rparr>)) (\<lambda>_. ret i))"

text \<open>\<open>_notify\<close>: what a listener raises is only logged.\<close>

definition notify :: "string \<Rightarrow> nat \<Rightarrow> ('p mesh, unit) prog" where
  "notify action a = modify (\<lambda>s. s\<lparr>ms_notices := ms_notices s @ [(action, metadata_at a s)]\<rparr>)"

definition load_hook :: "'p mesh_env \<Rightarrow> nat \<Rightarrow> ('p mesh, unit) prog" where
  "load_hook env a = bindP (gets ms_workspace) (\<lambda>ws. invoke a (op_on_load (me_ops env) ws))"

text \<open>\<open>on_unload\<close> inside \<open>try ... except Exception\<close> that logs.\<close>

definition unload_quietly :: "'p mesh_env \<Rightarrow> nat \<Rightarrow> ('p mesh, unit) prog" where
  "unload_quietly env a = handleP (invoke a (op_on_unload (me_ops env))) (\<lambda>_. ret ())"

definition put_plugin :: "string \<Rightarrow> nat \<Rightarrow> ('p mesh, unit) prog" where
  "put_plugin k a = modify (\<lambda>s. s\<lparr>ms_plugins := dict_set k a (ms_plugins s)\<rparr>)"

definition register_plugin :: "'p mesh_env \<Rightarrow> nat \<Rightarrow> bool \<Rightarrow> ('p mesh, plugin_metadata) prog" where
  "register_plugin env a auto_load =
     bindP (gets (\<lambda>s. (pm_id (metadata_at a s), dict_get (ms_plugins s) (pm_id (metadata_at a s))))) (\<lambda>(k, known).
     bindP (guardP (known = None) (RegistryError (''Plugin with id '' @ quoted k @ '' is already registered. Use hot_swap instead.''))) (\<lambda>_.
     bindP (put_plugin k a) (\<lambda>_.
     bindP (if auto_load then bindP (load_hook env a) (\<lambda>_. set_metadata a (pm_status_update (\<lambda>_. PS_ACTIVE))) else ret ()) (\<lambda>_.
     bindP (notify ''registered'' a) (\<lambda>_. gets (metadata_at a))))))"

definition find_plugin :: "string \<Rightarrow> ('p mesh, nat) prog" where
  "find_plugin k = reads (\<lambda>s. require (dict_get (ms_plugins s) k) (RegistryError (''Plugin '' @ quoted k @ '' not found.'')))"

definition unregister :: "'p mesh_env \<Rightarrow> string \<Rightarrow> ('p mesh, nat) prog" where
  "unregister env k =
     bindP (find_plugin k) (\<lambda>a.
     bindP (invoke a (op_on_unload (me_ops env))) (\<lambda>_.
     bindP (set_metadata a (pm_status_update (\<lambda>_. PS_STANDBY))) (\<lambda>_.
     bindP (modify (\<lambda>s. s\<lparr>ms_plugins := dict_del k (ms_plugins s)\<rparr>)) (\<lambda>_.
     bindP (notify ''unregistered'' a) (\<lambda>_. ret a)))))"

definition get_plugin :: "'p mesh \<Rightarrow> string \<Rightarrow> nat option" where
  "get_plugin s k = dict_get (ms_plugins s) k"

definition get_typed :: "('p plugin \<Rightarrow> bool) \<Rightarrow> 'p mesh \<Rightarrow> string \<Rightarrow> nat option" where
  "get_typed has_class s k = (case get_plugin s k of None \<Rightarrow> None | Some a \<Rightarrow> if has_class (object a s) then Some a else None)"

definition list_plugins :: "'p mesh \<Rightarrow> plugin_type option \<Rightarrow> plugin_metadata list" where
  "list_plugins s t = filter (\<lambda>m. t = None \<or> t = Some (pm_type m)) (map (\<lambda>(k, a). metadata_at a s) (ms_plugins s))"

definition get_by_type :: "'p mesh \<Rightarrow> plugin_type \<Rightarrow> nat list" where
  "get_by_type s t = filter (\<lambda>a. pm_type (metadata_at a s) = t) (map snd (ms_plugins s))"

definition create_snapshot :: "'p mesh_env \<Rightarrow> string \<Rightarrow> ('p mesh, string) prog" where
  "create_snapshot env k =
     bindP (reads (\<lambda>s. require (dict_get (ms_plugins s) k)
       (RegistryError (''Cannot snapshot non-existent plugin '' @ quoted k @ ''.'')))) (\<lambda>a.
     bindP (draw env) (\<lambda>i.
     bindP (modify (\<lambda>s. s\<lparr>ms_snapshots := dict_append k \<lparr>sn_id = i, sn_plugin_id = k, sn_metadata = metadata_at a s,
       sn_instance = a, sn_created_at = me_now env\<rparr> (ms_snapshots s)\<rparr>)) (\<lambda>_. ret i)))"

definition snapshots_of :: "'p mesh \<Rightarrow> string \<Rightarrow> snapshot list" where
  "snapshots_of s k = (case dict_get (ms_snapshots s) k of None \<Rightarrow> [] | Some h \<Rightarrow> h)"

text \<open>\<open>history.pop()\<close>, or the first snapshot with the identifier taken out.\<close>

definition pick_snapshot :: "string \<Rightarrow> snapshot list \<Rightarrow> string option \<Rightarrow> (snapshot \<times> snapshot list) result" where
  "pick_snapshot k h sid =
     (if h = [] then Inl (RegistryError (''No snapshot history available for plugin '' @ quoted k @ ''.''))
      else (case sid of
              None \<Rightarrow> Inr (last h, butlast h)
            | Some i \<Rightarrow>
                (case dropWhile (\<lambda>x. sn_id x \<noteq> i) h of
                   [] \<Rightarrow> Inl (RegistryError (''Snapshot '' @ quoted i @ '' not found for plugin '' @ quoted k @ ''.''))
                 | x # xs \<Rightarrow> Inr (x, takeWhile (\<lambda>x. sn_id x \<noteq> i) h @ xs))))"

text \<open>The rest of a rollback, with the snapshot \<open>x\<close> picked and the history \<open>h\<close> left.\<close>

definition restore :: "'p mesh_env \<Rightarrow> string \<Rightarrow> snapshot \<Rightarrow> snapshot list \<Rightarrow> ('p mesh, plugin_metadata) prog" where
  "restore env k x h =
     bindP (modify (\<lambda>s. s\<lparr>ms_snapshots := dict_set k h (ms_snapshots s)\<rparr>)) (\<lambda>_.
     bindP (gets (\<lambda>s. dict_get (ms_plugins s) k)) (\<lambda>current.
     bindP (case current of None \<Rightarrow> ret () | Some a \<Rightarrow> unload_quietly env a) (\<lambda>_.
     bindP (set_metadata (sn_instance x) (\<lambda>_. (sn_metadata x)\<lparr>pm_updated_at := me_now env\<rparr>)) (\<lambda>_.
     bindP (put_plugin k (sn_instance x)) (\<lambda>_.
     bindP (load_hook env (sn_instance x)) (\<lambda>_.
     bindP (notify ''rolled_back'' (sn_instance x)) (\<lambda>_. gets (metadata_at (sn_instance x)))))))))"

definition rollback :: "'p mesh_env \<Rightarrow> string \<Rightarrow> string option \<Rightarrow> ('p mesh, plugin_metadata) prog" where
  "rollback env k sid =
     bindP (reads (\<lambda>s. pick_snapshot k (snapshots_of s k) sid)) (\<lambda>(x, h). restore env k x h)"

text \<open>The part of \<open>hot_swap\<close> for a plugin there is already.\<close>

definition retire :: "'p mesh_env \<Rightarrow> string \<Rightarrow> ('p mesh, unit) prog" where
  "retire env k =
     bindP (gets (\<lambda>s. dict_get (ms_plugins s) k)) (\<lambda>current.
     case current of
       None \<Rightarrow> ret ()
     | Some a \<Rightarrow> bindP (create_snapshot env k) (\<lambda>_. unload_quietly env a))"

definition hot_swap :: "'p mesh_env \<Rightarrow> nat \<Rightarrow> ('p mesh, plugin_metadata) prog" where
  "hot_swap env a =
     bindP (gets (\<lambda>s. pm_id (metadata_at a s))) (\<lambda>k.
     bindP (retire env k) (\<lambda>_.
     bindP (put_plugin k a) (\<lambda>_.
     bindP (load_hook env a) (\<lambda>_.
     bindP (set_metadata a (\<lambda>m. m\<lparr>pm_status := PS_ACTIVE, pm_updated_at := me_now env\<rparr>)) (\<lambda>_.
     bindP (notify ''hot_swapped'' a) (\<lambda>_. gets (metadata_at a)))))))"

section \<open>The manager\<close>

definition file_result :: "evolution_result \<Rightarrow> ('p mesh, evolution_result) prog" where
  "file_result r = bindP (modify (\<lambda>s. s\<lparr>ms_history := ms_history s @ [r]\<rparr>)) (\<lambda>_. ret r)"

definition failure_result :: "string \<Rightarrow> string \<Rightarrow> string \<Rightarrow> string \<Rightarrow> evolution_result" where
  "failure_result i k status message = \<lparr>er_request_id = i, er_target_plugin_id = k, er_success = False, er_status = status,
     er_message = message, er_test_results = None, er_snapshot_id = None, er_metadata = None\<rparr>"

definition disabled_message :: string where
  "disabled_message = ''In-process plugin evolution is disabled. Use an isolated model validation worker or explicitly enable development-only execution.''"

text \<open>The path is \<open>Path(workspace) / ".aether" / "plugins" / "evolved" / f"{target}.py"\<close>, as it is joined.\<close>

definition evolved_file :: "string \<Rightarrow> string \<Rightarrow> path" where
  "evolved_file ws k = path_join (path_join [] ws @ [''.aether'', ''plugins'', ''evolved'']) (k @ ''.py'')"

definition persist :: "'p mesh_env \<Rightarrow> evolution_request \<Rightarrow> ('p mesh, unit) prog" where
  "persist env r =
     bindP (gets (\<lambda>s. evolved_file (ms_workspace s) (eq_target_plugin_id r))) (\<lambda>p.
     bindP (guardP (me_writable env p) (OSError ''cannot write'')) (\<lambda>_.
     modify (\<lambda>s. s\<lparr>ms_files := dict_set p (eq_plugin_code r) (ms_files s)\<rparr>)))"

definition adopt :: "evolution_request \<Rightarrow> plugin_metadata \<Rightarrow> plugin_metadata" where
  "adopt r m = m\<lparr>pm_author := eq_author r, pm_source_code := Some (eq_plugin_code r),
     pm_description := if eq_description r = [] then pm_description m else eq_description r\<rparr>"

definition swap_in ::
    "'p mesh_env \<Rightarrow> evolution_request \<Rightarrow> string \<Rightarrow> sandbox_result \<Rightarrow> string option \<Rightarrow> nat \<Rightarrow> ('p mesh, evolution_result) prog" where
  "swap_in env r i test sid a =
     bindP (hot_swap env a) (\<lambda>m.
     bindP (persist env r) (\<lambda>_.
     file_result \<lparr>er_request_id = i, er_target_plugin_id = eq_target_plugin_id r, er_success = True, er_status = ''hot_swapped'',
       er_message = ''Plugin '' @ quoted (eq_target_plugin_id r) @ '' successfully evolved and hot-reloaded into runtime.'',
       er_test_results = Some test, er_snapshot_id = sid, er_metadata = Some m\<rparr>))"

text \<open>The rollback of a failed swap; what it raises is only logged.\<close>

definition undo :: "'p mesh_env \<Rightarrow> string \<Rightarrow> string option \<Rightarrow> ('p mesh, unit) prog" where
  "undo env k sid = (case nonempty sid of None \<Rightarrow> ret ()
     | Some i \<Rightarrow> handleP (bindP (rollback env k (Some i)) (\<lambda>_. ret ())) (\<lambda>_. ret ()))"

definition snapshot_target :: "'p mesh_env \<Rightarrow> string \<Rightarrow> ('p mesh, string option) prog" where
  "snapshot_target env k =
     bindP (gets (\<lambda>s. get_plugin s k)) (\<lambda>current.
     case current of None \<Rightarrow> ret None | Some _ \<Rightarrow> bindP (create_snapshot env k) (\<lambda>i. ret (Some i)))"

definition evolve_plugin :: "'p mesh_env \<Rightarrow> evolution_request \<Rightarrow> ('p mesh, evolution_result) prog" where
  "evolve_plugin env r =
     bindP (draw env) (\<lambda>i.
     if \<not> me_unsafe env then file_result (failure_result i (eq_target_plugin_id r) ''disabled'' disabled_message)
     else case compile_and_instantiate (me_candidate env) (me_ops env) (eq_plugin_code r) (eq_test_code r) of
       (None, test) \<Rightarrow> file_result ((failure_result i (eq_target_plugin_id r) ''conformance_failed''
          (case nonempty (sr_error test) of None \<Rightarrow> ''Validation harness failed'' | Some m \<Rightarrow> m))\<lparr>er_test_results := Some test\<rparr>)
     | (Some p, test) \<Rightarrow>
         bindP (allocate (p\<lparr>pl_metadata := adopt r (pl_metadata p)\<rparr>)) (\<lambda>a.
         bindP (snapshot_target env (eq_target_plugin_id r)) (\<lambda>sid.
         handleP (swap_in env r i test sid a) (\<lambda>e.
           bindP (undo env (eq_target_plugin_id r) sid) (\<lambda>_.
           file_result ((failure_result i (eq_target_plugin_id r) ''rolled_back''
             (''Hot-swap failed: '' @ exn_message e @ ''. Reverted to snapshot.''))
             \<lparr>er_test_results := Some test, er_snapshot_id := sid\<rparr>))))))"

definition rollback_plugin :: "'p mesh_env \<Rightarrow> string \<Rightarrow> string option \<Rightarrow> ('p mesh, evolution_result) prog" where
  "rollback_plugin env k sid =
     bindP (draw env) (\<lambda>i.
     handleP
       (bindP (rollback env k sid) (\<lambda>m.
        file_result \<lparr>er_request_id = i, er_target_plugin_id = k, er_success = True, er_status = ''rolled_back'',
          er_message = ''Successfully rolled back plugin '' @ quoted k @ '' to previous snapshot.'', er_test_results = None,
          er_snapshot_id = sid, er_metadata = Some m\<rparr>))
       (\<lambda>e. file_result (failure_result i k ''failed'' (''Rollback failed: '' @ exn_message e))))"

section \<open>Every plugin under its own identifier\<close>

definition ids :: "'p mesh \<Rightarrow> string list" where
  "ids s = map (\<lambda>p. pm_id (pl_metadata p)) (ms_objects s)"

definition holds :: "string list \<Rightarrow> string \<Rightarrow> nat \<Rightarrow> bool" where
  "holds xs k a \<longleftrightarrow> a < length xs \<and> xs ! a = k"

definition snapshot_ok :: "string list \<Rightarrow> string \<Rightarrow> snapshot \<Rightarrow> bool" where
  "snapshot_ok xs k x \<longleftrightarrow> holds xs k (sn_instance x) \<and> pm_id (sn_metadata x) = k"

definition mesh_ok :: "'p mesh \<Rightarrow> bool" where
  "mesh_ok s \<longleftrightarrow> (\<forall>k a. dict_get (ms_plugins s) k = Some a \<longrightarrow> holds (ids s) k a) \<and>
     (\<forall>k. \<forall>x \<in> set (snapshots_of s k). snapshot_ok (ids s) k x)"

text \<open>The invariant, with the objects' identifiers staying what they are.\<close>

definition mesh_with :: "string list \<Rightarrow> 'p mesh \<Rightarrow> bool" where
  "mesh_with xs s \<longleftrightarrow> mesh_ok s \<and> ids s = xs"

lemma mesh_ok_cong:
  "ids t = ids s \<Longrightarrow> ms_plugins t = ms_plugins s \<Longrightarrow> ms_snapshots t = ms_snapshots s \<Longrightarrow> mesh_ok t = mesh_ok s"
  by (simp add: mesh_ok_def snapshots_of_def)

lemma keeps_with_frame:
  "(\<And>s. ids (snd (m s)) = ids s \<and> ms_plugins (snd (m s)) = ms_plugins s \<and> ms_snapshots (snd (m s)) = ms_snapshots s) \<Longrightarrow>
   keeps (mesh_with xs) m"
  unfolding keeps_def mesh_with_def by (metis mesh_ok_cong)

lemma ids_invoke: "keeps_id h \<Longrightarrow> ids (snd (invoke a h s)) = ids s"
proof -
  assume h: "keeps_id h"
  have "pm_id (pl_metadata (snd (h (ms_objects s ! a)))) = ids s ! a" if "a < length (ms_objects s)"
    using h that by (simp add: keeps_id_def ids_def)
  then show ?thesis
    by (cases "a < length (ms_objects s)")
      (auto simp: invoke_def object_def ids_def map_update list_update_same_conv list_update_beyond split: prod.split)
qed

lemma keeps_invoke [keeps_intros]: "keeps_id h \<Longrightarrow> keeps (mesh_with xs) (invoke a h)"
  by (rule keeps_with_frame) (simp add: ids_invoke, simp add: invoke_def split: prod.split)

lemma keeps_set_metadata [keeps_intros]: "(\<And>m. pm_id (f m) = pm_id m) \<Longrightarrow> keeps (mesh_with xs) (set_metadata a f)"
  unfolding set_metadata_def by (intro keeps_intros) (simp add: keeps_id_def)

lemma keeps_load_hook [keeps_intros]: "hooks_keep_id (me_ops env) \<Longrightarrow> keeps (mesh_with xs) (load_hook env a)"
  unfolding load_hook_def by (intro keeps_intros) (simp add: hooks_keep_id_def)

lemma keeps_unload [keeps_intros]: "hooks_keep_id (me_ops env) \<Longrightarrow> keeps (mesh_with xs) (invoke a (op_on_unload (me_ops env)))"
  by (intro keeps_intros) (simp add: hooks_keep_id_def)

lemma keeps_unload_quietly [keeps_intros]: "hooks_keep_id (me_ops env) \<Longrightarrow> keeps (mesh_with xs) (unload_quietly env a)"
  unfolding unload_quietly_def by (intro keeps_intros)

lemma keeps_notify [keeps_intros]: "keeps (mesh_with xs) (notify action a)"
  by (rule keeps_with_frame) (simp add: notify_def ids_def)

lemma keeps_draw [keeps_intros]: "keeps (mesh_with xs) (draw env)"
  by (rule keeps_with_frame) (simp add: draw_def ids_def)

lemma keeps_file_result [keeps_intros]: "keeps (mesh_with xs) (file_result r)"
  by (rule keeps_with_frame) (simp add: file_result_def ids_def)

lemma keeps_persist [keeps_intros]: "keeps (mesh_with xs) (persist env r)"
  by (rule keeps_with_frame) (simp add: persist_def ids_def)

lemma keeps_put_plugin [keeps_intros]: "holds xs k a \<Longrightarrow> keeps (mesh_with xs) (put_plugin k a)"
  by (auto simp: keeps_def put_plugin_def mesh_with_def mesh_ok_def ids_def snapshots_of_def)

lemma snapshots_of_append: "snapshots_of (s\<lparr>ms_snapshots := dict_append k x (ms_snapshots s)\<rparr>) j =
    (if j = k then snapshots_of s k @ [x] else snapshots_of s j)"
  by (simp add: snapshots_of_def dict_get_append split: option.split)

lemma add_snapshot:
  assumes "mesh_with xs s" and "snapshot_ok xs k x"
  shows "mesh_with xs (s\<lparr>ms_snapshots := dict_append k x (ms_snapshots s)\<rparr>)"
proof -
  have "ids (s\<lparr>ms_snapshots := dict_append k x (ms_snapshots s)\<rparr>) = ids s" by (simp add: ids_def)
  with assms show ?thesis by (auto simp: mesh_with_def mesh_ok_def snapshots_of_append)
qed

lemma metadata_id: "holds (ids s) k a \<Longrightarrow> pm_id (metadata_at a s) = k"
  by (auto simp: holds_def ids_def metadata_at_def object_def)

lemma keeps_create_snapshot [keeps_intros]: "keeps (mesh_with xs) (create_snapshot env k)"
proof (rule keepsI)
  fix s :: "'a mesh"
  assume s: "mesh_with xs s"
  show "mesh_with xs (snd (create_snapshot env k s))"
  proof (cases "dict_get (ms_plugins s) k")
    case None
    with s show ?thesis by (simp add: create_snapshot_def bindP_reads)
  next
    case (Some a)
    with s have a: "holds (ids s) k a" by (auto simp: mesh_with_def mesh_ok_def)
    let ?u = "s\<lparr>ms_drawn := ms_drawn s + 1\<rparr>"
    let ?x = "\<lparr>sn_id = me_uuid env (ms_drawn s), sn_plugin_id = k, sn_metadata = metadata_at a ?u, sn_instance = a,
      sn_created_at = me_now env\<rparr>"
    have "snd (create_snapshot env k s) = ?u\<lparr>ms_snapshots := dict_append k ?x (ms_snapshots ?u)\<rparr>"
      using Some by (simp add: create_snapshot_def bindP_reads draw_def bindP_def)
    moreover have "snapshot_ok (ids s) k ?x"
      using a metadata_id [OF a] by (simp add: snapshot_ok_def metadata_at_def object_def)
    moreover from s have "mesh_with xs ?u" by (auto simp: mesh_with_def mesh_ok_def ids_def snapshots_of_def)
    ultimately show ?thesis using add_snapshot [of xs ?u k ?x] s by (auto simp: mesh_with_def)
  qed
qed

lemma pick_snapshot_ok:
  assumes "pick_snapshot k h sid = Inr (x, h')" and "\<forall>y \<in> set h. P y"
  shows "P x \<and> (\<forall>y \<in> set h'. P y)"
  using assms
  by (auto simp: pick_snapshot_def in_set_butlastD split: if_splits option.splits list.splits dest: set_takeWhileD)
    (metis dropWhile_eq_Cons_conv in_set_conv_decomp append_Cons UnCI set_append takeWhile_dropWhile_id list.set_intros)+

text \<open>The operations keep the invariant.\<close>

lemma yields_pick: "yields (mesh_with xs) (reads (\<lambda>s. pick_snapshot k (snapshots_of s k) sid))
    (\<lambda>(x, h). snapshot_ok xs k x \<and> (\<forall>y \<in> set h. snapshot_ok xs k y))"
  using pick_snapshot_ok [where P = "snapshot_ok xs k"]
  by (fastforce simp: yields_def mesh_with_def mesh_ok_def)

lemma snapshots_of_set: "snapshots_of (s\<lparr>ms_snapshots := dict_set k h (ms_snapshots s)\<rparr>) j = (if j = k then h else snapshots_of s j)"
  by (simp add: snapshots_of_def)

lemma keeps_set_history: "\<forall>y \<in> set h. snapshot_ok xs k y \<Longrightarrow>
    keeps (mesh_with xs) (modify (\<lambda>s. s\<lparr>ms_snapshots := dict_set k h (ms_snapshots s)\<rparr>))"
proof (rule keeps_modify)
  fix s :: "'a mesh"
  assume h: "\<forall>y \<in> set h. snapshot_ok xs k y" and s: "mesh_with xs s"
  have "ids (s\<lparr>ms_snapshots := dict_set k h (ms_snapshots s)\<rparr>) = ids s" by (simp add: ids_def)
  with h s show "mesh_with xs (s\<lparr>ms_snapshots := dict_set k h (ms_snapshots s)\<rparr>)"
    by (auto simp: mesh_with_def mesh_ok_def snapshots_of_set)
qed

lemma keeps_restore_metadata:
  assumes x: "snapshot_ok xs k x"
  shows "keeps (mesh_with xs) (set_metadata (sn_instance x) (\<lambda>_. (sn_metadata x)\<lparr>pm_updated_at := n\<rparr>))"
proof (rule keepsI)
  fix s :: "'a mesh"
  assume s: "mesh_with xs s"
  let ?m = "(sn_metadata x)\<lparr>pm_updated_at := n\<rparr>"
  have "ids (snd (set_metadata (sn_instance x) (\<lambda>_. ?m) s)) = ids s"
    using x s by (auto simp: set_metadata_def invoke_def ids_def map_update object_def snapshot_ok_def holds_def
        mesh_with_def list_update_same_conv)
  with s show "mesh_with xs (snd (set_metadata (sn_instance x) (\<lambda>_. ?m) s))"
    using mesh_ok_cong [of "snd (set_metadata (sn_instance x) (\<lambda>_. ?m) s)" s]
    by (simp add: mesh_with_def set_metadata_def invoke_def)
qed

lemma keeps_rollback [keeps_intros]:
  assumes ops: "hooks_keep_id (me_ops env)"
  shows "keeps (mesh_with xs) (rollback env k sid)"
proof -
  have "keeps (mesh_with xs) (restore env k x h)" if "snapshot_ok xs k x \<and> (\<forall>y \<in> set h. snapshot_ok xs k y)" for x h
    unfolding restore_def using that
    by (intro keeps_intros keeps_set_history keeps_restore_metadata ops) (auto simp: snapshot_ok_def)
  then show ?thesis
    unfolding rollback_def by (intro keeps_bind_yields [OF keeps_pure(5) yields_pick]) auto
qed

lemma keeps_retire [keeps_intros]: "hooks_keep_id (me_ops env) \<Longrightarrow> keeps (mesh_with xs) (retire env k)"
  unfolding retire_def by (intro keeps_intros)

lemma keeps_hot_swap [keeps_intros]:
  assumes ops: "hooks_keep_id (me_ops env)" and a: "a < length xs"
  shows "keeps (mesh_with xs) (hot_swap env a)"
proof -
  have y: "yields (mesh_with xs) (gets (\<lambda>s. pm_id (metadata_at a s))) (\<lambda>k. holds xs k a)"
    using a by (auto simp: yields_def mesh_with_def ids_def holds_def metadata_at_def object_def)
  show ?thesis
    unfolding hot_swap_def
    by (rule keeps_bind_yields [OF keeps_pure(4) y]) (intro keeps_intros ops, simp_all)
qed

lemma keeps_register [keeps_intros]:
  assumes ops: "hooks_keep_id (me_ops env)" and a: "a < length xs"
  shows "keeps (mesh_with xs) (register_plugin env a auto_load)"
proof -
  have y: "yields (mesh_with xs) (gets (\<lambda>s. (pm_id (metadata_at a s), dict_get (ms_plugins s) (pm_id (metadata_at a s)))))
      (\<lambda>(k, _). holds xs k a)"
    using a by (auto simp: yields_def mesh_with_def ids_def holds_def metadata_at_def object_def)
  show ?thesis
    unfolding register_plugin_def
    by (rule keeps_bind_yields [OF keeps_pure(4) y], clarify) (intro keeps_intros ops, simp_all)
qed

lemma keeps_unregister [keeps_intros]:
  assumes "hooks_keep_id (me_ops env)"
  shows "keeps (mesh_with xs) (unregister env k)"
  unfolding unregister_def find_plugin_def using assms
  by (intro keeps_intros) (auto simp: hooks_keep_id_def mesh_with_def mesh_ok_def ids_def snapshots_of_def)

lemma keeps_mesh_ok: "(\<And>xs. keeps (mesh_with xs) m) \<Longrightarrow> keeps mesh_ok m"
  unfolding keeps_def mesh_with_def by blast

lemma holds_append: "holds xs k a \<Longrightarrow> holds (xs @ ys) k a"
  by (simp add: holds_def nth_append)

lemma allocate_ok:
  assumes "mesh_with xs s"
  shows "mesh_with (xs @ [pm_id (pl_metadata p)]) (snd (allocate p s))"
proof -
  have "ids (snd (allocate p s)) = ids s @ [pm_id (pl_metadata p)]"
    "ms_plugins (snd (allocate p s)) = ms_plugins s" "snapshots_of (snd (allocate p s)) = snapshots_of s"
    by (simp_all add: allocate_def ids_def snapshots_of_def fun_eq_iff)
  with assms show ?thesis by (auto simp: mesh_with_def mesh_ok_def snapshot_ok_def holds_append)
qed

lemma keeps_snapshot_target [keeps_intros]: "keeps (mesh_with xs) (snapshot_target env k)"
  unfolding snapshot_target_def by (intro keeps_intros)

lemma keeps_undo [keeps_intros]: "hooks_keep_id (me_ops env) \<Longrightarrow> keeps (mesh_with xs) (undo env k sid)"
  unfolding undo_def by (intro keeps_intros)

lemma keeps_swap_in [keeps_intros]:
  "hooks_keep_id (me_ops env) \<Longrightarrow> a < length xs \<Longrightarrow> keeps (mesh_with xs) (swap_in env r i test sid a)"
  unfolding swap_in_def by (intro keeps_intros)

lemma keeps_evolve:
  assumes ops: "hooks_keep_id (me_ops env)"
  shows "keeps mesh_ok (evolve_plugin env r)"
proof -
  have with_candidate: "keeps mesh_ok (bindP (allocate p) (\<lambda>a. bindP (snapshot_target env k) (\<lambda>sid.
      handleP (swap_in env r i test sid a) (\<lambda>e. bindP (undo env k sid) (\<lambda>_. file_result (g e sid))))))" for p k i test g
  proof (rule keepsI)
    fix s :: "'a mesh"
    assume "mesh_ok s"
    then have s: "mesh_with (ids s) s" by (simp add: mesh_with_def)
    let ?rest = "\<lambda>a. bindP (snapshot_target env k) (\<lambda>sid.
      handleP (swap_in env r i test sid a) (\<lambda>e. bindP (undo env k sid) (\<lambda>_. file_result (g e sid))))"
    obtain t where t: "allocate p s = (Inr (length (ids s)), t)"
      by (simp add: allocate_def ids_def)
    have "keeps (mesh_with (ids s @ [pm_id (pl_metadata p)])) (?rest (length (ids s)))"
      by (intro keeps_intros ops) simp_all
    moreover from allocate_ok [OF s, of p] t have "mesh_with (ids s @ [pm_id (pl_metadata p)]) t" by simp
    ultimately have "mesh_ok (snd (?rest (length (ids s)) t))"
      unfolding keeps_def mesh_with_def by blast
    with t show "mesh_ok (snd (bindP (allocate p) ?rest s))" by (simp add: bindP_def)
  qed
  show ?thesis
    unfolding evolve_plugin_def
    by (intro keeps_bind keeps_if keeps_mesh_ok [OF keeps_draw] keeps_mesh_ok [OF keeps_file_result])
      (auto intro: with_candidate keeps_mesh_ok [OF keeps_file_result] split: option.split prod.split)
qed

lemma keeps_rollback_plugin: "hooks_keep_id (me_ops env) \<Longrightarrow> keeps (mesh_with xs) (rollback_plugin env k sid)"
  unfolding rollback_plugin_def by (intro keeps_intros)

section \<open>Sequences of operations\<close>

text \<open>What callers of the registry and of the manager can do; addresses are those of allocated objects.\<close>

datatype 'p mesh_op =
    MO_New "'p plugin"
  | MO_Register nat bool
  | MO_Unregister string
  | MO_Snapshot string
  | MO_Rollback string "string option"
  | MO_Swap nat
  | MO_Evolve evolution_request
  | MO_Manager_Rollback string "string option"

fun mesh_step :: "'p mesh_env \<Rightarrow> 'p mesh_op \<Rightarrow> 'p mesh \<Rightarrow> 'p mesh" where
  "mesh_step env (MO_New p) s = snd (allocate p s)"
| "mesh_step env (MO_Register a l) s = (if a < length (ms_objects s) then snd (register_plugin env a l s) else s)"
| "mesh_step env (MO_Unregister k) s = snd (unregister env k s)"
| "mesh_step env (MO_Snapshot k) s = snd (create_snapshot env k s)"
| "mesh_step env (MO_Rollback k sid) s = snd (rollback env k sid s)"
| "mesh_step env (MO_Swap a) s = (if a < length (ms_objects s) then snd (hot_swap env a s) else s)"
| "mesh_step env (MO_Evolve r) s = snd (evolve_plugin env r s)"
| "mesh_step env (MO_Manager_Rollback k sid) s = snd (rollback_plugin env k sid s)"

definition mesh_run :: "'p mesh_env \<Rightarrow> 'p mesh_op list \<Rightarrow> 'p mesh \<Rightarrow> 'p mesh" where
  "mesh_run env ops s = fold (mesh_step env) ops s"

lemma mesh_step_ok:
  assumes ops: "hooks_keep_id (me_ops env)" and s: "mesh_ok s"
  shows "mesh_ok (mesh_step env x s)"
proof -
  have k: "mesh_ok (snd (m s))" if "keeps (mesh_with (ids s)) m" for m :: "('a mesh, 'b) prog"
    using that s unfolding keeps_def mesh_with_def by blast
  have l: "a < length (ids s)" if "a < length (ms_objects s)" for a
    using that by (simp add: ids_def)
  show ?thesis
  proof (cases x)
    case (MO_New p)
    with allocate_ok [of "ids s" s p] s show ?thesis by (simp add: mesh_with_def)
  next
    case (MO_Evolve r)
    with keepsD [OF keeps_evolve [OF ops] s] show ?thesis by simp
  qed (simp_all add: s k keeps_register [OF ops l] keeps_unregister [OF ops] keeps_create_snapshot keeps_rollback [OF ops]
      keeps_hot_swap [OF ops l] keeps_rollback_plugin [OF ops])
qed

lemma mesh_run_ok: "hooks_keep_id (me_ops env) \<Longrightarrow> mesh_ok s \<Longrightarrow> mesh_ok (mesh_run env xs s)"
  by (induction xs arbitrary: s) (simp_all add: mesh_run_def mesh_step_ok)

lemma mesh_ok_empty [simp]: "mesh_ok (empty_mesh ws)"
  by (simp add: mesh_ok_def empty_mesh_def snapshots_of_def)


section \<open>What an evolution does to the table\<close>

definition entry_is :: "string \<Rightarrow> nat option \<Rightarrow> 'p mesh \<Rightarrow> bool" where
  "entry_is k v s \<longleftrightarrow> dict_get (ms_plugins s) k = v"

text \<open>The history of a plugin starts with what it was.\<close>

definition history_from :: "string \<Rightarrow> snapshot list \<Rightarrow> 'p mesh \<Rightarrow> bool" where
  "history_from k h s \<longleftrightarrow> prefix h (snapshots_of s k)"

lemma invoke_frame [simp]:
  "ms_plugins (snd (invoke a h s)) = ms_plugins s" "ms_snapshots (snd (invoke a h s)) = ms_snapshots s"
  by (simp_all add: invoke_def split: prod.split)

lemma entry_frame:
  "(\<And>s. ms_plugins (snd (m s)) = ms_plugins s) \<Longrightarrow> keeps (entry_is k v) m"
  by (simp add: keeps_def entry_is_def)

lemma history_frame:
  "(\<And>s. ms_snapshots (snd (m s)) = ms_snapshots s) \<Longrightarrow> keeps (history_from k h) m"
  by (simp add: keeps_def history_from_def snapshots_of_def)

lemma entry_basic [keeps_intros]:
  "keeps (entry_is k v) (invoke a f)" "keeps (entry_is k v) (draw env)" "keeps (entry_is k v) (allocate p)"
  "keeps (entry_is k v) (notify action a)" "keeps (entry_is k v) (file_result r)" "keeps (entry_is k v) (persist env q)"
  by (rule entry_frame, simp add: draw_def allocate_def notify_def file_result_def persist_def)+

lemma history_basic [keeps_intros]:
  "keeps (history_from k h) (invoke a f)" "keeps (history_from k h) (draw env)" "keeps (history_from k h) (put_plugin j a)"
  "keeps (history_from k h) (notify action a)" "keeps (history_from k h) (file_result r)" "keeps (history_from k h) (persist env q)"
  by (rule history_frame, simp add: draw_def put_plugin_def notify_def file_result_def persist_def)+

lemma entry_put [keeps_intros]: "j \<noteq> k \<Longrightarrow> keeps (entry_is k v) (put_plugin j a)"
  by (simp add: keeps_def entry_is_def put_plugin_def)

lemma entry_composed [keeps_intros]:
  "keeps (entry_is k v) (set_metadata a f)" "keeps (entry_is k v) (load_hook env a)" "keeps (entry_is k v) (unload_quietly env a)"
  unfolding set_metadata_def load_hook_def unload_quietly_def by (intro keeps_intros)+

lemma history_composed [keeps_intros]:
  "keeps (history_from k h) (set_metadata a f)" "keeps (history_from k h) (load_hook env a)" "keeps (history_from k h) (unload_quietly env a)"
  unfolding set_metadata_def load_hook_def unload_quietly_def by (intro keeps_intros)+

lemma entry_create_snapshot [keeps_intros]: "keeps (entry_is k v) (create_snapshot env j)"
  unfolding create_snapshot_def by (intro keeps_intros) (simp add: entry_is_def)

lemma history_create_snapshot [keeps_intros]: "keeps (history_from k h) (create_snapshot env j)"
  unfolding create_snapshot_def
  by (intro keeps_intros) (auto simp: history_from_def snapshots_of_append intro: prefix_prefix)

lemma entry_retire [keeps_intros]: "keeps (entry_is k v) (retire env j)" "keeps (history_from k h) (retire env j)"
  unfolding retire_def by (intro keeps_intros)+

lemma entry_restore [keeps_intros]: "j \<noteq> k \<Longrightarrow> keeps (entry_is k v) (restore env j x h)"
  unfolding restore_def by (intro keeps_intros) (simp_all add: entry_is_def)

lemma entry_undo [keeps_intros]: "j \<noteq> k \<Longrightarrow> keeps (entry_is k v) (undo env j sid)"
  unfolding undo_def rollback_def by (intro keeps_intros)

text \<open>A swap changes the entry of the new plugin's identifier.\<close>

lemma hot_swap_keeps:
  assumes "\<And>k. keeps I (retire env k)" "k = pm_id (metadata_at a s)" "keeps I (put_plugin k a)" "keeps I (load_hook env a)"
    "\<And>f. keeps I (set_metadata a f)" "\<And>x. keeps I (notify x a)" "I s"
  shows "I (snd (hot_swap env a s))"
proof -
  have "keeps I (bindP (retire env k) (\<lambda>_. bindP (put_plugin k a) (\<lambda>_. bindP (load_hook env a) (\<lambda>_.
     bindP (set_metadata a (\<lambda>m. m\<lparr>pm_status := PS_ACTIVE, pm_updated_at := me_now env\<rparr>)) (\<lambda>_.
     bindP (notify ''hot_swapped'' a) (\<lambda>_. gets (metadata_at a)))))))"
    using assms by (intro keeps_bind keeps_pure)
  from keepsD [OF this assms(7)] assms(2) show ?thesis by (simp add: hot_swap_def)
qed

lemma after_keeps: "I (snd (m s)) \<Longrightarrow> (\<And>x. keeps I (f x)) \<Longrightarrow> I (snd (bindP m f s))"
  unfolding keeps_def bindP_def by (auto split: prod.splits sum.splits)

lemma swap_in_entry:
  assumes "entry_is j v s" and "pm_id (metadata_at a s) \<noteq> j"
  shows "entry_is j v (snd (swap_in env r i test sid a s))"
  unfolding swap_in_def
  by (rule after_keeps, rule hot_swap_keeps [OF _ refl]; ((intro keeps_intros)?; (simp add: assms)?))

lemma swap_in_history:
  assumes "history_from k h s"
  shows "history_from k h (snd (swap_in env r i test sid a s))"
  unfolding swap_in_def
  by (rule after_keeps, rule hot_swap_keeps [OF _ refl]; ((intro keeps_intros)?; (simp add: assms)?))

text \<open>A rollback registers the snapshot's plugin, also where its \<open>on_load\<close> then raises.\<close>

lemma restore_entry: "entry_is k (Some (sn_instance x)) (snd (restore env k x h s))"
proof -
  have tail: "keeps (entry_is k (Some (sn_instance x))) (bindP (load_hook env (sn_instance x)) (\<lambda>_.
     bindP (notify ''rolled_back'' (sn_instance x)) (\<lambda>_. gets (metadata_at (sn_instance x)))))"
    by (intro keeps_intros)
  have put: "entry_is k (Some (sn_instance x)) (snd (bindP (put_plugin k (sn_instance x)) (\<lambda>_. bindP (load_hook env (sn_instance x)) (\<lambda>_.
     bindP (notify ''rolled_back'' (sn_instance x)) (\<lambda>_. gets (metadata_at (sn_instance x))))) u))" for u
    using keepsD [OF tail] by (simp add: put_plugin_def entry_is_def)
  have quiet: "\<exists>u. unload_quietly env a t = (Inr (), u)" for a t
    by (auto simp: unload_quietly_def handleP_def split: prod.splits sum.splits)
  have meta: "\<exists>u. set_metadata a f t = (Inr (), u)" for a f t
    by (simp add: set_metadata_def invoke_def)
  let ?u = "s\<lparr>ms_snapshots := dict_set k h (ms_snapshots s)\<rparr>"
  obtain u where u: "(case dict_get (ms_plugins ?u) k of None \<Rightarrow> ret () | Some a \<Rightarrow> unload_quietly env a) ?u = (Inr (), u)"
    using quiet by (cases "dict_get (ms_plugins ?u) k") auto
  obtain w where w: "set_metadata (sn_instance x) (\<lambda>_. (sn_metadata x)\<lparr>pm_updated_at := me_now env\<rparr>) u = (Inr (), w)"
    using meta by blast
  show ?thesis
    using put [of w] w u by (simp add: restore_def bindP_def)
qed

lemma pick_first:
  assumes "sn_id x \<notin> sn_id ` set h"
  shows "pick_snapshot k (h @ x # xs) (Some (sn_id x)) = Inr (x, h @ xs)"
proof -
  have "\<And>y. y \<in> set h \<Longrightarrow> sn_id y \<noteq> sn_id x" using assms by (metis imageI)
  then show ?thesis by (simp add: pick_snapshot_def dropWhile_append2 takeWhile_append2)
qed

lemma undo_entry:
  assumes "history_from k (h @ [x]) s" and "sn_id x \<notin> sn_id ` set h" and "sn_id x \<noteq> []"
  shows "entry_is k (Some (sn_instance x)) (snd (undo env k (Some (sn_id x)) s))"
proof -
  from assms(1) obtain xs where "snapshots_of s k = h @ x # xs" by (auto simp: history_from_def prefix_def)
  with pick_first [OF assms(2)] have "rollback env k (Some (sn_id x)) s = restore env k x (h @ xs) s"
    by (simp add: rollback_def bindP_reads)
  moreover have "nonempty (Some (sn_id x)) = Some (sn_id x)"
    using assms(3) by (simp add: nonempty_def given_def)
  ultimately have "snd (undo env k (Some (sn_id x)) s) = snd (restore env k x (h @ xs) s)"
    by (auto simp: undo_def handleP_def bindP_def split: prod.splits sum.splits)
  with restore_entry [of k x env "h @ xs" s] show ?thesis by simp
qed

text \<open>The snapshot taken before a swap is the newest of the plugin.\<close>

lemma snapshot_target_known:
  assumes "get_plugin s k = Some a"
  obtains x t where "snapshot_target env k s = (Inr (Some (sn_id x)), t)" "sn_id x = me_uuid env (ms_drawn s)"
    "sn_instance x = a" "snapshots_of t k = snapshots_of s k @ [x]" "ms_plugins t = ms_plugins s" "ms_objects t = ms_objects s"
proof -
  let ?u = "s\<lparr>ms_drawn := ms_drawn s + 1\<rparr>"
  let ?x = "\<lparr>sn_id = me_uuid env (ms_drawn s), sn_plugin_id = k, sn_metadata = metadata_at a ?u, sn_instance = a,
      sn_created_at = me_now env\<rparr>"
  let ?t = "?u\<lparr>ms_snapshots := dict_append k ?x (ms_snapshots ?u)\<rparr>"
  have "snapshot_target env k s = (Inr (Some (sn_id ?x)), ?t)"
    using assms by (simp add: snapshot_target_def get_plugin_def create_snapshot_def bindP_def reads_def draw_def)
  moreover have "snapshots_of ?t k = snapshots_of s k @ [?x]"
    using snapshots_of_append [of k ?x ?u] by (simp add: snapshots_of_def)
  ultimately show thesis using that [of ?x ?t] by simp
qed

text \<open>An evolution whose candidate passed the gate.\<close>

lemma evolve_candidate:
  assumes "me_unsafe env"
    and "compile_and_instantiate (me_candidate env) (me_ops env) (eq_plugin_code r) (eq_test_code r) = (Some p, test)"
  shows "evolve_plugin env r s =
    bindP (snapshot_target env (eq_target_plugin_id r)) (\<lambda>sid.
      handleP (swap_in env r (me_uuid env (ms_drawn s)) test sid (length (ms_objects s)))
        (\<lambda>e. bindP (undo env (eq_target_plugin_id r) sid) (\<lambda>_.
           file_result ((failure_result (me_uuid env (ms_drawn s)) (eq_target_plugin_id r) ''rolled_back''
             (''Hot-swap failed: '' @ exn_message e @ ''. Reverted to snapshot.''))
             \<lparr>er_test_results := Some test, er_snapshot_id := sid\<rparr>))))
      (s\<lparr>ms_drawn := Suc (ms_drawn s), ms_objects := ms_objects s @ [p\<lparr>pl_metadata := adopt r (pl_metadata p)\<rparr>]\<rparr>)"
  using assms by (simp add: evolve_plugin_def bindP_def draw_def allocate_def split: prod.split sum.split)

lemma evolve_refused:
  assumes "\<not> me_unsafe env \<or>
    fst (compile_and_instantiate (me_candidate env) (me_ops env) (eq_plugin_code r) (eq_test_code r)) = None"
  shows "ms_plugins (snd (evolve_plugin env r s)) = ms_plugins s"
  using assms
  by (cases "compile_and_instantiate (me_candidate env) (me_ops env) (eq_plugin_code r) (eq_test_code r)")
    (auto simp: evolve_plugin_def bindP_def draw_def file_result_def)

lemma swap_in_success: "swap_in env r i test sid a s = (Inr q, t) \<Longrightarrow> er_success q"
  by (auto simp: swap_in_def bindP_eq_Inr file_result_def)

lemma undo_passes: "fst (undo env k sid s) = Inr ()"
  by (auto simp: undo_def handleP_def bindP_def split: option.split prod.splits sum.splits)

text \<open>A failed swap is undone, and the result says that it failed.\<close>

lemma handled_swap:
  assumes run: "handleP (swap_in env r i test sid a) (\<lambda>e. bindP (undo env k sid) (\<lambda>_. file_result (g e))) s = (Inr q, t)"
    and failed: "\<not> er_success q"
  obtains e u where "swap_in env r i test sid a s = (Inl e, u)" "ms_plugins t = ms_plugins (snd (undo env k sid u))" "q = g e"
proof (cases "fst (swap_in env r i test sid a s)")
  case (Inl e)
  then obtain u where u: "swap_in env r i test sid a s = (Inl e, u)" by (metis prod.collapse)
  with run undo_passes [of env k sid u] have "ms_plugins t = ms_plugins (snd (undo env k sid u)) \<and> q = g e"
    by (cases "undo env k sid u") (auto simp: handleP_def bindP_def file_result_def)
  with u that show thesis by blast
next
  case (Inr y)
  then have "er_success y" using swap_in_success by (metis prod.collapse)
  with Inr run failed show thesis by (cases "swap_in env r i test sid a s") (simp add: handleP_def)
qed


text \<open>C39. A new plugin whose \<open>on_load\<close> raises stays registered: the evolution reports that it was rolled back,
  but without an earlier plugin there is no snapshot to go back to, and the broken plugin is the one the
  table holds.\<close>

theorem failed_new_plugin_stays:
  assumes unsafe: "me_unsafe env"
    and p: "compile_and_instantiate (me_candidate env) (me_ops env) (eq_plugin_code r) (eq_test_code r) = (Some p, test)"
    and same: "pm_id (pl_metadata p) = eq_target_plugin_id r" and fresh: "get_plugin s (eq_target_plugin_id r) = None"
    and raises: "fst (op_on_load (me_ops env) (ms_workspace s) (p\<lparr>pl_metadata := adopt r (pl_metadata p)\<rparr>)) = Inl e"
  shows "\<exists>res t. evolve_plugin env r s = (Inr res, t) \<and> \<not> er_success res \<and> er_status res = ''rolled_back'' \<and>
    get_plugin t (eq_target_plugin_id r) = Some (length (ms_objects s))"
proof -
  let ?k = "eq_target_plugin_id r" and ?a = "length (ms_objects s)"
  let ?p = "p\<lparr>pl_metadata := adopt r (pl_metadata p)\<rparr>"
  let ?v = "s\<lparr>ms_drawn := Suc (ms_drawn s), ms_objects := ms_objects s @ [?p]\<rparr>"
  have target: "snapshot_target env ?k ?v = (Inr None, ?v)" using fresh by (simp add: snapshot_target_def get_plugin_def)
  have "pm_id (metadata_at ?a ?v) = ?k" using same by (simp add: metadata_at_def object_def adopt_def)
  moreover have "retire env ?k ?v = (Inr (), ?v)" using fresh by (simp add: retire_def get_plugin_def)
  ultimately have "hot_swap env ?a ?v = bindP (load_hook env ?a) (\<lambda>_.
     bindP (set_metadata ?a (\<lambda>m. m\<lparr>pm_status := PS_ACTIVE, pm_updated_at := me_now env\<rparr>)) (\<lambda>_.
     bindP (notify ''hot_swapped'' ?a) (\<lambda>_. gets (metadata_at ?a)))) (?v\<lparr>ms_plugins := dict_set ?k ?a (ms_plugins s)\<rparr>)"
    by (simp add: hot_swap_def bindP_def put_plugin_def)
  moreover obtain u where "load_hook env ?a (?v\<lparr>ms_plugins := dict_set ?k ?a (ms_plugins s)\<rparr>) = (Inl e, u)"
      "ms_plugins u = dict_set ?k ?a (ms_plugins s)"
    using raises by (cases "op_on_load (me_ops env) (ms_workspace s) ?p") (simp add: load_hook_def invoke_def object_def)
  ultimately have "hot_swap env ?a ?v = (Inl e, u) \<and> ms_plugins u = dict_set ?k ?a (ms_plugins s)" by (simp add: bindP_def)
  then show ?thesis
    by (simp add: evolve_candidate [OF unsafe p] bindP_def target handleP_def swap_in_def undo_def nonempty_def given_def
        file_result_def failure_result_def get_plugin_def)
qed

section \<open>Swapping and rolling back\<close>

definition hooks_keep_metadata :: "'p plugin_ops \<Rightarrow> bool" where
  "hooks_keep_metadata ops \<longleftrightarrow> (\<forall>ws p. pl_metadata (snd (op_on_load ops ws p)) = pl_metadata p) \<and>
     (\<forall>p. pl_metadata (snd (op_on_unload ops p)) = pl_metadata p)"

text \<open>Steps that change neither the table nor the snapshots nor where objects are.\<close>

lemma quiet_steps:
  "load_hook env a s = (x, t) \<Longrightarrow> ms_plugins t = ms_plugins s \<and> ms_snapshots t = ms_snapshots s \<and> length (ms_objects t) = length (ms_objects s)"
  "set_metadata a f s = (y, t) \<Longrightarrow> ms_plugins t = ms_plugins s \<and> ms_snapshots t = ms_snapshots s \<and> length (ms_objects t) = length (ms_objects s)"
  "unload_quietly env a s = (z, t) \<Longrightarrow> ms_plugins t = ms_plugins s \<and> ms_snapshots t = ms_snapshots s \<and> length (ms_objects t) = length (ms_objects s)"
  "notify n a s = (z, t) \<Longrightarrow> ms_plugins t = ms_plugins s \<and> ms_snapshots t = ms_snapshots s \<and> ms_objects t = ms_objects s"
  by (auto simp: load_hook_def set_metadata_def unload_quietly_def notify_def invoke_def handleP_def split: prod.splits sum.splits)

lemma hot_swap_known:
  assumes run: "hot_swap env a s = (Inr m, t)" and k: "k = pm_id (metadata_at a s)" and b: "dict_get (ms_plugins s) k = Some b"
  shows "dict_get (ms_plugins t) = (dict_get (ms_plugins s))(k \<mapsto> a) \<and> length (ms_objects t) = length (ms_objects s) \<and>
    (\<exists>x. sn_metadata x = metadata_at b s \<and> sn_instance x = b \<and>
      (\<forall>j. snapshots_of t j = (if j = k then snapshots_of s k @ [x] else snapshots_of s j)))"
proof -
  let ?u = "s\<lparr>ms_drawn := Suc (ms_drawn s)\<rparr>"
  let ?x = "\<lparr>sn_id = me_uuid env (ms_drawn s), sn_plugin_id = k, sn_metadata = metadata_at b ?u, sn_instance = b,
      sn_created_at = me_now env\<rparr>"
  let ?v = "?u\<lparr>ms_snapshots := dict_append k ?x (ms_snapshots ?u)\<rparr>"
  have create: "create_snapshot env k s = (Inr (me_uuid env (ms_drawn s)), ?v)"
    using b by (simp add: create_snapshot_def bindP_def reads_def draw_def)
  from run obtain w1 w2 w3 where
    w1: "unload_quietly env b ?v = (Inr (), w1)"
    and w2: "load_hook env a (w1\<lparr>ms_plugins := dict_set k a (ms_plugins w1)\<rparr>) = (Inr (), w2)"
    and w3: "set_metadata a (\<lambda>m. m\<lparr>pm_status := PS_ACTIVE, pm_updated_at := me_now env\<rparr>) w2 = (Inr (), w3)"
    and t: "t = w3\<lparr>ms_notices := ms_notices w3 @ [(''hot_swapped'', metadata_at a w3)]\<rparr>"
    by (auto simp: hot_swap_def retire_def bindP_eq_Inr put_plugin_def notify_def b k [symmetric] create)
  have "snapshots_of t j = (if j = k then snapshots_of s k @ [?x] else snapshots_of s j)" for j
    using quiet_steps(3) [OF w1] quiet_steps(1) [OF w2] quiet_steps(2) [OF w3] t snapshots_of_append [of k ?x ?u j]
    by (simp add: snapshots_of_def)
  moreover have "metadata_at b ?u = metadata_at b s" by (simp add: metadata_at_def object_def)
  ultimately show ?thesis
    using quiet_steps(3) [OF w1] quiet_steps(1) [OF w2] quiet_steps(2) [OF w3] t by (intro conjI exI [of _ ?x]) (simp_all add: fun_eq_iff)
qed

lemma restore_known:
  assumes run: "restore env k x h s = (Inr n, t)" and ops: "hooks_keep_metadata (me_ops env)"
    and len: "sn_instance x < length (ms_objects s)"
  shows "dict_get (ms_plugins t) = (dict_get (ms_plugins s))(k \<mapsto> sn_instance x) \<and>
    (\<forall>j. snapshots_of t j = (if j = k then h else snapshots_of s j)) \<and> n = (sn_metadata x)\<lparr>pm_updated_at := me_now env\<rparr>"
proof -
  let ?u = "s\<lparr>ms_snapshots := dict_set k h (ms_snapshots s)\<rparr>" and ?i = "sn_instance x"
  let ?m = "(sn_metadata x)\<lparr>pm_updated_at := me_now env\<rparr>"
  from run obtain w1 w2 w3 where
    w1: "(case dict_get (ms_plugins s) k of None \<Rightarrow> ret () | Some a \<Rightarrow> unload_quietly env a) ?u = (Inr (), w1)"
    and w2: "set_metadata ?i (\<lambda>_. ?m) w1 = (Inr (), w2)"
    and w3: "load_hook env ?i (w2\<lparr>ms_plugins := dict_set k ?i (ms_plugins w2)\<rparr>) = (Inr (), w3)"
    and t: "t = w3\<lparr>ms_notices := ms_notices w3 @ [(''rolled_back'', metadata_at ?i w3)]\<rparr>" "n = metadata_at ?i t"
    by (auto simp: restore_def bindP_eq_Inr put_plugin_def notify_def)
  from w1 have s1: "ms_plugins w1 = ms_plugins s \<and> ms_snapshots w1 = ms_snapshots ?u \<and> length (ms_objects w1) = length (ms_objects s)"
    using quiet_steps(3) by (cases "dict_get (ms_plugins s) k") fastforce+
  from w2 s1 len have m: "metadata_at ?i w2 = ?m" by (auto simp: set_metadata_def invoke_def metadata_at_def object_def)
  have "metadata_at ?i w3 = metadata_at ?i w2"
    using w3 ops quiet_steps(2) [OF w2] s1 len
    by (auto simp: load_hook_def invoke_def metadata_at_def object_def hooks_keep_metadata_def split: prod.splits) (metis snd_conv)
  with m have "n = ?m" using t by (simp add: metadata_at_def object_def)
  moreover have "snapshots_of t j = (if j = k then h else snapshots_of s j)" for j
    using quiet_steps(2) [OF w2] quiet_steps(1) [OF w3] s1 t(1) snapshots_of_set [of k h s j] by (simp add: snapshots_of_def)
  ultimately show ?thesis
    using quiet_steps(2) [OF w2] quiet_steps(1) [OF w3] s1 t(1) by (simp add: fun_eq_iff)
qed


section \<open>Concrete evolutions\<close>

definition demo_mesh_env :: "nat mesh_env" where
  "demo_mesh_env = \<lparr>me_ops = demo_plugin_ops, me_candidate = demo_candidate_env, me_uuid = (\<lambda>n. ''u'' @ show_nat n), me_now = 5,
     me_writable = (\<lambda>_. True), me_unsafe = True\<rparr>"

definition demo_evolution :: "string \<Rightarrow> evolution_request" where
  "demo_evolution source = \<lparr>eq_target_plugin_id = ''probe'', eq_plugin_name = ''Probe'', eq_plugin_type = PT_TOOL,
     eq_description = ''evolved'', eq_plugin_code = source, eq_test_code = [], eq_author = PA_AGENT_SELF_EVOLVED\<rparr>"

definition demo_mesh :: "nat mesh" where
  "demo_mesh = mesh_run demo_mesh_env [MO_New \<lparr>pl_metadata = demo_metadata ''probe'', pl_self = 3\<rparr>, MO_Register 0 True,
     MO_New \<lparr>pl_metadata = demo_metadata ''probe'', pl_self = 4\<rparr>] (empty_mesh ''/ws'')"

lemma demo_hooks: "hooks_keep_id demo_plugin_ops" "hooks_keep_metadata demo_plugin_ops"
  by (auto simp: hooks_keep_id_def hooks_keep_metadata_def keeps_id_def demo_plugin_ops_def guardP_def)



theorem failed_new_plugin_stays_witness:
  "\<exists>t. snd (evolve_plugin demo_mesh_env (demo_evolution ''load'') (empty_mesh ''/ws'')) = t \<and> get_plugin t ''probe'' = Some 0"
proof -
  let ?r = "demo_evolution ''load''"
  let ?gate = "compile_and_instantiate (me_candidate demo_mesh_env) (me_ops demo_mesh_env) (eq_plugin_code ?r) (eq_test_code ?r)"
  have "(case ?gate of (Some p, _) \<Rightarrow> pm_id (pl_metadata p) = ''probe'' \<and> pl_self p = 13 | _ \<Rightarrow> False)" by code_simp
  then obtain p test where p: "?gate = (Some p, test)" "pm_id (pl_metadata p) = ''probe''" "pl_self p = 13"
    by (auto split: prod.splits option.splits)
  have raises: "fst (op_on_load (me_ops demo_mesh_env) (ms_workspace (empty_mesh ''/ws''))
      (p\<lparr>pl_metadata := adopt ?r (pl_metadata p)\<rparr>)) = Inl (RuntimeError ''bad load'')"
    using p(3) by (simp add: demo_mesh_env_def demo_plugin_ops_def bindP_def)
  have "me_unsafe demo_mesh_env" "get_plugin (empty_mesh ''/ws'' :: nat mesh) (eq_target_plugin_id ?r) = None"
    by (simp_all add: demo_mesh_env_def get_plugin_def empty_mesh_def)
  with failed_new_plugin_stays [of demo_mesh_env ?r p test "empty_mesh ''/ws''", OF _ p(1) _ _ raises] p(2) show ?thesis
    by (auto simp: demo_evolution_def empty_mesh_def)
qed


end
