(* ===== verification/Tools.thy ===== *)
theory Tools
  imports Plugins Paths Programs Pyval Texts
begin

text \<open>
  The tools of the agent (\<open>src/aether/plugins/tools.py\<close>) that touch files, run commands and read
  syntax trees, on a file system of texts with directories and symbolic links. Tool calls and their
  results are those of \<open>src/aether/core/contracts.py\<close>, without the measured times.
\<close>

section \<open>Calls and results\<close>

type_synonym arguments = "(string, pyval) dict"

record tool_call =
  tc_call_id :: string
  tc_tool_name :: string
  tc_arguments :: arguments

record tool_result =
  tr_call_id :: string
  tr_tool_name :: string
  tr_success :: bool
  tr_output :: pyval
  tr_error :: "string option"
  tr_artifacts :: "(string, string) dict"

definition tool_success :: "string \<Rightarrow> string \<Rightarrow> pyval \<Rightarrow> tool_result" where
  "tool_success i n v = \<lparr>tr_call_id = i, tr_tool_name = n, tr_success = True, tr_output = v, tr_error = None, tr_artifacts = []\<rparr>"

definition tool_failure :: "string \<Rightarrow> string \<Rightarrow> string \<Rightarrow> tool_result" where
  "tool_failure i n e = \<lparr>tr_call_id = i, tr_tool_name = n, tr_success = False, tr_output = PNone, tr_error = Some e, tr_artifacts = []\<rparr>"

text \<open>An argument that has to be a text where it is used as one.\<close>

definition text_argument :: "arguments \<Rightarrow> string \<Rightarrow> pyval \<Rightarrow> string result" where
  "text_argument args k d = (case (case dict_get args k of None \<Rightarrow> d | Some v \<Rightarrow> v) of PStr s \<Rightarrow> Inr s | _ \<Rightarrow> Inl (TypeError k))"

text \<open>\<open>f(**arguments)\<close>: the required names have to be there, and others only where they are allowed.\<close>

definition bind_arguments :: "string list \<Rightarrow> string list \<Rightarrow> bool \<Rightarrow> arguments \<Rightarrow> unit result" where
  "bind_arguments required optional others args =
     check (list_all (\<lambda>k. k \<in> set (dict_keys args)) required \<and> ''self'' \<notin> set (dict_keys args) \<and>
       (others \<or> list_all (\<lambda>k. k \<in> set (required @ optional)) (dict_keys args)))
       (TypeError ''unexpected or missing argument'')"

section \<open>Files\<close>

record text_world =
  tw_files :: "(path, string) dict"
  tw_dirs :: "path list"
  tw_links :: "(path, bool \<times> string list) dict"
  tw_budget :: nat
  tw_cwd :: path

definition world_fs :: "text_world \<Rightarrow> string fsys" where
  "world_fs w = \<lparr>links = dict_get (tw_links w), files = dict_get (tw_files w),
     is_dir = (\<lambda>p. p = [] \<or> p \<in> set (tw_dirs w) \<or> list_ex (strict_prefix p) (map fst (tw_files w) @ tw_dirs w)),
     link_budget = tw_budget w\<rparr>"

definition is_file :: "text_world \<Rightarrow> path \<Rightarrow> bool" where
  "is_file w p \<longleftrightarrow> dict_get (tw_files w) p \<noteq> None"

text \<open>\<open>Path(s).resolve()\<close>, and \<open>(base / s).resolve()\<close> for a base that is resolved.\<close>

definition resolve_from :: "text_world \<Rightarrow> path \<Rightarrow> string \<Rightarrow> path result" where
  "resolve_from w base s = (case parse_path s of (absolute, cs) \<Rightarrow> resolve (world_fs w) (if absolute then cs else base @ cs))"

text \<open>\<open>p.mkdir(parents=True, exist_ok=True)\<close> and \<open>p.write_text(s)\<close>.\<close>

definition make_dirs :: "path \<Rightarrow> (text_world, unit) prog" where
  "make_dirs p =
     bindP (gets (\<lambda>w. list_all (\<lambda>i. \<not> is_file w (take i p)) [0..<Suc (length p)])) (\<lambda>ok.
     bindP (guardP ok (OSError ''Not a directory'')) (\<lambda>_.
     modify (\<lambda>w. w\<lparr>tw_dirs := tw_dirs w @ filter (\<lambda>q. q \<noteq> [] \<and> q \<notin> set (tw_dirs w)) (prefixes p)\<rparr>)))"

definition write_text :: "path \<Rightarrow> string \<Rightarrow> (text_world, unit) prog" where
  "write_text p s =
     bindP (gets (\<lambda>w. \<not> is_dir (world_fs w) p \<and> is_dir (world_fs w) (butlast p))) (\<lambda>ok.
     bindP (guardP ok (OSError ''cannot write'')) (\<lambda>_.
     modify (\<lambda>w. w\<lparr>tw_files := dict_set p s (tw_files w)\<rparr>)))"

definition read_text :: "path \<Rightarrow> string \<Rightarrow> (text_world, string) prog" where
  "read_text p shown = reads (\<lambda>w. require (dict_get (tw_files w) p) (FileNotFoundError (''File not found: '' @ shown)))"

text \<open>The size of a text in UTF-8; the modelled characters are those up to 255.\<close>

definition utf8_size :: "string \<Rightarrow> int" where
  "utf8_size s = (\<Sum>c\<leftarrow>s. if (of_char c :: nat) < 128 then 1 else 2)"

text \<open>\<open>target.iterdir()\<close>: the names below a directory.\<close>

definition child_names :: "text_world \<Rightarrow> path \<Rightarrow> string list" where
  "child_names w p = remdups (map (\<lambda>q. q ! length p) (filter (strict_prefix p) (map fst (tw_files w) @ tw_dirs w @ map fst (tw_links w))))"

definition hidden_names :: "string list" where
  "hidden_names = [''.git'', ''.pytest_cache'', ''__pycache__'', ''.venv'']"

definition listed :: "text_world \<Rightarrow> path \<Rightarrow> string \<Rightarrow> string \<times> bool \<times> int" where
  "listed w p n =
     (case resolve (world_fs w) (p @ [n]) of
        Inl _ \<Rightarrow> (n, False, 0)
      | Inr q \<Rightarrow> (n, is_dir (world_fs w) q, (case dict_get (tw_files w) q of None \<Rightarrow> 0 | Some s \<Rightarrow> utf8_size s)))"

text \<open>Sorted by \<open>(not is_dir, name)\<close>: directories first.\<close>

definition directory_listing :: "text_world \<Rightarrow> path \<Rightarrow> (string \<times> bool \<times> int) list" where
  "directory_listing w p =
     (let items = sort_key fst (map (listed w p) (filter (\<lambda>n. \<not> list_ex (starts_with n) hidden_names) (child_names w p))) in
      filter (\<lambda>(n, d, z). d) items @ filter (\<lambda>(n, d, z). \<not> d) items)"

fun listing_value :: "string \<times> bool \<times> int \<Rightarrow> pyval" where
  "listing_value (n, d, z) = PDict [(''name'', PStr n), (''is_dir'', PBool d), (''size'', PInt z)]"

section \<open>The file editor\<close>

text \<open>\<open>s.replace(old, new, 1)\<close>.\<close>

fun replace_first :: "string \<Rightarrow> string \<Rightarrow> string \<Rightarrow> string" where
  "replace_first old new [] = (if old = [] then new else [])"
| "replace_first old new (c # cs) =
     (if prefix old (c # cs) then new @ drop (length old) (c # cs) else c # replace_first old new cs)"

definition editor_failure :: "string \<Rightarrow> tool_result" where
  "editor_failure e = tool_failure ''call_file'' ''file_editor'' e"

definition editor_success :: "pyval \<Rightarrow> tool_result" where
  "editor_success v = tool_success ''call_file'' ''file_editor'' v"

definition list_directory :: "path \<Rightarrow> (text_world, tool_result) prog" where
  "list_directory p =
     bindP (gets (\<lambda>w. \<not> path_exists (world_fs w) p \<or> is_dir (world_fs w) p)) (\<lambda>ok.
     bindP (guardP ok (OSError ''Not a directory'')) (\<lambda>_.
     gets (\<lambda>w. editor_success (PList (if path_exists (world_fs w) p then map listing_value (directory_listing w p) else [])))))"

definition write_action :: "path \<Rightarrow> string \<Rightarrow> arguments \<Rightarrow> (text_world, tool_result) prog" where
  "write_action p shown args =
     bindP (make_dirs (butlast p)) (\<lambda>_.
     bindP (lift (text_argument args ''content'' (PStr []))) (\<lambda>content.
     bindP (write_text p content) (\<lambda>_.
     ret (editor_success (PStr (''Successfully wrote '' @ show_nat (length content) @ '' bytes to '' @ shown))))))"

definition edit_action :: "path \<Rightarrow> string \<Rightarrow> arguments \<Rightarrow> (text_world, tool_result) prog" where
  "edit_action p shown args =
     bindP (read_text p shown) (\<lambda>original.
     bindP (lift (text_argument args ''target_content'' (PStr []))) (\<lambda>old.
     bindP (guardP (sublist old original) (ValueError ''target_content not found in file'')) (\<lambda>_.
     bindP (lift (text_argument args ''replacement_content'' (PStr []))) (\<lambda>new.
     bindP (write_text p (replace_first old new original)) (\<lambda>_.
     ret ((editor_success (PStr (''Successfully updated '' @ shown)))
       \<lparr>tr_artifacts := [(''diff'', ''- '' @ old @ [CHR 0x0A] @ ''+ '' @ new)]\<rparr>))))))"

definition editor_action :: "(pyval \<Rightarrow> string) \<Rightarrow> pyval \<Rightarrow> path \<Rightarrow> string \<Rightarrow> arguments \<Rightarrow> (text_world, tool_result) prog" where
  "editor_action text_of action p shown args =
     (if action = PStr ''list_dir'' then list_directory p
      else if action = PStr ''read'' then bindP (read_text p shown) (\<lambda>s. ret (editor_success (PStr s)))
      else if action = PStr ''write'' then write_action p shown args
      else if action = PStr ''edit'' then edit_action p shown args
      else ret (editor_failure (''Unknown action: '' @ text_of action)))"

definition file_editor :: "(pyval \<Rightarrow> string) \<Rightarrow> string \<Rightarrow> arguments \<Rightarrow> (text_world, tool_result) prog" where
  "file_editor text_of workspace args =
     bindP (lift (bind_arguments [''action'', ''path''] [] True args)) (\<lambda>_.
     bindP (reads (\<lambda>w. resolve_from w (tw_cwd w) workspace)) (\<lambda>ws.
     bindP (lift (text_argument args ''path'' PNone)) (\<lambda>shown.
     bindP (reads (\<lambda>w. resolve_from w ws shown)) (\<lambda>target.
     if target \<noteq> ws \<and> \<not> strict_prefix ws target then ret (editor_failure (''Path escape detected: '' @ shown))
     else handleP (editor_action text_of (the (dict_get args ''action'')) target shown args) (\<lambda>e. ret (editor_failure (exn_message e)))))))"

section \<open>Commands\<close>

definition allowed_commands :: "string \<Rightarrow> (string, string list) dict" where
  "allowed_commands python = [(''pwd'', [''pwd'']), (''git status --short'', [''git'', ''status'', ''--short'']),
     (''python --version'', [python, ''--version''])]"

text \<open>The process: its argument vector, directory and time limit give an exit code and two texts, or it raises.\<close>

type_synonym runner = "string list \<Rightarrow> string \<Rightarrow> pyval \<Rightarrow> (int \<times> string \<times> string) result"

text \<open>\<open>min(max(timeout_s, 1), 30)\<close>.\<close>

definition clamp_limit :: "pyval \<Rightarrow> pyval result" where
  "clamp_limit v =
     andThen (py_lt v (PInt 1)) (\<lambda>low.
     let m = (if low then PInt 1 else v) in
     andThen (py_lt (PInt 30) m) (\<lambda>high. Inr (if high then PInt 30 else m)))"

definition run_allowlisted_command :: "runner \<Rightarrow> string \<Rightarrow> string \<Rightarrow> string \<Rightarrow> pyval \<Rightarrow> (int \<times> string \<times> string) result" where
  "run_allowlisted_command run python command workspace timeout_s =
     andThen (require (dict_get (allowed_commands python) (strip command))
       (ValueError (''Command is not allow-listed. Allowed operations: '' @ join_with '', '' (sort (dict_keys (allowed_commands python)))))) (\<lambda>argv.
     andThen (clamp_limit timeout_s) (run argv workspace))"

definition bash_executor :: "runner \<Rightarrow> string \<Rightarrow> string \<Rightarrow> arguments \<Rightarrow> tool_result result" where
  "bash_executor run python workspace args =
     andThen (bind_arguments [''command''] [''timeout_s''] False args) (\<lambda>_.
     Inr (case andThen (text_argument args ''command'' PNone) (\<lambda>command.
            run_allowlisted_command run python command workspace
              (case dict_get args ''timeout_s'' of None \<Rightarrow> PInt 30 | Some v \<Rightarrow> v)) of
            Inl e \<Rightarrow> tool_failure ''call_bash'' ''bash_executor'' (exn_message e)
          | Inr (code, out, err) \<Rightarrow> (tool_success ''call_bash'' ''bash_executor''
              (PDict [(''stdout'', PStr out), (''stderr'', PStr err), (''returncode'', PInt code)]))\<lparr>tr_success := (code = 0)\<rparr>))"

section \<open>Code analysis\<close>

definition class_names :: "ast list \<Rightarrow> string list" where
  "class_names ns = List.map_filter (\<lambda>n. case node_kind n of AK_ClassDef c \<Rightarrow> Some c | _ \<Rightarrow> None) ns"

definition function_names :: "ast list \<Rightarrow> string list" where
  "function_names ns = List.map_filter (\<lambda>n. case node_kind n of AK_FunctionDef f \<Rightarrow> Some f | _ \<Rightarrow> None) ns"

definition ast_analyzer :: "(string \<Rightarrow> ast result) \<Rightarrow> arguments \<Rightarrow> tool_result result" where
  "ast_analyzer parse args =
     andThen (bind_arguments [''code''] [] False args) (\<lambda>_.
     Inr (case andThen (text_argument args ''code'' PNone) parse of
            Inl e \<Rightarrow> tool_failure ''call_ast'' ''ast_analyzer'' (exn_message e)
          | Inr t \<Rightarrow> tool_success ''call_ast'' ''ast_analyzer''
              (PDict [(''classes'', PList (map PStr (class_names (walk t)))), (''functions'', PList (map PStr (function_names (walk t)))),
                 (''node_count'', PInt (int (length (walk t))))])))"

section \<open>Confinement\<close>

text \<open>Outside a directory the files stay, and the links and limits everywhere.\<close>

definition same_outside :: "path \<Rightarrow> text_world \<Rightarrow> text_world \<Rightarrow> bool" where
  "same_outside base v w \<longleftrightarrow> tw_links w = tw_links v \<and> tw_budget w = tw_budget v \<and> tw_cwd w = tw_cwd v \<and>
     (\<forall>p. \<not> prefix base p \<longrightarrow> dict_get (tw_files w) p = dict_get (tw_files v) p)"

lemma same_outside_refl [simp]: "same_outside base w w"
  by (simp add: same_outside_def)

lemma keeps_make_dirs [keeps_intros]: "keeps (same_outside base v) (make_dirs p)"
  unfolding make_dirs_def by (intro keeps_intros) (simp add: same_outside_def)

lemma keeps_write_text [keeps_intros]: "prefix base p \<Longrightarrow> keeps (same_outside base v) (write_text p s)"
  unfolding write_text_def by (intro keeps_intros) (auto simp: same_outside_def)

lemma keeps_editor_action: "prefix base p \<Longrightarrow> keeps (same_outside base v) (editor_action text_of action p shown args)"
  unfolding editor_action_def list_directory_def read_text_def write_action_def edit_action_def
  by (intro keeps_intros)

text \<open>C18. The file editor stays in the workspace: whatever it is asked, through \<open>..\<close>, absolute paths or
  links, and also where it fails half way, no file outside the resolved workspace changes, and what a
  read returns is the text of a file inside it.\<close>

theorem file_editor_confined:
  assumes ws: "resolve_from w (tw_cwd w) workspace = Inr base" and run: "file_editor text_of workspace args w = (r, w')"
  shows "same_outside base w w' \<and>
    (\<forall>res. r = Inr res \<and> dict_get args ''action'' = Some (PStr ''read'') \<and> tr_success res \<longrightarrow>
      (\<exists>p s. prefix base p \<and> dict_get (tw_files w) p = Some s \<and> tr_output res = PStr s))"
proof (cases "bind_arguments [''action'', ''path''] [] True args")
  case (Inl e)
  with run show ?thesis by (auto simp: file_editor_def bindP_def)
next
  case (Inr u)
  show ?thesis
  proof (cases "andThen (text_argument args ''path'' PNone) (resolve_from w base)")
    case (Inl e)
    then have "r = Inl e \<and> w' = w"
      using run Inr ws by (auto simp: file_editor_def bindP_def andThen_eq_Inl)
    then show ?thesis by simp
  next
    case target: (Inr target)
    then obtain shown where shown: "text_argument args ''path'' PNone = Inr shown" "resolve_from w base shown = Inr target"
      by (auto simp: andThen_eq_Inr)
    let ?act = "handleP (editor_action text_of (the (dict_get args ''action'')) target shown args) (\<lambda>e. ret (editor_failure (exn_message e)))"
    have run': "(if target \<noteq> base \<and> \<not> strict_prefix base target then ret (editor_failure (''Path escape detected: '' @ shown)) else ?act) w = (r, w')"
      using run Inr ws shown by (simp add: file_editor_def bindP_def)
    show ?thesis
    proof (cases "prefix base target")
      case False
      then have "target \<noteq> base \<and> \<not> strict_prefix base target" by auto
      with run' show ?thesis by (auto simp: editor_failure_def tool_failure_def)
    next
      case inside: True
      with run' have act: "?act w = (r, w')" by (auto simp: strict_prefix_def split: if_splits)
      have "keeps (same_outside base w) ?act" by (intro keeps_intros keeps_editor_action inside)
      from keepsD [OF this] act have "same_outside base w w'" by (metis same_outside_refl snd_conv)
      moreover have "\<exists>s. dict_get (tw_files w) target = Some s \<and> tr_output res = PStr s"
        if "r = Inr res" "dict_get args ''action'' = Some (PStr ''read'')" "tr_success res" for res
        using act that
        by (auto simp: handleP_def editor_action_def read_text_def bindP_def editor_failure_def tool_failure_def
            editor_success_def tool_success_def require_def split: option.splits)
      ultimately show ?thesis using inside by blast
    qed
  qed
qed

text \<open>Only the three listed commands are ever run, and with a limit between 1 and 30 seconds: what a
  command text does depends on nothing the process could do with other arguments or limits.\<close>

theorem commands_allow_listed:
  assumes "\<And>n. 1 \<le> n \<Longrightarrow> n \<le> 30 \<Longrightarrow> run [''pwd''] workspace (PInt n) = run' [''pwd''] workspace (PInt n)"
    and "\<And>n. 1 \<le> n \<Longrightarrow> n \<le> 30 \<Longrightarrow> run [''git'', ''status'', ''--short''] workspace (PInt n) = run' [''git'', ''status'', ''--short''] workspace (PInt n)"
    and "\<And>n. 1 \<le> n \<Longrightarrow> n \<le> 30 \<Longrightarrow> run [python, ''--version''] workspace (PInt n) = run' [python, ''--version''] workspace (PInt n)"
  shows "run_allowlisted_command run python command workspace (PInt n) = run_allowlisted_command run' python command workspace (PInt n)"
proof -
  have "\<exists>m. clamp_limit (PInt n) = Inr (PInt m) \<and> 1 \<le> m \<and> m \<le> 30" by (auto simp: clamp_limit_def)
  then obtain m where "clamp_limit (PInt n) = Inr (PInt m)" "1 \<le> m" "m \<le> 30" by blast
  with assms show ?thesis by (auto simp: run_allowlisted_command_def allowed_commands_def)
qed

text \<open>The analysis counts every node of the tree once, and names every class and function of it.\<close>

theorem analysis_complete:
  assumes "parse code = Inr t"
  shows "\<exists>classes functions. ast_analyzer parse [(''code'', PStr code)] =
      Inr (tool_success ''call_ast'' ''ast_analyzer'' (PDict [(''classes'', PList (map PStr classes)),
        (''functions'', PList (map PStr functions)), (''node_count'', PInt (int (length (nodes t))))])) \<and>
    mset classes = mset (class_names (nodes t)) \<and> mset functions = mset (function_names (nodes t))"
proof -
  have len: "length (walk t) = length (nodes t)" using walk_nodes by (metis size_mset)
  have m: "mset (List.map_filter f xs) = mset (List.map_filter f ys)" if "mset xs = mset ys" for f :: "ast \<Rightarrow> string option" and xs ys
    unfolding List.map_filter_def using that by (metis mset_filter mset_map)
  show ?thesis
    by (rule exI [of _ "class_names (walk t)"], rule exI [of _ "function_names (walk t)"])
      (simp add: ast_analyzer_def bind_arguments_def text_argument_def assms len m [OF walk_nodes] class_names_def function_names_def)
qed

definition demo_text_world :: text_world where
  "demo_text_world = \<lparr>tw_files = [([''ws'', ''a.txt''], ''one two one''), ([''etc'', ''key''], ''secret'')], tw_dirs = [[''ws'']],
     tw_links = [([''ws'', ''out''], (True, [''etc'']))], tw_budget = 8, tw_cwd = []\<rparr>"

text \<open>Editing replaces the first occurrence; a path through a link out of the workspace is refused.\<close>

theorem file_editor_confined_witness:
  "\<exists>w res. file_editor (\<lambda>_. []) ''/ws'' [(''action'', PStr ''edit''), (''path'', PStr ''a.txt''), (''target_content'', PStr ''one''),
       (''replacement_content'', PStr ''three'')] demo_text_world = (Inr res, w) \<and>
     dict_get (tw_files w) [''ws'', ''a.txt''] = Some ''three two one'' \<and>
     dict_get (tw_files w) [''etc'', ''key''] = Some ''secret'' \<and>
     fst (file_editor (\<lambda>_. []) ''/ws'' [(''action'', PStr ''read''), (''path'', PStr ''out/key'')] demo_text_world) =
       Inr (editor_failure ''Path escape detected: out/key'')"
proof -
  let ?args = "[(''action'', PStr ''edit''), (''path'', PStr ''a.txt''), (''target_content'', PStr ''one''), (''replacement_content'', PStr ''three'')]"
  have ws: "resolve_from demo_text_world (tw_cwd demo_text_world) ''/ws'' = Inr [''ws'']" by code_simp
  have "(case file_editor (\<lambda>_. []) ''/ws'' ?args demo_text_world of (Inr res, w) \<Rightarrow> dict_get (tw_files w) [''ws'', ''a.txt''] = Some ''three two one'' | _ \<Rightarrow> False)"
    by code_simp
  then obtain res w where r: "file_editor (\<lambda>_. []) ''/ws'' ?args demo_text_world = (Inr res, w)" "dict_get (tw_files w) [''ws'', ''a.txt''] = Some ''three two one''"
    by (auto split: prod.splits sum.splits)
  have "fst (file_editor (\<lambda>_. []) ''/ws'' [(''action'', PStr ''read''), (''path'', PStr ''out/key'')] demo_text_world) =
       Inr (editor_failure ''Path escape detected: out/key'')" by code_simp
  moreover have "dict_get (tw_files demo_text_world) [''etc'', ''key''] = Some ''secret''" by code_simp
  ultimately show ?thesis
    using file_editor_confined [OF ws r(1)] r by (auto simp: same_outside_def)
qed

theorem commands_allow_listed_witness:
  "run_allowlisted_command (\<lambda>argv ws n. if length argv = 1 then Inr (0, ''/ws'', []) else Inl (OSError ''no'')) ''python'' '' pwd '' ''/ws'' (PInt 99) =
   run_allowlisted_command (\<lambda>argv ws n. if argv = [''pwd''] then Inr (0, ''/ws'', []) else Inl (OSError ''no'')) ''python'' '' pwd '' ''/ws'' (PInt 99) \<and>
   run_allowlisted_command (\<lambda>argv ws n. Inr (0, [], [])) ''python'' ''rm -rf /'' ''/ws'' (PInt 5) \<noteq> Inr (0, [], [])"
proof -
  have "isl (run_allowlisted_command (\<lambda>argv ws n. Inr (0, [], [])) ''python'' ''rm -rf /'' ''/ws'' (PInt 5))" by code_simp
  then show ?thesis by (intro conjI commands_allow_listed) auto
qed

theorem analysis_complete_witness:
  "\<exists>classes functions. ast_analyzer (\<lambda>_. Inr (Node AK_Other [Node (AK_ClassDef ''A'') [Node (AK_FunctionDef ''f'') []], Node (AK_FunctionDef ''g'') []]))
     [(''code'', PStr ''src'')] = Inr (tool_success ''call_ast'' ''ast_analyzer'' (PDict [(''classes'', PList (map PStr classes)),
       (''functions'', PList (map PStr functions)), (''node_count'', PInt 4)])) \<and> mset functions = {#''f'', ''g''#}"
  using analysis_complete [of "\<lambda>_. Inr (Node AK_Other [Node (AK_ClassDef ''A'') [Node (AK_FunctionDef ''f'') []], Node (AK_FunctionDef ''g'') []])" "''src''"]
  by (auto simp: function_names_def)

end
