(* ===== verification/Agent.thy ===== *)
theory Agent
  imports Evolution Tools
begin

text \<open>
  The agent (\<open>src/aether/core/agent.py\<close>) with its default plugins (\<open>src/aether/plugins\<close>): the
  models it chooses from, its memory, the dispatch of tool calls and the turn, a loop of model
  answers and tool calls that tells its caller every step as an event. What a language model service
  answers, what evolved plugins do and texts outside the modelled characters are parameters.
\<close>

section \<open>Messages\<close>

datatype message_role = MR_SYSTEM | MR_USER | MR_ASSISTANT | MR_TOOL | MR_THINKING

record chat_message =
  cm_role :: message_role
  cm_content :: string
  cm_thought :: "string option"
  cm_tool_calls :: "tool_call list"
  cm_tool_results :: "tool_result list"

definition plain_message :: "message_role \<Rightarrow> string \<Rightarrow> chat_message" where
  "plain_message r s = \<lparr>cm_role = r, cm_content = s, cm_thought = None, cm_tool_calls = [], cm_tool_results = []\<rparr>"

record model_chunk =
  mc_text :: string
  mc_thought :: string
  mc_tool_calls :: "tool_call list"

record diff_chunk =
  dc_chunk_id :: string
  dc_file_path :: string
  dc_old_start :: int
  dc_old_lines :: int
  dc_new_start :: int
  dc_new_lines :: int
  dc_diff_text :: string
  dc_status :: string

section \<open>The default plugins\<close>

text \<open>
  What the objects of each class keep: the workspace of the context they were loaded with, the bound
  of the loop, the history of the memory, name, key and address of a model. \<open>Evolved\<close> plugins
  come from candidates.
\<close>

datatype 'x agent_plugin =
    FileEditor "string option"
  | BashTool "string option"
  | AstTool
  | EvolveTool bool "string option"
  | ReActLoop int
  | WorkingMemory int "chat_message list"
  | DeepSeekModel string "string option" string
  | AnthropicModel string "string option" string
  | OpenAIModel string "string option" string
  | MockModel
  | Evolved 'x

text \<open>
  What an evolved plugin's code does. \<open>ec_execute\<close> and \<open>ec_generate\<close> are there where its class has
  the method.
\<close>

record 'x evolved_code =
  ec_on_load :: "string \<Rightarrow> ('x agent_plugin plugin, unit) prog"
  ec_on_unload :: "('x agent_plugin plugin, unit) prog"
  ec_self_test :: "('x agent_plugin plugin, pyval) prog"
  ec_execute :: "'x \<Rightarrow> (arguments \<Rightarrow> ('x agent_plugin plugin, tool_result) prog) option"
  ec_generate :: "'x \<Rightarrow> (chat_message list \<Rightarrow> model_chunk list result) option"

definition set_self :: "'p \<Rightarrow> ('p plugin, unit) prog" where
  "set_self x = modify (\<lambda>p. p\<lparr>pl_self := x\<rparr>)"

definition plugin_on_load :: "'x evolved_code \<Rightarrow> string \<Rightarrow> ('x agent_plugin plugin, unit) prog" where
  "plugin_on_load code ws =
     bindP (gets pl_self) (\<lambda>self.
     case self of
       FileEditor _ \<Rightarrow> set_self (FileEditor (Some ws))
     | BashTool _ \<Rightarrow> set_self (BashTool (Some ws))
     | EvolveTool m _ \<Rightarrow> set_self (EvolveTool m (Some ws))
     | Evolved _ \<Rightarrow> ec_on_load code ws
     | _ \<Rightarrow> ret ())"

definition plugin_on_unload :: "'x evolved_code \<Rightarrow> ('x agent_plugin plugin, unit) prog" where
  "plugin_on_unload code =
     bindP (gets pl_self) (\<lambda>self.
     case self of
       FileEditor _ \<Rightarrow> set_self (FileEditor None)
     | BashTool _ \<Rightarrow> set_self (BashTool None)
     | EvolveTool m _ \<Rightarrow> set_self (EvolveTool m None)
     | WorkingMemory n _ \<Rightarrow> set_self (WorkingMemory n [])
     | Evolved _ \<Rightarrow> ec_on_unload code
     | _ \<Rightarrow> ret ())"

definition model_test :: "string \<Rightarrow> string \<Rightarrow> string option \<Rightarrow> (string, pyval) dict \<Rightarrow> pyval" where
  "model_test provider name key extra =
     PDict ([(''passed'', PBool (given key)), (''provider'', PStr provider), (''model'', PStr name)] @ extra)"

definition plugin_self_test :: "'x evolved_code \<Rightarrow> ('x agent_plugin plugin, pyval) prog" where
  "plugin_self_test code =
     bindP (gets pl_self) (\<lambda>self.
     case self of
       FileEditor c \<Rightarrow> ret (PDict [(''passed'', PBool True), (''workspace'', PStr (case c of None \<Rightarrow> ''.'' | Some ws \<Rightarrow> ws))])
     | BashTool _ \<Rightarrow> ret (PDict [(''passed'', PBool True)])
     | AstTool \<Rightarrow> ret (PDict [(''passed'', PBool True)])
     | EvolveTool m _ \<Rightarrow> ret (PDict [(''passed'', PBool True), (''has_manager'', PBool m)])
     | ReActLoop n \<Rightarrow> ret (PDict [(''passed'', PBool True), (''max_iterations'', PInt n)])
     | WorkingMemory _ h \<Rightarrow> ret (PDict [(''passed'', PBool True), (''active_messages'', PInt (int (length h)))])
     | DeepSeekModel n k b \<Rightarrow> ret (model_test ''deepseek'' n k [(''endpoint'', PStr b)])
     | AnthropicModel n k b \<Rightarrow> ret (model_test ''anthropic'' n k [])
     | OpenAIModel n k b \<Rightarrow> ret (model_test ''openai'' n k [])
     | MockModel \<Rightarrow> ret (PDict [(''passed'', PBool True), (''latency_ms'', PFloat (Fin (1 / 2)))])
     | Evolved _ \<Rightarrow> ec_self_test code)"

definition agent_ops :: "'x evolved_code \<Rightarrow> 'x agent_plugin plugin_ops" where
  "agent_ops code = \<lparr>op_on_load = plugin_on_load code, op_on_unload = plugin_on_unload code, op_self_test = plugin_self_test code\<rparr>"

definition system_metadata ::
    "int \<Rightarrow> string \<Rightarrow> string \<Rightarrow> string \<Rightarrow> plugin_type \<Rightarrow> string \<Rightarrow> string list \<Rightarrow> plugin_metadata" where
  "system_metadata now i n v t d tags = \<lparr>pm_id = i, pm_name = n, pm_version = v, pm_type = t, pm_description = d,
     pm_author = PA_SYSTEM, pm_status = PS_ACTIVE, pm_dependencies = [], pm_tags = tags, pm_source_code = None,
     pm_created_at = now, pm_updated_at = now\<rparr>"

definition first_given :: "string option list \<Rightarrow> string \<Rightarrow> string" where
  "first_given xs d = (case filter given xs of x # _ \<Rightarrow> the x | [] \<Rightarrow> d)"

definition deepseek_plugin :: "int \<Rightarrow> (string \<Rightarrow> string option) \<Rightarrow> string \<Rightarrow> 'x agent_plugin plugin" where
  "deepseek_plugin now env name = \<lparr>pl_metadata = system_metadata now ''deepseek_model'' (''DeepSeek ('' @ name @ '')'') ''1.2.0'' PT_MODEL
       ''DeepSeek-V4 Pro live gateway integration with streaming thinking'' [''llm'', ''reasoning'', ''deepseek'', ''live-gateway''],
     pl_self = DeepSeekModel name (env ''DEEPSEEK_API_KEY'')
       (first_given [env ''DEEPSEEK_API_BASE'', env ''OPENAI_BASE_URL''] ''https://api.deepseek.com/v1'')\<rparr>"

definition anthropic_plugin :: "int \<Rightarrow> (string \<Rightarrow> string option) \<Rightarrow> string \<Rightarrow> 'x agent_plugin plugin" where
  "anthropic_plugin now env name = \<lparr>pl_metadata = system_metadata now ''anthropic_model'' (''Anthropic ('' @ name @ '')'') ''1.0.0'' PT_MODEL
       ''Anthropic Claude Messages /v1/messages API integration'' [''llm'', ''anthropic'', ''messages-api''],
     pl_self = AnthropicModel name (env ''ANTHROPIC_API_KEY'') (first_given [env ''ANTHROPIC_BASE_URL''] ''https://api.anthropic.com'')\<rparr>"

definition openai_plugin :: "int \<Rightarrow> (string \<Rightarrow> string option) \<Rightarrow> string \<Rightarrow> 'x agent_plugin plugin" where
  "openai_plugin now env name = \<lparr>pl_metadata = system_metadata now ''openai_model'' (''OpenAI Gateway ('' @ name @ '')'') ''1.0.0'' PT_MODEL
       ''OpenAI-compatible /chat/completions gateway integration'' [''llm'', ''openai'', ''gateway''],
     pl_self = OpenAIModel name (env ''OPENAI_API_KEY'') (first_given [env ''OPENAI_BASE_URL''] ''https://api.openai.com/v1'')\<rparr>"

definition mock_plugin :: "int \<Rightarrow> 'x agent_plugin plugin" where
  "mock_plugin now = \<lparr>pl_metadata = system_metadata now ''mock_cognitive_model'' ''Aether Cognitive Core (Autonomous)'' ''1.2.0'' PT_MODEL
       ''Built-in autonomous reasoning & tool-dispatch engine for self-evolution'' [''local'', ''autonomous'', ''engine''],
     pl_self = MockModel\<rparr>"

definition editor_plugin :: "int \<Rightarrow> 'x agent_plugin plugin" where
  "editor_plugin now = \<lparr>pl_metadata = system_metadata now ''file_editor'' ''File & Workspace Editor'' ''1.1.0'' PT_TOOL
       ''Safe file reading, writing, contiguous editing and directory listing'' [''core'', ''filesystem'', ''editor''],
     pl_self = FileEditor None\<rparr>"

definition bash_plugin :: "int \<Rightarrow> 'x agent_plugin plugin" where
  "bash_plugin now = \<lparr>pl_metadata = system_metadata now ''bash_executor'' ''Allow-listed Workspace Commands'' ''1.0.0'' PT_TOOL
       ''Run a fixed set of read-only workspace diagnostics'' [''core'', ''workspace'', ''diagnostics''],
     pl_self = BashTool None\<rparr>"

definition ast_plugin :: "int \<Rightarrow> 'x agent_plugin plugin" where
  "ast_plugin now = \<lparr>pl_metadata = system_metadata now ''ast_analyzer'' ''Python AST & Code Intelligence'' ''1.0.0'' PT_TOOL
       ''Static inspection of functions, classes, dependencies and imports'' [''analysis'', ''ast'', ''lint''],
     pl_self = AstTool\<rparr>"

definition evolve_tool_plugin :: "int \<Rightarrow> bool \<Rightarrow> 'x agent_plugin plugin" where
  "evolve_tool_plugin now manager = \<lparr>pl_metadata = system_metadata now ''evolve_plugin'' ''Meta Self-Evolution Tool'' ''1.0.0'' PT_TOOL
       ''Author, verify in sandbox, and hot-swap Aether plugins live'' [''core'', ''meta'', ''self-modification'', ''hot-reload''],
     pl_self = EvolveTool manager None\<rparr>"

definition loop_plugin :: "int \<Rightarrow> 'x agent_plugin plugin" where
  "loop_plugin now = \<lparr>pl_metadata = system_metadata now ''react_loop'' ''ReAct (Reason + Act) Strategy'' ''1.0.0'' PT_COGNITIVE_LOOP
       ''Interleaves thought and action execution with environment feedback'' [''loop'', ''react'', ''strategy''],
     pl_self = ReActLoop 8\<rparr>"

definition memory_plugin :: "int \<Rightarrow> 'x agent_plugin plugin" where
  "memory_plugin now = \<lparr>pl_metadata = system_metadata now ''working_memory'' ''Sliding Window Context Memory'' ''1.0.0'' PT_MEMORY
       ''Manages multi-turn conversation history, context budget, and tool call traces'' [''memory'', ''context'', ''buffer''],
     pl_self = WorkingMemory 64000 []\<rparr>"

section \<open>What a model answers\<close>

text \<open>
  The parameters of the agent: the registry's, the code of evolved plugins, the host's environment,
  the processes and the parser of the tools, the chunks a model service streams, the parts of the
  texts that are not ASCII (the keywords of a wish to change plugins, the local model's reply, the
  text of a turn without words), and Python's text of a value.
\<close>

record 'x agent_env =
  ae_candidate :: "'x agent_plugin candidate_env"
  ae_uuid :: "nat \<Rightarrow> string"
  ae_now :: int
  ae_writable :: "path \<Rightarrow> bool"
  ae_unsafe :: bool
  ae_code :: "'x evolved_code"
  ae_host :: "string \<Rightarrow> string option"
  ae_runner :: runner
  ae_python :: string
  ae_parse :: "string \<Rightarrow> ast result"
  ae_service :: "string \<Rightarrow> string \<Rightarrow> chat_message list \<Rightarrow> model_chunk list"
  ae_other_keyword :: "bool \<Rightarrow> string \<Rightarrow> bool"
  ae_reply :: "string \<Rightarrow> string"
  ae_done_text :: string
  ae_show :: "pyval \<Rightarrow> string"

definition mesh_env :: "'x agent_env \<Rightarrow> 'x agent_plugin mesh_env" where
  "mesh_env env = \<lparr>me_ops = agent_ops (ae_code env), me_candidate = ae_candidate env, me_uuid = ae_uuid env, me_now = ae_now env,
     me_writable = ae_writable env, me_unsafe = ae_unsafe env\<rparr>"

definition thought_chunk :: "string \<Rightarrow> model_chunk" where
  "thought_chunk s = \<lparr>mc_text = [], mc_thought = s, mc_tool_calls = []\<rparr>"

definition text_lines :: "string list \<Rightarrow> string" where
  "text_lines ls = concat (map (\<lambda>l. l @ [CHR 0x0A]) ls)"

definition sample_plugin :: string where
  "sample_plugin = text_lines
    [''from aether.core.contracts import ('',
     ''    AetherPlugin, PluginMetadata, PluginType, PluginAuthor, PluginContext'',
     '')'',
     '''',
     ''class SQLiteMonitorPlugin:'',
     ''    def __init__(self) -> None:'',
     ''        self.metadata = PluginMetadata('',
     ''            id='sqlite_monitor','',
     ''            name='SQLite Monitor Tool','',
     ''            version='0.1.0','',
     ''            type=PluginType.TOOL,'',
     ''            description='Monitors active SQLite queries and metrics','',
     ''            author=PluginAuthor.AGENT_SELF_EVOLVED,'',
     ''            tags=['database', 'sqlite', 'monitor', 'self-evolved']'',
     ''        )'',
     ''        self.query_log = []'',
     '''',
     ''    def on_load(self, context: PluginContext) -> None:'',
     ''        pass'',
     '''',
     ''    def on_unload(self) -> None:'',
     ''        self.query_log.clear()'',
     '''',
     ''    def get_schema(self) -> dict:'',
     ''        return {'methods': ['analyze_query']}'',
     '''',
     ''    def self_test(self) -> dict:'',
     ''        return {'passed': True}'',
     '''',
     ''    def analyze_query(self, sql: str) -> dict:'',
     ''        is_slow = 'JOIN' in sql.upper() or 'WHERE' not in sql.upper()'',
     ''        res = {'sql': sql, 'suggest_index': is_slow}'',
     ''        self.query_log.append(res)'',
     ''        return res'']"

definition sample_test :: string where
  "sample_test = text_lines
    [''# Harness Evaluation Test Suite'',
     ''res = plugin.analyze_query('SELECT * FROM users')'',
     ''assert_equal(res['suggest_index'], True)'',
     ''res2 = plugin.analyze_query('SELECT id FROM users WHERE id = 1')'',
     ''assert_equal(res2['suggest_index'], False)'',
     ''assert_equal(plugin.self_test()['passed'], True)'']"

definition sample_call :: "string \<Rightarrow> string \<Rightarrow> tool_call" where
  "sample_call i description = \<lparr>tc_call_id = ''call_'' @ i, tc_tool_name = ''evolve_plugin'',
     tc_arguments = [(''target_plugin_id'', PStr ''sqlite_monitor''), (''plugin_name'', PStr ''SQLite Monitor Plugin''),
       (''plugin_type'', PStr ''tool''), (''description'', PStr description), (''plugin_code'', PStr sample_plugin),
       (''test_code'', PStr sample_test)]\<rparr>"

definition asks_change :: "'x agent_env \<Rightarrow> bool \<Rightarrow> string \<Rightarrow> bool" where
  "asks_change env local prompt = (let s = lower prompt in
     sublist ''plugin'' s \<or> sublist ''evolve'' s \<or> ae_other_keyword env local s)"

definition last_content :: "chat_message list \<Rightarrow> string" where
  "last_content ms = (if ms = [] then [] else cm_content (last ms))"

definition execute_chunk :: "tool_call \<Rightarrow> model_chunk" where
  "execute_chunk c = \<lparr>mc_text = [], mc_thought = ''5. Executing `evolve_plugin` in quarantined sandbox harness...'' @ [CHR 0x0A],
     mc_tool_calls = [c]\<rparr>"

text \<open>The first of the two chunks of the DeepSeek plugin begins with a sign that is not ASCII; the rest of its text is this.\<close>

definition analyzing_text :: string where
  "analyzing_text = text_lines [''[Aether Microkernel] Analyzing self-modification intent and synthesizing plugin contracts...'']"

definition deepseek_stream ::
    "'x agent_env \<Rightarrow> string \<Rightarrow> string option \<Rightarrow> string \<Rightarrow> string \<Rightarrow> chat_message list \<Rightarrow> model_chunk list" where
  "deepseek_stream env name key address i ms =
     (if \<not> given key
      then [thought_chunk (text_lines [''DeepSeek API key is not configured; using the local model plugin.''])]
      else (if asks_change env False (last_content ms)
            then [thought_chunk analyzing_text,
              execute_chunk (sample_call i ''Real-time SQLite query analyzer and optimizer'')]
            else []) @ ae_service env name address ms)"

definition anthropic_stream ::
    "'x agent_env \<Rightarrow> string \<Rightarrow> string option \<Rightarrow> string \<Rightarrow> chat_message list \<Rightarrow> model_chunk list" where
  "anthropic_stream env name key address ms =
     (if \<not> given key then [thought_chunk (text_lines [''Anthropic API key is not configured.''])]
      else ae_service env name address ms)"

definition mock_stream :: "'x agent_env \<Rightarrow> string \<Rightarrow> chat_message list \<Rightarrow> model_chunk list" where
  "mock_stream env i ms =
     (if asks_change env True (last_content ms)
      then map (\<lambda>l. thought_chunk (text_lines [l]))
          [''1. Analyzing user intent: Request requires capability extension / self-evolution.'',
           ''2. Inspecting active plugin registry to locate relevant or missing tools.'',
           ''3. Synthesizing new candidate plugin code with strict AetherPlugin interface.'',
           ''4. Drafting verification unit tests for DeepSeek-Harness evaluation...''] @
        [execute_chunk (sample_call i ''Real-time query performance analyzer and SQLite optimizer'')]
      else [\<lparr>mc_text = ae_reply env (last_content ms), mc_thought = text_lines [''Analyzing user query in multi-plugin reasoning loop...'',
          ''Formulating structured resolution.''], mc_tool_calls = []\<rparr>])"

text \<open>
  \<open>generate_stream\<close>; its identifier is drawn where the stream makes a call. A class without the
  method raises, and the OpenAI plugin is such a class.
\<close>

definition generate_chunks :: "'x agent_env \<Rightarrow> 'x agent_plugin \<Rightarrow> string \<Rightarrow> chat_message list \<Rightarrow> model_chunk list result" where
  "generate_chunks env self i ms =
     (case self of
        DeepSeekModel n k b \<Rightarrow> Inr (deepseek_stream env n k b i ms)
      | AnthropicModel n k b \<Rightarrow> Inr (anthropic_stream env n k b ms)
      | MockModel \<Rightarrow> Inr (mock_stream env i ms)
      | Evolved x \<Rightarrow> (case ec_generate (ae_code env) x of None \<Rightarrow> Inl (AttributeError ''generate_stream'') | Some g \<Rightarrow> g ms)
      | _ \<Rightarrow> Inl (AttributeError ''generate_stream''))"

section \<open>The agent\<close>

datatype agent_event =
    AE_turn_start string string
  | AE_error string
  | AE_thought string int
  | AE_text string "int option"
  | AE_call_start tool_call int
  | AE_call_done tool_result int
  | AE_evolved pyval pyval pyval "plugin_metadata list"
  | AE_diff diff_chunk
  | AE_turn_complete string string int int

record 'x agent =
  ag_mesh :: "'x agent_plugin mesh"
  ag_world :: text_world
  ag_diffs :: "diff_chunk list"
  ag_events :: "agent_event list"

definition on_mesh :: "('x agent_plugin mesh, 'a) prog \<Rightarrow> ('x agent, 'a) prog" where
  "on_mesh m s = (case m (ag_mesh s) of (r, t) \<Rightarrow> (r, s\<lparr>ag_mesh := t\<rparr>))"

definition on_world :: "(text_world, 'a) prog \<Rightarrow> ('x agent, 'a) prog" where
  "on_world m s = (case m (ag_world s) of (r, t) \<Rightarrow> (r, s\<lparr>ag_world := t\<rparr>))"

definition emit :: "agent_event \<Rightarrow> ('x agent, unit) prog" where
  "emit e = modify (\<lambda>s. s\<lparr>ag_events := ag_events s @ [e]\<rparr>)"

definition self_at :: "nat \<Rightarrow> 'x agent \<Rightarrow> 'x agent_plugin" where
  "self_at a s = pl_self (object a (ag_mesh s))"

text \<open>\<open>AetherAgent.__init__\<close>: the ten default plugins, registered in this order.\<close>

definition default_plugins :: "'x agent_env \<Rightarrow> 'x agent_plugin plugin list" where
  "default_plugins env =
     [deepseek_plugin (ae_now env) (ae_host env) ''deepseek-v4-pro'', anthropic_plugin (ae_now env) (ae_host env) ''claude-3-7-sonnet'',
      openai_plugin (ae_now env) (ae_host env) ''gpt-4o'', mock_plugin (ae_now env), editor_plugin (ae_now env), bash_plugin (ae_now env),
      ast_plugin (ae_now env), evolve_tool_plugin (ae_now env) True, loop_plugin (ae_now env), memory_plugin (ae_now env)]"

definition add_default :: "'x agent_env \<Rightarrow> 'x agent_plugin plugin \<Rightarrow> ('x agent_plugin mesh, unit) prog" where
  "add_default env p = bindP (allocate p) (\<lambda>a. bindP (register_plugin (mesh_env env) a True) (\<lambda>_. ret ()))"

definition init_plugins :: "'x agent_env \<Rightarrow> ('x agent_plugin mesh, unit) prog" where
  "init_plugins env = forP (add_default env) (default_plugins env)"

definition new_agent :: "'x agent_env \<Rightarrow> string \<Rightarrow> text_world \<Rightarrow> 'x agent" where
  "new_agent env ws w = \<lparr>ag_mesh = snd (init_plugins env (empty_mesh ws)), ag_world = w, ag_diffs = [], ag_events = []\<rparr>"

section \<open>Choosing a model\<close>

text \<open>\<open>model.self_test().get("passed", False)\<close>.\<close>

definition passed_flag :: "pyval \<Rightarrow> bool result" where
  "passed_flag v = (case v of PDict d \<Rightarrow> Inr (case dict_get d ''passed'' of None \<Rightarrow> False | Some x \<Rightarrow> truthy x)
     | _ \<Rightarrow> Inl (AttributeError ''get''))"

definition test_model :: "'x agent_env \<Rightarrow> nat \<Rightarrow> nat list \<Rightarrow> ('x agent, nat list) prog" where
  "test_model env a passed =
     bindP (on_mesh (invoke a (plugin_self_test (ae_code env)))) (\<lambda>v.
     bindP (lift (passed_flag v)) (\<lambda>ok. ret (if ok then passed @ [a] else passed)))"

definition wanted_class :: "string \<Rightarrow> ('x agent_plugin \<Rightarrow> bool) option" where
  "wanted_class name =
     (let n = lower name in
      if sublist ''claude'' n \<or> sublist ''anthropic'' n then Some (\<lambda>p. case p of AnthropicModel _ _ _ \<Rightarrow> True | _ \<Rightarrow> False)
      else if sublist ''openai'' n \<or> sublist ''gpt'' n \<or> sublist ''5.0'' n then Some (\<lambda>p. case p of OpenAIModel _ _ _ \<Rightarrow> True | _ \<Rightarrow> False)
      else if sublist ''deepseek'' n \<or> sublist ''qwen'' n then Some (\<lambda>p. case p of DeepSeekModel _ _ _ \<Rightarrow> True | _ \<Rightarrow> False)
      else None)"

definition is_mock :: "'x agent_plugin \<Rightarrow> bool" where
  "is_mock p = (case p of MockModel \<Rightarrow> True | _ \<Rightarrow> False)"

text \<open>The model by name, else the local one, else the first available one.\<close>

definition choose_model :: "'x agent \<Rightarrow> string option \<Rightarrow> nat list \<Rightarrow> nat option" where
  "choose_model s name usable =
     (case (if given name then (case wanted_class (the name) of None \<Rightarrow> None | Some c \<Rightarrow> find (\<lambda>a. c (self_at a s)) usable) else None) of
        Some a \<Rightarrow> Some a
      | None \<Rightarrow> (case find (\<lambda>a. is_mock (self_at a s)) usable of
            Some a \<Rightarrow> Some a
          | None \<Rightarrow> (case usable of [] \<Rightarrow> None | a # _ \<Rightarrow> Some a)))"

definition get_active_model :: "'x agent_env \<Rightarrow> string option \<Rightarrow> ('x agent, nat option) prog" where
  "get_active_model env name =
     bindP (gets (\<lambda>s. get_by_type (ag_mesh s) PT_MODEL)) (\<lambda>models.
     bindP (foldP (test_model env) models []) (\<lambda>usable.
     gets (\<lambda>s. choose_model s name usable)))"

section \<open>Memory\<close>

definition is_memory :: "'x agent_plugin \<Rightarrow> bool" where
  "is_memory p = (case p of WorkingMemory _ _ \<Rightarrow> True | _ \<Rightarrow> False)"

definition get_memory :: "'x agent \<Rightarrow> nat option" where
  "get_memory s = (case get_by_type (ag_mesh s) PT_MEMORY of a # _ \<Rightarrow> if is_memory (self_at a s) then Some a else None | [] \<Rightarrow> None)"

definition remember :: "chat_message \<Rightarrow> 'x agent_plugin \<Rightarrow> 'x agent_plugin" where
  "remember m p = (case p of WorkingMemory n h \<Rightarrow> WorkingMemory n (h @ [m]) | q \<Rightarrow> q)"

definition memory_append :: "nat option \<Rightarrow> chat_message \<Rightarrow> ('x agent, unit) prog" where
  "memory_append mem m = (case mem of None \<Rightarrow> ret ()
     | Some a \<Rightarrow> on_mesh (invoke a (modify (\<lambda>p. p\<lparr>pl_self := remember m (pl_self p)\<rparr>))))"

definition history_of :: "'x agent_plugin \<Rightarrow> chat_message list" where
  "history_of p = (case p of WorkingMemory _ h \<Rightarrow> h | _ \<Rightarrow> [])"

definition get_messages :: "nat option \<Rightarrow> string \<Rightarrow> 'x agent \<Rightarrow> chat_message list" where
  "get_messages mem prompt s = (case mem of None \<Rightarrow> [plain_message MR_USER prompt] | Some a \<Rightarrow> history_of (self_at a s))"

section \<open>Tool calls\<close>

definition detail_value :: "test_detail \<Rightarrow> pyval" where
  "detail_value d = PDict ([(''name'', PStr (td_name d)), (''status'', PStr (if td_passed d then ''passed'' else ''failed''))] @
     (case td_error d of None \<Rightarrow> [] | Some e \<Rightarrow> [(''error'', PStr e)]) @ (case td_output d of None \<Rightarrow> [] | Some v \<Rightarrow> [(''output'', v)]))"

text \<open>\<open>SandboxTestResult.to_dict\<close> without the duration.\<close>

definition sandbox_value :: "sandbox_result \<Rightarrow> pyval" where
  "sandbox_value r = PDict [(''passed'', PBool (sr_passed r)), (''syntax_valid'', PBool (sr_syntax_valid r)),
     (''security_passed'', PBool (sr_security_passed r)), (''self_test_passed'', PBool (sr_self_test_passed r)),
     (''unit_tests_passed'', PBool (sr_unit_tests_passed r)), (''test_details'', PList (map detail_value (sr_details r))),
     (''error_message'', case sr_error r of None \<Rightarrow> PNone | Some e \<Rightarrow> PStr e)]"

definition evolution_request_of :: "arguments \<Rightarrow> evolution_request result" where
  "evolution_request_of args =
     andThen (bind_arguments [''target_plugin_id'', ''plugin_name'', ''plugin_type'', ''plugin_code'', ''test_code''] [''description''] True args) (\<lambda>_.
     andThen (text_argument args ''plugin_type'' PNone) (\<lambda>t.
     andThen (plugin_type_of t) (\<lambda>t.
     andThen (text_argument args ''target_plugin_id'' PNone) (\<lambda>target.
     andThen (text_argument args ''plugin_name'' PNone) (\<lambda>name.
     andThen (text_argument args ''description'' (PStr [])) (\<lambda>d.
     andThen (text_argument args ''plugin_code'' PNone) (\<lambda>source.
     andThen (text_argument args ''test_code'' PNone) (\<lambda>test.
     Inr \<lparr>eq_target_plugin_id = target, eq_plugin_name = name, eq_plugin_type = t, eq_description = d,
       eq_plugin_code = source, eq_test_code = test, eq_author = PA_AGENT_SELF_EVOLVED\<rparr>))))))))"

definition evolution_tool_result :: "evolution_result \<Rightarrow> tool_result" where
  "evolution_tool_result r = \<lparr>tr_call_id = ''call_evolve'', tr_tool_name = ''evolve_plugin'', tr_success = er_success r,
     tr_output = PDict [(''status'', PStr (er_status r)), (''message'', PStr (er_message r)),
       (''snapshot_id'', case er_snapshot_id r of None \<Rightarrow> PNone | Some i \<Rightarrow> PStr i),
       (''test_results'', case er_test_results r of None \<Rightarrow> PDict [] | Some t \<Rightarrow> sandbox_value t)],
     tr_error = (if er_success r then None else Some (er_message r)), tr_artifacts = []\<rparr>"

text \<open>The manager's arguments are bound before it is asked whether there is one.\<close>

definition evolve_tool :: "'x agent_env \<Rightarrow> bool \<Rightarrow> arguments \<Rightarrow> ('x agent, tool_result) prog" where
  "evolve_tool env manager args =
     (if \<not> manager
      then bindP (lift (bind_arguments [''target_plugin_id'', ''plugin_name'', ''plugin_type'', ''plugin_code'', ''test_code''] [''description''] True args)) (\<lambda>_.
        ret (tool_failure ''call_evolve'' ''evolve_plugin'' ''EvolutionManager is not attached to tool.''))
      else bindP (lift (evolution_request_of args)) (\<lambda>r.
        bindP (on_mesh (evolve_plugin (mesh_env env) r)) (\<lambda>res. ret (evolution_tool_result res))))"

definition context_workspace :: "string option \<Rightarrow> string" where
  "context_workspace c = (case c of None \<Rightarrow> ''.'' | Some ws \<Rightarrow> ws)"

text \<open>\<open>plugin.execute\<close>, where the class has it.\<close>

definition execute_method :: "'x agent_env \<Rightarrow> nat \<Rightarrow> 'x agent_plugin \<Rightarrow> (arguments \<Rightarrow> ('x agent, tool_result) prog) option" where
  "execute_method env a self =
     (case self of
        FileEditor c \<Rightarrow> Some (\<lambda>args. on_world (file_editor (ae_show env) (context_workspace c) args))
      | BashTool c \<Rightarrow> Some (\<lambda>args. lift (bash_executor (ae_runner env) (ae_python env) (context_workspace c) args))
      | AstTool \<Rightarrow> Some (\<lambda>args. lift (ast_analyzer (ae_parse env) args))
      | EvolveTool m c \<Rightarrow> Some (evolve_tool env m)
      | Evolved x \<Rightarrow> (case ec_execute (ae_code env) x of None \<Rightarrow> None | Some f \<Rightarrow> Some (\<lambda>args. on_mesh (invoke a (f args))))
      | _ \<Rightarrow> None)"

definition lookup_tool :: "string \<Rightarrow> 'x agent \<Rightarrow> nat option" where
  "lookup_tool name s =
     (case get_plugin (ag_mesh s) name of
        Some a \<Rightarrow> Some a
      | None \<Rightarrow> find (\<lambda>a. pm_id (metadata_at a (ag_mesh s)) = name) (get_by_type (ag_mesh s) PT_TOOL))"

definition execute_tool_call :: "'x agent_env \<Rightarrow> tool_call \<Rightarrow> ('x agent, tool_result) prog" where
  "execute_tool_call env c =
     bindP (gets (lookup_tool (tc_tool_name c))) (\<lambda>tool.
     case tool of
       None \<Rightarrow> ret (tool_failure (tc_call_id c) (tc_tool_name c)
         (''Tool plugin '' @ quoted (tc_tool_name c) @ '' not found in active registry.''))
     | Some a \<Rightarrow>
         bindP (gets (\<lambda>s. execute_method env a (self_at a s))) (\<lambda>m.
         case m of
           None \<Rightarrow> ret (tool_failure (tc_call_id c) (tc_tool_name c)
             (''Plugin '' @ quoted (tc_tool_name c) @ '' does not implement '' @ quoted ''execute'' @ '' method.''))
         | Some f \<Rightarrow> handleP (f (tc_arguments c)) (\<lambda>e. ret (tool_failure (tc_call_id c) (tc_tool_name c)
             (''Tool execution exception: '' @ exn_message e)))))"

section \<open>A turn\<close>

text \<open>What a step has seen of the model's stream: its thoughts, its texts and its calls.\<close>

record step_state =
  st_thought :: "string list"
  st_text :: "string list"
  st_calls :: "tool_call list"

definition take_chunk :: "int \<Rightarrow> model_chunk \<Rightarrow> step_state \<Rightarrow> ('x agent, step_state) prog" where
  "take_chunk n c st =
     bindP (if mc_thought c = [] then ret st
            else bindP (emit (AE_thought (mc_thought c) n)) (\<lambda>_. ret (st\<lparr>st_thought := st_thought st @ [mc_thought c]\<rparr>))) (\<lambda>st.
     bindP (if mc_text c = [] then ret st
            else bindP (emit (AE_text (mc_text c) (Some n))) (\<lambda>_. ret (st\<lparr>st_text := st_text st @ [mc_text c]\<rparr>))) (\<lambda>st.
     ret (st\<lparr>st_calls := st_calls st @ mc_tool_calls c\<rparr>)))"

definition output_field :: "pyval \<Rightarrow> string \<Rightarrow> pyval \<Rightarrow> pyval" where
  "output_field v k d = (case v of PDict o' \<Rightarrow> (case dict_get o' k of None \<Rightarrow> PNone | Some x \<Rightarrow> x) | _ \<Rightarrow> d)"

definition announce_evolution :: "tool_call \<Rightarrow> tool_result \<Rightarrow> ('x agent, unit) prog" where
  "announce_evolution c r =
     (if tc_tool_name c = ''evolve_plugin'' \<and> tr_success r
      then bindP (gets (\<lambda>s. list_plugins (ag_mesh s) None)) (\<lambda>ms.
        emit (AE_evolved (case dict_get (tc_arguments c) ''target_plugin_id'' of None \<Rightarrow> PNone | Some v \<Rightarrow> v)
          (output_field (tr_output r) ''status'' (PStr [])) (output_field (tr_output r) ''snapshot_id'' PNone) ms))
      else ret ())"

text \<open>\<open>DiffChunk(...)\<close> needs a text for the path.\<close>

definition announce_diff :: "'x agent_env \<Rightarrow> tool_call \<Rightarrow> tool_result \<Rightarrow> ('x agent, unit) prog" where
  "announce_diff env c r =
     (case dict_get (tr_artifacts r) ''diff'' of
        None \<Rightarrow> ret ()
      | Some d \<Rightarrow>
          bindP (on_mesh (draw (mesh_env env))) (\<lambda>i.
          bindP (lift (text_argument (tc_arguments c) ''path'' (PStr ''unknown''))) (\<lambda>p.
          let x = \<lparr>dc_chunk_id = i, dc_file_path = p, dc_old_start = 1, dc_old_lines = 1, dc_new_start = 1, dc_new_lines = 1,
            dc_diff_text = d, dc_status = ''pending''\<rparr> in
          bindP (modify (\<lambda>s. s\<lparr>ag_diffs := ag_diffs s @ [x]\<rparr>)) (\<lambda>_. emit (AE_diff x)))))"

definition run_call :: "'x agent_env \<Rightarrow> int \<Rightarrow> tool_call \<Rightarrow> tool_result list \<Rightarrow> ('x agent, tool_result list) prog" where
  "run_call env n c rs =
     bindP (emit (AE_call_start c n)) (\<lambda>_.
     bindP (execute_tool_call env c) (\<lambda>r.
     bindP (emit (AE_call_done r n)) (\<lambda>_.
     bindP (announce_evolution c r) (\<lambda>_.
     bindP (announce_diff env c r) (\<lambda>_. ret (rs @ [r]))))))"

definition result_text :: "'x agent_env \<Rightarrow> tool_result \<Rightarrow> string" where
  "result_text env r = ''Tool ['' @ tr_tool_name r @ ''] output: '' @
     (if tr_output r \<noteq> PNone then ae_show env (tr_output r)
      else if given (tr_error r) then ''Error: '' @ the (tr_error r) else [])"

definition remember_step :: "'x agent_env \<Rightarrow> nat option \<Rightarrow> step_state \<Rightarrow> tool_result list \<Rightarrow> ('x agent, unit) prog" where
  "remember_step env mem st rs =
     bindP (memory_append mem \<lparr>cm_role = MR_ASSISTANT, cm_content = concat (st_text st),
       cm_thought = (if concat (st_thought st) = [] then None else Some (concat (st_thought st))),
       cm_tool_calls = st_calls st, cm_tool_results = rs\<rparr>) (\<lambda>_.
     forP (\<lambda>r. memory_append mem (plain_message MR_TOOL (result_text env r))) rs)"

definition model_answer :: "'x agent_env \<Rightarrow> nat \<Rightarrow> nat option \<Rightarrow> string \<Rightarrow> ('x agent, model_chunk list) prog" where
  "model_answer env model mem prompt =
     bindP (gets (get_messages mem prompt)) (\<lambda>ms.
     bindP (on_mesh (draw (mesh_env env))) (\<lambda>i.
     reads (\<lambda>s. generate_chunks env (self_at model s) i ms)))"

definition run_step :: "'x agent_env \<Rightarrow> nat \<Rightarrow> nat option \<Rightarrow> string \<Rightarrow> int \<Rightarrow> ('x agent, step_state) prog" where
  "run_step env model mem prompt n =
     bindP (model_answer env model mem prompt) (\<lambda>cs.
     bindP (foldP (take_chunk n) cs \<lparr>st_thought = [], st_text = [], st_calls = []\<rparr>) (\<lambda>st.
     if st_calls st = [] then ret st
     else bindP (foldP (run_call env n) (st_calls st) []) (\<lambda>rs.
       bindP (remember_step env mem st rs) (\<lambda>_. ret st))))"

text \<open>The steps left, the number of the next, and the texts and calls so far.\<close>

fun run_steps :: "'x agent_env \<Rightarrow> nat \<Rightarrow> nat option \<Rightarrow> string \<Rightarrow> nat \<Rightarrow> int \<Rightarrow> string list \<Rightarrow> int \<Rightarrow>
    ('x agent, string list \<times> int) prog" where
  "run_steps env model mem prompt 0 n texts calls = ret (texts, calls)"
| "run_steps env model mem prompt (Suc k) n texts calls =
     bindP (run_step env model mem prompt n) (\<lambda>st.
     if st_calls st = [] then ret (texts @ st_text st, calls)
     else run_steps env model mem prompt k (n + 1) (texts @ st_text st) (calls + int (length (st_calls st))))"

definition finish_turn :: "'x agent_env \<Rightarrow> string \<Rightarrow> string list \<Rightarrow> int \<Rightarrow> ('x agent, unit) prog" where
  "finish_turn env i texts calls =
     bindP (if concat texts = [] then bindP (emit (AE_text (ae_done_text env) None)) (\<lambda>_. ret (ae_done_text env))
            else ret (concat texts)) (\<lambda>response.
     bindP (gets (\<lambda>s. int (length (list_plugins (ag_mesh s) None)))) (\<lambda>count.
     emit (AE_turn_complete i response calls count)))"

text \<open>A turn after its start was told.\<close>

definition turn_body :: "'x agent_env \<Rightarrow> string \<Rightarrow> string \<Rightarrow> string option \<Rightarrow> nat \<Rightarrow> ('x agent, unit) prog" where
  "turn_body env i prompt model_name max_steps =
     bindP (gets get_memory) (\<lambda>mem.
     bindP (memory_append mem (plain_message MR_USER prompt)) (\<lambda>_.
     bindP (get_active_model env model_name) (\<lambda>model.
     case model of
       None \<Rightarrow> emit (AE_error ''No active model plugin available.'')
     | Some a \<Rightarrow>
         bindP (run_steps env a mem prompt max_steps 1 [] 0) (\<lambda>(texts, calls).
         finish_turn env i texts calls))))"

definition run_turn :: "'x agent_env \<Rightarrow> string \<Rightarrow> string option \<Rightarrow> nat \<Rightarrow> ('x agent, unit) prog" where
  "run_turn env prompt model_name max_steps =
     bindP (on_mesh (draw (mesh_env env))) (\<lambda>i.
     bindP (emit (AE_turn_start i prompt)) (\<lambda>_.
     turn_body env i prompt model_name max_steps))"

section \<open>Programs that end without raising\<close>

definition runs :: "('s \<Rightarrow> bool) \<Rightarrow> ('s, 'a) prog \<Rightarrow> ('a \<Rightarrow> bool) \<Rightarrow> bool" where
  "runs I m Q \<longleftrightarrow> (\<forall>s. I s \<longrightarrow> (\<exists>x t. m s = (Inr x, t) \<and> I t \<and> Q x))"

named_theorems runs_intros \<open>rules for programs that do not raise\<close>

lemma runsI: "(\<And>s. I s \<Longrightarrow> \<exists>x t. m s = (Inr x, t) \<and> I t \<and> Q x) \<Longrightarrow> runs I m Q"
  by (simp add: runs_def)

lemma runsE: "runs I m Q \<Longrightarrow> I s \<Longrightarrow> (\<And>x t. m s = (Inr x, t) \<Longrightarrow> I t \<Longrightarrow> Q x \<Longrightarrow> thesis) \<Longrightarrow> thesis"
  unfolding runs_def by blast

lemma runs_ret [runs_intros]: "Q x \<Longrightarrow> runs I (ret x) Q"
  by (simp add: runs_def)

lemma runs_gets [runs_intros]: "(\<And>s. I s \<Longrightarrow> Q (f s)) \<Longrightarrow> runs I (gets f) Q"
  by (simp add: runs_def)

lemma runs_modify [runs_intros]: "(\<And>s. I s \<Longrightarrow> I (f s)) \<Longrightarrow> Q () \<Longrightarrow> runs I (modify f) Q"
  by (simp add: runs_def)

lemma runs_bind: "runs I m P \<Longrightarrow> (\<And>x. P x \<Longrightarrow> runs I (f x) Q) \<Longrightarrow> runs I (bindP m f) Q"
  unfolding runs_def bindP_def by (fastforce split: prod.splits sum.splits)

lemma runs_if: "(b \<Longrightarrow> runs I m Q) \<Longrightarrow> (\<not> b \<Longrightarrow> runs I n Q) \<Longrightarrow> runs I (if b then m else n) Q"
  by simp

lemma runs_fold:
  assumes "\<And>x a. x \<in> set xs \<Longrightarrow> P a \<Longrightarrow> runs I (f x a) P" and "P a"
  shows "runs I (foldP f xs a) P"
  using assms by (induction xs arbitrary: a) (auto intro: runs_ret runs_bind)

lemma runs_for:
  assumes "\<And>x. x \<in> set xs \<Longrightarrow> runs I (f x) (\<lambda>_. True)"
  shows "runs I (forP f xs) (\<lambda>_. True)"
  using assms by (induction xs) (auto intro: runs_ret runs_bind)

lemma runs_weaken: "runs I m P \<Longrightarrow> (\<And>x. P x \<Longrightarrow> Q x) \<Longrightarrow> runs I m Q"
  unfolding runs_def by blast

lemma runs_handle:
  assumes "keeps I m" and "\<And>s x t. I s \<Longrightarrow> m s = (Inr x, t) \<Longrightarrow> Q x" and "\<And>e. runs I (h e) Q"
  shows "runs I (handleP m h) Q"
proof (rule runsI)
  fix s
  assume s: "I s"
  show "\<exists>x t. handleP m h s = (Inr x, t) \<and> I t \<and> Q x"
  proof (cases "m s")
    case (Pair r t)
    with keepsD [OF assms(1) s] have t: "I t" by simp
    show ?thesis
    proof (cases r)
      case (Inl e)
      with Pair assms(3) [of e] t show ?thesis by (simp add: handleP_def runs_def)
    next
      case (Inr x)
      with Pair t assms(2) [OF s] show ?thesis by (simp add: handleP_def)
    qed
  qed
qed

section \<open>What a turn leaves as it is\<close>

text \<open>The part of a plugin that its own operation does not change.\<close>

fun static :: "'x agent_plugin \<Rightarrow> 'x agent_plugin" where
  "static (FileEditor c) = FileEditor None"
| "static (BashTool c) = BashTool None"
| "static (EvolveTool m c) = EvolveTool m None"
| "static (WorkingMemory n h) = WorkingMemory n []"
| "static p = p"

type_synonym 'x shape = "(plugin_type \<times> 'x agent_plugin) list \<times> (string, nat) dict"

definition object_shapes :: "'x agent_plugin plugin list \<Rightarrow> (plugin_type \<times> 'x agent_plugin) list" where
  "object_shapes ps = map (\<lambda>p. (pm_type (pl_metadata p), static (pl_self p))) ps"

definition shape :: "'x agent_plugin mesh \<Rightarrow> 'x shape" where
  "shape s = (object_shapes (ms_objects s), ms_plugins s)"

definition shaped :: "'x shape \<Rightarrow> 'x agent \<Rightarrow> bool" where
  "shaped x s \<longleftrightarrow> shape (ag_mesh s) = x"

text \<open>No evolved plugin, only models that can answer or have no key, and among the registered models the local one.\<close>

definition plain_entry :: "plugin_type \<times> 'x agent_plugin \<Rightarrow> bool" where
  "plain_entry e \<longleftrightarrow> (case snd e of Evolved _ \<Rightarrow> False | OpenAIModel _ k _ \<Rightarrow> \<not> given k
     | DeepSeekModel _ _ _ \<Rightarrow> True | AnthropicModel _ _ _ \<Rightarrow> True | MockModel \<Rightarrow> True | _ \<Rightarrow> fst e \<noteq> PT_MODEL)"

definition plain_shape :: "'x shape \<Rightarrow> bool" where
  "plain_shape x \<longleftrightarrow> list_all plain_entry (fst x) \<and> list_all (\<lambda>(k, a). a < length (fst x)) (snd x) \<and>
     list_ex (\<lambda>(k, a). fst x ! a = (PT_MODEL, MockModel)) (snd x)"

lemma shape_type: "shaped x s \<Longrightarrow> a < length (fst x) \<Longrightarrow> pm_type (metadata_at a (ag_mesh s)) = fst (fst x ! a)"
  by (auto simp: shaped_def shape_def object_shapes_def metadata_at_def object_def)

lemma plain_address: "plain_shape x \<Longrightarrow> a \<in> snd ` set (snd x) \<Longrightarrow> a < length (fst x)"
  by (auto simp: plain_shape_def list_all_iff)

lemma shape_by_type:
  assumes "shaped x s" and "plain_shape x"
  shows "get_by_type (ag_mesh s) t = filter (\<lambda>a. fst (fst x ! a) = t) (map snd (snd x))"
proof -
  have p: "ms_plugins (ag_mesh s) = snd x" using assms(1) by (auto simp: shaped_def shape_def)
  show ?thesis
    unfolding get_by_type_def p
    by (rule filter_cong [OF refl]) (use shape_type [OF assms(1)] plain_address [OF assms(2)] in simp)
qed

lemma shape_self: "shaped x s \<Longrightarrow> a < length (fst x) \<Longrightarrow> static (self_at a s) = snd (fst x ! a)"
  by (auto simp: shaped_def shape_def object_shapes_def self_at_def object_def)

lemma plain_self: "shaped x s \<Longrightarrow> plain_shape x \<Longrightarrow> a < length (fst x) \<Longrightarrow> plain_entry (fst (fst x ! a), static (self_at a s))"
  by (simp add: shape_self plain_shape_def list_all_length)

text \<open>A method keeps the shape if it keeps the plugin's type and what is static of it.\<close>

definition keeps_static :: "('x agent_plugin plugin, 'a) prog \<Rightarrow> 'x agent_plugin plugin \<Rightarrow> bool" where
  "keeps_static h p \<longleftrightarrow> pm_type (pl_metadata (snd (h p))) = pm_type (pl_metadata p) \<and> static (pl_self (snd (h p))) = static (pl_self p)"

lemma invoke_shape:
  assumes "a < length (ms_objects s) \<Longrightarrow> keeps_static h (object a s)"
  shows "shape (snd (invoke a h s)) = shape s"
proof (cases "a < length (ms_objects s)")
  case True
  let ?f = "\<lambda>p. (pm_type (pl_metadata p), static (pl_self p))"
  from assms [OF True] have "?f (snd (h (object a s))) = map ?f (ms_objects s) ! a"
    using True by (simp add: keeps_static_def object_def)
  then have "map ?f ((ms_objects s)[a := snd (h (object a s))]) = map ?f (ms_objects s)"
    using True by (simp add: map_update list_update_same_conv)
  then show ?thesis by (auto simp: shape_def invoke_def object_shapes_def split: prod.split)
next
  case False
  then show ?thesis by (auto simp: shape_def invoke_def object_shapes_def list_update_beyond split: prod.split)
qed

text \<open>Steps that do not touch the plugins.\<close>

lemma keeps_shaped [keeps_intros]:
  "keeps (shaped x) (emit e)" "keeps (shaped x) (on_world m)" "keeps (shaped x) (on_mesh (draw d))" "keeps (shaped x) (on_mesh (file_result r))"
  by (auto simp: keeps_def emit_def shaped_def shape_def on_world_def on_mesh_def draw_def file_result_def split: prod.split)

lemma runs_emit [runs_intros]: "runs (shaped x) (emit e) (\<lambda>_. True)"
  by (simp add: runs_def emit_def shaped_def)

lemma runs_draw [runs_intros]: "runs (shaped x) (on_mesh (draw d)) (\<lambda>_. True)"
  by (simp add: runs_def on_mesh_def draw_def shaped_def shape_def)

lemma runs_invoke:
  assumes "\<And>p. keeps_static h p" and "\<And>p. isl (fst (h p)) = False"
  shows "runs (shaped x) (on_mesh (invoke a h)) (\<lambda>_. True)"
proof (rule runsI)
  fix s :: "'a agent"
  assume s: "shaped x s"
  obtain v q where "h (object a (ag_mesh s)) = (Inr v, q)"
    using assms(2) [of "object a (ag_mesh s)"] by (cases "h (object a (ag_mesh s))"; cases "fst (h (object a (ag_mesh s)))") auto
  then have "on_mesh (invoke a h) s = (Inr v, s\<lparr>ag_mesh := snd (invoke a h (ag_mesh s))\<rparr>)"
    by (simp add: on_mesh_def invoke_def)
  moreover have "shaped x (s\<lparr>ag_mesh := snd (invoke a h (ag_mesh s))\<rparr>)"
    using s invoke_shape [of a "ag_mesh s" h, OF assms(1)] by (simp add: shaped_def)
  ultimately show "\<exists>v t. on_mesh (invoke a h) s = (Inr v, t) \<and> shaped x t \<and> True" by blast
qed

lemma static_remember: "static (remember m p) = static p"
  by (cases p) (simp_all add: remember_def)

lemma runs_memory [runs_intros]: "runs (shaped x) (memory_append mem m) (\<lambda>_. True)"
  by (cases mem) (auto simp: memory_append_def runs_ret keeps_static_def static_remember intro!: runs_invoke)

text \<open>The local model and those with a key pass their own test.\<close>

definition passes :: "'x agent_plugin \<Rightarrow> bool" where
  "passes p \<longleftrightarrow> (case p of DeepSeekModel _ k _ \<Rightarrow> given k | AnthropicModel _ k _ \<Rightarrow> given k | OpenAIModel _ k _ \<Rightarrow> given k | MockModel \<Rightarrow> True | _ \<Rightarrow> False)"

definition can_answer :: "'x agent_plugin \<Rightarrow> bool" where
  "can_answer p \<longleftrightarrow> (case p of DeepSeekModel _ _ _ \<Rightarrow> True | AnthropicModel _ _ _ \<Rightarrow> True | MockModel \<Rightarrow> True | _ \<Rightarrow> False)"

definition is_model :: "'x agent_plugin \<Rightarrow> bool" where
  "is_model p \<longleftrightarrow> (case p of DeepSeekModel _ _ _ \<Rightarrow> True | AnthropicModel _ _ _ \<Rightarrow> True | OpenAIModel _ _ _ \<Rightarrow> True | MockModel \<Rightarrow> True | _ \<Rightarrow> False)"

lemma plain_model: "plain_entry (PT_MODEL, static p) \<Longrightarrow> static p = p \<and> is_model p \<and> (passes p \<longrightarrow> can_answer p)"
  by (cases p) (auto simp: plain_entry_def passes_def can_answer_def is_model_def)

lemma model_self:
  assumes s: "shaped x s" and x: "plain_shape x" and a: "a < length (fst x)" "fst (fst x ! a) = PT_MODEL"
  shows "self_at a s = snd (fst x ! a) \<and> is_model (self_at a s) \<and> (passes (self_at a s) \<longrightarrow> can_answer (self_at a s))"
  using plain_model [of "self_at a s"] plain_self [OF s x a(1)] shape_self [OF s a(1)] a(2) by simp

lemma model_tests: "is_model self \<Longrightarrow> pl_self p = self \<Longrightarrow>
    \<exists>v. plugin_self_test code p = (Inr v, p) \<and> passed_flag v = Inr (passes self)"
  by (cases self) (auto simp: plugin_self_test_def model_test_def passed_flag_def passes_def is_model_def)

lemma test_model_runs:
  assumes s: "shaped x s" and x: "plain_shape x" and a: "a < length (fst x)" "fst (fst x ! a) = PT_MODEL"
  shows "test_model env a acc s = (Inr (if passes (snd (fst x ! a)) then acc @ [a] else acc), s)"
proof -
  let ?p = "object a (ag_mesh s)"
  have m: "self_at a s = snd (fst x ! a)" "is_model (self_at a s)" using model_self [OF s x a] by auto
  obtain v where v: "plugin_self_test (ae_code env) ?p = (Inr v, ?p)" "passed_flag v = Inr (passes (self_at a s))"
    using model_tests [OF m(2), of ?p "ae_code env"] by (auto simp: self_at_def)
  then have "on_mesh (invoke a (plugin_self_test (ae_code env))) s = (Inr v, s)"
    by (simp add: on_mesh_def invoke_def object_def)
  with v(2) m(1) show ?thesis by (simp add: test_model_def bindP_def)
qed

lemma test_models_run:
  assumes "shaped x s" and "plain_shape x" and "\<forall>a \<in> set models. a < length (fst x) \<and> fst (fst x ! a) = PT_MODEL"
  shows "foldP (test_model env) models acc s = (Inr (acc @ filter (\<lambda>a. passes (snd (fst x ! a))) models), s)"
  using assms(3)
proof (induction models arbitrary: acc)
  case (Cons a models)
  then show ?case using test_model_runs [OF assms(1,2), of a env acc] by (simp add: bindP_def)
qed simp

lemma find_in: "find P xs = Some a \<Longrightarrow> a \<in> set xs"
  by (auto simp: find_Some_iff)

lemma first_choice:
  "(\<And>a. n = Some a \<Longrightarrow> a \<in> S) \<Longrightarrow> (\<And>a. m = Some a \<Longrightarrow> a \<in> S) \<Longrightarrow> b \<in> S \<Longrightarrow>
   \<exists>a \<in> S. (case n of Some a \<Rightarrow> Some a | None \<Rightarrow> (case m of Some a \<Rightarrow> Some a
     | None \<Rightarrow> (case b # bs of [] \<Rightarrow> None | a # _ \<Rightarrow> Some a))) = Some a"
  by (cases n; cases m) auto

lemma choose_model_in:
  assumes "usable \<noteq> []"
  shows "\<exists>a \<in> set usable. choose_model s name usable = Some a"
proof -
  obtain b bs where u: "usable = b # bs" using assms by (cases usable) auto
  show ?thesis
    unfolding choose_model_def u
    by (rule first_choice) (auto split: if_splits option.splits dest: find_in [of _ "b # bs"] simp del: find.simps)
qed

lemma get_active_model_default:
  assumes s: "shaped x s" and x: "plain_shape x"
  obtains a where "get_active_model env name s = (Inr (Some a), s)" "a < length (fst x)" "fst (fst x ! a) = PT_MODEL"
    "can_answer (snd (fst x ! a))"
proof -
  let ?models = "filter (\<lambda>a. fst (fst x ! a) = PT_MODEL) (map snd (snd x))"
  let ?usable = "filter (\<lambda>a. passes (snd (fst x ! a))) ?models"
  have ok: "\<forall>a \<in> set ?models. a < length (fst x) \<and> fst (fst x ! a) = PT_MODEL" using plain_address [OF x] by auto
  have t: "foldP (test_model env) ?models [] s = (Inr ?usable, s)" using test_models_run [OF s x ok, of env "[]"] by simp
  from x obtain k b where "(k, b) \<in> set (snd x)" "fst x ! b = (PT_MODEL, MockModel)"
    by (auto simp: plain_shape_def list_ex_iff)
  then have "b \<in> set ?usable" by (force simp: passes_def)
  then have "?usable \<noteq> []" by (metis empty_iff empty_set)
  from choose_model_in [OF this, of s name] obtain a where a: "a \<in> set ?usable" "choose_model s name ?usable = Some a" by blast
  from a(1) have "a \<in> set ?models" and passed: "passes (snd (fst x ! a))" by (simp_all only: set_filter mem_Collect_eq)
  from bspec [OF ok this(1)] have p: "a < length (fst x)" "fst (fst x ! a) = PT_MODEL" by blast+
  from model_self [OF s x p] passed have "can_answer (snd (fst x ! a))" by metis
  moreover have "get_active_model env name s = (Inr (Some a), s)"
    using t a(2) by (simp add: get_active_model_def bindP_def shape_by_type [OF s x])
  ultimately show thesis using that p by blast
qed

lemma get_active_model_runs:
  assumes "plain_shape x"
  shows "runs (shaped x) (get_active_model env name) (\<lambda>r. \<exists>a. r = Some a \<and> a < length (fst x) \<and> fst (fst x ! a) = PT_MODEL \<and>
    can_answer (snd (fst x ! a)))"
proof (rule runsI)
  fix s :: "'a agent"
  assume s: "shaped x s"
  show "\<exists>r u. get_active_model env name s = (Inr r, u) \<and> shaped x u \<and> (\<exists>a. r = Some a \<and> a < length (fst x) \<and>
      fst (fst x ! a) = PT_MODEL \<and> can_answer (snd (fst x ! a)))"
    by (rule get_active_model_default [OF s assms, of env name]) (use s in blast)
qed

section \<open>Tool calls do not raise\<close>

text \<open>Where a result carries a diff, the call named a path.\<close>

definition diff_named :: "tool_call \<Rightarrow> tool_result \<Rightarrow> bool" where
  "diff_named c r \<longleftrightarrow> dict_get (tr_artifacts r) ''diff'' = None \<or> (\<exists>p. text_argument (tc_arguments c) ''path'' (PStr ''unknown'') = Inr p)"

lemma text_argument_default: "text_argument args k PNone = Inr p \<Longrightarrow> text_argument args k d = Inr p"
  by (auto simp: text_argument_def split: option.splits)

lemma file_editor_path:
  assumes "fst (file_editor text_of ws args w) = Inr r"
  shows "\<exists>p. text_argument args ''path'' PNone = Inr p"
proof -
  obtain t where "file_editor text_of ws args w = (Inr r, t)" using assms by (cases "file_editor text_of ws args w") auto
  then show ?thesis by (auto simp: file_editor_def bindP_eq_Inr)
qed

lemma tool_failure_diff [simp]: "diff_named c (tool_failure i n e)"
  by (simp add: diff_named_def tool_failure_def)

lemma other_tools_diff:
  "bash_executor run python ws args = Inr r \<Longrightarrow> diff_named c r"
  "ast_analyzer parse args = Inr r \<Longrightarrow> diff_named c r"
  by (auto simp: bash_executor_def ast_analyzer_def andThen_eq_Inr diff_named_def tool_failure_def tool_success_def split: sum.splits)

lemma evolve_disabled:
  assumes "\<not> ae_unsafe env"
  shows "keeps (shaped x) (on_mesh (evolve_plugin (mesh_env env) r))"
proof -
  have "\<not> me_unsafe (mesh_env env)" using assms by (simp add: mesh_env_def)
  then have "shape (snd (evolve_plugin (mesh_env env) r u)) = shape u" for u :: "'a agent_plugin mesh"
    by (simp add: evolve_plugin_def bindP_def draw_def file_result_def shape_def)
  then show ?thesis by (auto simp: keeps_def on_mesh_def shaped_def split: prod.split) (metis snd_conv)
qed

lemma method_keeps:
  assumes "\<not> ae_unsafe env" and "execute_method env a self = Some f" and "\<And>e. self \<noteq> Evolved e"
  shows "keeps (shaped x) (f args)"
  using assms(2,3) evolve_disabled [OF assms(1), of x]
  by (cases self) (auto simp: execute_method_def evolve_tool_def intro!: keeps_intros)

lemma method_diff:
  assumes "execute_method env a self = Some f" and "\<And>e. self \<noteq> Evolved e" and "f (tc_arguments c) s = (Inr r, t)"
  shows "diff_named c r"
proof (cases self)
  case (FileEditor w)
  with assms(1) have "f = (\<lambda>args. on_world (file_editor (ae_show env) (context_workspace w) args))" by (simp add: execute_method_def)
  with assms(3) have "fst (file_editor (ae_show env) (context_workspace w) (tc_arguments c) (ag_world s)) = Inr r"
    by (cases "file_editor (ae_show env) (context_workspace w) (tc_arguments c) (ag_world s)") (simp add: on_world_def)
  from file_editor_path [OF this] obtain p where "text_argument (tc_arguments c) ''path'' PNone = Inr p" by blast
  from text_argument_default [OF this] show ?thesis by (simp add: diff_named_def)
next
  case (EvolveTool m w)
  with assms(1) have "f = evolve_tool env m" by (simp add: execute_method_def)
  with assms(3) show ?thesis
    by (auto simp: evolve_tool_def bindP_eq_Inr diff_named_def evolution_tool_result_def tool_failure_def split: if_splits)
next
  case (BashTool w)
  with assms(1,3) other_tools_diff(1) show ?thesis by (auto simp: execute_method_def)
next
  case AstTool
  with assms(1,3) other_tools_diff(2) show ?thesis by (auto simp: execute_method_def)
qed (use assms(1,2) in \<open>simp_all add: execute_method_def\<close>)

lemma looked_up:
  assumes "shaped x s" and "plain_shape x" and "lookup_tool name s = Some a"
  shows "a < length (fst x)"
proof -
  have "a \<in> snd ` set (ms_plugins (ag_mesh s))"
  proof (cases "get_plugin (ag_mesh s) name")
    case None
    with assms(3) have "a \<in> set (get_by_type (ag_mesh s) PT_TOOL)" by (simp add: lookup_tool_def find_in)
    then show ?thesis by (simp add: get_by_type_def)
  next
    case (Some b)
    with assms(3) have "(name, a) \<in> set (ms_plugins (ag_mesh s))"
      by (simp add: lookup_tool_def get_plugin_def map_of_SomeD)
    then show ?thesis by (metis image_eqI snd_conv)
  qed
  moreover have "ms_plugins (ag_mesh s) = snd x" using assms(1) by (auto simp: shaped_def shape_def)
  ultimately show ?thesis using plain_address [OF assms(2)] by simp
qed

lemma execute_tool_call_runs:
  assumes off: "\<not> ae_unsafe env" and x: "plain_shape x"
  shows "runs (shaped x) (execute_tool_call env c) (diff_named c)"
proof (rule runsI)
  fix s :: "'a agent"
  assume s: "shaped x s"
  show "\<exists>r t. execute_tool_call env c s = (Inr r, t) \<and> shaped x t \<and> diff_named c r"
  proof (cases "lookup_tool (tc_tool_name c) s")
    case None
    with s show ?thesis by (simp add: execute_tool_call_def)
  next
    case (Some a)
    have self: "self_at a s \<noteq> Evolved e" for e
      using plain_self [OF s x looked_up [OF s x Some]] by (auto simp: plain_entry_def)
    show ?thesis
    proof (cases "execute_method env a (self_at a s)")
      case None
      with s Some show ?thesis by (simp add: execute_tool_call_def)
    next
      case f: (Some f)
      have "runs (shaped x) (handleP (f (tc_arguments c)) (\<lambda>e. ret (tool_failure (tc_call_id c) (tc_tool_name c)
             (''Tool execution exception: '' @ exn_message e)))) (diff_named c)"
        using method_keeps [OF off f self] method_diff [OF f self] by (intro runs_handle runs_ret) auto
      from runsE [OF this s] Some f show ?thesis by (simp add: execute_tool_call_def) metis
    qed
  qed
qed

section \<open>Turns do not raise\<close>

lemma announce_diff_runs:
  assumes "diff_named c r"
  shows "runs (shaped x) (announce_diff env c r) (\<lambda>_. True)"
proof (cases "dict_get (tr_artifacts r) ''diff''")
  case None
  then show ?thesis by (simp add: announce_diff_def runs_ret)
next
  case (Some d)
  with assms obtain p where "text_argument (tc_arguments c) ''path'' (PStr ''unknown'') = Inr p" by (auto simp: diff_named_def)
  with Some show ?thesis
    by (auto simp: announce_diff_def runs_def bindP_def on_mesh_def draw_def emit_def shaped_def shape_def Let_def)
qed

lemma announce_evolution_runs: "runs (shaped x) (announce_evolution c r) (\<lambda>_. True)"
  by (auto simp: announce_evolution_def runs_def emit_def shaped_def)

lemma run_call_runs:
  assumes "\<not> ae_unsafe env" and "plain_shape x"
  shows "runs (shaped x) (run_call env n c rs) (\<lambda>_. True)"
  unfolding run_call_def
  by (rule runs_bind [OF runs_emit], rule runs_bind [OF execute_tool_call_runs [OF assms]], rule runs_bind [OF runs_emit],
      rule runs_bind [OF announce_evolution_runs], rule runs_bind [OF announce_diff_runs]) (simp_all add: runs_ret)

lemma remember_step_runs: "runs (shaped x) (remember_step env mem st rs) (\<lambda>_. True)"
  unfolding remember_step_def by (rule runs_bind [OF runs_memory], rule runs_for, rule runs_memory)

lemma take_chunk_runs: "runs (shaped x) (take_chunk n c st) (\<lambda>_. True)"
  by (auto simp: take_chunk_def runs_def bindP_def emit_def shaped_def)

lemma model_answer_runs:
  assumes x: "plain_shape x" and a: "a < length (fst x)" "fst (fst x ! a) = PT_MODEL" "can_answer (snd (fst x ! a))"
  shows "runs (shaped x) (model_answer env a mem prompt) (\<lambda>_. True)"
proof (rule runsI)
  fix s :: "'a agent"
  assume s: "shaped x s"
  let ?t = "s\<lparr>ag_mesh := (ag_mesh s)\<lparr>ms_drawn := ms_drawn (ag_mesh s) + 1\<rparr>\<rparr>"
  have t: "shaped x ?t" using s by (simp add: shaped_def shape_def)
  with model_self [OF t x a(1,2)] a(3) have "can_answer (self_at a ?t)" by metis
  then obtain cs where "generate_chunks env (self_at a ?t) (ae_uuid env (ms_drawn (ag_mesh s))) (get_messages mem prompt s) = Inr cs"
    by (cases "self_at a ?t") (auto simp: can_answer_def generate_chunks_def)
  with t show "\<exists>cs u. model_answer env a mem prompt s = (Inr cs, u) \<and> shaped x u \<and> True"
    by (simp add: model_answer_def bindP_def on_mesh_def draw_def mesh_env_def)
qed

lemma run_step_runs:
  assumes "\<not> ae_unsafe env" and "plain_shape x"
    and "a < length (fst x)" "fst (fst x ! a) = PT_MODEL" "can_answer (snd (fst x ! a))"
  shows "runs (shaped x) (run_step env a mem prompt n) (\<lambda>_. True)"
  unfolding run_step_def
  by (rule runs_bind [OF model_answer_runs [OF assms(2-5)]], rule runs_bind [OF runs_fold [where P = "\<lambda>_. True", OF take_chunk_runs]],
      simp, rule runs_if, simp add: runs_ret, rule runs_bind [OF runs_fold [where P = "\<lambda>_. True", OF run_call_runs [OF assms(1,2)]]],
      simp, rule runs_bind [OF remember_step_runs], simp add: runs_ret)

lemma run_steps_runs:
  assumes "\<not> ae_unsafe env" and "plain_shape x"
    and "a < length (fst x)" "fst (fst x ! a) = PT_MODEL" "can_answer (snd (fst x ! a))"
  shows "runs (shaped x) (run_steps env a mem prompt k n texts calls) (\<lambda>_. True)"
proof (induction k arbitrary: n texts calls)
  case (Suc k)
  show ?case
    unfolding run_steps.simps
    by (rule runs_bind [OF run_step_runs [OF assms]], rule runs_if, simp add: runs_ret, rule Suc.IH)
qed (simp add: runs_ret)

lemma finish_turn_runs: "runs (shaped x) (finish_turn env i texts calls) (\<lambda>_. True)"
  by (auto simp: finish_turn_def runs_def bindP_def emit_def shaped_def)

lemma run_turn_runs:
  assumes off: "\<not> ae_unsafe env" and x: "plain_shape x"
  shows "runs (shaped x) (run_turn env prompt name k) (\<lambda>_. True)"
proof -
  have rest: "runs (shaped x) (case m of None \<Rightarrow> emit (AE_error e)
      | Some a \<Rightarrow> bindP (run_steps env a mem prompt k 1 [] 0) (\<lambda>(texts, calls). finish_turn env i texts calls)) (\<lambda>_. True)"
    if "\<exists>a. m = Some a \<and> a < length (fst x) \<and> fst (fst x ! a) = PT_MODEL \<and> can_answer (snd (fst x ! a))" for m mem e i
    using that by (auto intro!: runs_bind [OF run_steps_runs [OF off x]] finish_turn_runs split: prod.split)
  show ?thesis
    unfolding run_turn_def turn_body_def
    by (rule runs_bind [OF runs_draw], rule runs_bind [OF runs_emit], rule runs_bind [OF runs_gets [where Q = "\<lambda>_. True"]], simp,
        rule runs_bind [OF runs_memory], rule runs_bind [OF get_active_model_runs [OF x]], rule rest)
qed

section \<open>The events of a turn\<close>

text \<open>Inside a turn every start of a tool call is followed at once by its end, in the same step, and nothing opens or closes a turn.\<close>

fun calls_paired :: "agent_event list \<Rightarrow> bool" where
  "calls_paired [] = True"
| "calls_paired (AE_call_start c n # es) =
     (case es of AE_call_done r m # fs \<Rightarrow> m = n \<and> calls_paired fs | _ \<Rightarrow> False)"
| "calls_paired (AE_call_done r n # es) = False"
| "calls_paired (AE_turn_start i p # es) = False"
| "calls_paired (AE_error m # es) = False"
| "calls_paired (AE_turn_complete i r c n # es) = False"
| "calls_paired (e # es) = calls_paired es"

lemma calls_paired_append: "calls_paired xs \<Longrightarrow> calls_paired ys \<Longrightarrow> calls_paired (xs @ ys)"
  by (induction xs rule: calls_paired.induct) (auto split: list.splits agent_event.splits)

definition events_are :: "agent_event list \<Rightarrow> 'x agent \<Rightarrow> bool" where
  "events_are es s \<longleftrightarrow> ag_events s = es"

text \<open>What a program that ends without raising adds to the events.\<close>

definition tells :: "('x agent, 'a) prog \<Rightarrow> bool" where
  "tells m \<longleftrightarrow> (\<forall>s x t. m s = (Inr x, t) \<longrightarrow> (\<exists>es. ag_events t = ag_events s @ es \<and> calls_paired es))"

lemma silent_basic [keeps_intros]: "keeps (events_are es) (on_mesh m)" "keeps (events_are es) (on_world w)"
  by (auto simp: keeps_def events_are_def on_mesh_def on_world_def split: prod.split)

lemma tells_silent: "(\<And>es. keeps (events_are es) m) \<Longrightarrow> tells m"
  unfolding tells_def keeps_def events_are_def by (metis append_Nil2 calls_paired.simps(1) snd_conv)

lemma tells_bind: "tells m \<Longrightarrow> (\<And>x. tells (f x)) \<Longrightarrow> tells (bindP m f)"
  unfolding tells_def by (auto simp: bindP_eq_Inr) (metis append.assoc calls_paired_append)

lemma tells_ret: "tells (ret x)" "tells (gets g)" "tells (lift r)" "tells (reads h)"
  by (simp_all add: tells_silent)

lemma tells_emit: "calls_paired [e] \<Longrightarrow> tells (emit e)"
  by (auto simp: tells_def emit_def)

lemma tells_fold: "(\<And>x a. tells (f x a)) \<Longrightarrow> tells (foldP f xs a)"
  by (induction xs arbitrary: a) (auto intro: tells_ret tells_bind)

lemma tells_for: "(\<And>x. tells (f x)) \<Longrightarrow> tells (forP f xs)"
  by (induction xs) (auto intro: tells_ret tells_bind)

lemma silent_method: "execute_method env a self = Some f \<Longrightarrow> keeps (events_are es) (f args)"
  by (cases self) (auto simp: execute_method_def evolve_tool_def split: option.splits intro!: keeps_intros)

lemma silent_call: "keeps (events_are es) (execute_tool_call env c)"
proof (rule keepsI)
  fix s :: "'a agent"
  assume s: "events_are es s"
  show "events_are es (snd (execute_tool_call env c s))"
  proof (cases "lookup_tool (tc_tool_name c) s")
    case None
    with s show ?thesis by (simp add: execute_tool_call_def)
  next
    case (Some a)
    show ?thesis
    proof (cases "execute_method env a (self_at a s)")
      case None
      with s Some show ?thesis by (simp add: execute_tool_call_def)
    next
      case f: (Some f)
      have "keeps (events_are es) (handleP (f (tc_arguments c)) (\<lambda>e. ret (tool_failure (tc_call_id c) (tc_tool_name c)
             (''Tool execution exception: '' @ exn_message e))))"
        by (intro keeps_intros silent_method [OF f])
      from keepsD [OF this s] Some f show ?thesis by (simp add: execute_tool_call_def)
    qed
  qed
qed

lemma silent_memory: "keeps (events_are es) (memory_append mem m)"
  unfolding memory_append_def by (intro keeps_intros)

lemma tells_announce: "tells (announce_evolution c r)" "tells (announce_diff env c r)"
proof -
  show "tells (announce_evolution c r)"
    by (auto simp: announce_evolution_def intro!: tells_ret tells_bind tells_emit)
  have "tells (modify (\<lambda>s. s\<lparr>ag_diffs := ag_diffs s @ [y]\<rparr>))" for y by (simp add: tells_def)
  then show "tells (announce_diff env c r)"
    by (auto simp: announce_diff_def Let_def intro!: tells_ret tells_bind tells_emit tells_silent [OF silent_basic(1)] split: option.split)
qed

lemma tells_run_call: "tells (run_call env n c rs)"
  unfolding tells_def
proof (intro allI impI)
  fix s y and t :: "'a agent"
  assume "run_call env n c rs s = (Inr y, t)"
  then obtain r u where r: "execute_tool_call env c (s\<lparr>ag_events := ag_events s @ [AE_call_start c n]\<rparr>) = (Inr r, u)"
    and rest: "bindP (announce_evolution c r) (\<lambda>_. bindP (announce_diff env c r) (\<lambda>_. ret (rs @ [r])))
      (u\<lparr>ag_events := ag_events u @ [AE_call_done r n]\<rparr>) = (Inr y, t)"
    by (auto simp: run_call_def bindP_eq_Inr emit_def)
  have "ag_events u = ag_events s @ [AE_call_start c n]"
    using keepsD [OF silent_call, of "ag_events s @ [AE_call_start c n]" "s\<lparr>ag_events := ag_events s @ [AE_call_start c n]\<rparr>" env c] r
    by (simp add: events_are_def)
  moreover have "tells (bindP (announce_evolution c r) (\<lambda>_. bindP (announce_diff env c r) (\<lambda>_. ret (rs @ [r]))))"
    by (intro tells_bind tells_announce tells_ret)
  with rest obtain es where "ag_events t = (ag_events u @ [AE_call_done r n]) @ es" "calls_paired es"
    unfolding tells_def by fastforce
  ultimately show "\<exists>es. ag_events t = ag_events s @ es \<and> calls_paired es"
    by (intro exI [of _ "AE_call_start c n # AE_call_done r n # es"]) simp
qed

lemma tells_take_chunk: "tells (take_chunk n c st)"
  unfolding take_chunk_def by (auto intro!: tells_bind tells_ret tells_emit)

lemma tells_run_step: "tells (run_step env a mem prompt n)"
proof -
  have "tells (model_answer env a mem prompt)"
    unfolding model_answer_def by (intro tells_bind tells_ret tells_silent [OF silent_basic(1)])
  moreover have "tells (remember_step env mem st rs)" for st rs
    unfolding remember_step_def by (intro tells_bind tells_for tells_silent [OF silent_memory])
  ultimately show ?thesis
    unfolding run_step_def by (auto intro!: tells_bind tells_fold tells_take_chunk tells_run_call tells_ret)
qed

lemma tells_run_steps: "tells (run_steps env a mem prompt k n texts calls)"
  by (induction k arbitrary: n texts calls) (auto intro!: tells_ret tells_bind [OF tells_run_step])

lemma tells_get_active_model: "tells (get_active_model env name)"
  unfolding get_active_model_def test_model_def
  by (auto intro!: tells_bind tells_fold tells_ret tells_silent [OF silent_basic(1)])

text \<open>A program that closes the turn: its last event says how the turn ended.\<close>

definition closing :: "agent_event \<Rightarrow> bool" where
  "closing e \<longleftrightarrow> (case e of AE_error _ \<Rightarrow> True | AE_turn_complete _ _ _ _ \<Rightarrow> True | _ \<Rightarrow> False)"

definition closes :: "(agent_event \<Rightarrow> bool) \<Rightarrow> ('x agent, unit) prog \<Rightarrow> bool" where
  "closes C m \<longleftrightarrow> (\<forall>s t. m s = (Inr (), t) \<longrightarrow> (\<exists>es e. ag_events t = ag_events s @ es @ [e] \<and> calls_paired es \<and> C e))"

lemma closes_bind:
  assumes "tells m" and "\<And>s x t. m s = (Inr x, t) \<Longrightarrow> closes C (f x)"
  shows "closes C (bindP m f)"
  unfolding closes_def
proof (intro allI impI)
  fix s t
  assume "bindP m f s = (Inr (), t)"
  then obtain x u where x: "m s = (Inr x, u)" "f x u = (Inr (), t)" by (auto simp: bindP_eq_Inr)
  from assms(1) x(1) obtain es where es: "ag_events u = ag_events s @ es" "calls_paired es" unfolding tells_def by blast
  from assms(2) [OF x(1)] x(2) obtain fs e where "ag_events t = ag_events u @ fs @ [e]" "calls_paired fs" "C e"
    unfolding closes_def by blast
  with es calls_paired_append show "\<exists>es e. ag_events t = ag_events s @ es @ [e] \<and> calls_paired es \<and> C e"
    by (intro exI [of _ "es @ fs"] exI [of _ e]) simp
qed

lemma closes_emit: "C e \<Longrightarrow> closes C (emit e)"
  by (auto simp: closes_def emit_def)

lemma closes_finish_turn:
  assumes "\<And>response count. C (AE_turn_complete i response calls count)"
  shows "closes C (finish_turn env i texts calls)"
  unfolding finish_turn_def using assms by (auto intro!: closes_bind tells_bind tells_emit tells_ret closes_emit)

lemma closes_turn_body: "closes closing (turn_body env i prompt name k)"
proof -
  have "closes closing (case w of None \<Rightarrow> emit (AE_error e)
       | Some a \<Rightarrow> bindP (run_steps env a m prompt k 1 [] 0) (\<lambda>(texts, calls). finish_turn env i texts calls))" for w m e
    by (auto intro!: closes_emit closes_bind [OF tells_run_steps] closes_finish_turn simp: closing_def split: option.split prod.split)
  then show ?thesis
    unfolding turn_body_def
    by (intro closes_bind tells_ret tells_silent [OF silent_memory] tells_get_active_model) auto
qed

lemma turn_starts:
  assumes "run_turn env prompt name k s = (Inr (), t)"
  obtains i u where "ag_events u = ag_events s @ [AE_turn_start i prompt]" "turn_body env i prompt name k u = (Inr (), t)"
    "shape (ag_mesh u) = shape (ag_mesh s)" "ms_objects (ag_mesh u) = ms_objects (ag_mesh s)"
proof -
  let ?i = "ae_uuid env (ms_drawn (ag_mesh s))"
  let ?u = "s\<lparr>ag_mesh := (ag_mesh s)\<lparr>ms_drawn := Suc (ms_drawn (ag_mesh s))\<rparr>, ag_events := ag_events s @ [AE_turn_start ?i prompt]\<rparr>"
  from assms have "turn_body env ?i prompt name k ?u = (Inr (), t)"
    by (simp add: run_turn_def bindP_def on_mesh_def draw_def emit_def mesh_env_def)
  then show thesis by (intro that [of ?u ?i]) (simp_all add: shape_def)
qed

text \<open>Registering a plugin under a new identifier adds it to the end of the table.\<close>

lemma dict_set_new: "k \<notin> fst ` set d \<Longrightarrow> dict_set k v d = d @ [(k, v)]"
  by (induction d) auto

definition entry_of_plugin :: "'x agent_plugin plugin \<Rightarrow> plugin_type \<times> 'x agent_plugin" where
  "entry_of_plugin p = (pm_type (pl_metadata p), static (pl_self p))"

definition default_self :: "'x agent_plugin \<Rightarrow> bool" where
  "default_self p \<longleftrightarrow> (case p of Evolved _ \<Rightarrow> False | _ \<Rightarrow> True)"

lemma default_loads: "default_self (pl_self p) \<Longrightarrow> fst (plugin_on_load code ws p) = Inr () \<and> keeps_static (plugin_on_load code ws) p"
  by (cases "pl_self p") (auto simp: default_self_def plugin_on_load_def keeps_static_def set_self_def)

lemma default_registers:
  assumes p: "default_self (pl_self p)" and k: "pm_id (pl_metadata p) \<notin> fst ` set (ms_plugins s)"
  shows "\<exists>t. add_default env p s = (Inr (), t) \<and>
    shape t = (object_shapes (ms_objects s) @ [entry_of_plugin p], ms_plugins s @ [(pm_id (pl_metadata p), length (ms_objects s))])"
proof -
  let ?a = "length (ms_objects s)" and ?k = "pm_id (pl_metadata p)"
  let ?u = "s\<lparr>ms_objects := ms_objects s @ [p]\<rparr>"
  let ?v = "?u\<lparr>ms_plugins := dict_set ?k ?a (ms_plugins s)\<rparr>"
  let ?h = "plugin_on_load (ae_code env) (ms_workspace s)"
  have meta: "metadata_at ?a ?u = pl_metadata p" by (simp add: metadata_at_def object_def)
  have new: "dict_get (ms_plugins s) ?k = None" using k by (simp add: map_of_eq_None_iff)
  obtain q where q: "?h p = (Inr (), q)" "pm_type (pl_metadata q) = pm_type (pl_metadata p)" "static (pl_self q) = static (pl_self p)"
    using default_loads [OF p, of "ae_code env" "ms_workspace s"] by (cases "?h p") (auto simp: keeps_static_def)
  have o': "object ?a ?v = p" by (simp add: object_def)
  have "\<exists>t. add_default env p s = (Inr (), t) \<and>
      ms_plugins t = dict_set ?k ?a (ms_plugins s) \<and>
      ms_objects t = ms_objects s @ [q\<lparr>pl_metadata := (pl_metadata q)\<lparr>pm_status := PS_ACTIVE\<rparr>\<rparr>]"
    using q(1) new meta o'
    by (simp add: add_default_def allocate_def register_plugin_def bindP_def put_plugin_def load_hook_def mesh_env_def agent_ops_def invoke_def
        set_metadata_def notify_def object_def)
  then show ?thesis
    using q(2,3) dict_set_new [OF k] by (auto simp: shape_def object_shapes_def entry_of_plugin_def)
qed

lemma defaults_register:
  assumes "list_all (\<lambda>p. default_self (pl_self p)) ps"
    and "distinct (map fst (ms_plugins s) @ map (\<lambda>p. pm_id (pl_metadata p)) ps)"
  shows "\<exists>t. forP (add_default env) ps s = (Inr (), t) \<and>
    shape t = (object_shapes (ms_objects s) @ map entry_of_plugin ps,
      ms_plugins s @ zip (map (\<lambda>p. pm_id (pl_metadata p)) ps) [length (ms_objects s)..<length (ms_objects s) + length ps])"
  using assms
proof (induction ps arbitrary: s)
  case Nil
  then show ?case by (simp add: shape_def)
next
  case (Cons p ps)
  have "pm_id (pl_metadata p) \<notin> fst ` set (ms_plugins s)" using Cons.prems(2) by auto
  with Cons.prems(1) obtain t where
    t: "add_default env p s = (Inr (), t)"
      "shape t = (object_shapes (ms_objects s) @ [entry_of_plugin p], ms_plugins s @ [(pm_id (pl_metadata p), length (ms_objects s))])"
    using default_registers [of p s env] by auto
  then have plugins: "ms_plugins t = ms_plugins s @ [(pm_id (pl_metadata p), length (ms_objects s))]"
    and objects: "object_shapes (ms_objects t) = object_shapes (ms_objects s) @ [entry_of_plugin p]" by (simp_all add: shape_def)
  then have len: "length (ms_objects t) = Suc (length (ms_objects s))" by (metis length_append_singleton length_map object_shapes_def)
  have "distinct (map fst (ms_plugins t) @ map (\<lambda>p. pm_id (pl_metadata p)) ps)" using Cons.prems(2) by (auto simp: plugins)
  moreover have "list_all (\<lambda>p. default_self (pl_self p)) ps" using Cons.prems(1) by simp
  ultimately obtain u where
    u: "forP (add_default env) ps t = (Inr (), u)"
      "shape u = (object_shapes (ms_objects t) @ map entry_of_plugin ps,
        ms_plugins t @ zip (map (\<lambda>p. pm_id (pl_metadata p)) ps) [length (ms_objects t)..<length (ms_objects t) + length ps])"
    using Cons.IH [of t] by blast
  have "[length (ms_objects s)..<length (ms_objects s) + length (p # ps)] =
      length (ms_objects s) # [Suc (length (ms_objects s))..<Suc (length (ms_objects s)) + length ps]"
    by (simp add: upt_rec)
  with t(1) u plugins objects len show ?case by (simp add: bindP_def)
qed

definition default_shape :: "'x agent_env \<Rightarrow> 'x shape" where
  "default_shape env = (map entry_of_plugin (default_plugins env), zip (map (\<lambda>p. pm_id (pl_metadata p)) (default_plugins env)) [0..<10])"

lemma new_agent_shape: "shaped (default_shape env) (new_agent env ws w)"
proof -
  have l: "list_all (\<lambda>p. default_self (pl_self p)) (default_plugins env)"
    by (simp add: default_plugins_def default_self_def deepseek_plugin_def anthropic_plugin_def openai_plugin_def mock_plugin_def
        editor_plugin_def bash_plugin_def ast_plugin_def evolve_tool_plugin_def loop_plugin_def memory_plugin_def)
  have i: "map (\<lambda>p. pm_id (pl_metadata p)) (default_plugins env) = [''deepseek_model'', ''anthropic_model'', ''openai_model'',
      ''mock_cognitive_model'', ''file_editor'', ''bash_executor'', ''ast_analyzer'', ''evolve_plugin'', ''react_loop'', ''working_memory'']"
    by (simp add: default_plugins_def system_metadata_def deepseek_plugin_def anthropic_plugin_def openai_plugin_def mock_plugin_def
        editor_plugin_def bash_plugin_def ast_plugin_def evolve_tool_plugin_def loop_plugin_def memory_plugin_def)
  have n: "length (default_plugins env) = 10" by (simp add: default_plugins_def)
  have d: "distinct (map fst (ms_plugins (empty_mesh ws :: 'a agent_plugin mesh)) @ map (\<lambda>p. pm_id (pl_metadata p)) (default_plugins env))"
    unfolding i by (simp add: empty_mesh_def)
  show ?thesis
    using defaults_register [OF l d, of env] n
    by (auto simp: new_agent_def init_plugins_def shaped_def default_shape_def empty_mesh_def object_shapes_def)
qed

lemma default_shape_plain:
  assumes "\<not> given (ae_host env ''OPENAI_API_KEY'')"
  shows "plain_shape (default_shape env)"
  using assms
  by (simp add: plain_shape_def default_shape_def default_plugins_def plain_entry_def entry_of_plugin_def system_metadata_def
      deepseek_plugin_def anthropic_plugin_def openai_plugin_def mock_plugin_def editor_plugin_def bash_plugin_def ast_plugin_def
      evolve_tool_plugin_def loop_plugin_def memory_plugin_def upt_rec)

section \<open>What the agent promises\<close>

text \<open>Turns one after another: prompt, model name and bound of the steps.\<close>

definition run_turns :: "'x agent_env \<Rightarrow> (string \<times> string option \<times> nat) list \<Rightarrow> 'x agent \<Rightarrow> 'x agent" where
  "run_turns env ts s = fold (\<lambda>(prompt, name, k) s. snd (run_turn env prompt name k s)) ts s"

lemma run_turns_shaped:
  assumes "\<not> ae_unsafe env" and "plain_shape x" and "shaped x s"
  shows "shaped x (run_turns env ts s)"
  using assms(3)
proof (induction ts arbitrary: s)
  case Nil
  then show ?case by (simp add: run_turns_def)
next
  case (Cons e ts)
  obtain prompt name k where e: "e = (prompt, name, k)" by (cases e)
  have "runs (shaped x) (run_turn env prompt name k) (\<lambda>_. True)" by (rule run_turn_runs [OF assms(1,2)])
  from this Cons.prems have "shaped x (snd (run_turn env prompt name k s))" by (rule runsE) simp
  from Cons.IH [OF this] show ?case by (simp add: run_turns_def e)
qed

lemma default_agent_shaped:
  assumes "\<not> ae_unsafe env" and "\<not> given (ae_host env ''OPENAI_API_KEY'')"
  shows "shaped (default_shape env) (run_turns env ts (new_agent env ws w))"
  using run_turns_shaped [OF assms(1) default_shape_plain [OF assms(2)] new_agent_shape] .

text \<open>What a turn of a plain agent goes through.\<close>

lemma plain_turn_body:
  assumes off: "\<not> ae_unsafe env" and x: "plain_shape x" and u: "shaped x u" and run: "turn_body env i prompt name k u = (Inr (), t)"
  obtains a v y texts calls where "memory_append (get_memory u) (plain_message MR_USER prompt) u = (Inr (), v)" "shaped x v"
    "run_steps env a (get_memory u) prompt k 1 [] 0 v = (Inr (texts, calls), y)" "shaped x y"
    "finish_turn env i texts calls y = (Inr (), t)"
proof -
  have "runs (shaped x) (memory_append (get_memory u) (plain_message MR_USER prompt)) (\<lambda>_. True)" by (rule runs_memory)
  from this u obtain v where v: "memory_append (get_memory u) (plain_message MR_USER prompt) u = (Inr (), v)" "shaped x v"
    by (rule runsE) auto
  obtain a where a: "get_active_model env name v = (Inr (Some a), v)" "a < length (fst x)" "fst (fst x ! a) = PT_MODEL"
    "can_answer (snd (fst x ! a))" by (rule get_active_model_default [OF v(2) x])
  have "runs (shaped x) (run_steps env a (get_memory u) prompt k 1 [] 0) (\<lambda>_. True)" by (rule run_steps_runs [OF off x a(2-4)])
  from this v(2) obtain texts calls y where y: "run_steps env a (get_memory u) prompt k 1 [] 0 v = (Inr (texts, calls), y)" "shaped x y"
    by (rule runsE) auto
  with run v a(1) have "finish_turn env i texts calls y = (Inr (), t)" by (simp add: turn_body_def bindP_def)
  with v y that show thesis by blast
qed

text \<open>C15. An agent with its default plugins, evolution disabled and no OpenAI key answers every prompt: whatever
  happened in earlier turns, whatever tools its models call and whatever they raise, the turn ends and
  tells a start, steps in which every tool call is followed by its result, and a completion.\<close>

theorem every_prompt_answered:
  assumes off: "\<not> ae_unsafe env" and key: "\<not> given (ae_host env ''OPENAI_API_KEY'')"
    and s: "s = run_turns env ts (new_agent env ws w)"
  shows "\<exists>t i es response calls count. run_turn env prompt name k s = (Inr (), t) \<and> calls_paired es \<and>
    ag_events t = ag_events s @ AE_turn_start i prompt # es @ [AE_turn_complete i response calls count]"
proof -
  let ?x = "default_shape env"
  have x: "plain_shape ?x" using default_shape_plain [OF key] .
  have shaped: "shaped ?x s" using default_agent_shaped [OF off key] s by simp
  from run_turn_runs [OF off x] this obtain t where t: "run_turn env prompt name k s = (Inr (), t)"
    by (rule runsE) auto
  then obtain i u where u: "ag_events u = ag_events s @ [AE_turn_start i prompt]" "turn_body env i prompt name k u = (Inr (), t)"
    "shape (ag_mesh u) = shape (ag_mesh s)" by (rule turn_starts)
  with shaped have "shaped ?x u" by (simp add: shaped_def)
  then obtain a v y texts calls where v: "memory_append (get_memory u) (plain_message MR_USER prompt) u = (Inr (), v)"
    and y: "run_steps env a (get_memory u) prompt k 1 [] 0 v = (Inr (texts, calls), y)"
    and t': "finish_turn env i texts calls y = (Inr (), t)" using u(2) by (rule plain_turn_body [OF off x])
  from tells_silent [OF silent_memory] v obtain es1 where e1: "ag_events v = ag_events u @ es1" "calls_paired es1"
    unfolding tells_def by blast
  from tells_run_steps y obtain es2 where e2: "ag_events y = ag_events v @ es2" "calls_paired es2"
    unfolding tells_def by blast
  from closes_finish_turn [of "\<lambda>e. \<exists>r n. e = AE_turn_complete i r calls n" i calls env texts] t'
  obtain es3 r n where e3: "ag_events t = ag_events y @ es3 @ [AE_turn_complete i r calls n]" "calls_paired es3"
    unfolding closes_def by blast
  have "calls_paired (es1 @ es2 @ es3)" using e1(2) e2(2) e3(2) calls_paired_append by blast
  then show ?thesis
    using t u(1) e1(1) e2(1) e3(1)
    by (intro exI [of _ t] exI [of _ i] exI [of _ "es1 @ es2 @ es3"] exI [of _ r] exI [of _ calls] exI [of _ n]) simp
qed

text \<open>Steps that leave every plugin object as it is.\<close>

definition objects_are :: "'x agent_plugin plugin list \<Rightarrow> 'x agent \<Rightarrow> bool" where
  "objects_are os s \<longleftrightarrow> ms_objects (ag_mesh s) = os"

lemma keeps_objects [keeps_intros]: "keeps (objects_are os) (emit e)" "keeps (objects_are os) (on_mesh (draw d))"
  by (auto simp: keeps_def objects_are_def emit_def on_mesh_def draw_def)

lemma objects_answer [keeps_intros]: "keeps (objects_are os) (model_answer env a mem prompt)"
  unfolding model_answer_def by (intro keeps_intros)

lemma objects_chunk [keeps_intros]: "keeps (objects_are os) (take_chunk n c st)"
  unfolding take_chunk_def by (intro keeps_intros)

lemma objects_finish: "keeps (objects_are os) (finish_turn env i texts calls)"
  unfolding finish_turn_def by (intro keeps_intros)

lemma quiet_step:
  assumes "run_step env a mem prompt n s = (Inr st, t)" and "st_calls st = []"
  shows "ms_objects (ag_mesh t) = ms_objects (ag_mesh s)"
proof -
  from assms have "bindP (model_answer env a mem prompt) (\<lambda>cs. foldP (take_chunk n) cs \<lparr>st_thought = [], st_text = [], st_calls = []\<rparr>) s = (Inr st, t)"
    by (auto simp: run_step_def bindP_eq_Inr split: if_splits)
  moreover have "keeps (objects_are (ms_objects (ag_mesh s)))
      (bindP (model_answer env a mem prompt) (\<lambda>cs. foldP (take_chunk n) cs \<lparr>st_thought = [], st_text = [], st_calls = []\<rparr>))"
    by (intro keeps_intros)
  ultimately show ?thesis by (auto simp: objects_are_def dest!: keepsD [where s = s])
qed

lemma run_steps_calls: "run_steps env a mem prompt k n texts calls s = (Inr (texts', calls'), t) \<Longrightarrow> calls \<le> calls'"
proof (induction k arbitrary: n texts calls s)
  case (Suc k)
  then obtain st u where "run_step env a mem prompt n s = (Inr st, u)" and
    u: "(if st_calls st = [] then ret (texts @ st_text st, calls)
      else run_steps env a mem prompt k (n + 1) (texts @ st_text st) (calls + int (length (st_calls st)))) u = (Inr (texts', calls'), t)"
    by (auto simp: bindP_eq_Inr)
  show ?case
  proof (cases "st_calls st = []")
    case False
    with u Suc.IH [of "n + 1" "texts @ st_text st" "calls + int (length (st_calls st))" u] show ?thesis by simp
  qed (use u in simp)
qed simp

lemma steps_without_calls:
  assumes "run_steps env a mem prompt k n texts calls s = (Inr (texts', calls), t)"
  shows "ms_objects (ag_mesh t) = ms_objects (ag_mesh s)"
proof (cases k)
  case (Suc j)
  with assms obtain st u where st: "run_step env a mem prompt n s = (Inr st, u)" and
    u: "(if st_calls st = [] then ret (texts @ st_text st, calls)
      else run_steps env a mem prompt j (n + 1) (texts @ st_text st) (calls + int (length (st_calls st)))) u = (Inr (texts', calls), t)"
    by (auto simp: bindP_eq_Inr)
  have "st_calls st = []"
  proof (rule ccontr)
    assume "st_calls st \<noteq> []"
    with u run_steps_calls have "calls + int (length (st_calls st)) \<le> calls" by fastforce
    with \<open>st_calls st \<noteq> []\<close> show False by simp
  qed
  with quiet_step [OF st] u show ?thesis by simp
qed (use assms in simp)

text \<open>What the agent remembers.\<close>

definition remembered :: "'x agent \<Rightarrow> chat_message list" where
  "remembered s = (case get_memory s of None \<Rightarrow> [] | Some a \<Rightarrow> history_of (self_at a s))"

lemma memory_cong: "ms_objects (ag_mesh t) = ms_objects (ag_mesh s) \<Longrightarrow> ms_plugins (ag_mesh t) = ms_plugins (ag_mesh s) \<Longrightarrow>
    get_memory t = get_memory s"
  by (auto simp: get_memory_def get_by_type_def metadata_at_def object_def self_at_def split: list.split)

lemma remembered_cong: "ms_objects (ag_mesh t) = ms_objects (ag_mesh s) \<Longrightarrow> ms_plugins (ag_mesh t) = ms_plugins (ag_mesh s) \<Longrightarrow>
    remembered t = remembered s"
  using memory_cong [of t s] by (auto simp: remembered_def self_at_def object_def split: option.split)

lemma is_memory_static: "is_memory (static p) = is_memory p"
  by (cases p) (simp_all add: is_memory_def)

lemma get_memory_shape:
  assumes "shaped x s" and "shaped x t" and "plain_shape x"
  shows "get_memory t = get_memory s"
proof -
  have t: "get_by_type (ag_mesh t) PT_MEMORY = get_by_type (ag_mesh s) PT_MEMORY"
    using shape_by_type [OF assms(1,3)] shape_by_type [OF assms(2,3)] by simp
  have "is_memory (self_at a t) = is_memory (self_at a s)" if "a \<in> set (get_by_type (ag_mesh s) PT_MEMORY)" for a
  proof -
    from that have "a < length (fst x)" using shape_by_type [OF assms(1,3)] plain_address [OF assms(3)] by auto
    then show ?thesis using shape_self [OF assms(1)] shape_self [OF assms(2)] is_memory_static by metis
  qed
  then show ?thesis by (auto simp: get_memory_def t split: list.split)
qed

lemma memory_append_remembers:
  assumes s: "shaped x s" and x: "plain_shape x" and m: "get_memory s = Some a"
    and run: "memory_append (Some a) msg s = (Inr (), t)" and t: "shaped x t"
  shows "remembered t = remembered s @ [msg]"
proof -
  from m have "a \<in> set (get_by_type (ag_mesh s) PT_MEMORY)" and mem: "is_memory (self_at a s)"
    by (auto simp: get_memory_def split: list.splits if_splits)
  then have "a < length (fst x)" using shape_by_type [OF s x] plain_address [OF x] by auto
  then have a: "a < length (ms_objects (ag_mesh s))" using s by (auto simp: shaped_def shape_def object_shapes_def)
  have "self_at a t = remember msg (self_at a s)"
    using run a by (auto simp: memory_append_def on_mesh_def invoke_def self_at_def object_def)
  moreover have "history_of (remember msg p) = history_of p @ [msg]" if "is_memory p" for p :: "'a agent_plugin"
    using that by (cases p) (simp_all add: is_memory_def remember_def history_of_def)
  moreover have "get_memory t = Some a" using get_memory_shape [OF s t x] m by simp
  ultimately show ?thesis using m mem by (simp add: remembered_def)
qed

lemma default_memory:
  assumes s: "shaped (default_shape env) s" and x: "plain_shape (default_shape env)"
  shows "\<exists>m. get_memory s = Some m"
proof -
  let ?x = "default_shape env"
  have n: "map snd (snd ?x) = [0..<10]" by (simp add: default_shape_def default_plugins_def)
  have f: "filter (\<lambda>a. fst (fst ?x ! a) = PT_MEMORY) [0..<10] = [9]"
    by (simp add: default_shape_def default_plugins_def entry_of_plugin_def system_metadata_def upt_rec
      deepseek_plugin_def anthropic_plugin_def openai_plugin_def mock_plugin_def editor_plugin_def bash_plugin_def ast_plugin_def
      evolve_tool_plugin_def loop_plugin_def memory_plugin_def)
  have "snd (fst ?x ! 9) = WorkingMemory 64000 []" "9 < length (fst ?x)"
    by (simp_all add: default_shape_def default_plugins_def entry_of_plugin_def memory_plugin_def)
  then have "is_memory (self_at 9 s)" using shape_self [OF s, of 9] is_memory_static [of "self_at 9 s"] by (simp add: is_memory_def)
  then show ?thesis using shape_by_type [OF s x, of PT_MEMORY] n f by (simp add: get_memory_def)
qed

text \<open>The agent does not remember what it answers: after a turn without tool calls its memory has grown by the
  prompt alone, so in the next turn the model sees its user's prompts in a row and none of its replies.\<close>

theorem reply_not_remembered:
  assumes off: "\<not> ae_unsafe env" and key: "\<not> given (ae_host env ''OPENAI_API_KEY'')"
    and s: "s = run_turns env ts (new_agent env ws w)" and turn: "run_turn env prompt name k s = (Inr (), t)"
    and plain: "last (ag_events t) = AE_turn_complete i response 0 plugins"
  shows "remembered t = remembered s @ [plain_message MR_USER prompt]"
proof -
  let ?x = "default_shape env"
  have x: "plain_shape ?x" using default_shape_plain [OF key] .
  have sh: "shaped ?x s" using default_agent_shaped [OF off key] s by simp
  from turn obtain j u where u: "turn_body env j prompt name k u = (Inr (), t)" "shape (ag_mesh u) = shape (ag_mesh s)"
    "ms_objects (ag_mesh u) = ms_objects (ag_mesh s)" by (rule turn_starts)
  then have shu: "shaped ?x u" and up: "ms_plugins (ag_mesh u) = ms_plugins (ag_mesh s)" using sh by (auto simp: shaped_def shape_def)
  from shu u(1) obtain a v y texts calls where v: "memory_append (get_memory u) (plain_message MR_USER prompt) u = (Inr (), v)" "shaped ?x v"
    and y: "run_steps env a (get_memory u) prompt k 1 [] 0 v = (Inr (texts, calls), y)" "shaped ?x y"
    and f: "finish_turn env j texts calls y = (Inr (), t)" by (rule plain_turn_body [OF off x])
  have "closes (\<lambda>e. \<exists>r n. e = AE_turn_complete j r calls n) (finish_turn env j texts calls)" by (rule closes_finish_turn) blast
  with f obtain es r n where "ag_events t = ag_events y @ es @ [AE_turn_complete j r calls n]" unfolding closes_def by blast
  with plain have "calls = 0" by simp
  with steps_without_calls y(1) have "ms_objects (ag_mesh y) = ms_objects (ag_mesh v)" by blast
  moreover have "ms_objects (ag_mesh t) = ms_objects (ag_mesh y)"
    using keepsD [OF objects_finish, of "ms_objects (ag_mesh y)" y env j texts calls] f by (simp add: objects_are_def)
  moreover have "ms_plugins (ag_mesh t) = ms_plugins (ag_mesh v)"
    using v(2) runsE [OF finish_turn_runs y(2)] f y(2) by (metis Pair_inject shaped_def shape_def)
  ultimately have "remembered t = remembered v" by (intro remembered_cong) simp_all
  moreover obtain m where m: "get_memory u = Some m" using default_memory [OF shu x] by blast
  moreover have "remembered v = remembered u @ [plain_message MR_USER prompt]"
    using memory_append_remembers [OF shu x m] v m by simp
  ultimately show ?thesis using remembered_cong [OF u(3) up] by simp
qed

section \<open>A concrete agent\<close>

definition demo_agent_env :: "unit agent_env" where
  "demo_agent_env = \<lparr>ae_candidate = \<lparr>ce_parse = (\<lambda>_. Inl (SyntaxError ''no parser'')), ce_exec = (\<lambda>_. Inr []), ce_harness = (\<lambda>_. ret ()), ce_show = (\<lambda>_. [])\<rparr>,
     ae_uuid = (\<lambda>n. show_nat n), ae_now = 1, ae_writable = (\<lambda>_. True), ae_unsafe = False,
     ae_code = \<lparr>ec_on_load = (\<lambda>_. ret ()), ec_on_unload = ret (), ec_self_test = ret (PDict []), ec_execute = (\<lambda>_. None),
       ec_generate = (\<lambda>_. None)\<rparr>,
     ae_host = (\<lambda>_. None), ae_runner = (\<lambda>_ _ _. Inr (0, [], [])), ae_python = ''python'', ae_parse = (\<lambda>_. Inr (Node AK_Other [])),
     ae_service = (\<lambda>_ _ _. []), ae_other_keyword = (\<lambda>_ _. False), ae_reply = (\<lambda>p. ''you said '' @ p), ae_done_text = ''done'',
     ae_show = (\<lambda>_. ''value'')\<rparr>"

theorem every_prompt_answered_witness:
  "\<exists>t i es response calls count. run_turn demo_agent_env ''hello'' None 5 (new_agent demo_agent_env ''/ws'' demo_text_world) = (Inr (), t) \<and>
     calls_paired es \<and> ag_events t = ag_events (new_agent demo_agent_env ''/ws'' demo_text_world) @
       AE_turn_start i ''hello'' # es @ [AE_turn_complete i response calls count]"
  using every_prompt_answered [of demo_agent_env "new_agent demo_agent_env ''/ws'' demo_text_world" "[]" "''/ws''" demo_text_world "''hello''" None 5]
  by (simp add: demo_agent_env_def run_turns_def given_def)

theorem reply_not_remembered_witness:
  "\<exists>t. run_turn demo_agent_env ''hello'' None 5 (new_agent demo_agent_env ''/ws'' demo_text_world) = (Inr (), t) \<and>
     AE_text ''you said hello'' (Some 1) \<in> set (ag_events t) \<and>
     remembered t = remembered (new_agent demo_agent_env ''/ws'' demo_text_world) @ [plain_message MR_USER ''hello'']"
proof -
  let ?s = "new_agent demo_agent_env ''/ws'' demo_text_world"
  have "(case run_turn demo_agent_env ''hello'' None 5 ?s of (Inr _, t) \<Rightarrow> AE_text ''you said hello'' (Some 1) \<in> set (ag_events t) \<and>
      (case last (ag_events t) of AE_turn_complete i r c n \<Rightarrow> c = 0 | _ \<Rightarrow> False) | _ \<Rightarrow> False)" by code_simp
  then obtain t i r n where t: "run_turn demo_agent_env ''hello'' None 5 ?s = (Inr (), t)" "AE_text ''you said hello'' (Some 1) \<in> set (ag_events t)"
    "last (ag_events t) = AE_turn_complete i r 0 n"
    by (auto split: prod.splits sum.splits agent_event.splits)
  have off: "\<not> ae_unsafe demo_agent_env" "\<not> given (ae_host demo_agent_env ''OPENAI_API_KEY'')" by (simp_all add: demo_agent_env_def given_def)
  have "?s = run_turns demo_agent_env [] ?s" by (simp add: run_turns_def)
  from reply_not_remembered [OF off this t(1,3)] t show ?thesis by blast
qed

end
