(* ===== verification/Gateway.thy ===== *)
theory Gateway
  imports Service
begin

text \<open>
  The HTTP interface of the control plane (\<open>src/src/ael/api.py\<close>) and its authentication
  (\<open>src/src/ael/auth.py\<close>): users by a bearer token, workers by the fingerprint of their client
  certificate. A request is answered, or refused with a status code. The check of a token is done
  by a library and is a parameter.
\<close>

section \<open>Authentication\<close>

text \<open>\<open>AuthenticationError\<close> is a \<open>PermissionError\<close>, and is caught as itself only where nothing else is raised.\<close>

record oidc_config =
  oc_issuer :: string
  oc_audience :: string
  oc_jwks_url :: "string option"

definition oidc_config_from_environment :: "host \<Rightarrow> oidc_config option result" where
  "oidc_config_from_environment h =
     (case (nonempty (host_env h ''AEL_OIDC_ISSUER''), nonempty (host_env h ''AEL_OIDC_AUDIENCE'')) of
        (None, None) \<Rightarrow> Inr None
      | (Some issuer, Some audience) \<Rightarrow>
          Inr (Some \<lparr>oc_issuer = issuer, oc_audience = audience, oc_jwks_url = host_env h ''AEL_OIDC_JWKS_URL''\<rparr>)
      | _ \<Rightarrow> Inl (ValueError ''AEL_OIDC_ISSUER and AEL_OIDC_AUDIENCE must be configured together''))"

definition jwks_address :: "oidc_config \<Rightarrow> string" where
  "jwks_address c = (case nonempty (oc_jwks_url c) of Some url \<Rightarrow> url
     | None \<Rightarrow> rev (dropWhile (\<lambda>x. x = CHR ''/'') (rev (oc_issuer c))) @ ''/.well-known/jwks.json'')"

text \<open>\<open>text.strip().lower().replace(":", "")\<close>.\<close>

definition normalized_fingerprint :: "string \<Rightarrow> string" where
  "normalized_fingerprint s = filter (\<lambda>c. c \<noteq> CHR '':'') (lower (strip s))"

definition fingerprint_allowlist :: "host \<Rightarrow> string list" where
  "fingerprint_allowlist h = map normalized_fingerprint
     (filter (\<lambda>v. strip v \<noteq> []) (split_on CHR '','' (case host_env h ''AEL_WORKER_FINGERPRINTS'' of None \<Rightarrow> [] | Some s \<Rightarrow> s)))"

definition verify_worker_fingerprint :: "host \<Rightarrow> string \<Rightarrow> string \<Rightarrow> unit result" where
  "verify_worker_fingerprint h presented declared =
     (let p = normalized_fingerprint presented; allowed = fingerprint_allowlist h in
      if length p \<noteq> 64 \<or> p \<noteq> lower declared then Inl (PermissionError ''worker certificate fingerprint mismatch'')
      else if allowed = [] \<and> host_env h ''AEL_ALLOW_INSECURE_WORKER_TESTS'' \<noteq> Some ''1''
      then Inl (PermissionError ''no worker certificate allowlist is configured'')
      else check (\<not> (allowed \<noteq> [] \<and> p \<notin> set allowed)) (PermissionError ''worker certificate is not allow-listed''))"

section \<open>Requests and answers\<close>

datatype request =
    RQ_doctor
  | RQ_healthz
  | RQ_project
  | RQ_classify string
  | RQ_start string
  | RQ_experiment string
  | RQ_evidence string
  | RQ_events string int int
  | RQ_enqueue worker_task
  | RQ_cancel string
  | RQ_task string
  | RQ_register worker_registration
  | RQ_lease string
  | RQ_heartbeat string worker_heartbeat
  | RQ_complete string worker_task_result

datatype answer =
    AN_tools "adapter_probe list"
  | AN_ok
  | AN_project inspection
  | AN_route route_result
  | AN_run string
  | AN_row run_row
  | AN_evidence evidence_answer
  | AN_page event_page
  | AN_worker string
  | AN_lease "worker_task option"
  | AN_task worker_task

record headers =
  hd_authorization :: "string option"
  hd_certificate :: "string option"

text \<open>A refusal is a status code with its detail; what is not translated ends as an internal error.\<close>

type_synonym refusal_code = "nat \<times> string"

type_synonym ('s, 'a) endpoint = "'s \<Rightarrow> (refusal_code + 'a) \<times> 's"

fun http_refusal :: "exn \<Rightarrow> refusal_code" where
  "http_refusal (KeyError m) = (404, m)"
| "http_refusal (ValueError m) = (422, m)"
| "http_refusal (UnicodeDecodeError m) = (422, m)"
| "http_refusal (PermissionError m) = (422, m)"
| "http_refusal (FileNotFoundError m) = (422, m)"
| "http_refusal _ = (500, ''Internal Server Error'')"

definition translate :: "('s, 'a) prog \<Rightarrow> ('a \<Rightarrow> answer) \<Rightarrow> ('s, answer) endpoint" where
  "translate m f s = (case m s of (Inl e, t) \<Rightarrow> (Inl (http_refusal e), t) | (Inr x, t) \<Rightarrow> (Inr (f x), t))"

text \<open>An endpoint without \<open>translate\<close>: whatever it raises is an internal error.\<close>

definition untranslated :: "('s, 'a) prog \<Rightarrow> ('a \<Rightarrow> answer) \<Rightarrow> ('s, answer) endpoint" where
  "untranslated m f s = (case m s of (Inl e, t) \<Rightarrow> (Inl (500, ''Internal Server Error''), t) | (Inr x, t) \<Rightarrow> (Inr (f x), t))"

section \<open>The endpoints\<close>

text \<open>\<open>ge_decode\<close> fetches the signing key from an address and decodes a token, with the issuer and the audience.\<close>

record 'a gateway_env =
  ge_service :: "'a service_env"
  ge_oidc :: "oidc_config option"
  ge_decode :: "string \<Rightarrow> oidc_config \<Rightarrow> string \<Rightarrow> pyval result"

definition gateway_host :: "'a gateway_env \<Rightarrow> host" where
  "gateway_host env = re_host (se_run (ge_service env))"

definition verify_token :: "'a gateway_env \<Rightarrow> oidc_config \<Rightarrow> string \<Rightarrow> pyval result" where
  "verify_token env c token = (case ge_decode env (jwks_address c) c token of
     Inl _ \<Rightarrow> Inl (PermissionError ''invalid OIDC access token'') | Inr v \<Rightarrow> Inr v)"

definition require_user :: "'a gateway_env \<Rightarrow> headers \<Rightarrow> refusal_code + pyval" where
  "require_user env hd' =
     (case ge_oidc env of
        None \<Rightarrow> Inr (PDict [(''sub'', PStr ''local-development'')])
      | Some c \<Rightarrow>
          (case nonempty (hd_authorization hd') of
             None \<Rightarrow> Inl (401, ''OIDC bearer token required'')
           | Some a \<Rightarrow>
               if \<not> starts_with a ''Bearer '' then Inl (401, ''OIDC bearer token required'')
               else (case verify_token env c (drop 7 a) of Inl e \<Rightarrow> Inl (401, exn_message e) | Inr v \<Rightarrow> Inr v)))"

text \<open>The certificate of a request against a registration.\<close>

definition require_certificate :: "'a gateway_env \<Rightarrow> headers \<Rightarrow> worker_registration \<Rightarrow> refusal_code + unit" where
  "require_certificate env hd' r =
     (case hd_certificate hd' of
        None \<Rightarrow> Inl (401, ''verified client certificate fingerprint required'')
      | Some c \<Rightarrow>
          (case verify_worker_fingerprint (gateway_host env) c (wr_certificate_fingerprint r) of
             Inl e \<Rightarrow> Inl (403, exn_message e) | Inr _ \<Rightarrow> Inr ()))"

definition require_worker :: "'a gateway_env \<Rightarrow> headers \<Rightarrow> string \<Rightarrow> state_store \<Rightarrow> refusal_code + worker_registration" where
  "require_worker env hd' worker_id st =
     (case worker worker_id (ss_workers st) of
        None \<Rightarrow> Inl (403, ''worker is not registered'')
      | Some r \<Rightarrow> (case require_certificate env hd' r of Inl e \<Rightarrow> Inl e | Inr _ \<Rightarrow> Inr r))"

definition as_user :: "'a gateway_env \<Rightarrow> headers \<Rightarrow> ('a service, answer) endpoint \<Rightarrow> ('a service, answer) endpoint" where
  "as_user env hd' m s = (case require_user env hd' of Inl e \<Rightarrow> (Inl e, s) | Inr _ \<Rightarrow> m s)"

definition as_worker :: "'a gateway_env \<Rightarrow> headers \<Rightarrow> string \<Rightarrow> ('a service, answer) endpoint \<Rightarrow> ('a service, answer) endpoint" where
  "as_worker env hd' w m s = (case require_worker env hd' w (sv_store s) of Inl e \<Rightarrow> (Inl e, s) | Inr _ \<Rightarrow> m s)"

definition as_certified :: "'a gateway_env \<Rightarrow> headers \<Rightarrow> worker_registration \<Rightarrow> ('a service, answer) endpoint \<Rightarrow> ('a service, answer) endpoint" where
  "as_certified env hd' r m s = (case require_certificate env hd' r of Inl e \<Rightarrow> (Inl e, s) | Inr _ \<Rightarrow> m s)"

text \<open>\<open>fresh\<close> is the run identifier or lease token drawn while the request is handled; leases last a minute.\<close>

fun respond :: "'a gateway_env \<Rightarrow> string \<Rightarrow> headers \<Rightarrow> request \<Rightarrow> ('a service, answer) endpoint" where
  "respond env fresh hd' RQ_doctor = untranslated (doctor (ge_service env)) AN_tools"
| "respond env fresh hd' RQ_healthz = (\<lambda>s. (Inr AN_ok, s))"
| "respond env fresh hd' RQ_project = as_user env hd' (untranslated (inspect (ge_service env)) AN_project)"
| "respond env fresh hd' (RQ_classify p) = as_user env hd' (translate (classify (ge_service env) p) AN_route)"
| "respond env fresh hd' (RQ_start p) = as_user env hd' (translate (start_experiment (ge_service env) fresh p) AN_run)"
| "respond env fresh hd' (RQ_experiment i) = as_user env hd' (translate (run_status_of i) AN_row)"
| "respond env fresh hd' (RQ_evidence i) = as_user env hd' (translate (get_evidence (ge_service env) i ''bundle.json'') AN_evidence)"
| "respond env fresh hd' (RQ_events i offset limit) =
     as_user env hd' (translate (get_event_page (ge_service env) i offset limit) AN_page)"
| "respond env fresh hd' (RQ_enqueue t) = as_user env hd' (translate (service_enqueue_task (ge_service env) t) AN_task)"
| "respond env fresh hd' (RQ_cancel i) = as_user env hd' (translate (service_cancel_task (ge_service env) i) AN_task)"
| "respond env fresh hd' (RQ_task i) = as_user env hd' (translate (service_task_status i) AN_task)"
| "respond env fresh hd' (RQ_register r) =
     as_certified env hd' r (translate (service_register_worker (ge_service env) r) AN_worker)"
| "respond env fresh hd' (RQ_lease w) =
     as_worker env hd' w (translate (service_lease_task (ge_service env) fresh w 60) AN_lease)"
| "respond env fresh hd' (RQ_heartbeat w hb) =
     as_worker env hd' w (translate (service_heartbeat_task (ge_service env) w hb 60) AN_task)"
| "respond env fresh hd' (RQ_complete w res) =
     as_worker env hd' w (translate (service_complete_task (ge_service env) w res) AN_task)"

section \<open>Who may do what\<close>

text \<open>The worker a request speaks for.\<close>

fun speaks_for :: "request \<Rightarrow> string option" where
  "speaks_for (RQ_lease w) = Some w"
| "speaks_for (RQ_heartbeat w hb) = Some w"
| "speaks_for (RQ_complete w res) = Some w"
| "speaks_for _ = None"

text \<open>The certificate is the registered one, and the operator admits it.\<close>

definition certified :: "host \<Rightarrow> string \<Rightarrow> worker_registration \<Rightarrow> bool" where
  "certified h c r \<longleftrightarrow> length (normalized_fingerprint c) = 64 \<and> normalized_fingerprint c = lower (wr_certificate_fingerprint r) \<and>
     (if fingerprint_allowlist h = [] then host_env h ''AEL_ALLOW_INSECURE_WORKER_TESTS'' = Some ''1''
      else normalized_fingerprint c \<in> set (fingerprint_allowlist h))"

lemma verified_certificate: "verify_worker_fingerprint h c (wr_certificate_fingerprint r) = Inr u \<longleftrightarrow> certified h c r"
  by (auto simp: verify_worker_fingerprint_def certified_def Let_def)

lemma require_certificate_Inr:
  "require_certificate env hd' r = Inr u \<longleftrightarrow> (\<exists>c. hd_certificate hd' = Some c \<and> certified (gateway_host env) c r)"
  by (cases "hd_certificate hd'") (auto simp: require_certificate_def verified_certificate [symmetric, where u = "()"] split: sum.split)

lemma require_worker_Inr:
  "require_worker env hd' w st = Inr r \<longleftrightarrow>
     worker w (ss_workers st) = Some r \<and> (\<exists>c. hd_certificate hd' = Some c \<and> certified (gateway_host env) c r)"
  unfolding require_certificate_Inr [symmetric, where u = "()"]
  by (cases "worker w (ss_workers st)") (auto simp: require_worker_def split: sum.split)

lemma as_worker_acts:
  assumes "as_worker env hd' w m s = (r, t)" and "t \<noteq> s \<or> (\<exists>a. r = Inr a)"
  obtains reg c where "worker w (ss_workers (sv_store s)) = Some reg" "hd_certificate hd' = Some c"
    "certified (gateway_host env) c reg" "m s = (r, t)"
  using assms require_worker_Inr [of env hd' w "sv_store s"]
  by (fastforce simp: as_worker_def split: sum.splits)

text \<open>C9. A worker's requests count only with its certificate: where a lease, a heartbeat or a result is
  answered, or changes anything at all, the request carried the certificate the worker is registered
  with, and that certificate is on the operator's list, or there is no list and the test switch is on.\<close>

theorem worker_requests_authenticated:
  assumes "speaks_for rq = Some w" and "respond env fresh hd' rq s = (r, t)" and "t \<noteq> s \<or> (\<exists>a. r = Inr a)"
  shows "\<exists>reg c. worker w (ss_workers (sv_store s)) = Some reg \<and> hd_certificate hd' = Some c \<and>
    certified (gateway_host env) c reg"
proof -
  from assms(1,2) obtain m where "as_worker env hd' w m s = (r, t)" by (cases rq) auto
  from as_worker_acts [OF this assms(3)] show ?thesis by blast
qed

lemma find_update_where:
  assumes "\<And>x. q (f x) = q x"
  shows "find q (update_where p f xs) = map_option (\<lambda>x. if p x then f x else x) (find q xs)"
  using assms by (induction xs) (auto simp: update_where_def)

lemma find_some_append: "find q (xs @ ys) = (case find q xs of None \<Rightarrow> find q ys | Some x \<Rightarrow> Some x)"
  by (induction xs) auto

lemma find_someD: "find q xs = Some x \<Longrightarrow> x \<in> set xs \<and> q x"
  by (induction xs) (auto split: if_splits)

lemma registered_worker:
  assumes "worker (wr_worker_id r) (ss_workers (register_worker now r st)) = Some reg"
  shows "reg = r"
proof (cases "find_by wk_worker_id (wr_worker_id r) (ss_workers st)")
  case None
  then have "find (\<lambda>w. wk_worker_id w = wr_worker_id r \<and> wk_enabled w) (ss_workers st) = None"
    by (auto simp: find_None_iff find_by_None image_iff)
  with None assms show ?thesis by (auto simp: worker_def register_worker_def find_some_append)
next
  case (Some y)
  let ?f = "\<lambda>w. w\<lparr>wk_kind := wr_worker_kind r, wk_registration := r,
    wk_fingerprint := lower (wr_certificate_fingerprint r), wk_last_seen_at := now\<rparr>"
  from Some assms obtain z where z: "find (\<lambda>w. wk_worker_id w = wr_worker_id r \<and> wk_enabled w) (ss_workers st) = Some z"
    "reg = wk_registration (if wk_worker_id z = wr_worker_id r then ?f z else z)"
    by (auto simp: worker_def register_worker_def find_update_where)
  with find_someD [OF z(1)] show ?thesis by simp
qed

text \<open>Whoever holds an admitted certificate can take over any worker: registration replaces what is
  stored under the identifier it names without asking who registered it, and from then on the
  earlier worker's own certificate is refused.\<close>

theorem registration_takes_over:
  assumes taken: "respond env fresh hd2 (RQ_register r) s = (Inr a, t)"
    and other: "hd_certificate hd1 = Some c" "normalized_fingerprint c \<noteq> lower (wr_certificate_fingerprint r)"
    and rq: "speaks_for rq = Some (wr_worker_id r)"
  shows "\<exists>m. respond env fresh' hd1 rq t = (Inl (403, m), t)"
proof -
  from taken have t: "ss_workers (sv_store t) = ss_workers (register_worker (se_now (ge_service env) (sv_store s)) r (sv_store s))"
    by (auto simp: as_certified_def translate_def service_register_worker_def audit_entry_def audit_def
        bindP_def split: sum.splits prod.splits)
  from rq obtain m where m: "respond env fresh' hd1 rq t = as_worker env hd1 (wr_worker_id r) m t" by (cases rq) auto
  show ?thesis
  proof (cases "worker (wr_worker_id r) (ss_workers (sv_store t))")
    case None
    then show ?thesis by (simp add: m as_worker_def require_worker_def)
  next
    case (Some reg)
    with registered_worker [OF Some [unfolded t]] other show ?thesis
      by (simp add: m as_worker_def require_worker_def require_certificate_def verify_worker_fingerprint_def Let_def)
  qed
qed

end
