(* ===== verification/Worker.thy ===== *)
theory Worker
  imports Gateway Lab Control
begin

text \<open>
  The outbound worker (\<open>src/src/ael/worker.py\<close>): it registers with the control plane, leases tasks
  over HTTP, runs each one in a thread of its own while it sends heartbeats, and reports the result.
  The control plane is whatever answers its requests; \<open>Gateway\<close> is one such, and the properties
  at the end are about the two together.
\<close>

section \<open>Talking to the control plane\<close>

text \<open>
  \<open>httpx.HTTPError\<close>: no answer came, or one with a status code of 400 and above, each with the text of the
  exception, its class included; and what the worker itself raises.
\<close>

datatype trouble = No_Answer string | Status nat string | Raised exn

fun trouble_text :: "trouble \<Rightarrow> string" where
  "trouble_text (No_Answer m) = m"
| "trouble_text (Status c m) = m"
| "trouble_text (Raised e) = exn_text e"

fun status_code :: "trouble \<Rightarrow> nat option" where
  "status_code (Status c m) = Some c"
| "status_code _ = None"

type_synonym 'cp link = "request \<Rightarrow> 'cp \<Rightarrow> (trouble + answer) \<times> 'cp"

text \<open>The control plane at the other end, and what was sent to it so far, with how it failed.\<close>

record 'cp outbound =
  ob_control :: 'cp
  ob_sent :: "(request \<times> trouble option) list"

type_synonym ('cp, 'a) talk = "'cp outbound \<Rightarrow> (trouble + 'a) \<times> 'cp outbound"

text \<open>How a request failed, if it did.\<close>

definition failed_with :: "trouble + 'a \<Rightarrow> trouble option" where
  "failed_with r = (case r of Inl f \<Rightarrow> Some f | Inr _ \<Rightarrow> None)"

definition post :: "'cp link \<Rightarrow> request \<Rightarrow> ('cp, answer) talk" where
  "post l rq s = (case l rq (ob_control s) of (r, c) \<Rightarrow>
     (r, \<lparr>ob_control = c, ob_sent = ob_sent s @ [(rq, failed_with r)]\<rparr>))"

definition worker_beat :: "worker_task \<Rightarrow> pyfloat \<Rightarrow> string \<Rightarrow> worker_heartbeat" where
  "worker_beat t progress message = \<lparr>hb_task_id = wt_task_id t,
     hb_lease_token = (case wt_lease_token t of None \<Rightarrow> [] | Some k \<Rightarrow> k), hb_status = HS_running,
     hb_progress = progress, hb_message = Some message\<rparr>"

definition heartbeat :: "'cp link \<Rightarrow> string \<Rightarrow> worker_task \<Rightarrow> pyfloat \<Rightarrow> string \<Rightarrow> ('cp, answer) talk" where
  "heartbeat l w t progress message = post l (RQ_heartbeat w (worker_beat t progress message))"

section \<open>One task\<close>

record payload =
  py_evidence_bundle :: string
  py_artifact_hashes :: "(string, string) dict"

text \<open>
  The thread of a task: from whether the cancel event was set after each poll so far to its result,
  once it has one.
\<close>

type_synonym thread = "bool list \<Rightarrow> payload result option"

text \<open>
  \<open>while not future.done()\<close>, with \<open>n\<close> polls at most: whether the task was cancelled, and what
  \<open>future.result()\<close> or a failed heartbeat gives. Only a refusal with 422 cancels.
\<close>

fun watch :: "'cp link \<Rightarrow> string \<Rightarrow> worker_task \<Rightarrow> thread \<Rightarrow> nat \<Rightarrow> bool list \<Rightarrow> bool \<Rightarrow> 'cp outbound \<Rightarrow>
    (bool \<times> (trouble + payload) \<times> 'cp outbound) option" where
  "watch l w t th n polls dead s =
     (case th polls of
        Some (Inl e) \<Rightarrow> Some (dead, Inl (Raised e), s)
      | Some (Inr p) \<Rightarrow> Some (dead, Inr p, s)
      | None \<Rightarrow>
          (case n of
             0 \<Rightarrow> None
           | Suc m \<Rightarrow>
               (case heartbeat l w t (Fin (1 / 2)) ''task executing'' s of
                  (Inr _, s') \<Rightarrow> watch l w t th m (polls @ [dead]) dead s'
                | (Inl f, s') \<Rightarrow>
                    if status_code f = Some 422 then watch l w t th m (polls @ [True]) True s' else Some (dead, Inl f, s'))))"

declare watch.simps [simp del]

definition task_result :: "worker_task \<Rightarrow> bool \<Rightarrow> trouble + payload \<Rightarrow> worker_task_result" where
  "task_result t dead r =
     \<lparr>tr_task_id = wt_task_id t, tr_lease_token = (case wt_lease_token t of None \<Rightarrow> [] | Some k \<Rightarrow> k),
      tr_status = (case r of Inr _ \<Rightarrow> RES_succeeded | Inl _ \<Rightarrow> if dead then RES_cancelled else RES_failed),
      tr_artifact_hashes = (case r of Inr p \<Rightarrow> py_artifact_hashes p | Inl _ \<Rightarrow> []),
      tr_evidence_bundle = (case r of Inr p \<Rightarrow> Some (py_evidence_bundle p) | Inl _ \<Rightarrow> None),
      tr_error = (case r of Inr _ \<Rightarrow> None | Inl f \<Rightarrow> Some (trouble_text f))\<rparr>"

text \<open>\<open>None\<close> where the thread did not end within \<open>n\<close> polls.\<close>

definition execute_task :: "'cp link \<Rightarrow> string \<Rightarrow> worker_task \<Rightarrow> thread \<Rightarrow> nat \<Rightarrow> 'cp outbound \<Rightarrow>
    ((trouble + unit) \<times> 'cp outbound) option" where
  "execute_task l w t th n s =
     (if \<not> given (wt_lease_token t) then Some (Inl (Raised (ValueError ''leased task has no lease token'')), s)
      else
        (case heartbeat l w t (Fin 0) ''task accepted'' s of
           (Inl f, s) \<Rightarrow> Some (Inl f, s)
         | (Inr _, s) \<Rightarrow>
             (case watch l w t th n [] False s of
                None \<Rightarrow> None
              | Some (dead, r, s) \<Rightarrow>
                  if dead then Some (Inr (), s)
                  else (case post l (RQ_complete w (task_result t dead r)) s of
                          (Inl f, s) \<Rightarrow> Some (Inl f, s) | (Inr _, s) \<Rightarrow> Some (Inr (), s)))))"

section \<open>The worker's loops\<close>

text \<open>The first loop: register until it is accepted, \<open>None\<close> where that took more than \<open>n\<close> attempts.\<close>

fun register_until :: "'cp link \<Rightarrow> worker_registration \<Rightarrow> nat \<Rightarrow> 'cp outbound \<Rightarrow> 'cp outbound option" where
  "register_until l r 0 s = None"
| "register_until l r (Suc n) s =
     (case post l (RQ_register r) s of (Inl _, s') \<Rightarrow> register_until l r n s' | (Inr _, s') \<Rightarrow> Some s')"

text \<open>
  The second loop, for \<open>n\<close> rounds: what a round raises outside the lease itself ends it, and the
  process with it. A task whose thread does not end within \<open>n\<close> polls ends the observation too.
\<close>

fun serve_tasks :: "'cp link \<Rightarrow> string \<Rightarrow> (worker_task \<Rightarrow> thread) \<Rightarrow> nat \<Rightarrow> 'cp outbound \<Rightarrow> (trouble option \<times> 'cp outbound) option" where
  "serve_tasks l w threads 0 s = Some (None, s)"
| "serve_tasks l w threads (Suc n) s =
     (case post l (RQ_lease w) s of
        (Inr (AN_lease (Some t)), s') \<Rightarrow>
          (case execute_task l w t (threads t) n s' of
             None \<Rightarrow> None
           | Some (Inl f, s'') \<Rightarrow> Some (Some f, s'')
           | Some (Inr _, s'') \<Rightarrow> serve_tasks l w threads n s'')
      | (_, s') \<Rightarrow> serve_tasks l w threads n s')"

definition run_forever :: "'cp link \<Rightarrow> worker_registration \<Rightarrow> (worker_task \<Rightarrow> thread) \<Rightarrow> nat \<Rightarrow> 'cp outbound \<Rightarrow>
    (trouble option \<times> 'cp outbound) option" where
  "run_forever l r threads n s =
     (case register_until l r n s of None \<Rightarrow> None | Some s' \<Rightarrow> serve_tasks l (wr_worker_id r) threads n s')"

section \<open>What a task does\<close>

fun task_type_value :: "task_type \<Rightarrow> string" where
  "task_type_value TT_experiment = ''experiment''"
| "task_type_value TT_model_validation = ''model_validation''"
| "task_type_value TT_calibration = ''calibration''"
| "task_type_value TT_hardware_validation = ''hardware_validation''"

text \<open>\<open>task.payload[k]\<close> where a path is made of it.\<close>

definition payload_text :: "worker_task \<Rightarrow> string \<Rightarrow> string result" where
  "payload_text t k =
     (case dict_get (wt_payload t) k of None \<Rightarrow> Inl (KeyError ([CHR 0x27] @ k @ [CHR 0x27]))
      | Some (PStr s) \<Rightarrow> Inr s | Some _ \<Rightarrow> Inl (TypeError ''expected str, bytes or os.PathLike object''))"

text \<open>What a run's bundle is reported as; its path has to begin with the workspace as \<open>AEL_WORKSPACE\<close> gives it.\<close>

definition bundle_payload :: "(evidence_file \<Rightarrow> string) \<Rightarrow> path \<Rightarrow> path \<Rightarrow> ('a service, payload) prog" where
  "bundle_payload sha ws p =
     bindP (reads (\<lambda>s. andThen (resolve (workspace_files s) p) (read_file (workspace_files s)))) (\<lambda>c.
     bindP (guardP (prefix ws p) (ValueError ''path is not in the subpath'')) (\<lambda>_.
     ret \<lparr>py_evidence_bundle = join_with ''/'' (drop (length ws) p), py_artifact_hashes = [(''bundle.json'', sha c)]\<rparr>))"

lemma bundle_payload_Inr:
  assumes "bundle_payload sha ws p s = (Inr y, s')"
  shows "\<exists>ps c q. resolve (workspace_files s') (ws @ ps) = Inr q \<and> read_file (workspace_files s') q = Inr c \<and>
    y = \<lparr>py_evidence_bundle = join_with ''/'' ps, py_artifact_hashes = [(''bundle.json'', sha c)]\<rparr>"
  using assms unfolding bundle_payload_def by (fastforce simp: bindP_eq_Inr guardP_eq_Inr andThen_eq_Inr prefix_def)

text \<open>A simulation worker runs the experiment on its own service.\<close>

definition dispatch_simulation ::
    "'a service_env \<Rightarrow> (evidence_file \<Rightarrow> string) \<Rightarrow> string \<Rightarrow> path \<Rightarrow> worker_task \<Rightarrow> ('a service, payload) prog" where
  "dispatch_simulation env sha run_id ws t =
     (if wt_task_type t \<notin> {TT_experiment, TT_model_validation}
      then raise (PermissionError (''simulation worker cannot execute task type: '' @ task_type_value (wt_task_type t)))
      else
        bindP (lift (payload_text t ''experiment_path'')) (\<lambda>p.
        bindP (run_experiment env run_id p) (\<lambda>res.
        bindP (guardP (out_status res \<noteq> RS_CANCELLED) (RuntimeError ''experiment cancelled'')) (\<lambda>_.
        bundle_payload sha ws (out_evidence_dir res @ [''bundle.json''])))))"

text \<open>\<open>InstrumentDefinition(**raw)\<close> with exactly its four fields, which are texts; another value is refused here already.\<close>

definition instrument_of :: "pyval \<Rightarrow> instrument_definition result" where
  "instrument_of v =
     (case v of
        PDict d \<Rightarrow>
          andThen (check (set (dict_keys d) = {''id'', ''resource'', ''kind'', ''driver''})
            (ValueError ''instrument definition has unknown or missing fields'')) (\<lambda>_.
          case map (dict_get d) [''id'', ''resource'', ''kind'', ''driver''] of
            [Some (PStr i), Some (PStr r), Some (PStr k), Some (PStr dr)] \<Rightarrow>
              Inr \<lparr>idf_id = i, idf_resource = r, idf_kind = k, idf_driver = dr\<rparr>
          | _ \<Rightarrow> Inl (TypeError ''instrument definition''))
      | PList _ \<Rightarrow> Inl (ValueError ''instrument definition has unknown or missing fields'')
      | PStr _ \<Rightarrow> Inl (ValueError ''instrument definition has unknown or missing fields'')
      | _ \<Rightarrow> Inl (TypeError ''object is not iterable''))"

definition dispatch_lab ::
    "lab_env \<Rightarrow> (evidence_file \<Rightarrow> instrument_operation_request result) \<Rightarrow> worker_task \<Rightarrow> (lab, payload) prog" where
  "dispatch_lab env decode t =
     (if wt_task_type t \<notin> {TT_calibration, TT_hardware_validation}
      then raise (PermissionError (''lab worker cannot execute task type: '' @ task_type_value (wt_task_type t)))
      else
        bindP (lift (payload_text t ''request_path'')) (\<lambda>p.
        bindP (reads (\<lambda>s. load_document decode (lab_fs s) (lab_root s) p)) (\<lambda>r.
        bindP (lift (require (dict_get (wt_payload t) ''instrument'') (KeyError ([CHR 0x27] @ ''instrument'' @ [CHR 0x27])))) (\<lambda>raw.
        bindP (lift (instrument_of raw)) (\<lambda>d.
        bindP (lift (payload_text t ''calibration_path'')) (\<lambda>c.
        bindP (lift (payload_text t ''output_path'')) (\<lambda>q.
        bindP (lab_execute env r d c q) (\<lambda>e.
        ret \<lparr>py_evidence_bundle = iev_raw_artifact_path e @ ''.evidence.json'',
          py_artifact_hashes = [(iev_raw_artifact_path e, iev_raw_artifact_sha256 e)]\<rparr>))))))))"

text \<open>\<open>_dispatch\<close> on the worker's workspace, seen as the service's or as the laboratory's; \<open>dead\<close> is the cancel event when it begins.\<close>

definition dispatch_task ::
    "'a service_env \<Rightarrow> (evidence_file \<Rightarrow> string) \<Rightarrow> string \<Rightarrow> path \<Rightarrow> lab_env \<Rightarrow>
     (evidence_file \<Rightarrow> instrument_operation_request result) \<Rightarrow> worker_kind \<Rightarrow> bool \<Rightarrow> worker_task \<Rightarrow>
     ('a service \<times> lab, payload) prog" where
  "dispatch_task env sha run_id ws lenv decode kind dead t =
     (if kind = WK_LAB
      then (if dead then raise (RuntimeError ''lab task cancelled before dispatch'')
            else (\<lambda>(s, b). case dispatch_lab lenv decode t b of (r, b') \<Rightarrow> (r, (s, b'))))
      else (\<lambda>(s, b). case dispatch_simulation env sha run_id ws t s of (r, s') \<Rightarrow> (r, (s', b))))"

text \<open>A worker carries out only tasks of its own kind, and a simulation worker names a bundle it has read.\<close>

lemma dispatched_task:
  assumes "dispatch_task env sha run_id ws lenv decode kind dead t s = (Inr p, s')"
  shows "if kind = WK_LAB then \<not> dead \<and> wt_task_type t \<in> {TT_calibration, TT_hardware_validation} \<and> fst s' = fst s
    else wt_task_type t \<in> {TT_experiment, TT_model_validation} \<and> snd s' = snd s \<and>
      (\<exists>ps c q. resolve (workspace_files (fst s')) (ws @ ps) = Inr q \<and> read_file (workspace_files (fst s')) q = Inr c \<and>
        p = \<lparr>py_evidence_bundle = join_with ''/'' ps, py_artifact_hashes = [(''bundle.json'', sha c)]\<rparr>)"
proof (cases "kind = WK_LAB")
  case True
  with assms show ?thesis
    by (auto simp: dispatch_task_def dispatch_lab_def split: if_splits prod.splits)
next
  case False
  with assms obtain a b a' where s: "s = (a, b)" "s' = (a', b)" "dispatch_simulation env sha run_id ws t a = (Inr p, a')"
    by (auto simp: dispatch_task_def split: prod.splits)
  then have "wt_task_type t \<in> {TT_experiment, TT_model_validation}" "\<exists>(res :: run_result) a1. bundle_payload sha ws (out_evidence_dir res @ [''bundle.json'']) a1 = (Inr p, a')"
    by (auto simp: dispatch_simulation_def bindP_eq_Inr guardP_eq_Inr split: if_splits)
  with bundle_payload_Inr show ?thesis using False s by fastforce
qed

section \<open>What a worker reports\<close>

definition is_beat :: "string \<Rightarrow> worker_task \<Rightarrow> request \<Rightarrow> bool" where
  "is_beat w t rq \<longleftrightarrow> (\<exists>progress message. rq = RQ_heartbeat w (worker_beat t progress message))"

definition lease_refused :: "trouble option \<Rightarrow> bool" where
  "lease_refused f \<longleftrightarrow> (case f of None \<Rightarrow> False | Some x \<Rightarrow> status_code x = Some 422)"

text \<open>Heartbeats of the task, none of which was refused for its lease unless the task is dead.\<close>

definition beats :: "string \<Rightarrow> worker_task \<Rightarrow> bool \<Rightarrow> (request \<times> trouble option) list \<Rightarrow> bool" where
  "beats w t dead xs \<longleftrightarrow> list_all (\<lambda>(rq, f). is_beat w t rq \<and> (dead \<or> \<not> lease_refused f)) xs"

lemma beats_simps [simp]:
  "beats w t dead []" "beats w t dead ((rq, f) # xs) \<longleftrightarrow> is_beat w t rq \<and> (dead \<or> \<not> lease_refused f) \<and> beats w t dead xs"
  "beats w t dead (xs @ ys) \<longleftrightarrow> beats w t dead xs \<and> beats w t dead ys"
  by (auto simp: beats_def)

lemma heartbeat_sent:
  assumes "heartbeat l w t progress message s = (r, s')"
  obtains rq where "is_beat w t rq" "ob_sent s' = ob_sent s @ [(rq, failed_with r)]"
proof (rule that)
  show "is_beat w t (RQ_heartbeat w (worker_beat t progress message))" by (auto simp: is_beat_def)
  show "ob_sent s' = ob_sent s @ [(RQ_heartbeat w (worker_beat t progress message), failed_with r)]"
    using assms by (auto simp: heartbeat_def post_def split: prod.splits)
qed

lemma watch_sends:
  assumes "watch l w t th n polls dead s = Some (dead', r, s')"
  shows "(dead \<longrightarrow> dead') \<and> (\<exists>xs. ob_sent s' = ob_sent s @ xs \<and> beats w t dead' xs) \<and>
    (\<forall>p. r = Inr p \<longrightarrow> (\<exists>polls'. th polls' = Some (Inr p)))"
  using assms
proof (induction n arbitrary: polls dead s)
  case 0
  then show ?case by (auto simp: watch.simps split: option.splits sum.splits)
next
  case (Suc n)
  show ?case
  proof (cases "th polls")
    case (Some q)
    with Suc.prems show ?thesis by (cases q) (auto simp: watch.simps)
  next
    case None
    obtain h s1 where h: "heartbeat l w t (Fin (1 / 2)) ''task executing'' s = (h, s1)" by (cases "heartbeat l w t (Fin (1 / 2)) ''task executing'' s")
    from heartbeat_sent [OF this] obtain rq where rq: "is_beat w t rq"
      "ob_sent s1 = ob_sent s @ [(rq, failed_with h)]" .
    let ?goal = "(dead \<longrightarrow> dead') \<and> (\<exists>xs. ob_sent s' = ob_sent s @ xs \<and> beats w t dead' xs) \<and>
      (\<forall>p. r = Inr p \<longrightarrow> (\<exists>polls'. th polls' = Some (Inr p)))"
    have step: ?goal if w: "watch l w t th n polls1 dead1 s1 = Some (dead', r, s')" and d: "dead \<longrightarrow> dead1"
      and ok: "dead1 \<or> \<not> lease_refused (failed_with h)" for polls1 dead1
    proof -
      from Suc.IH [OF w] obtain xs where xs: "dead1 \<longrightarrow> dead'" "ob_sent s' = ob_sent s1 @ xs" "beats w t dead' xs"
        "\<forall>p. r = Inr p \<longrightarrow> (\<exists>polls'. th polls' = Some (Inr p))" by blast
      from ok xs(1) rq(1) have "beats w t dead' [(rq, failed_with h)]" by auto
      with xs rq(2) d show ?thesis by auto
    qed
    show ?thesis
    proof (cases h)
      case (Inr a)
      with Suc.prems None h have "watch l w t th n (polls @ [dead]) dead s1 = Some (dead', r, s')" by (simp add: watch.simps)
      with Inr show ?thesis by (intro step) (auto simp: failed_with_def lease_refused_def)
    next
      case (Inl f)
      show ?thesis
      proof (cases "status_code f = Some 422")
        case True
        with Suc.prems None h Inl have "watch l w t th n (polls @ [True]) True s1 = Some (dead', r, s')" by (simp add: watch.simps)
        then show ?thesis by (intro step) auto
      next
        case False
        with Suc.prems None h Inl have "dead' = dead" "r = Inl f" "s' = s1" by (simp_all add: watch.simps)
        with rq Inl False show ?thesis by (auto simp: failed_with_def lease_refused_def)
      qed
    qed
  qed
qed

text \<open>C8. What a worker tells the control plane of a task is only its heartbeats and at most one result at the end,
  both under the token it leased the task with; a result says succeeded only with what the task's thread
  returned, and once a heartbeat was refused because the lease is gone, no result is sent at all.\<close>

theorem worker_reports_own_lease:
  assumes "execute_task l w t th n s = Some (r, s')"
  shows "\<exists>xs ys. ob_sent s' = ob_sent s @ xs @ ys \<and> (\<forall>(rq, f) \<in> set xs. is_beat w t rq) \<and>
    (ys \<noteq> [] \<longrightarrow> (\<exists>res f. ys = [(RQ_complete w res, f)] \<and> tr_task_id res = wt_task_id t \<and> wt_lease_token t = Some (tr_lease_token res) \<and>
      (\<forall>(rq, f) \<in> set xs. \<not> lease_refused f) \<and> tr_status res \<noteq> RES_cancelled \<and>
      (tr_status res = RES_succeeded \<longrightarrow> (\<exists>polls p. th polls = Some (Inr p) \<and>
        tr_evidence_bundle res = Some (py_evidence_bundle p) \<and> tr_artifact_hashes res = py_artifact_hashes p))))"
proof (cases "given (wt_lease_token t)")
  case False
  with assms have "ob_sent s' = ob_sent s @ [] @ []" by (simp add: execute_task_def)
  then show ?thesis by (intro exI [of _ "[]"]) simp
next
  case True
  then obtain k where k: "wt_lease_token t = Some k" by (auto simp: given_def split: option.splits)
  obtain h s1 where h: "heartbeat l w t (Fin 0) ''task accepted'' s = (h, s1)" by (cases "heartbeat l w t (Fin 0) ''task accepted'' s")
  from heartbeat_sent [OF this] obtain rq where rq: "is_beat w t rq"
    "ob_sent s1 = ob_sent s @ [(rq, failed_with h)]" .
  show ?thesis
  proof (cases h)
    case (Inl f)
    with assms True h rq have "ob_sent s' = ob_sent s @ [(rq, Some f)] @ []" by (simp add: execute_task_def failed_with_def)
    with rq(1) show ?thesis by (intro exI [of _ "[(rq, Some f)]"] exI [of _ "[]"]) simp
  next
    case (Inr a)
    with assms True h obtain dead q s2 where q: "watch l w t th n [] False s1 = Some (dead, q, s2)"
      by (auto simp: execute_task_def split: option.splits)
    from watch_sends [OF this] obtain xs where xs: "ob_sent s2 = ob_sent s1 @ xs" "beats w t dead xs"
      "\<forall>p. q = Inr p \<longrightarrow> (\<exists>polls'. th polls' = Some (Inr p))" by blast
    let ?xs = "(rq, None) # xs"
    have beats: "beats w t dead ?xs" "ob_sent s2 = ob_sent s @ ?xs"
      using rq xs Inr by (auto simp: failed_with_def lease_refused_def)
    show ?thesis
    proof (cases dead)
      case True
      with assms \<open>given (wt_lease_token t)\<close> h Inr q beats(2) have "ob_sent s' = ob_sent s @ ?xs @ []" by (simp add: execute_task_def)
      with beats(1) show ?thesis by (intro exI [of _ ?xs] exI [of _ "[]"]) (auto simp: beats_def list_all_iff)
    next
      case False
      let ?res = "task_result t False q"
      from assms False \<open>given (wt_lease_token t)\<close> h Inr q beats(2) obtain f where "ob_sent s' = ob_sent s @ ?xs @ [(RQ_complete w ?res, f)]"
        by (auto simp: execute_task_def post_def split: prod.splits sum.splits)
      with beats(1) False xs(3) k show ?thesis
        by (intro exI [of _ ?xs] exI [of _ "[(RQ_complete w ?res, f)]"]) (auto simp: beats_def list_all_iff task_result_def split: sum.splits)
    qed
  qed
qed

section \<open>A worker at the gateway\<close>

text \<open>The link to a gateway: \<open>token\<close> is what is drawn for a request, \<open>shown\<close> the exception's text for a status code.\<close>

definition gateway_link ::
    "'a gateway_env \<Rightarrow> ('a service \<Rightarrow> string) \<Rightarrow> (nat \<Rightarrow> string) \<Rightarrow> headers \<Rightarrow> 'a service link" where
  "gateway_link env token shown hd' rq s =
     (case respond env (token s) hd' rq s of (Inl (c, m), t) \<Rightarrow> (Inl (Status c (shown c)), t) | (Inr a, t) \<Rightarrow> (Inr a, t))"

text \<open>The worker is registered with the certificate of the link, and holds the lease of the task.\<close>

definition holds_task :: "string \<Rightarrow> worker_registration \<Rightarrow> worker_task \<Rightarrow> 'a service \<Rightarrow> bool" where
  "holds_task w reg t s \<longleftrightarrow> store_ok (sv_store s) \<and> worker w (ss_workers (sv_store s)) = Some reg \<and>
     (\<exists>u k. get_task (sv_store s) (wt_task_id t) = Some u \<and> wt_lease_token t = Some k \<and> holds_lease w k u)"

definition admitted :: "'a gateway_env \<Rightarrow> headers \<Rightarrow> worker_registration \<Rightarrow> bool" where
  "admitted env hd' reg \<longleftrightarrow> (\<exists>c. hd_certificate hd' = Some c \<and> certified (gateway_host env) c reg)"

lemma heartbeat_task_accepts:
  assumes ok: "store_ok st" and t: "get_task st (hb_task_id hb) = Some t" and h: "holds_lease w (hb_lease_token hb) t" and secs: "0 < secs"
  shows "\<exists>st'. heartbeat_task now w hb secs st = Inr (beaten (now + seconds secs) hb t, st') \<and> store_ok st' \<and>
    ss_workers st' = ss_workers st \<and> get_task st' (hb_task_id hb) = Some (beaten (now + seconds secs) hb t)"
proof -
  have m: "lease_matches (hb_task_id hb) w (hb_lease_token hb) =
      (\<lambda>r. wt_task_id r = hb_task_id hb \<and> holds_lease w (hb_lease_token hb) r)"
    by (rule ext) (simp add: lease_matches_def)
  from t obtain r where r: "find_by wt_task_id (hb_task_id hb) (ss_tasks st) = Some r" "t = task_from_row r"
    by (auto simp: get_task_def task_in_def)
  have pos: "positive_seconds secs = Inr ()" using secs by (simp add: positive_seconds_def)
  have f: "\<And>r :: task_row. wt_task_id (touched now (beaten (now + seconds secs) hb r)) = wt_task_id r" by (simp add: row_simps)
  have "holds_lease w (hb_lease_token hb) r" using h r(2) by (simp add: row_simps)
  then have "\<exists>u st'. heartbeat_task now w hb secs st = Inr (u, st')"
    unfolding heartbeat_task_def m pos update_one_key [OF store_okD [OF ok] f] by (simp add: r(1))
  then obtain u st' where step: "heartbeat_task now w hb secs st = Inr (u, st')" by blast
  then have "store_step now (Heartbeat w hb secs) st = Inr (Some u, st')" by simp
  from store_step_ok [OF ok this] have "store_ok st'" .
  moreover have "ss_workers st' = ss_workers st" by (rule heartbeat_cases [OF store_okD [OF ok] step]) simp
  moreover from heartbeat_task_effect [OF store_okD [OF ok] step] t
  have "u = beaten (now + seconds secs) hb t" "get_task st' (hb_task_id hb) = Some u" by simp_all
  ultimately show ?thesis using step by simp
qed

lemma complete_task_lands:
  assumes ok: "store_ok st" and t: "get_task st (tr_task_id res) = Some t" and h: "holds_lease w (tr_lease_token res) t"
  shows "\<exists>st'. complete_task now w res st = Inr (completed res t, st') \<and> get_task st' (tr_task_id res) = Some (completed res t)"
proof -
  from complete_task_accepts [OF store_okD [OF ok] t h] obtain u st' where step: "complete_task now w res st = Inr (u, st')" by blast
  from complete_task_effect [OF store_okD [OF ok] this] t step show ?thesis by auto
qed

lemma holder_admitted:
  assumes "holds_task w reg t s" and "admitted env hd' reg"
  shows "as_worker env hd' w m s = m s"
proof -
  from assms have "require_worker env hd' w (sv_store s) = Inr reg" by (simp add: require_worker_Inr holds_task_def admitted_def)
  then show ?thesis by (simp add: as_worker_def)
qed

text \<open>A heartbeat of the holder is accepted and keeps the lease; its result is accepted and stored.\<close>

lemma holder_beats:
  assumes s: "holds_task w reg t s" and a: "admitted env hd' reg"
  shows "\<exists>x s'. gateway_link env token shown hd' (RQ_heartbeat w (worker_beat t p m)) s = (Inr x, s') \<and> holds_task w reg t s'"
proof -
  let ?hb = "worker_beat t p m" and ?now = "se_now (ge_service env) (sv_store s)"
  from s obtain u k where u: "store_ok (sv_store s)" "worker w (ss_workers (sv_store s)) = Some reg"
    "get_task (sv_store s) (wt_task_id t) = Some u" "wt_lease_token t = Some k" "holds_lease w k u" by (auto simp: holds_task_def)
  have hb: "hb_task_id ?hb = wt_task_id t" "hb_lease_token ?hb = k" using u(4) by (simp_all add: worker_beat_def)
  from heartbeat_task_accepts [of "sv_store s" ?hb u w 60 ?now] u hb obtain st' where
    st': "heartbeat_task ?now w ?hb 60 (sv_store s) = Inr (beaten (?now + seconds 60) ?hb u, st')" "store_ok st'"
      "ss_workers st' = ss_workers (sv_store s)" "get_task st' (wt_task_id t) = Some (beaten (?now + seconds 60) ?hb u)" by auto
  have "holds_lease w k (beaten (?now + seconds 60) ?hb u)"
    using u(5) by (simp add: edge_defs worker_beat_def)
  with st' u have "holds_task w reg t (s\<lparr>sv_store := st'\<rparr>)" by (auto simp: holds_task_def)
  moreover have "gateway_link env token shown hd' (RQ_heartbeat w ?hb) s =
      (Inr (AN_task (beaten (?now + seconds 60) ?hb u)), s\<lparr>sv_store := st'\<rparr>)"
    using st'(1) by (simp add: gateway_link_def holder_admitted [OF s a] translate_def service_heartbeat_task_def on_store_def)
  ultimately show ?thesis by blast
qed

lemma holder_completes:
  assumes s: "holds_task w reg t s" and a: "admitted env hd' reg"
    and res: "tr_task_id res = wt_task_id t" "wt_lease_token t = Some (tr_lease_token res)"
  shows "\<exists>x s' u. gateway_link env token shown hd' (RQ_complete w res) s = (Inr x, s') \<and>
    get_task (sv_store s') (wt_task_id t) = Some (completed res u)"
proof -
  let ?now = "se_now (ge_service env) (sv_store s)"
  from s res obtain u where u: "store_ok (sv_store s)" "get_task (sv_store s) (tr_task_id res) = Some u"
    "holds_lease w (tr_lease_token res) u" by (auto simp: holds_task_def)
  from complete_task_lands [OF this] obtain st' where
    st': "complete_task ?now w res (sv_store s) = Inr (completed res u, st')" "get_task st' (wt_task_id t) = Some (completed res u)"
    using res by auto
  then show ?thesis
    by (auto simp: gateway_link_def holder_admitted [OF s a] translate_def service_complete_task_def on_store_def bindP_def
        audit_entry_def audit_def get_task_def)
qed

definition as_trouble :: "payload result \<Rightarrow> trouble + payload" where
  "as_trouble r = (case r of Inl e \<Rightarrow> Inl (Raised e) | Inr p \<Rightarrow> Inr p)"

lemma watch_holder:
  assumes "holds_task w reg t (ob_control s)" and a: "admitted env hd' reg"
    and "\<And>i. a \<le> i \<Longrightarrow> i < a + d \<Longrightarrow> th (replicate i False) = None" and "th (replicate (a + d) False) = Some r" and "d \<le> n"
  shows "\<exists>s'. watch (gateway_link env token shown hd') w t th n (replicate a False) False s = Some (False, as_trouble r, s') \<and>
    holds_task w reg t (ob_control s')"
  using assms(1,3,4,5)
proof (induction d arbitrary: a s n)
  case 0
  then show ?case by (cases r) (auto simp: watch.simps as_trouble_def)
next
  case (Suc d)
  then obtain m where n: "n = Suc m" by (cases n) auto
  from holder_beats [OF Suc.prems(1) a, of token shown "Fin (1 / 2)" "''task executing''"] obtain x c where
    c: "gateway_link env token shown hd' (RQ_heartbeat w (worker_beat t (Fin (1 / 2)) ''task executing'')) (ob_control s) = (Inr x, c)"
      "holds_task w reg t c" by blast
  let ?s = "\<lparr>ob_control = c, ob_sent = ob_sent s @ [(RQ_heartbeat w (worker_beat t (Fin (1 / 2)) ''task executing''), None)]\<rparr>"
  have "th (replicate a False) = None" by (rule Suc.prems(2)) auto
  then have step: "watch (gateway_link env token shown hd') w t th n (replicate a False) False s =
      watch (gateway_link env token shown hd') w t th m (replicate (Suc a) False) False ?s"
    using c(1) by (simp add: n watch.simps [of _ _ _ _ "Suc m"] heartbeat_def post_def failed_with_def replicate_append_same)
  have "\<exists>s'. watch (gateway_link env token shown hd') w t th m (replicate (Suc a) False) False ?s = Some (False, as_trouble r, s') \<and>
      holds_task w reg t (ob_control s')"
    by (rule Suc.IH) (use c(2) Suc.prems n in auto)
  with step show ?case by simp
qed


text \<open>C40. A worker does not survive a task that is taken from it early: where the first heartbeat of a leased task
  is not accepted, for instance because the task was cancelled meanwhile, the worker's loop raises and
  no further task is served.\<close>

theorem refused_first_heartbeat_ends_worker:
  assumes lease: "l (RQ_lease w) (ob_control s) = (Inr (AN_lease (Some t)), c)" and token: "given (wt_lease_token t)"
    and refused: "l (RQ_heartbeat w (worker_beat t (Fin 0) ''task accepted'')) c = (Inl f, c')"
  shows "\<exists>s'. serve_tasks l w threads (Suc n) s = Some (Some f, s') \<and> ob_control s' = c'"
  using assms by (simp add: execute_task_def heartbeat_def post_def)

section \<open>A concrete worker\<close>

definition demo_fingerprint :: "char \<Rightarrow> string" where
  "demo_fingerprint c = replicate 64 c"

definition demo_registration :: "char \<Rightarrow> worker_registration" where
  "demo_registration c = demo_worker\<lparr>wr_certificate_fingerprint := demo_fingerprint c\<rparr>"

definition demo_headers :: "char \<Rightarrow> headers" where
  "demo_headers c = \<lparr>hd_authorization = None, hd_certificate = Some (demo_fingerprint c)\<rparr>"

text \<open>Two certificates are on the list.\<close>

definition demo_gateway :: "synthetic_adapter gateway_env" where
  "demo_gateway = \<lparr>ge_service = demo_service_env\<lparr>se_run := (se_run demo_service_env)\<lparr>re_host := demo_host\<lparr>host_env := (\<lambda>k.
     if k = ''AEL_WORKER_FINGERPRINTS'' then Some (demo_fingerprint CHR ''a'' @ '', '' @ demo_fingerprint CHR ''b'') else None)\<rparr>\<rparr>\<rparr>,
     ge_oidc = None, ge_decode = (\<lambda>_ _ _. Inl (ValueError ''no key''))\<rparr>"

definition demo_lease_store :: state_store where
  "demo_lease_store = run_ops store_step
     [(1, Enqueue (demo_task ''t1'' ''k1'' 1 [])), (2, Lease ''sim1'' 60 ''tok'' [])]
     (register_worker 0 (demo_registration CHR ''a'') migrated)"

definition demo_control :: "synthetic_adapter service" where
  "demo_control = demo_service\<lparr>sv_store := demo_lease_store\<rparr>"

definition demo_leased_task :: worker_task where
  "demo_leased_task = leased ''sim1'' ''tok'' 60000002 (enqueued (demo_task ''t1'' ''k1'' 1 []))"

lemma demo_certified: "certified (gateway_host demo_gateway) (demo_fingerprint CHR ''a'') (demo_registration CHR ''a'')"
  by code_simp

lemma demo_holds: "holds_task ''sim1'' (demo_registration CHR ''a'') demo_leased_task demo_control"
proof -
  have "store_ok demo_lease_store"
    unfolding demo_lease_store_def by (intro local_store.run_invar register_worker_ok store_ok_migrated)
  then have "store_ok (sv_store demo_control)" by (simp add: demo_control_def)
  moreover have "worker ''sim1'' (ss_workers (sv_store demo_control)) = Some (demo_registration CHR ''a'')" by code_simp
  moreover have "get_task (sv_store demo_control) (wt_task_id demo_leased_task) = Some demo_leased_task" by code_simp
  moreover have "wt_lease_token demo_leased_task = Some ''tok''" "holds_lease ''sim1'' ''tok'' demo_leased_task" by code_simp+
  ultimately show ?thesis by (auto simp: holds_task_def)
qed

lemma demo_admitted: "admitted demo_gateway (demo_headers CHR ''a'') (demo_registration CHR ''a'')"
  using demo_certified by (simp add: admitted_def demo_headers_def)

text \<open>A thread that ends at the second poll.\<close>

definition demo_thread :: thread where
  "demo_thread polls = (if length polls < 2 then None
     else Some (Inr \<lparr>py_evidence_bundle = ''runs/r1/bundle.json'', py_artifact_hashes = [(''bundle.json'', ''00'')]\<rparr>))"


definition is_complete :: "request \<Rightarrow> bool" where
  "is_complete rq = (case rq of RQ_complete _ _ \<Rightarrow> True | _ \<Rightarrow> False)"

lemma beat_not_complete: "is_complete rq \<Longrightarrow> \<not> is_beat w t rq"
  by (auto simp: is_beat_def is_complete_def)

lemma finished_with:
  assumes "case x of Some (Inr _, s) \<Rightarrow> P s | _ \<Rightarrow> False" shows "\<exists>s. x = Some (Inr (), s) \<and> P s"
proof (cases x)
  case None
  with assms show ?thesis by simp
next
  case (Some y)
  obtain r s where y: "y = (r, s)" by (cases y)
  from assms show ?thesis by (cases r) (simp_all add: Some y)
qed

theorem worker_reports_own_lease_witness:
  "\<exists>s xs ys. execute_task ((\<lambda>rq s. (Inr AN_ok, s)) :: unit link) ''sim1'' demo_leased_task demo_thread 5 \<lparr>ob_control = (), ob_sent = []\<rparr> = Some (Inr (), s) \<and>
     ob_sent s = xs @ ys \<and> ys \<noteq> [] \<and> (\<forall>(rq, f) \<in> set xs. is_beat ''sim1'' demo_leased_task rq) \<and> (\<exists>res f. ys = [(RQ_complete ''sim1'' res, f)] \<and> tr_lease_token res = ''tok'')"
proof -
  let ?l = "(\<lambda>rq s. (Inr AN_ok, s)) :: unit link"
  have "(case execute_task ?l ''sim1'' demo_leased_task demo_thread 5 \<lparr>ob_control = (), ob_sent = []\<rparr> of
      Some (Inr _, s) \<Rightarrow> length (ob_sent s) = 4 \<and> is_complete (fst (last (ob_sent s))) | _ \<Rightarrow> False)"
    by code_simp
  from finished_with [OF this] obtain s where
    s: "execute_task ?l ''sim1'' demo_leased_task demo_thread 5 \<lparr>ob_control = (), ob_sent = []\<rparr> = Some (Inr (), s)"
    "ob_sent s \<noteq> []" "\<not> is_beat ''sim1'' demo_leased_task (fst (last (ob_sent s)))"
    using beat_not_complete by fastforce
  from worker_reports_own_lease [OF s(1)] obtain xs ys where xs: "ob_sent s = xs @ ys" "\<forall>(rq, f) \<in> set xs. is_beat ''sim1'' demo_leased_task rq"
    "ys \<noteq> [] \<longrightarrow> (\<exists>res f. ys = [(RQ_complete ''sim1'' res, f)] \<and> wt_lease_token demo_leased_task = Some (tr_lease_token res))"
    by auto
  have "ys \<noteq> []"
  proof
    assume "ys = []"
    with xs s(2) have "last (ob_sent s) \<in> set xs" by simp
    moreover obtain rq f where "last (ob_sent s) = (rq, f)" by (cases "last (ob_sent s)")
    ultimately show False using xs(2) s(3) by fastforce
  qed
  moreover have "wt_lease_token demo_leased_task = Some ''tok''" by code_simp
  ultimately obtain res f where "ys = [(RQ_complete ''sim1'' res, f)]" "tr_lease_token res = ''tok''" using xs(3) by auto
  then have "\<exists>res f. ys = [(RQ_complete ''sim1'' res, f)] \<and> tr_lease_token res = ''tok''" by blast
  then show ?thesis by - (rule exI [of _ s], rule exI [of _ xs], rule exI [of _ ys], use s(1) xs(1,2) in auto)
qed

text \<open>A control plane that hands out a task, and refuses everything else.\<close>

definition demo_refusing :: "unit link" where
  "demo_refusing rq s = (case rq of RQ_lease _ \<Rightarrow> (Inr (AN_lease (Some demo_leased_task)), s) | _ \<Rightarrow> (Inl (Status 422 []), s))"

theorem refused_first_heartbeat_ends_worker_witness:
  "\<exists>s'. serve_tasks demo_refusing ''sim1'' (\<lambda>_. demo_thread) 8 \<lparr>ob_control = (), ob_sent = []\<rparr> = Some (Some (Status 422 []), s')"
proof -
  have "given (wt_lease_token demo_leased_task)" by code_simp
  with refused_first_heartbeat_ends_worker [of demo_refusing "''sim1''" "\<lparr>ob_control = (), ob_sent = []\<rparr>" demo_leased_task "()" "Status 422 []" "()" "\<lambda>_. demo_thread" 7]
  show ?thesis by (auto simp: demo_refusing_def)
qed

theorem worker_requests_authenticated_witness:
  "\<exists>a t reg. respond demo_gateway ''tok2'' (demo_headers CHR ''a'') (RQ_lease ''sim1'') demo_control = (Inr a, t) \<and>
    certified (gateway_host demo_gateway) (demo_fingerprint CHR ''a'') reg"
proof -
  have "(case fst (respond demo_gateway ''tok2'' (demo_headers CHR ''a'') (RQ_lease ''sim1'') demo_control) of Inr _ \<Rightarrow> True | Inl _ \<Rightarrow> False)"
    by code_simp
  then obtain a t where r: "respond demo_gateway ''tok2'' (demo_headers CHR ''a'') (RQ_lease ''sim1'') demo_control = (Inr a, t)"
    by (cases "respond demo_gateway ''tok2'' (demo_headers CHR ''a'') (RQ_lease ''sim1'') demo_control") (auto split: sum.splits)
  with worker_requests_authenticated [OF _ this, of "''sim1''"] show ?thesis by (auto simp: demo_headers_def)
qed

theorem registration_takes_over_witness:
  "\<exists>a t m. respond demo_gateway [] (demo_headers CHR ''b'') (RQ_register (demo_registration CHR ''b'')) demo_control = (Inr a, t) \<and>
    respond demo_gateway ''tok2'' (demo_headers CHR ''a'') (RQ_lease ''sim1'') t = (Inl (403, m), t)"
proof -
  let ?r = "respond demo_gateway [] (demo_headers CHR ''b'') (RQ_register (demo_registration CHR ''b'')) demo_control"
  have "(case fst ?r of Inr _ \<Rightarrow> True | Inl _ \<Rightarrow> False)" by code_simp
  then obtain a t where r: "?r = (Inr a, t)" by (cases ?r) (auto split: sum.splits)
  have "hd_certificate (demo_headers CHR ''a'') = Some (demo_fingerprint CHR ''a'')"
    "normalized_fingerprint (demo_fingerprint CHR ''a'') \<noteq> lower (wr_certificate_fingerprint (demo_registration CHR ''b''))"
    "speaks_for (RQ_lease ''sim1'') = Some (wr_worker_id (demo_registration CHR ''b''))" by code_simp+
  from registration_takes_over [OF r this, of "''tok2''"] r show ?thesis by blast
qed

end
